(* ===== verification/Go_Prelude.thy ===== *)
theory Go_Prelude
  imports Main "HOL-Library.AList" "HOL-Library.State_Monad"
begin

text \<open>
  Shared vocabulary of the development: Go errors and maps, the string functions of the standard
  library that the sources use, and the state monad in which every stateful operation is written,
  with a weakest-precondition predicate \<open>wp\<close> and its rewrite rules.
\<close>

section \<open>Rule collections\<close>

named_theorems wp_simps \<open>weakest preconditions of the monad's constructs and of primitive operations\<close>
named_theorems golib \<open>definitions of standard library functions\<close>

section \<open>Errors\<close>

text \<open>
  An API error carries the status reason that the predicates of the Kubernetes error package
  inspect; \<open>Wrapf p e q\<close> is \<^verbatim>\<open>fmt.Errorf("p%wq", e)\<close>. The reason of a wrapped error is the reason of
  the error it wraps, as \<^verbatim>\<open>errors.As\<close> sees it. Two constructors are no Go errors:
  \<open>Panicked\<close> stands for a run-time panic (which unwinds the goroutine instead of returning) and
  \<open>Diverged\<close> marks a loop of the model that was cut off; the theorems show where neither can occur.
\<close>

datatype api_reason =
    NotFound | AlreadyExists | Conflict | MethodNotSupported | NoMatch | DeadlineExceeded | OtherReason

datatype error =
    ApiError api_reason string
  | Errorf string
  | Wrapf string error string
  | Panicked string
  | Diverged

fun Error :: "error \<Rightarrow> string" where
  "Error (ApiError r m) = m"
| "Error (Errorf m) = m"
| "Error (Wrapf p e q) = p @ Error e @ q"
| "Error (Panicked m) = m"
| "Error Diverged = ''diverged''"

fun has_reason :: "api_reason \<Rightarrow> error \<Rightarrow> bool" where
  "has_reason r (ApiError r' m) = (r = r')"
| "has_reason r (Wrapf p e q) = has_reason r e"
| "has_reason r (Errorf m) = False"
| "has_reason r (Panicked m) = False"
| "has_reason r Diverged = False"

abbreviation IsNotFound :: "error \<Rightarrow> bool" where
  "IsNotFound \<equiv> has_reason NotFound"

abbreviation wrap :: "string \<Rightarrow> error \<Rightarrow> error" where
  "wrap p e \<equiv> Wrapf p e []"

lemma has_reason_unique: "has_reason r e \<Longrightarrow> has_reason r' e \<Longrightarrow> r = r'"
  by (induction e) auto

section \<open>Maps\<close>

text \<open>
  A Go map is an association list: its keys are distinct in every map the program builds, lookup is
  \<open>map_of\<close>, and the list's order stands for the iteration order of \<^verbatim>\<open>range\<close>, which Go leaves open.
  \<open>mget m k\<close> is \<^verbatim>\<open>m[k]\<close> on a map of strings: the empty string for a missing key.
\<close>

type_synonym ('k, 'v) gomap = "('k \<times> 'v) list"

definition mget :: "('k, string) gomap \<Rightarrow> 'k \<Rightarrow> string" where
  "mget m k = (case map_of m k of None \<Rightarrow> [] | Some v \<Rightarrow> v)"

abbreviation mset_key :: "'k \<Rightarrow> 'v \<Rightarrow> ('k, 'v) gomap \<Rightarrow> ('k, 'v) gomap" where
  "mset_key \<equiv> AList.update"

lemma map_of_mset_key [simp]: "map_of (mset_key k v m) k' = (if k' = k then Some v else map_of m k')"
  by (simp add: update_conv')

lemma mget_mset_key [simp]: "mget (mset_key k v m) k' = (if k' = k then v else mget m k')"
  by (simp add: mget_def)

section \<open>Strings\<close>

definition ToLower_char :: "char \<Rightarrow> char" where
  "ToLower_char c = (if 65 \<le> (of_char c :: nat) \<and> (of_char c :: nat) \<le> 90
     then char_of ((of_char c :: nat) + 32) else c)"

definition ToUpper_char :: "char \<Rightarrow> char" where
  "ToUpper_char c = (if 97 \<le> (of_char c :: nat) \<and> (of_char c :: nat) \<le> 122
     then char_of ((of_char c :: nat) - 32) else c)"

text \<open>
  \<^verbatim>\<open>strings.ToLower\<close> and \<^verbatim>\<open>strings.ToUpper\<close> on ASCII; the sources apply them to ASCII constants and
  compare the result with an ASCII word none of whose letters is the image of a non-ASCII letter.
\<close>

definition ToLower :: "string \<Rightarrow> string" where
  "ToLower = map ToLower_char"

definition ToUpper :: "string \<Rightarrow> string" where
  "ToUpper = map ToUpper_char"

definition HasPrefix :: "string \<Rightarrow> string \<Rightarrow> bool" where
  "HasPrefix s p = (take (length p) s = p)"

definition HasSuffix :: "string \<Rightarrow> string \<Rightarrow> bool" where
  "HasSuffix s p = HasPrefix (rev s) (rev p)"

fun Join :: "string list \<Rightarrow> string \<Rightarrow> string" where
  "Join [] sep = []"
| "Join [x] sep = x"
| "Join (x # y # xs) sep = x @ sep @ Join (y # xs) sep"

lemma Join_Cons: "xs \<noteq> [] \<Longrightarrow> Join (x # xs) sep = x @ sep @ Join xs sep"
  by (cases xs) simp_all

lemma HasPrefix_append [simp]: "HasPrefix (p @ s) p"
  by (simp add: HasPrefix_def)

lemma HasSuffix_append [simp]: "HasSuffix (s @ p) p"
  by (simp add: HasSuffix_def)

text \<open>\<^verbatim>\<open>fmt.Sprintf\<close> with the verbs \<^verbatim>\<open>%d\<close> (of a count), \<^verbatim>\<open>%t\<close> and \<^verbatim>\<open>%q\<close> (of a name without escapes).\<close>

fun show_nat :: "nat \<Rightarrow> string" where
  "show_nat n = (if n < 10 then [char_of (48 + n)] else show_nat (n div 10) @ [char_of (48 + n mod 10)])"

declare show_nat.simps [simp del]

definition show_bool :: "bool \<Rightarrow> string" where
  "show_bool b = (if b then ''true'' else ''false'')"

definition quote :: "string \<Rightarrow> string" where
  "quote s = CHR 34 # s @ [CHR 34]"

section \<open>Polling\<close>

text \<open>A loop that sleeps \<open>d\<close> per pass makes at most \<open>T div d + 1\<close> passes within a time \<open>T\<close>.\<close>

lemma poll_bound:
  fixes T d :: int
  assumes "0 < d"
  shows "T \<le> int (nat (T div d) + 1) * d"
proof -
  have "T \<le> (T div d + 1) * d"
    using div_mult_mod_eq[of T d] pos_mod_bound[OF assms, of T] by (simp only: distrib_right)
  also have "\<dots> \<le> int (nat (T div d) + 1) * d"
    using assms by (intro mult_right_mono) simp_all
  finally show ?thesis .
qed

section \<open>The state monad\<close>

abbreviation ret :: "'a \<Rightarrow> ('s, 'a) state" where
  "ret \<equiv> State_Monad.return"

abbreviation skip :: "('s, unit) state" where
  "skip \<equiv> ret ()"

definition gets :: "('s \<Rightarrow> 'a) \<Rightarrow> ('s, 'a) state" where
  "gets f = State (\<lambda>s. (f s, s))"

definition modify :: "('s \<Rightarrow> 's) \<Rightarrow> ('s, unit) state" where
  "modify f = State (\<lambda>s. ((), f s))"

lemma run_gets [simp]: "run_state (gets f) s = (f s, s)"
  by (simp add: gets_def)

lemma run_modify [simp]: "run_state (modify f) s = ((), f s)"
  by (simp add: modify_def)

definition wp :: "('s, 'a) state \<Rightarrow> ('a \<Rightarrow> 's \<Rightarrow> bool) \<Rightarrow> 's \<Rightarrow> bool" where
  "wp m Q s = (case run_state m s of (a, s') \<Rightarrow> Q a s')"

lemma wp_return [wp_simps]: "wp (ret a) Q s = Q a s"
  by (simp add: wp_def)

lemma wp_bind [wp_simps]: "wp (State_Monad.bind m f) Q s = wp m (\<lambda>a. wp (f a) Q) s"
  by (simp add: wp_def split: prod.split)

lemma wp_gets [wp_simps]: "wp (gets f) Q s = Q (f s) s"
  by (simp add: wp_def)

lemma wp_modify [wp_simps]: "wp (modify f) Q s = Q () (f s)"
  by (simp add: wp_def)

lemma wp_if [wp_simps]: "wp (if b then m else n) Q s = (if b then wp m Q s else wp n Q s)"
  by simp

lemma wp_case_sum [wp_simps]:
  "wp (case x of Inl e \<Rightarrow> f e | Inr y \<Rightarrow> g y) Q s
     = (case x of Inl e \<Rightarrow> wp (f e) Q s | Inr y \<Rightarrow> wp (g y) Q s)"
  by (cases x) simp_all

lemma wp_case_option [wp_simps]:
  "wp (case x of None \<Rightarrow> m | Some y \<Rightarrow> g y) Q s
     = (case x of None \<Rightarrow> wp m Q s | Some y \<Rightarrow> wp (g y) Q s)"
  by (cases x) simp_all

lemma wp_case_prod [wp_simps]:
  "wp (case x of (a, b) \<Rightarrow> f a b) Q s = (case x of (a, b) \<Rightarrow> wp (f a b) Q s)"
  by (cases x) simp

lemma wp_let [wp_simps]: "wp (let x = a in f x) Q s = (let x = a in wp (f x) Q s)"
  by simp

lemma wp_mono: "wp m Q s \<Longrightarrow> (\<And>a s'. Q a s' \<Longrightarrow> R a s') \<Longrightarrow> wp m R s"
  by (simp add: wp_def split: prod.splits)

lemma wp_conj: "wp m (\<lambda>a s'. Q a s' \<and> R a s') s = (wp m Q s \<and> wp m R s)"
  by (simp add: wp_def split: prod.splits)

lemma wp_run: "wp m Q s \<Longrightarrow> run_state m s = (a, s') \<Longrightarrow> Q a s'"
  by (simp add: wp_def)

lemma wpI: "(\<And>a s'. run_state m s = (a, s') \<Longrightarrow> Q a s') \<Longrightarrow> wp m Q s"
  by (simp add: wp_def split: prod.splits)

text \<open>\<open>returns P m\<close>: whatever the state, \<open>m\<close> returns a value with \<open>P\<close>.\<close>

definition returns :: "('a \<Rightarrow> bool) \<Rightarrow> ('s, 'a) state \<Rightarrow> bool" where
  "returns P m \<longleftrightarrow> (\<forall>s. P (fst (run_state m s)))"

named_theorems returns_intros \<open>facts about returned values\<close>

lemma returns_return [returns_intros]: "P a \<Longrightarrow> returns P (ret a)"
  by (simp add: returns_def)

lemma returns_bind_strong: "returns Q m \<Longrightarrow> (\<And>a. Q a \<Longrightarrow> returns P (f a)) \<Longrightarrow> returns P (State_Monad.bind m f)"
  by (simp add: returns_def split_beta)

lemma returns_bind [returns_intros]: "(\<And>a. returns P (f a)) \<Longrightarrow> returns P (State_Monad.bind m f)"
  by (simp add: returns_def split_beta)

lemma returns_if [returns_intros]:
  "(b \<Longrightarrow> returns P m) \<Longrightarrow> (\<not> b \<Longrightarrow> returns P n) \<Longrightarrow> returns P (if b then m else n)"
  by simp

lemma returns_case_sum [returns_intros]:
  "(\<And>e. x = Inl e \<Longrightarrow> returns P (f e)) \<Longrightarrow> (\<And>y. x = Inr y \<Longrightarrow> returns P (g y))
    \<Longrightarrow> returns P (case x of Inl e \<Rightarrow> f e | Inr y \<Rightarrow> g y)"
  by (cases x) simp_all

lemma returns_case_option [returns_intros]:
  "(x = None \<Longrightarrow> returns P m) \<Longrightarrow> (\<And>y. x = Some y \<Longrightarrow> returns P (g y))
    \<Longrightarrow> returns P (case x of None \<Rightarrow> m | Some y \<Rightarrow> g y)"
  by (cases x) simp_all

lemma returns_case_prod [returns_intros]:
  "(\<And>a b. x = (a, b) \<Longrightarrow> returns P (f a b)) \<Longrightarrow> returns P (case x of (a, b) \<Rightarrow> f a b)"
  by (cases x) simp

lemma returnsD: "returns P m \<Longrightarrow> run_state m s = (a, s') \<Longrightarrow> P a"
  by (metis returns_def fst_conv)

text \<open>\<open>keeps f m\<close>: \<open>m\<close> does not change the part \<open>f\<close> of the state.\<close>

definition keeps :: "('s \<Rightarrow> 'b) \<Rightarrow> ('s, 'a) state \<Rightarrow> bool" where
  "keeps f m \<longleftrightarrow> (\<forall>s. f (snd (run_state m s)) = f s)"

named_theorems keeps_intros \<open>parts of the state that an operation leaves alone\<close>

lemma keeps_return [keeps_intros]: "keeps f (ret a)"
  by (simp add: keeps_def)

lemma keeps_gets [keeps_intros]: "keeps f (gets g)"
  by (simp add: keeps_def)

lemma keeps_modify: "(\<And>s. f (g s) = f s) \<Longrightarrow> keeps f (modify g)"
  by (simp add: keeps_def)

lemma keeps_bind [keeps_intros]: "keeps f m \<Longrightarrow> (\<And>a. keeps f (k a)) \<Longrightarrow> keeps f (State_Monad.bind m k)"
  by (simp add: keeps_def split_beta)

lemma keeps_if [keeps_intros]:
  "(b \<Longrightarrow> keeps f m) \<Longrightarrow> (\<not> b \<Longrightarrow> keeps f n) \<Longrightarrow> keeps f (if b then m else n)"
  by simp

lemma keeps_case_sum [keeps_intros]:
  "(\<And>e. x = Inl e \<Longrightarrow> keeps f (g e)) \<Longrightarrow> (\<And>y. x = Inr y \<Longrightarrow> keeps f (h y))
    \<Longrightarrow> keeps f (case x of Inl e \<Rightarrow> g e | Inr y \<Rightarrow> h y)"
  by (cases x) simp_all

lemma keeps_case_option [keeps_intros]:
  "(x = None \<Longrightarrow> keeps f m) \<Longrightarrow> (\<And>y. x = Some y \<Longrightarrow> keeps f (h y))
    \<Longrightarrow> keeps f (case x of None \<Rightarrow> m | Some y \<Rightarrow> h y)"
  by (cases x) simp_all

lemma keeps_case_prod [keeps_intros]:
  "(\<And>a b. x = (a, b) \<Longrightarrow> keeps f (h a b)) \<Longrightarrow> keeps f (case x of (a, b) \<Rightarrow> h a b)"
  by (cases x) simp

lemma keepsD: "keeps f m \<Longrightarrow> run_state m s = (a, s') \<Longrightarrow> f s' = f s"
  by (metis keeps_def snd_conv)

end
