(* ===== verification/Api_Types.thy ===== *)
theory Api_Types
  imports Go_Prelude
begin

text \<open>
  The BtpOperator custom resource of \<^verbatim>\<open>api/v1alpha1/btpoperator_types.go\<close>: its states, its status with
  conditions held by pointers, and the methods the controllers call on it. Object metadata is a record
  that every typed Kubernetes object of the model extends.
\<close>

section \<open>Object metadata\<close>

record objmeta =
  Name :: string
  Namespace :: string
  Labels :: "(string, string) gomap"
  Annotations :: "(string, string) gomap"
  Finalizers :: "string list"
  DeletionTimestamp :: "int option"
  ResourceVersion :: string

record objkey =
  KeyName :: string
  KeyNamespace :: string

definition ObjectKeyFromObject :: "'z objmeta_scheme \<Rightarrow> objkey" where
  "ObjectKeyFromObject o' = \<lparr>KeyName = Name o', KeyNamespace = Namespace o'\<rparr>"

section \<open>Conditions and status\<close>

datatype condition_status = ConditionTrue | ConditionFalse | ConditionUnknown

record condition =
  CndType :: string
  CndStatus :: condition_status
  CndReason :: string
  CndMessage :: string
  CndObservedGeneration :: int

text \<open>The state of a CR that was never reconciled is the empty string, here \<open>StateNone\<close>.\<close>

datatype cr_state =
    StateNone | StateReady | StateProcessing | StateWarning | StateError | StateDeleting

record status =
  CrState :: cr_state
  Conditions :: "condition option list"

record btpoperator = objmeta +
  Status :: status

definition WithState :: "status \<Rightarrow> cr_state \<Rightarrow> status" where
  "WithState s st = s\<lparr>CrState := st\<rparr>"

definition GetStatus :: "btpoperator \<Rightarrow> status" where
  "GetStatus o' = Status o'"

definition SetStatus :: "btpoperator \<Rightarrow> status \<Rightarrow> btpoperator" where
  "SetStatus o' s = o'\<lparr>Status := s\<rparr>"

fun reason_in :: "condition option list \<Rightarrow> string \<Rightarrow> bool" where
  "reason_in [] reason = False"
| "reason_in (None # cs) reason = reason_in cs reason"
| "reason_in (Some c # cs) reason = (if CndReason c = reason then True else reason_in cs reason)"

definition IsReasonStringEqual :: "btpoperator \<Rightarrow> string \<Rightarrow> bool" where
  "IsReasonStringEqual o' reason = reason_in (Conditions (Status o')) reason"

fun msg_in :: "condition option list \<Rightarrow> string \<Rightarrow> string \<Rightarrow> bool" where
  "msg_in [] reason message = False"
| "msg_in (None # cs) reason message = msg_in cs reason message"
| "msg_in (Some c # cs) reason message =
     (if CndReason c = reason \<and> CndMessage c = message then True else msg_in cs reason message)"

definition IsMsgForGivenReasonEqual :: "btpoperator \<Rightarrow> string \<Rightarrow> string \<Rightarrow> bool" where
  "IsMsgForGivenReasonEqual o' reason message = msg_in (Conditions (Status o')) reason message"

definition DisableNetworkPoliciesAnnotation :: string where
  "DisableNetworkPoliciesAnnotation = ''operator.kyma-project.io/btp-operator-disable-network-policies''"

definition IsNetworkPoliciesDisabled :: "btpoperator \<Rightarrow> bool" where
  "IsNetworkPoliciesDisabled o' =
     (case map_of (Annotations o') DisableNetworkPoliciesAnnotation of
        None \<Rightarrow> False
      | Some value \<Rightarrow> ToLower value = ''true'')"

lemma reason_in_iff: "reason_in cs r = (\<exists>c. Some c \<in> set cs \<and> CndReason c = r)"
  by (induction cs r rule: reason_in.induct) auto

lemma msg_in_iff: "msg_in cs r m = (\<exists>c. Some c \<in> set cs \<and> CndReason c = r \<and> CndMessage c = m)"
  by (induction cs r m rule: msg_in.induct) auto

lemma msg_in_imp_reason_in: "msg_in cs r m \<Longrightarrow> reason_in cs r"
  by (auto simp: reason_in_iff msg_in_iff)

end
