(* ===== verification/Conditions.thy ===== *)
theory Conditions
  imports Api_Types
begin

text \<open>
  The condition reasons and their metadata (\<^verbatim>\<open>internal/conditions\<close>): the table that ties every reason
  to a CR state and a condition status, the construction of a condition from a reason, and the wrapper
  around the library's \<^verbatim>\<open>SetStatusCondition\<close> that works on a slice of pointers. The library function is
  a parameter; the locale \<open>condition_setter\<close> states its documented behaviour.
\<close>

section \<open>Reasons\<close>

datatype reason =
    ReconcileSucceeded
  | ReconcileFailed
  | Initialized
  | Processing
  | WrongNamespaceOrName
  | ChartInstallFailed
  | ConsistencyCheckFailed
  | MissingSecret
  | InvalidSecret
  | HardDeleting
  | ResourceRemovalFailed
  | SoftDeleting
  | Updated
  | UpdateCheck
  | UpdateCheckSucceeded
  | InconsistentChart
  | UpdateDone
  | PreparingInstallInfoFailed
  | ChartPathEmpty
  | DeletionOfOrphanedResourcesFailed
  | ServiceInstancesAndBindingsNotCleaned
  | StoringChartDetailsFailed
  | GettingConfigMapFailed
  | ProvisioningFailed
  | GettingDefaultCredentialsSecretFailed
  | GettingSapBtpServiceOperatorConfigMapFailed
  | CredentialsNamespaceChanged
  | ClusterIdChanged
  | AnnotatingSecretFailed
  | GettingSapBtpServiceOperatorClusterIdSecretFailed

fun reason_string :: "reason \<Rightarrow> string" where
  "reason_string ReconcileSucceeded = ''ReconcileSucceeded''"
| "reason_string ReconcileFailed = ''ReconcileFailed''"
| "reason_string Initialized = ''Initialized''"
| "reason_string Processing = ''Processing''"
| "reason_string WrongNamespaceOrName = ''WrongNamespaceOrName''"
| "reason_string ChartInstallFailed = ''ChartInstallFailed''"
| "reason_string ConsistencyCheckFailed = ''ConsistencyCheckFailed''"
| "reason_string MissingSecret = ''MissingSecret''"
| "reason_string InvalidSecret = ''InvalidSecret''"
| "reason_string HardDeleting = ''HardDeleting''"
| "reason_string ResourceRemovalFailed = ''ResourceRemovalFailed''"
| "reason_string SoftDeleting = ''SoftDeleting''"
| "reason_string Updated = ''Updated''"
| "reason_string UpdateCheck = ''UpdateCheck''"
| "reason_string UpdateCheckSucceeded = ''UpdateCheckSucceeded''"
| "reason_string InconsistentChart = ''InconsistentChart''"
| "reason_string UpdateDone = ''UpdateDone''"
| "reason_string PreparingInstallInfoFailed = ''PreparingInstallInfoFailed''"
| "reason_string ChartPathEmpty = ''ChartPathEmpty''"
| "reason_string DeletionOfOrphanedResourcesFailed = ''DeletionOfOrphanedResourcesFailed''"
| "reason_string ServiceInstancesAndBindingsNotCleaned = ''ServiceInstancesAndBindingsNotCleaned''"
| "reason_string StoringChartDetailsFailed = ''StoringChartDetailsFailed''"
| "reason_string GettingConfigMapFailed = ''GettingConfigMapFailed''"
| "reason_string ProvisioningFailed = ''ProvisioningFailed''"
| "reason_string GettingDefaultCredentialsSecretFailed = ''GettingDefaultCredentialsSecretFailed''"
| "reason_string GettingSapBtpServiceOperatorConfigMapFailed = ''GettingSapBtpServiceOperatorConfigMapFailed''"
| "reason_string CredentialsNamespaceChanged = ''CredentialsNamespaceChanged''"
| "reason_string ClusterIdChanged = ''ClusterIdChanged''"
| "reason_string AnnotatingSecretFailed = ''AnnotatingSecretFailed''"
| "reason_string GettingSapBtpServiceOperatorClusterIdSecretFailed = ''GettingSapBtpServiceOperatorClusterIdSecretFailed''"

definition all_reasons :: "reason list" where
  "all_reasons =
     [ReconcileSucceeded,
      ReconcileFailed,
      Initialized,
      Processing,
      WrongNamespaceOrName,
      ChartInstallFailed,
      ConsistencyCheckFailed,
      MissingSecret,
      InvalidSecret,
      HardDeleting,
      ResourceRemovalFailed,
      SoftDeleting,
      Updated,
      UpdateCheck,
      UpdateCheckSucceeded,
      InconsistentChart,
      UpdateDone,
      PreparingInstallInfoFailed,
      ChartPathEmpty,
      DeletionOfOrphanedResourcesFailed,
      ServiceInstancesAndBindingsNotCleaned,
      StoringChartDetailsFailed,
      GettingConfigMapFailed,
      ProvisioningFailed,
      GettingDefaultCredentialsSecretFailed,
      GettingSapBtpServiceOperatorConfigMapFailed,
      CredentialsNamespaceChanged,
      ClusterIdChanged,
      AnnotatingSecretFailed,
      GettingSapBtpServiceOperatorClusterIdSecretFailed]"

definition ReadyType :: string where
  "ReadyType = ''Ready''"

record metadata =
  MdStatus :: condition_status
  MdState :: cr_state

definition Reasons :: "(reason, metadata) gomap" where
  "Reasons =
     [(ReconcileSucceeded, \<lparr>MdStatus = ConditionTrue, MdState = StateReady\<rparr>),
      (UpdateDone, \<lparr>MdStatus = ConditionTrue, MdState = StateReady\<rparr>),
      (UpdateCheckSucceeded, \<lparr>MdStatus = ConditionTrue, MdState = StateReady\<rparr>),
      (ReconcileFailed, \<lparr>MdStatus = ConditionFalse, MdState = StateError\<rparr>),
      (Updated, \<lparr>MdStatus = ConditionFalse, MdState = StateProcessing\<rparr>),
      (Initialized, \<lparr>MdStatus = ConditionFalse, MdState = StateProcessing\<rparr>),
      (ChartInstallFailed, \<lparr>MdStatus = ConditionFalse, MdState = StateError\<rparr>),
      (ConsistencyCheckFailed, \<lparr>MdStatus = ConditionFalse, MdState = StateError\<rparr>),
      (Processing, \<lparr>MdStatus = ConditionFalse, MdState = StateProcessing\<rparr>),
      (WrongNamespaceOrName, \<lparr>MdStatus = ConditionFalse, MdState = StateWarning\<rparr>),
      (MissingSecret, \<lparr>MdStatus = ConditionFalse, MdState = StateWarning\<rparr>),
      (InvalidSecret, \<lparr>MdStatus = ConditionFalse, MdState = StateError\<rparr>),
      (HardDeleting, \<lparr>MdStatus = ConditionFalse, MdState = StateDeleting\<rparr>),
      (ResourceRemovalFailed, \<lparr>MdStatus = ConditionFalse, MdState = StateError\<rparr>),
      (SoftDeleting, \<lparr>MdStatus = ConditionFalse, MdState = StateDeleting\<rparr>),
      (UpdateCheck, \<lparr>MdStatus = ConditionFalse, MdState = StateProcessing\<rparr>),
      (InconsistentChart, \<lparr>MdStatus = ConditionFalse, MdState = StateError\<rparr>),
      (PreparingInstallInfoFailed, \<lparr>MdStatus = ConditionFalse, MdState = StateError\<rparr>),
      (ChartPathEmpty, \<lparr>MdStatus = ConditionFalse, MdState = StateError\<rparr>),
      (DeletionOfOrphanedResourcesFailed, \<lparr>MdStatus = ConditionFalse, MdState = StateError\<rparr>),
      (StoringChartDetailsFailed, \<lparr>MdStatus = ConditionFalse, MdState = StateError\<rparr>),
      (GettingConfigMapFailed, \<lparr>MdStatus = ConditionFalse, MdState = StateError\<rparr>),
      (ProvisioningFailed, \<lparr>MdStatus = ConditionFalse, MdState = StateError\<rparr>),
      (ServiceInstancesAndBindingsNotCleaned, \<lparr>MdStatus = ConditionFalse, MdState = StateWarning\<rparr>),
      (GettingDefaultCredentialsSecretFailed, \<lparr>MdStatus = ConditionFalse, MdState = StateError\<rparr>),
      (AnnotatingSecretFailed, \<lparr>MdStatus = ConditionFalse, MdState = StateError\<rparr>),
      (GettingSapBtpServiceOperatorConfigMapFailed, \<lparr>MdStatus = ConditionFalse, MdState = StateError\<rparr>),
      (CredentialsNamespaceChanged, \<lparr>MdStatus = ConditionFalse, MdState = StateProcessing\<rparr>),
      (ClusterIdChanged, \<lparr>MdStatus = ConditionFalse, MdState = StateProcessing\<rparr>),
      (GettingSapBtpServiceOperatorClusterIdSecretFailed, \<lparr>MdStatus = ConditionFalse, MdState = StateError\<rparr>)]"

definition ConditionFromExistingReason :: "reason \<Rightarrow> string \<Rightarrow> condition option" where
  "ConditionFromExistingReason reason message =
     (case map_of Reasons reason of
        Some metadata \<Rightarrow>
          Some \<lparr>CndType = ReadyType, CndStatus = MdStatus metadata, CndReason = reason_string reason,
                CndMessage = message, CndObservedGeneration = 0\<rparr>
      | None \<Rightarrow> None)"

section \<open>Errors with a reason\<close>

record ErrorWithReason =
  EwrMessage :: string
  EwrReason :: reason

definition NewErrorWithReason :: "reason \<Rightarrow> string \<Rightarrow> ErrorWithReason" where
  "NewErrorWithReason reason message = \<lparr>EwrMessage = message, EwrReason = reason\<rparr>"

section \<open>Setting a condition in a slice of pointers\<close>

text \<open>Dereferencing every pointer of the slice: a nil pointer panics, here \<open>None\<close>.\<close>

fun derefs :: "condition option list \<Rightarrow> condition list option" where
  "derefs [] = Some []"
| "derefs (None # ps) = None"
| "derefs (Some c # ps) = map_option (Cons c) (derefs ps)"

definition SetStatusCondition ::
    "(condition list \<Rightarrow> condition \<Rightarrow> condition list)
      \<Rightarrow> condition option list \<Rightarrow> condition \<Rightarrow> condition option list option" where
  "SetStatusCondition setSC conditions newCondition =
     (case derefs conditions of
        None \<Rightarrow> None
      | Some conditionsArray \<Rightarrow>
          let conditionsCnt = length conditions;
              conditionsArray' = setSC conditionsArray newCondition
          in if length conditionsArray' < conditionsCnt then None
             else let conditions' = map Some (take conditionsCnt conditionsArray')
                  in Some (if length conditionsArray' > conditionsCnt
                           then conditions' @ [Some (conditionsArray' ! conditionsCnt)]
                           else conditions'))"

lemma derefs_map_Some [simp]: "derefs (map Some cs) = Some cs"
  by (induction cs) simp_all

lemma derefs_Some_iff: "derefs ps = Some cs \<longleftrightarrow> ps = map Some cs"
  by (induction ps arbitrary: cs rule: derefs.induct) auto

lemma derefs_None_iff: "derefs ps = None \<longleftrightarrow> None \<in> set ps"
  by (induction ps rule: derefs.induct) auto

section \<open>Facts about the reason table\<close>

lemma all_reasons_complete: "r \<in> set all_reasons"
  by (cases r) (simp_all add: all_reasons_def)

lemma reason_string_distinct: "distinct (map reason_string all_reasons)"
  by code_simp

lemma reason_string_inject [simp]: "reason_string r = reason_string r' \<longleftrightarrow> r = r'"
  using reason_string_distinct all_reasons_complete[of r] all_reasons_complete[of r']
  by (auto simp: distinct_map inj_on_def)

declare reason_string.simps [simp del]

lemma Reasons_total: "\<exists>md. map_of Reasons r = Some md"
  by (cases r) (simp_all add: Reasons_def)

definition reason_state :: "reason \<Rightarrow> cr_state" where
  "reason_state r = MdState (the (map_of Reasons r))"

definition reason_status :: "reason \<Rightarrow> condition_status" where
  "reason_status r = MdStatus (the (map_of Reasons r))"

lemma reason_state_simps [simp]:
  "reason_state ReconcileSucceeded = StateReady"
  "reason_state UpdateDone = StateReady"
  "reason_state UpdateCheckSucceeded = StateReady"
  "reason_state ReconcileFailed = StateError"
  "reason_state Updated = StateProcessing"
  "reason_state Initialized = StateProcessing"
  "reason_state ChartInstallFailed = StateError"
  "reason_state ConsistencyCheckFailed = StateError"
  "reason_state Processing = StateProcessing"
  "reason_state WrongNamespaceOrName = StateWarning"
  "reason_state MissingSecret = StateWarning"
  "reason_state InvalidSecret = StateError"
  "reason_state HardDeleting = StateDeleting"
  "reason_state ResourceRemovalFailed = StateError"
  "reason_state SoftDeleting = StateDeleting"
  "reason_state UpdateCheck = StateProcessing"
  "reason_state InconsistentChart = StateError"
  "reason_state PreparingInstallInfoFailed = StateError"
  "reason_state ChartPathEmpty = StateError"
  "reason_state DeletionOfOrphanedResourcesFailed = StateError"
  "reason_state StoringChartDetailsFailed = StateError"
  "reason_state GettingConfigMapFailed = StateError"
  "reason_state ProvisioningFailed = StateError"
  "reason_state ServiceInstancesAndBindingsNotCleaned = StateWarning"
  "reason_state GettingDefaultCredentialsSecretFailed = StateError"
  "reason_state AnnotatingSecretFailed = StateError"
  "reason_state GettingSapBtpServiceOperatorConfigMapFailed = StateError"
  "reason_state CredentialsNamespaceChanged = StateProcessing"
  "reason_state ClusterIdChanged = StateProcessing"
  "reason_state GettingSapBtpServiceOperatorClusterIdSecretFailed = StateError"
  by (simp_all add: reason_state_def Reasons_def)

lemma ConditionFromExistingReason_total [simp]:
  "ConditionFromExistingReason r msg =
     Some \<lparr>CndType = ReadyType, CndStatus = reason_status r, CndReason = reason_string r,
           CndMessage = msg, CndObservedGeneration = 0\<rparr>"
  using Reasons_total[of r]
  by (auto simp: ConditionFromExistingReason_def reason_status_def)

section \<open>The library function behind the wrapper\<close>

text \<open>
  Documented behaviour of \<^verbatim>\<open>apimeta.SetStatusCondition\<close>: a condition of the new one's type is replaced in
  place, and appended when there is none; the others stay. (\<^verbatim>\<open>LastTransitionTime\<close> is not modelled.)
\<close>

locale condition_setter =
  fixes setSC :: "condition list \<Rightarrow> condition \<Rightarrow> condition list"
  assumes replaces: "CndType c \<in> CndType ` set cs \<Longrightarrow> length (setSC cs c) = length cs"
    and appends: "CndType c \<notin> CndType ` set cs \<Longrightarrow> setSC cs c = cs @ [c]"
    and holds: "c \<in> set (setSC cs c)"
    and others: "i < length cs \<Longrightarrow> CndType (cs ! i) \<noteq> CndType c \<Longrightarrow> setSC cs c ! i = cs ! i"
    and unique: "c' \<in> set (setSC cs c) \<Longrightarrow> distinct (map CndType cs) \<Longrightarrow> CndType c' = CndType c
                  \<Longrightarrow> c' = c"
begin

lemma length_cases: "length (setSC cs c) = length cs \<or> length (setSC cs c) = Suc (length cs)"
  using replaces[of c cs] appends[of c cs] by (cases "CndType c \<in> CndType ` set cs") simp_all

lemma wrapper_eq: "SetStatusCondition setSC (map Some cs) c = Some (map Some (setSC cs c))"
proof (cases "CndType c \<in> CndType ` set cs")
  case True
  then show ?thesis by (simp add: SetStatusCondition_def replaces)
next
  case False
  then show ?thesis by (simp add: SetStatusCondition_def appends nth_append)
qed

lemma wrapper_msg_in:
  assumes "SetStatusCondition setSC ps c = Some ps'"
  shows "msg_in ps' (CndReason c) (CndMessage c)"
proof -
  from assms obtain cs where "ps = map Some cs"
    by (cases "derefs ps") (auto simp: SetStatusCondition_def derefs_Some_iff)
  with assms have "ps' = map Some (setSC cs c)" by (simp add: wrapper_eq)
  with holds[of c cs] show ?thesis by (auto simp: msg_in_iff)
qed

end

text \<open>
  A slice of conditions is well formed when no pointer is nil and no type occurs twice.
\<close>

definition wf_conditions :: "condition option list \<Rightarrow> bool" where
  "wf_conditions ps \<longleftrightarrow> None \<notin> set ps \<and> distinct (map (CndType \<circ> the) ps)"

lemma wf_conditions_Some: "wf_conditions (map Some cs) \<longleftrightarrow> distinct (map CndType cs)"
  by (auto simp: wf_conditions_def comp_def)

lemma wf_conditionsE:
  assumes "wf_conditions ps"
  obtains cs where "ps = map Some cs" and "distinct (map CndType cs)"
proof
  show "ps = map Some (map the ps)"
    using assms by (auto simp: wf_conditions_def intro!: nth_equalityI) (metis nth_mem option.collapse)
  show "distinct (map CndType (map the ps))" using assms by (simp add: wf_conditions_def)
qed

context condition_setter
begin

lemma replaced_in_place:
  assumes "distinct (map CndType cs)" and "i < length cs" and "CndType (cs ! i) = CndType c"
  shows "setSC cs c = cs[i := c]"
proof -
  have len: "length (setSC cs c) = length cs" using assms(2,3) by (auto intro!: replaces rev_image_eqI[of "cs ! i"])
  have other: "setSC cs c ! j = cs ! j" if "j < length cs" "j \<noteq> i" for j
    using assms that others[of j cs c] by (metis length_map nth_eq_iff_index_eq nth_map)
  obtain k where k: "k < length cs" "setSC cs c ! k = c"
    using holds[of c cs] by (auto simp: in_set_conv_nth len)
  have "k = i" using k other[of k] assms by (metis length_map nth_eq_iff_index_eq nth_map)
  with k other len show ?thesis by (auto intro!: nth_equalityI simp: nth_list_update)
qed

lemma types_kept:
  assumes "distinct (map CndType cs)"
  shows "map CndType (setSC cs c) =
     (if CndType c \<in> CndType ` set cs then map CndType cs else map CndType cs @ [CndType c])"
proof (cases "CndType c \<in> CndType ` set cs")
  case True
  then obtain i where "i < length cs" "CndType (cs ! i) = CndType c" by (auto simp: in_set_conv_nth)
  with True assms show ?thesis
    by (simp add: replaced_in_place map_update list_update_same_conv)
next
  case False
  then show ?thesis by (simp add: appends)
qed

lemma set_after:
  assumes "distinct (map CndType cs)"
  shows "set (setSC cs c) = insert c {c' \<in> set cs. CndType c' \<noteq> CndType c}"
proof (cases "CndType c \<in> CndType ` set cs")
  case True
  then obtain i where i: "i < length cs" "CndType (cs ! i) = CndType c" by (auto simp: in_set_conv_nth)
  with assms have "distinct cs" "set cs - {cs ! i} = {c' \<in> set cs. CndType c' \<noteq> CndType c}"
    by (auto simp: distinct_map inj_on_def)
  with i assms show ?thesis by (simp add: replaced_in_place set_update_distinct)
next
  case False
  then show ?thesis by (auto simp: appends image_iff)
qed

end

text \<open>An executable function with that behaviour, on which witnesses evaluate.\<close>

fun set_condition :: "condition list \<Rightarrow> condition \<Rightarrow> condition list" where
  "set_condition [] c = [c]"
| "set_condition (x # xs) c = (if CndType x = CndType c then c # xs else x # set_condition xs c)"

lemma set_condition_length:
  "CndType c \<in> CndType ` set cs \<Longrightarrow> length (set_condition cs c) = length cs"
  by (induction cs) auto

lemma set_condition_append: "CndType c \<notin> CndType ` set cs \<Longrightarrow> set_condition cs c = cs @ [c]"
  by (induction cs) auto

lemma set_condition_nth:
  "i < length cs \<Longrightarrow> CndType (cs ! i) \<noteq> CndType c \<Longrightarrow> set_condition cs c ! i = cs ! i"
  by (induction cs arbitrary: i) (auto simp: nth_Cons split: nat.splits)

lemma set_condition_unique:
  "c' \<in> set (set_condition cs c) \<Longrightarrow> distinct (map CndType cs) \<Longrightarrow> CndType c' = CndType c \<Longrightarrow> c' = c"
  by (induction cs) (auto simp: image_iff split: if_splits)

interpretation setc: condition_setter set_condition
proof unfold_locales
  show "c \<in> set (set_condition cs c)" for c cs by (induction cs) auto
qed (simp_all add: set_condition_length set_condition_append set_condition_nth set_condition_unique)

section \<open>Properties\<close>

text \<open>
  C40: the conditions of a status stay well formed. On a slice without nil pointers and without a repeated
  type, setting a condition does not panic, leaves such a slice, keeps the conditions of other types, and
  holds exactly the new condition for its type.
\<close>

theorem conditions_stay_well_formed:
  assumes "condition_setter setSC" and "wf_conditions ps"
  shows "\<exists>ps'. SetStatusCondition setSC ps c = Some ps' \<and> wf_conditions ps' \<and>
     set ps' = insert (Some c) {p \<in> set ps. CndType (the p) \<noteq> CndType c}"
proof -
  obtain cs where cs: "ps = map Some cs" "distinct (map CndType cs)"
    using assms(2) by (rule wf_conditionsE)
  have "distinct (map CndType (setSC cs c))"
    using cs(2) by (auto simp: condition_setter.types_kept[OF assms(1)])
  moreover have "set (map Some (setSC cs c)) = insert (Some c) {p \<in> set ps. CndType (the p) \<noteq> CndType c}"
    by (auto simp: cs condition_setter.set_after[OF assms(1) cs(2)])
  ultimately show ?thesis
    by (simp add: cs(1) condition_setter.wrapper_eq[OF assms(1)] wf_conditions_Some del: set_map map_map)
qed

text \<open>A Ready condition that replaces another one, beside a condition of a different type.\<close>

definition example_condition :: "string \<Rightarrow> string \<Rightarrow> condition" where
  "example_condition ty reason = \<lparr>CndType = ty, CndStatus = reason_status ReconcileSucceeded, CndReason = reason, CndMessage = [],
     CndObservedGeneration = 0\<rparr>"

lemma example_condition_type: "CndType (example_condition ty reason) = ty"
  by (simp add: example_condition_def)

theorem conditions_stay_well_formed_witness:
  "\<exists>ps'. SetStatusCondition set_condition
       [Some (example_condition ReadyType ''Initialized''), Some (example_condition ''Other'' ''Kept'')]
       (example_condition ReadyType ''ReconcileSucceeded'') = Some ps' \<and> wf_conditions ps' \<and>
     set ps' = {Some (example_condition ReadyType ''ReconcileSucceeded''), Some (example_condition ''Other'' ''Kept'')}"
proof -
  have "wf_conditions [Some (example_condition ReadyType ''Initialized''), Some (example_condition ''Other'' ''Kept'')]"
    by (simp add: wf_conditions_def example_condition_def ReadyType_def)
  from conditions_stay_well_formed[OF setc.condition_setter_axioms this,
      of "example_condition ReadyType ''ReconcileSucceeded''"]
  have "\<exists>ps'. SetStatusCondition set_condition
       [Some (example_condition ReadyType ''Initialized''), Some (example_condition ''Other'' ''Kept'')]
       (example_condition ReadyType ''ReconcileSucceeded'') = Some ps' \<and> wf_conditions ps' \<and>
     set ps' = insert (Some (example_condition ReadyType ''ReconcileSucceeded''))
       {p \<in> {Some (example_condition ReadyType ''Initialized''), Some (example_condition ''Other'' ''Kept'')}.
          CndType (the p) \<noteq> ReadyType}"
    by (simp add: example_condition_type)
  moreover have "{p \<in> {Some (example_condition ReadyType ''Initialized''), Some (example_condition ''Other'' ''Kept'')}.
      CndType (the p) \<noteq> ReadyType} = {Some (example_condition ''Other'' ''Kept'')}"
    by (auto simp: example_condition_type ReadyType_def)
  ultimately show ?thesis by simp
qed

end
