(* ===== verification/Kube.thy ===== *)
theory Kube
  imports Conditions
begin

text \<open>
  The boundary to Kubernetes. A controller-runtime client is third-party code: it is a record of
  functions over an abstract type \<open>'w\<close> of cluster worlds, so every theorem holds for any API server,
  whatever it answers and however it changes between two calls. The program's own state carries, beside
  that world, the clock, the CR object that a reconcile holds by pointer, and the trace of the requests
  sent so far, which is what safety and ordering properties are stated about.
\<close>

section \<open>Objects\<close>

record gvk =
  Group :: string
  Version :: string
  Kind :: string

record secret = objmeta +
  Data :: "(string, string) gomap"

record configmap = objmeta +
  CmData :: "(string, string) gomap"

record pod = objmeta +
  PodConditions :: "(string \<times> string) list"

record container =
  ContainerName :: string
  Image :: string
  EnvVars :: "(string \<times> string) list"

record job = objmeta +
  BackoffLimit :: "int option"
  TemplateAnnotations :: "(string, string) gomap"
  RestartPolicy :: string
  ServiceAccountName :: string
  Containers :: "container list"
  Succeeded :: int
  Failed :: int

text \<open>Dynamic values, as \<^verbatim>\<open>interface{}\<close> holds them after decoding a manifest.\<close>

datatype json =
    JNull
  | JBool bool
  | JNum int
  | JStr string
  | JBytes string
  | JList "json list"
  | JObj "(string \<times> json) list"

text \<open>
  An unstructured object: the metadata its accessor methods read and write, its group, version and
  kind, and the remaining fields of the object as a dynamic value.
\<close>

record unstr = objmeta +
  Gvk :: gvk
  CreationTimestamp :: "string option"
  ManagedFields :: bool
  Object :: json

abbreviation GetKind :: "'z unstr_scheme \<Rightarrow> string" where
  "GetKind u \<equiv> Kind (Gvk u)"

section \<open>The client\<close>

record 'w client =
  clGetSecret :: "objkey \<Rightarrow> 'w \<Rightarrow> (error + secret) \<times> 'w"
  clGetConfigMap :: "objkey \<Rightarrow> 'w \<Rightarrow> (error + configmap) \<times> 'w"
  clGetBtpOperator :: "objkey \<Rightarrow> 'w \<Rightarrow> (error + btpoperator) \<times> 'w"
  clGetCRD :: "string \<Rightarrow> 'w \<Rightarrow> error option \<times> 'w"
  clGetUnstructured :: "gvk \<Rightarrow> objkey \<Rightarrow> 'w \<Rightarrow> (error + unstr) \<times> 'w"
  clGetJob :: "objkey \<Rightarrow> 'w \<Rightarrow> (error + job) \<times> 'w"
  clListSecrets :: "(string, string) gomap \<Rightarrow> 'w \<Rightarrow> (error + secret list) \<times> 'w"
  clListPods :: "string \<Rightarrow> (string, string) gomap \<Rightarrow> 'w \<Rightarrow> (error + pod list) \<times> 'w"
  clListNamespaces :: "'w \<Rightarrow> (error + string list) \<times> 'w"
  clListUnstructured :: "gvk \<Rightarrow> string \<Rightarrow> 'w \<Rightarrow> (error + unstr list) \<times> 'w"
  clCreate :: "unstr \<Rightarrow> 'w \<Rightarrow> error option \<times> 'w"
  clCreateJob :: "job \<Rightarrow> 'w \<Rightarrow> error option \<times> 'w"
  clUpdate :: "unstr \<Rightarrow> 'w \<Rightarrow> error option \<times> 'w"
  clUpdateSecret :: "secret \<Rightarrow> 'w \<Rightarrow> (error + secret) \<times> 'w"
  clUpdateBtpOperator :: "btpoperator \<Rightarrow> 'w \<Rightarrow> (error + btpoperator) \<times> 'w"
  clStatusUpdate :: "btpoperator \<Rightarrow> 'w \<Rightarrow> (error + btpoperator) \<times> 'w"
  clPatchBtpOperator :: "btpoperator \<Rightarrow> btpoperator \<Rightarrow> 'w \<Rightarrow> error option \<times> 'w"
  clDelete :: "string \<Rightarrow> objkey \<Rightarrow> 'w \<Rightarrow> error option \<times> 'w"
  clDeleteAllOf :: "gvk \<Rightarrow> string \<Rightarrow> (string, string) gomap \<Rightarrow> 'w \<Rightarrow> error option \<times> 'w"

text \<open>
  The two clients the manager builds: \<open>cli\<close> reads from the informer cache, \<open>apicli\<close> goes to the API
  server. \<open>latency\<close> is the time a request took, so that every request may move the clock.
\<close>

record 'w kenv =
  cli :: "'w client"
  apicli :: "'w client"
  latency :: "'w \<Rightarrow> nat"

section \<open>Requests and the program state\<close>

datatype event =
    EvGet string objkey
  | EvList string string
  | EvCreate unstr
  | EvCreateJob job
  | EvUpdate unstr
  | EvUpdateSecret secret
  | EvUpdateCr btpoperator
  | EvStatusUpdate btpoperator
  | EvPatchCr btpoperator btpoperator
  | EvDelete string objkey
  | EvDeleteAllOf gvk string "(string, string) gomap"
  | EvSleep int

record 'w kstate =
  api :: 'w
  clock :: int
  trace :: "event list"
  crp :: btpoperator

definition api_call ::
    "('w, 'v) kenv_scheme \<Rightarrow> event \<Rightarrow> ('w \<Rightarrow> 'a \<times> 'w) \<Rightarrow> (('w, 'z) kstate_scheme, 'a) state" where
  "api_call E ev f = State_Monad.State (\<lambda>s.
     let (a, w) = f (api s)
     in (a, s\<lparr>api := w, clock := clock s + int (latency E w), trace := trace s @ [ev]\<rparr>))"

definition Now :: "(('w, 'z) kstate_scheme, int) state" where
  "Now = gets clock"

text \<open>\<^verbatim>\<open>time.Sleep\<close> returns at once for a duration that is not positive.\<close>

definition Sleep :: "int \<Rightarrow> (('w, 'z) kstate_scheme, unit) state" where
  "Sleep d = modify (\<lambda>s. s\<lparr>clock := clock s + max 0 d, trace := trace s @ [EvSleep d]\<rparr>)"

definition get_cr :: "(('w, 'z) kstate_scheme, btpoperator) state" where
  "get_cr = gets crp"

definition set_cr :: "btpoperator \<Rightarrow> (('w, 'z) kstate_scheme, unit) state" where
  "set_cr c = modify (\<lambda>s. s\<lparr>crp := c\<rparr>)"

section \<open>Requests of the sources\<close>

definition GetSecret where
  "GetSecret E c k = api_call E (EvGet ''Secret'' k) (clGetSecret (c E) k)"

definition GetConfigMap where
  "GetConfigMap E c k = api_call E (EvGet ''ConfigMap'' k) (clGetConfigMap (c E) k)"

definition GetBtpOperator where
  "GetBtpOperator E c k = api_call E (EvGet ''BtpOperator'' k) (clGetBtpOperator (c E) k)"

definition GetCRD where
  "GetCRD E c n = api_call E (EvGet ''CustomResourceDefinition'' \<lparr>KeyName = n, KeyNamespace = []\<rparr>)
     (clGetCRD (c E) n)"

definition GetUnstructured where
  "GetUnstructured E c g k = api_call E (EvGet (Kind g) k) (clGetUnstructured (c E) g k)"

definition GetJob where
  "GetJob E c k = api_call E (EvGet ''Job'' k) (clGetJob (c E) k)"

definition ListSecrets where
  "ListSecrets E c ls = api_call E (EvList ''Secret'' []) (clListSecrets (c E) ls)"

definition ListPods where
  "ListPods E c ns ls = api_call E (EvList ''Pod'' ns) (clListPods (c E) ns ls)"

definition ListNamespaces where
  "ListNamespaces E c = api_call E (EvList ''Namespace'' []) (clListNamespaces (c E))"

definition ListUnstructured where
  "ListUnstructured E c g ns = api_call E (EvList (Kind g) ns) (clListUnstructured (c E) g ns)"

definition Create where
  "Create E c u = api_call E (EvCreate u) (clCreate (c E) u)"

definition CreateJob where
  "CreateJob E c j = api_call E (EvCreateJob j) (clCreateJob (c E) j)"

definition Update where
  "Update E c u = api_call E (EvUpdate u) (clUpdate (c E) u)"

definition UpdateSecret where
  "UpdateSecret E c s = api_call E (EvUpdateSecret s) (clUpdateSecret (c E) s)"

definition UpdateBtpOperator where
  "UpdateBtpOperator E c o' = api_call E (EvUpdateCr o') (clUpdateBtpOperator (c E) o')"

definition StatusUpdate where
  "StatusUpdate E c o' = api_call E (EvStatusUpdate o') (clStatusUpdate (c E) o')"

definition PatchBtpOperator where
  "PatchBtpOperator E c base o' = api_call E (EvPatchCr base o') (clPatchBtpOperator (c E) base o')"

definition Delete where
  "Delete E c kind k = api_call E (EvDelete kind k) (clDelete (c E) kind k)"

definition DeleteAllOf where
  "DeleteAllOf E c g ns ls = api_call E (EvDeleteAllOf g ns ls) (clDeleteAllOf (c E) g ns ls)"

lemmas request_defs =
  GetSecret_def GetConfigMap_def GetBtpOperator_def GetCRD_def GetUnstructured_def GetJob_def
  ListSecrets_def ListPods_def ListNamespaces_def ListUnstructured_def Create_def CreateJob_def
  Update_def UpdateSecret_def UpdateBtpOperator_def StatusUpdate_def PatchBtpOperator_def
  Delete_def DeleteAllOf_def

section \<open>Weakest preconditions of the primitives\<close>

lemma wp_Now [wp_simps]: "wp Now Q s = Q (clock s) s"
  by (simp add: Now_def wp_simps)

lemma wp_get_cr [wp_simps]: "wp get_cr Q s = Q (crp s) s"
  by (simp add: get_cr_def wp_simps)

lemma wp_set_cr [wp_simps]: "wp (set_cr c) Q s = Q () (s\<lparr>crp := c\<rparr>)"
  by (simp add: set_cr_def wp_simps)

lemma wp_Sleep [wp_simps]:
  "wp (Sleep d) Q s = Q () (s\<lparr>clock := clock s + max 0 d, trace := trace s @ [EvSleep d]\<rparr>)"
  by (simp add: Sleep_def wp_simps)

lemma wp_api_call:
  "wp (api_call E ev f) Q s =
     (case f (api s) of (a, w) \<Rightarrow>
        Q a (s\<lparr>api := w, clock := clock s + int (latency E w), trace := trace s @ [ev]\<rparr>))"
  by (simp add: api_call_def wp_def split: prod.splits)

text \<open>Runs of the primitives, for evaluating an operation on a concrete cluster.\<close>

named_theorems run_simps \<open>runs of the primitive operations\<close>

lemma run_api_call [run_simps]:
  "run_state (api_call E ev f) s =
     (fst (f (api s)), s\<lparr>api := snd (f (api s)), clock := clock s + int (latency E (snd (f (api s)))),
                         trace := trace s @ [ev]\<rparr>)"
  by (simp add: api_call_def split: prod.split)

lemma run_Now [run_simps]: "run_state Now s = (clock s, s)"
  by (simp add: Now_def)

lemma run_get_cr [run_simps]: "run_state get_cr s = (crp s, s)"
  by (simp add: get_cr_def)

lemma run_set_cr [run_simps]: "run_state (set_cr c) s = ((), s\<lparr>crp := c\<rparr>)"
  by (simp add: set_cr_def)

lemma run_Sleep [run_simps]:
  "run_state (Sleep d) s = ((), s\<lparr>clock := clock s + max 0 d, trace := trace s @ [EvSleep d]\<rparr>)"
  by (simp add: Sleep_def)

declare request_defs [run_simps]

lemma keeps_api_call [keeps_intros]:
  assumes "\<And>s w c t. f (s\<lparr>api := w, clock := c, trace := t\<rparr>) = f s"
  shows "keeps f (api_call E ev g)"
  using assms by (simp add: keeps_def run_api_call)

lemma keeps_Now [keeps_intros]: "keeps f Now"
  by (simp add: keeps_def run_Now)

lemma keeps_get_cr [keeps_intros]: "keeps f get_cr"
  by (simp add: keeps_def run_get_cr)

section \<open>Effects: which requests an operation can send\<close>

text \<open>
  \<open>emits A m\<close>: whatever the cluster answers, \<open>m\<close> only appends requests of the set \<open>A\<close> to the trace.
  The rules follow the monad's constructs, so an effect bound is proved by composition.
\<close>

definition emits :: "event set \<Rightarrow> (('w, 'z) kstate_scheme, 'a) state \<Rightarrow> bool" where
  "emits A m \<longleftrightarrow> (\<forall>s. \<exists>t. trace (snd (run_state m s)) = trace s @ t \<and> set t \<subseteq> A)"

named_theorems emits_intros \<open>effect bounds\<close>

lemma emits_mono: "emits A m \<Longrightarrow> A \<subseteq> B \<Longrightarrow> emits B m"
  by (fastforce simp: emits_def)

lemma emitsD: "emits A m \<Longrightarrow> run_state m s = (a, s') \<Longrightarrow> \<exists>t. trace s' = trace s @ t \<and> set t \<subseteq> A"
  by (metis emits_def snd_conv)

lemma emits_wp: "emits A m \<Longrightarrow> wp m (\<lambda>a s'. \<exists>t. trace s' = trace s @ t \<and> set t \<subseteq> A) s"
  by (auto intro!: wpI dest: emitsD)

lemma emits_return [emits_intros]: "emits A (ret a)"
  by (simp add: emits_def)

lemma emits_gets [emits_intros]: "emits A (gets f)"
  by (simp add: emits_def)

lemma emits_Now [emits_intros]: "emits A Now"
  by (simp add: Now_def emits_gets)

lemma emits_get_cr [emits_intros]: "emits A get_cr"
  by (simp add: get_cr_def emits_gets)

lemma emits_set_cr [emits_intros]: "emits A (set_cr c)"
  by (simp add: set_cr_def emits_def)

lemma emits_bind_strong:
  assumes "emits A m" and "\<And>s a s'. run_state m s = (a, s') \<Longrightarrow> emits A (f a)"
  shows "emits A (State_Monad.bind m f)"
  unfolding emits_def
proof
  fix s
  obtain a s' where m: "run_state m s = (a, s')" by fastforce
  obtain b s'' where f: "run_state (f a) s' = (b, s'')" by fastforce
  from emitsD[OF assms(1) m] emitsD[OF assms(2)[OF m] f]
  obtain t t' where "trace s' = trace s @ t" "set t \<subseteq> A" "trace s'' = trace s' @ t'" "set t' \<subseteq> A"
    by auto
  with m f show "\<exists>t. trace (snd (run_state (State_Monad.bind m f) s)) = trace s @ t \<and> set t \<subseteq> A"
    by (intro exI[of _ "t @ t'"]) simp
qed

lemma emits_bind [emits_intros]:
  "emits A m \<Longrightarrow> (\<And>a. emits A (f a)) \<Longrightarrow> emits A (State_Monad.bind m f)"
  by (rule emits_bind_strong)

lemma emits_if [emits_intros]:
  "(b \<Longrightarrow> emits A m) \<Longrightarrow> (\<not> b \<Longrightarrow> emits A n) \<Longrightarrow> emits A (if b then m else n)"
  by simp

lemma emits_case_sum [emits_intros]:
  "(\<And>e. x = Inl e \<Longrightarrow> emits A (f e)) \<Longrightarrow> (\<And>y. x = Inr y \<Longrightarrow> emits A (g y))
    \<Longrightarrow> emits A (case x of Inl e \<Rightarrow> f e | Inr y \<Rightarrow> g y)"
  by (cases x) simp_all

lemma emits_case_option [emits_intros]:
  "(x = None \<Longrightarrow> emits A m) \<Longrightarrow> (\<And>y. x = Some y \<Longrightarrow> emits A (g y))
    \<Longrightarrow> emits A (case x of None \<Rightarrow> m | Some y \<Rightarrow> g y)"
  by (cases x) simp_all

lemma emits_case_prod [emits_intros]:
  "(\<And>a b. x = (a, b) \<Longrightarrow> emits A (f a b)) \<Longrightarrow> emits A (case x of (a, b) \<Rightarrow> f a b)"
  by (cases x) simp

lemma emits_let [emits_intros]: "emits A (f a) \<Longrightarrow> emits A (let x = a in f x)"
  by simp

lemma emits_Sleep [emits_intros]: "EvSleep d \<in> A \<Longrightarrow> emits A (Sleep d)"
  by (simp add: Sleep_def emits_def)

lemma emits_api_call: "ev \<in> A \<Longrightarrow> emits A (api_call E ev f)"
  by (simp add: api_call_def emits_def split: prod.split)

lemma emits_GetSecret [emits_intros]: "EvGet ''Secret'' k \<in> A \<Longrightarrow> emits A (GetSecret E c k)"
  by (simp add: GetSecret_def emits_api_call)

lemma emits_GetConfigMap [emits_intros]: "EvGet ''ConfigMap'' k \<in> A \<Longrightarrow> emits A (GetConfigMap E c k)"
  by (simp add: GetConfigMap_def emits_api_call)

lemma emits_GetBtpOperator [emits_intros]: "EvGet ''BtpOperator'' k \<in> A \<Longrightarrow> emits A (GetBtpOperator E c k)"
  by (simp add: GetBtpOperator_def emits_api_call)

lemma emits_GetCRD [emits_intros]: "EvGet ''CustomResourceDefinition'' \<lparr>KeyName = n, KeyNamespace = []\<rparr> \<in> A \<Longrightarrow> emits A (GetCRD E c n)"
  by (simp add: GetCRD_def emits_api_call)

lemma emits_GetUnstructured [emits_intros]: "EvGet (Kind g) k \<in> A \<Longrightarrow> emits A (GetUnstructured E c g k)"
  by (simp add: GetUnstructured_def emits_api_call)

lemma emits_GetJob [emits_intros]: "EvGet ''Job'' k \<in> A \<Longrightarrow> emits A (GetJob E c k)"
  by (simp add: GetJob_def emits_api_call)

lemma emits_ListSecrets [emits_intros]: "EvList ''Secret'' [] \<in> A \<Longrightarrow> emits A (ListSecrets E c ls)"
  by (simp add: ListSecrets_def emits_api_call)

lemma emits_ListPods [emits_intros]: "EvList ''Pod'' ns \<in> A \<Longrightarrow> emits A (ListPods E c ns ls)"
  by (simp add: ListPods_def emits_api_call)

lemma emits_ListNamespaces [emits_intros]: "EvList ''Namespace'' [] \<in> A \<Longrightarrow> emits A (ListNamespaces E c)"
  by (simp add: ListNamespaces_def emits_api_call)

lemma emits_ListUnstructured [emits_intros]: "EvList (Kind g) ns \<in> A \<Longrightarrow> emits A (ListUnstructured E c g ns)"
  by (simp add: ListUnstructured_def emits_api_call)

lemma emits_Create [emits_intros]: "EvCreate u \<in> A \<Longrightarrow> emits A (Create E c u)"
  by (simp add: Create_def emits_api_call)

lemma emits_CreateJob [emits_intros]: "EvCreateJob j \<in> A \<Longrightarrow> emits A (CreateJob E c j)"
  by (simp add: CreateJob_def emits_api_call)

lemma emits_Update [emits_intros]: "EvUpdate u \<in> A \<Longrightarrow> emits A (Update E c u)"
  by (simp add: Update_def emits_api_call)

lemma emits_UpdateSecret [emits_intros]: "EvUpdateSecret x \<in> A \<Longrightarrow> emits A (UpdateSecret E c x)"
  by (simp add: UpdateSecret_def emits_api_call)

lemma emits_UpdateBtpOperator [emits_intros]: "EvUpdateCr x \<in> A \<Longrightarrow> emits A (UpdateBtpOperator E c x)"
  by (simp add: UpdateBtpOperator_def emits_api_call)

lemma emits_StatusUpdate [emits_intros]: "EvStatusUpdate x \<in> A \<Longrightarrow> emits A (StatusUpdate E c x)"
  by (simp add: StatusUpdate_def emits_api_call)

lemma emits_PatchBtpOperator [emits_intros]: "EvPatchCr b x \<in> A \<Longrightarrow> emits A (PatchBtpOperator E c b x)"
  by (simp add: PatchBtpOperator_def emits_api_call)

lemma emits_Delete [emits_intros]: "EvDelete kind k \<in> A \<Longrightarrow> emits A (Delete E c kind k)"
  by (simp add: Delete_def emits_api_call)

lemma emits_DeleteAllOf [emits_intros]: "EvDeleteAllOf g ns ls \<in> A \<Longrightarrow> emits A (DeleteAllOf E c g ns ls)"
  by (simp add: DeleteAllOf_def emits_api_call)

definition reads :: "event set" where
  "reads = {ev. case ev of EvGet k n \<Rightarrow> True | EvList k n \<Rightarrow> True | _ \<Rightarrow> False}"

lemma reads_simps [simp]:
  "EvGet k n \<in> reads" "EvList k m \<in> reads" "EvCreate u \<notin> reads" "EvCreateJob j \<notin> reads" "EvUpdate u \<notin> reads"
  "EvUpdateSecret x \<notin> reads" "EvUpdateCr c \<notin> reads" "EvStatusUpdate c \<notin> reads" "EvPatchCr c c' \<notin> reads"
  "EvDelete k n \<notin> reads" "EvDeleteAllOf g m ls \<notin> reads" "EvSleep d \<notin> reads"
  by (simp_all add: reads_def)

text \<open>Requests that do not write the CR.\<close>

definition no_cr_write :: "event set" where
  "no_cr_write = {ev. case ev of EvStatusUpdate c \<Rightarrow> False | EvUpdateCr c \<Rightarrow> False | EvPatchCr c c' \<Rightarrow> False | _ \<Rightarrow> True}"

lemma no_cr_write_simps [simp]:
  "EvGet k n \<in> no_cr_write" "EvList k m \<in> no_cr_write" "EvCreate u \<in> no_cr_write" "EvCreateJob j \<in> no_cr_write"
  "EvUpdate u \<in> no_cr_write" "EvUpdateSecret x \<in> no_cr_write" "EvUpdateCr c \<notin> no_cr_write"
  "EvStatusUpdate c \<notin> no_cr_write" "EvPatchCr c c' \<notin> no_cr_write" "EvDelete k n \<in> no_cr_write"
  "EvDeleteAllOf g m ls \<in> no_cr_write" "EvSleep d \<in> no_cr_write"
  by (simp_all add: no_cr_write_def)

lemma reads_no_cr_write: "reads \<subseteq> no_cr_write"
  by (auto simp: reads_def no_cr_write_def split: event.splits)

lemma keeps_set_cr: "(\<And>s c. f (s\<lparr>crp := c\<rparr>) = f s) \<Longrightarrow> keeps f (set_cr c)"
  by (simp add: keeps_def run_set_cr)

lemma keeps_Sleep: "(\<And>s c t. f (s\<lparr>clock := c, trace := t\<rparr>) = f s) \<Longrightarrow> keeps f (Sleep d)"
  by (simp add: keeps_def run_Sleep)

text \<open>Time does not run backwards.\<close>

definition advances :: "(('w, 'z) kstate_scheme, 'a) state \<Rightarrow> bool" where
  "advances m \<longleftrightarrow> (\<forall>s. clock s \<le> clock (snd (run_state m s)))"

named_theorems advances_intros \<open>operations under which time does not run backwards\<close>

lemma advances_return [advances_intros]: "advances (ret a)"
  by (simp add: advances_def)

lemma advances_bind [advances_intros]:
  "advances m \<Longrightarrow> (\<And>a. advances (f a)) \<Longrightarrow> advances (State_Monad.bind m f)"
  by (fastforce simp: advances_def split_beta intro: order_trans)

lemma advances_if [advances_intros]:
  "(b \<Longrightarrow> advances m) \<Longrightarrow> (\<not> b \<Longrightarrow> advances n) \<Longrightarrow> advances (if b then m else n)"
  by simp

lemma advances_case_sum [advances_intros]:
  "(\<And>e. x = Inl e \<Longrightarrow> advances (f e)) \<Longrightarrow> (\<And>y. x = Inr y \<Longrightarrow> advances (g y))
    \<Longrightarrow> advances (case x of Inl e \<Rightarrow> f e | Inr y \<Rightarrow> g y)"
  by (cases x) simp_all

lemma advances_api_call [advances_intros]: "advances (api_call E ev f)"
  by (simp add: advances_def run_api_call)

lemma advancesD: "advances m \<Longrightarrow> run_state m s = (a, s') \<Longrightarrow> clock s \<le> clock s'"
  by (metis advances_def snd_conv)

end
