(* ===== verification/Config.thy ===== *)
theory Config
  imports Kube "HOL-Library.Char_ord" "HOL-Library.List_Lexorder" "HOL-Library.Multiset"
begin

text \<open>
  The configuration variables of \<^verbatim>\<open>controllers/config\<close> (with the RSA key size that package \<^verbatim>\<open>certs\<close>
  holds), their defaults, the handler that overwrites them from a ConfigMap, the snapshots it compares
  for its log, its watch predicates and the gauge they drive. Durations are integers of nanoseconds.
  \<^verbatim>\<open>time.ParseDuration\<close> is the parameter \<open>pd\<close>.
\<close>

section \<open>The variables\<close>

abbreviation Millisecond :: int where "Millisecond \<equiv> 1000000"
abbreviation Second :: int where "Second \<equiv> 1000 * Millisecond"
abbreviation Minute :: int where "Minute \<equiv> 60 * Second"
abbreviation Hour :: int where "Hour \<equiv> 60 * Minute"

definition BtpOperatorCrName :: string where
  "BtpOperatorCrName = ''btpoperator''"

definition KymaSystemNamespaceName :: string where
  "KymaSystemNamespaceName = ''kyma-system''"

record config =
  ChartNamespace :: string
  ChartPath :: string
  SecretName :: string
  ConfigName :: string
  DeploymentName :: string
  ProcessingStateRequeueInterval :: int
  ReadyStateRequeueInterval :: int
  ReadyTimeout :: int
  HardDeleteCheckInterval :: int
  HardDeleteTimeout :: int
  ResourcesPath :: string
  ReadyCheckInterval :: int
  DeleteRequestTimeout :: int
  CaCertificateExpiration :: int
  WebhookCertificateExpiration :: int
  ExpirationBoundary :: int
  RsaKeyBits :: int
  EnableLimitedCache :: string
  ProbeInterval :: int
  StatusUpdateTimeout :: int
  StatusUpdateCheckInterval :: int
  ManagerResourcesPath :: string

definition default_config :: config where
  "default_config = \<lparr>
     ChartNamespace = ''kyma-system'',
     ChartPath = ''./module-chart/chart'',
     SecretName = ''sap-btp-manager'',
     ConfigName = ''sap-btp-manager'',
     DeploymentName = ''sap-btp-operator-controller-manager'',
     ProcessingStateRequeueInterval = 5 * Minute,
     ReadyStateRequeueInterval = 15 * Minute,
     ReadyTimeout = 5 * Minute,
     HardDeleteCheckInterval = 10 * Second,
     HardDeleteTimeout = 20 * Minute,
     ResourcesPath = ''./module-resources'',
     ReadyCheckInterval = 30 * Second,
     DeleteRequestTimeout = 5 * Minute,
     CaCertificateExpiration = 87600 * Hour,
     WebhookCertificateExpiration = 8760 * Hour,
     ExpirationBoundary = - 168 * Hour,
     RsaKeyBits = 4096,
     EnableLimitedCache = ''true'',
     ProbeInterval = Hour,
     StatusUpdateTimeout = 10 * Second,
     StatusUpdateCheckInterval = 500 * Millisecond,
     ManagerResourcesPath = ''./manager-resources''\<rparr>"

section \<open>Integers from strings\<close>

text \<open>\<^verbatim>\<open>strconv.Atoi\<close>: an optional sign, one or more decimal digits, a value that fits 64 bits.\<close>

definition digit_value :: "char \<Rightarrow> nat option" where
  "digit_value c = (if 48 \<le> (of_char c :: nat) \<and> (of_char c :: nat) \<le> 57 then Some (of_char c - 48) else None)"

fun digits_value :: "nat \<Rightarrow> string \<Rightarrow> nat option" where
  "digits_value n [] = Some n"
| "digits_value n (c # cs) =
     (case digit_value c of None \<Rightarrow> None | Some d \<Rightarrow> digits_value (10 * n + d) cs)"

definition Atoi :: "string \<Rightarrow> int option" where
  "Atoi s =
     (let neg = (case s of c # _ \<Rightarrow> c = CHR ''-'' | [] \<Rightarrow> False);
          ds = (case s of c # cs \<Rightarrow> if c = CHR ''-'' \<or> c = CHR ''+'' then cs else s | [] \<Rightarrow> [])
      in if ds = [] then None
         else case digits_value 0 ds of
             None \<Rightarrow> None
           | Some n \<Rightarrow>
               let i = (if neg then - int n else int n)
               in if - (2 ^ 63) \<le> i \<and> i < 2 ^ 63 then Some i else None)"

section \<open>Snapshots\<close>

datatype cfgval = VStr string | VDur int | VInt int

definition configSnapshot :: "config \<Rightarrow> (string, cfgval) gomap" where
  "configSnapshot c =
     [(''ChartNamespace'', VStr (ChartNamespace c)),
      (''ChartPath'', VStr (ChartPath c)),
      (''SecretName'', VStr (SecretName c)),
      (''ConfigName'', VStr (ConfigName c)),
      (''DeploymentName'', VStr (DeploymentName c)),
      (''ProcessingStateRequeueInterval'', VDur (ProcessingStateRequeueInterval c)),
      (''ReadyStateRequeueInterval'', VDur (ReadyStateRequeueInterval c)),
      (''ReadyTimeout'', VDur (ReadyTimeout c)),
      (''HardDeleteCheckInterval'', VDur (HardDeleteCheckInterval c)),
      (''HardDeleteTimeout'', VDur (HardDeleteTimeout c)),
      (''ResourcesPath'', VStr (ResourcesPath c)),
      (''ReadyCheckInterval'', VDur (ReadyCheckInterval c)),
      (''DeleteRequestTimeout'', VDur (DeleteRequestTimeout c)),
      (''CaCertificateExpiration'', VDur (CaCertificateExpiration c)),
      (''WebhookCertificateExpiration'', VDur (WebhookCertificateExpiration c)),
      (''ExpirationBoundary'', VDur (ExpirationBoundary c)),
      (''RsaKeyBits'', VInt (RsaKeyBits c)),
      (''EnableLimitedCache'', VStr (EnableLimitedCache c)),
      (''ProbeInterval'', VDur (ProbeInterval c)),
      (''StatusUpdateTimeout'', VDur (StatusUpdateTimeout c)),
      (''StatusUpdateCheckInterval'', VDur (StatusUpdateCheckInterval c)),
      (''ManagerResourcesPath'', VStr (ManagerResourcesPath c))]"

definition changedSnapshotKeys ::
    "(string, cfgval) gomap \<Rightarrow> (string, cfgval) gomap \<Rightarrow> string list" where
  "changedSnapshotKeys before after =
     (let keys = remdups (map fst before @ map fst after);
          changed = filter (\<lambda>k. map_of before k \<noteq> map_of after k) keys
      in sort changed)"

section \<open>Overwriting the variables from a ConfigMap\<close>

definition parseDuration :: "(string \<Rightarrow> error + int) \<Rightarrow> string \<Rightarrow> int \<Rightarrow> int" where
  "parseDuration pd raw defaultValue = (case pd raw of Inl err \<Rightarrow> defaultValue | Inr parsed \<Rightarrow> parsed)"

definition config_assign :: "(string \<Rightarrow> error + int) \<Rightarrow> string \<times> string \<Rightarrow> config \<Rightarrow> config" where
  "config_assign pd kv c =
     (let k = fst kv; v = snd kv in
      if k = ''ChartNamespace'' then c\<lparr>ChartNamespace := v\<rparr>
      else if k = ''ChartPath'' then c\<lparr>ChartPath := v\<rparr>
      else if k = ''SecretName'' then c\<lparr>SecretName := v\<rparr>
      else if k = ''ConfigName'' then c\<lparr>ConfigName := v\<rparr>
      else if k = ''DeploymentName'' then c\<lparr>DeploymentName := v\<rparr>
      else if k = ''ProcessingStateRequeueInterval'' then c\<lparr>ProcessingStateRequeueInterval := parseDuration pd v (ProcessingStateRequeueInterval c)\<rparr>
      else if k = ''ReadyStateRequeueInterval'' then c\<lparr>ReadyStateRequeueInterval := parseDuration pd v (ReadyStateRequeueInterval c)\<rparr>
      else if k = ''ReadyTimeout'' then c\<lparr>ReadyTimeout := parseDuration pd v (ReadyTimeout c)\<rparr>
      else if k = ''HardDeleteCheckInterval'' then c\<lparr>HardDeleteCheckInterval := parseDuration pd v (HardDeleteCheckInterval c)\<rparr>
      else if k = ''HardDeleteTimeout'' then c\<lparr>HardDeleteTimeout := parseDuration pd v (HardDeleteTimeout c)\<rparr>
      else if k = ''ResourcesPath'' then c\<lparr>ResourcesPath := v\<rparr>
      else if k = ''ReadyCheckInterval'' then c\<lparr>ReadyCheckInterval := parseDuration pd v (ReadyCheckInterval c)\<rparr>
      else if k = ''DeleteRequestTimeout'' then c\<lparr>DeleteRequestTimeout := parseDuration pd v (DeleteRequestTimeout c)\<rparr>
      else if k = ''CaCertificateExpiration'' then c\<lparr>CaCertificateExpiration := parseDuration pd v (CaCertificateExpiration c)\<rparr>
      else if k = ''WebhookCertificateExpiration'' then c\<lparr>WebhookCertificateExpiration := parseDuration pd v (WebhookCertificateExpiration c)\<rparr>
      else if k = ''ExpirationBoundary'' then c\<lparr>ExpirationBoundary := parseDuration pd v (ExpirationBoundary c)\<rparr>
      else if k = ''RsaKeyBits'' then (case Atoi v of Some bits \<Rightarrow> c\<lparr>RsaKeyBits := bits\<rparr> | None \<Rightarrow> c)
      else if k = ''EnableLimitedCache'' then c\<lparr>EnableLimitedCache := v\<rparr>
      else if k = ''ProbeInterval'' then c\<lparr>ProbeInterval := parseDuration pd v (ProbeInterval c)\<rparr>
      else if k = ''StatusUpdateTimeout'' then c\<lparr>StatusUpdateTimeout := parseDuration pd v (StatusUpdateTimeout c)\<rparr>
      else if k = ''StatusUpdateCheckInterval'' then c\<lparr>StatusUpdateCheckInterval := parseDuration pd v (StatusUpdateCheckInterval c)\<rparr>
      else if k = ''ManagerResourcesPath'' then c\<lparr>ManagerResourcesPath := v\<rparr>
      else c)"

text \<open>\<^verbatim>\<open>for k, v := range cm.Data\<close>, in the order of the list; then the request for the primary CR.\<close>

definition config_apply :: "(string \<Rightarrow> error + int) \<Rightarrow> (string, string) gomap \<Rightarrow> config \<Rightarrow> config" where
  "config_apply pd data = fold (config_assign pd) data"

definition PrimaryCrKey :: objkey where
  "PrimaryCrKey = \<lparr>KeyName = BtpOperatorCrName, KeyNamespace = KymaSystemNamespaceName\<rparr>"

section \<open>The handler: state, predicates, start-up\<close>

record 'w cfgstate = "'w kstate" +
  cfgvars :: config
  configMapAppliedGauge :: int
  changedFieldsLog :: "string list list"

datatype watched_object = ConfigMapObject configmap | OtherObject

definition ConfigMapApplied :: "(('w, 'z) cfgstate_scheme, unit) state" where
  "ConfigMapApplied = modify (\<lambda>s. s\<lparr>configMapAppliedGauge := 1\<rparr>)"

definition ConfigMapNotApplied :: "(('w, 'z) cfgstate_scheme, unit) state" where
  "ConfigMapNotApplied = modify (\<lambda>s. s\<lparr>configMapAppliedGauge := 0\<rparr>)"

definition nameMatches :: "config \<Rightarrow> 'y objmeta_scheme \<Rightarrow> bool" where
  "nameMatches c o' = (Name o' = ConfigName c \<and> Namespace o' = ChartNamespace c)"

definition config_CreateFunc :: "'y objmeta_scheme \<Rightarrow> (('w, 'z) cfgstate_scheme, bool) state" where
  "config_CreateFunc o' = do {
     c \<leftarrow> gets cfgvars;
     let matches = nameMatches c o';
     (if matches then ConfigMapApplied else skip);
     ret matches }"

definition config_DeleteFunc :: "'y objmeta_scheme \<Rightarrow> (('w, 'z) cfgstate_scheme, bool) state" where
  "config_DeleteFunc o' = do {
     c \<leftarrow> gets cfgvars;
     let matches = nameMatches c o';
     (if matches then ConfigMapNotApplied else skip);
     ret matches }"

definition config_UpdateFunc ::
    "'y objmeta_scheme \<Rightarrow> 'y objmeta_scheme \<Rightarrow> (('w, 'z) cfgstate_scheme, bool) state" where
  "config_UpdateFunc oldObj newObj = do {
     c \<leftarrow> gets cfgvars;
     let matches = nameMatches c newObj;
     (if matches then ConfigMapApplied else skip);
     ret matches }"

definition config_Start :: "('w, 'v) kenv_scheme \<Rightarrow> (('w, 'z) cfgstate_scheme, error option) state" where
  "config_Start E = do {
     c \<leftarrow> gets cfgvars;
     r \<leftarrow> GetConfigMap E cli \<lparr>KeyName = ConfigName c, KeyNamespace = ChartNamespace c\<rparr>;
     case r of
       Inl err \<Rightarrow> if IsNotFound err then ret None else ret (Some err)
     | Inr cm \<Rightarrow> do { ConfigMapApplied; ret None } }"

definition config_Reconcile ::
    "(string \<Rightarrow> error + int) \<Rightarrow> watched_object \<Rightarrow> (('w, 'z) cfgstate_scheme, objkey list) state" where
  "config_Reconcile pd obj =
     (case obj of
        OtherObject \<Rightarrow> ret []
      | ConfigMapObject cm \<Rightarrow> do {
          beforeConfig \<leftarrow> gets (\<lambda>s. configSnapshot (cfgvars s));
          modify (\<lambda>s. s\<lparr>cfgvars := config_apply pd (CmData cm) (cfgvars s)\<rparr>);
          afterConfig \<leftarrow> gets (\<lambda>s. configSnapshot (cfgvars s));
          let changedFields = changedSnapshotKeys beforeConfig afterConfig;
          modify (\<lambda>s. s\<lparr>changedFieldsLog := changedFieldsLog s @ [changedFields]\<rparr>);
          ret [PrimaryCrKey] })"

definition ApplyFromAPI ::
    "('w, 'v) kenv_scheme \<Rightarrow> (string \<Rightarrow> error + int) \<Rightarrow> (('w, 'z) cfgstate_scheme, error option) state" where
  "ApplyFromAPI E pd = do {
     c \<leftarrow> gets cfgvars;
     r \<leftarrow> GetConfigMap E apicli \<lparr>KeyName = ConfigName c, KeyNamespace = ChartNamespace c\<rparr>;
     case r of
       Inl err \<Rightarrow> ret (Some err)
     | Inr cm \<Rightarrow> do { config_Reconcile pd (ConfigMapObject cm); ret None } }"

section \<open>Facts about overwriting and snapshots\<close>

text \<open>
  What one entry does, read off the snapshot: the value under its key is replaced by what the entry's
  text denotes for a value of that type (a text that does not parse keeps the old value), every other
  value stays. Entries with distinct keys therefore commute.
\<close>

fun config_value :: "(string \<Rightarrow> error + int) \<Rightarrow> string \<Rightarrow> cfgval \<Rightarrow> cfgval" where
  "config_value pd v (VStr s) = VStr v"
| "config_value pd v (VDur d) = VDur (parseDuration pd v d)"
| "config_value pd v (VInt i) = VInt (case Atoi v of Some bits \<Rightarrow> bits | None \<Rightarrow> i)"

definition config_keys :: "string list" where
  "config_keys = map fst (configSnapshot default_config)"

lemma configSnapshot_keys: "map fst (configSnapshot c) = config_keys"
  by (simp add: configSnapshot_def config_keys_def)

lemma config_assign_unknown: "k \<notin> set config_keys \<Longrightarrow> config_assign pd (k, v) c = c"
  by (simp add: config_assign_def config_keys_def configSnapshot_def)

lemma configSnapshot_inject: "configSnapshot c = configSnapshot c' \<Longrightarrow> c = c'"
  by (simp add: configSnapshot_def)

lemma alist_eqI:
  assumes "map fst xs = map fst ys" and "distinct (map fst xs)" and "map_of xs = map_of ys"
  shows "xs = ys"
  using assms
proof (induction xs arbitrary: ys)
  case (Cons x xs)
  then obtain y ys' where ys: "ys = y # ys'" "fst y = fst x" by (cases ys) auto
  have "map_of xs = map_of ys'"
  proof
    fix k
    have "map_of xs (fst x) = None" "map_of ys' (fst x) = None"
      using Cons.prems ys by (simp_all add: map_of_eq_None_iff flip: set_map)
    then show "map_of xs k = map_of ys' k"
      using fun_cong[OF Cons.prems(3), of k] ys by (cases x; cases y) (auto split: if_splits)
  qed
  moreover have "x = y"
    using fun_cong[OF Cons.prems(3), of "fst x"] ys by (cases x; cases y) auto
  moreover have "map fst xs = map fst ys'" "distinct (map fst xs)" using Cons.prems ys by auto
  ultimately show ?case using Cons.IH[of ys'] ys by simp
qed simp

lemma map_of_map_value: "map_of (map (\<lambda>(j, x). (j, f j x)) xs) k = map_option (f k) (map_of xs k)"
  by (induction xs) auto

lemma config_keys_distinct: "distinct config_keys"
  by code_simp

lemma configSnapshot_eqI:
  assumes "map_of (configSnapshot c) = map_of (configSnapshot c')"
  shows "c = c'"
  using assms config_keys_distinct
  by (intro configSnapshot_inject alist_eqI) (simp_all add: configSnapshot_keys)

lemma config_assign_snapshot:
  "map_of (configSnapshot (config_assign pd (k, v) c)) k' =
     (if k' = k then map_option (config_value pd v) (map_of (configSnapshot c) k)
      else map_of (configSnapshot c) k')"
proof (cases "k \<in> set config_keys")
  case False
  then have "map_of (configSnapshot c) k = None"
    using configSnapshot_keys[of c] by (simp add: map_of_eq_None_iff flip: set_map)
  with False show ?thesis by (simp add: config_assign_unknown)
next
  case True
  have known: "k \<in> fst ` set (configSnapshot c)"
    using True configSnapshot_keys[of c] by (metis set_map)
  have "configSnapshot (config_assign pd (k, v) c) =
          map (\<lambda>(j, x). (j, if j = k then config_value pd v x else x)) (configSnapshot c)"
    using known[unfolded configSnapshot_def set_simps image_insert fst_conv image_empty insert_iff empty_iff]
    by (elim disjE) (simp_all add: config_assign_def configSnapshot_def split: option.split)
  then show ?thesis by (simp add: map_of_map_value option.map_ident)
qed

lemma config_apply_snapshot:
  assumes "distinct (map fst data)"
  shows "map_of (configSnapshot (config_apply pd data c)) k =
           (case map_of data k of
              None \<Rightarrow> map_of (configSnapshot c) k
            | Some v \<Rightarrow> map_option (config_value pd v) (map_of (configSnapshot c) k))"
  using assms
proof (induction data arbitrary: c)
  case Nil
  then show ?case by (simp add: config_apply_def)
next
  case (Cons kv data)
  obtain k0 v0 where kv: "kv = (k0, v0)" by fastforce
  have "map_of data k0 = None" using Cons.prems kv by (simp add: map_of_eq_None_iff)
  with Cons.IH[of "config_assign pd kv c"] Cons.prems kv show ?case
    by (auto simp: config_apply_def config_assign_snapshot split: option.splits)
qed

lemma config_apply_perm:
  assumes "distinct (map fst data)" and "mset data = mset data'"
  shows "config_apply pd data c = config_apply pd data' c"
proof -
  have "distinct (map fst data')"
    using assms by (metis mset_eq_imp_distinct_iff mset_map)
  moreover have "map_of data = map_of data'"
    using assms calculation by (metis map_of_eqI set_mset_mset set_map map_of_inject_set)
  ultimately show ?thesis
    using assms(1) by (intro configSnapshot_eqI) (simp add: fun_eq_iff config_apply_snapshot)
qed

lemma set_changedSnapshotKeys:
  "set (changedSnapshotKeys before after) = {k. map_of before k \<noteq> map_of after k}"
proof -
  have "k \<in> fst ` set before \<union> fst ` set after" if "map_of before k \<noteq> map_of after k" for k
    using that map_of_eq_None_iff[of before k] map_of_eq_None_iff[of after k] by auto
  then show ?thesis by (auto simp: changedSnapshotKeys_def)
qed

lemma sorted_changedSnapshotKeys: "sorted (changedSnapshotKeys before after)"
  and distinct_changedSnapshotKeys: "distinct (changedSnapshotKeys before after)"
  by (simp_all add: changedSnapshotKeys_def)

section \<open>Properties\<close>

text \<open>
  C23: after a ConfigMap has been handled, every configuration variable holds what its entry's text
  denotes (a duration or number that does not parse keeps the old value), a variable without an entry is
  unchanged, unknown keys have no effect, and exactly the primary CR is enqueued.
\<close>

theorem config_reconcile_values:
  assumes "distinct (map fst (CmData cm))"
  shows "case run_state (config_Reconcile pd (ConfigMapObject cm)) s of (reqs, s') \<Rightarrow>
           reqs = [PrimaryCrKey] \<and>
           (\<forall>k. map_of (configSnapshot (cfgvars s')) k =
              (case map_of (CmData cm) k of
                 None \<Rightarrow> map_of (configSnapshot (cfgvars s)) k
               | Some v \<Rightarrow> map_option (config_value pd v) (map_of (configSnapshot (cfgvars s)) k)))"
  by (simp add: config_Reconcile_def config_apply_snapshot[OF assms] split: prod.split)

text \<open>
  C36: Go iterates over a map in an unspecified order; the resulting configuration and the logged list
  of changed fields do not depend on it.
\<close>

theorem config_reconcile_order_irrelevant:
  assumes "distinct (map fst (CmData cm))" and "mset (CmData cm) = mset data'"
  shows "run_state (config_Reconcile pd (ConfigMapObject cm)) s =
         run_state (config_Reconcile pd (ConfigMapObject (cm\<lparr>CmData := data'\<rparr>))) s"
  by (simp add: config_Reconcile_def config_apply_perm[OF assms])

text \<open>
  The change list that a ConfigMap update logs is sorted, free of duplicates, and names exactly the
  variables whose value changed, each of which the ConfigMap has an entry for.
\<close>

lemma config_reconcile_log_exact:
  assumes "distinct (map fst (CmData cm))"
  shows "case run_state (config_Reconcile pd (ConfigMapObject cm)) s of (reqs, s') \<Rightarrow>
           \<exists>changed. changedFieldsLog s' = changedFieldsLog s @ [changed] \<and> sorted changed \<and> distinct changed \<and>
             set changed = {k. map_of (configSnapshot (cfgvars s)) k \<noteq> map_of (configSnapshot (cfgvars s')) k} \<and>
             set changed \<subseteq> fst ` set (CmData cm)"
proof -
  let ?c = "cfgvars s" and ?c' = "config_apply pd (CmData cm) (cfgvars s)"
  have "k \<in> fst ` set (CmData cm)" if "map_of (configSnapshot ?c) k \<noteq> map_of (configSnapshot ?c') k" for k
    using that map_of_eq_None_iff[of "CmData cm" k]
    by (auto simp: config_apply_snapshot[OF assms] simp del: map_of_eq_None_iff split: option.splits)
  then show ?thesis
    by (auto simp: config_Reconcile_def set_changedSnapshotKeys sorted_changedSnapshotKeys
        distinct_changedSnapshotKeys split: prod.split)
qed

section \<open>Witnesses\<close>

definition example_meta :: objmeta where
  "example_meta = \<lparr>Name = ''sap-btp-manager'', Namespace = ''kyma-system'', Labels = [], Annotations = [],
     Finalizers = [], DeletionTimestamp = None, ResourceVersion = ''1''\<rparr>"

definition example_configmap :: configmap where
  "example_configmap = objmeta.extend example_meta
     (configmap.fields [(''ReadyTimeout'', ''1m''), (''SecretName'', ''other''), (''RsaKeyBits'', ''20x'')])"

definition example_cr :: btpoperator where
  "example_cr = objmeta.extend (example_meta\<lparr>Name := ''btpoperator''\<rparr>)
     (btpoperator.fields \<lparr>CrState = StateNone, Conditions = []\<rparr>)"

definition example_cfgstate :: "unit cfgstate" where
  "example_cfgstate = \<lparr>api = (), clock = 0, trace = [], crp = example_cr, cfgvars = default_config,
     configMapAppliedGauge = 0, changedFieldsLog = []\<rparr>"

definition example_pd :: "string \<Rightarrow> error + int" where
  "example_pd t = (if t = ''1m'' then Inr Minute else Inl (Errorf ''time: invalid duration''))"

lemma example_configmap_data:
  "CmData example_configmap = [(''ReadyTimeout'', ''1m''), (''SecretName'', ''other''), (''RsaKeyBits'', ''20x'')]"
  by (simp add: example_configmap_def objmeta.defs configmap.defs example_meta_def)

lemma example_configmap_distinct: "distinct (map fst (CmData example_configmap))"
  by (simp add: example_configmap_data)

theorem config_reconcile_values_witness:
  "distinct (map fst (CmData example_configmap)) \<and>
   map_of (configSnapshot (cfgvars (snd (run_state
       (config_Reconcile example_pd (ConfigMapObject example_configmap)) example_cfgstate)))) ''ReadyTimeout''
     = Some (VDur Minute)"
proof -
  have "map_of (configSnapshot default_config) ''ReadyTimeout'' = Some (VDur (5 * Minute))"
    by (simp add: configSnapshot_def default_config_def)
  then show ?thesis
    using config_reconcile_values[OF example_configmap_distinct, where pd = example_pd and s = example_cfgstate]
      example_configmap_distinct
    by (simp add: example_configmap_data example_cfgstate_def example_pd_def parseDuration_def split: prod.splits)
qed

theorem config_reconcile_order_witness:
  "mset (CmData example_configmap) = mset (rev (CmData example_configmap)) \<and>
   run_state (config_Reconcile example_pd (ConfigMapObject example_configmap)) example_cfgstate =
   run_state (config_Reconcile example_pd
     (ConfigMapObject (example_configmap\<lparr>CmData := rev (CmData example_configmap)\<rparr>))) example_cfgstate"
  using config_reconcile_order_irrelevant[OF example_configmap_distinct, of "rev (CmData example_configmap)"]
  by simp

end
