(* ===== verification/Env.thy ===== *)
theory Env
  imports Config
begin

text \<open>
  The environment of the reconciler and its handlers: the clients, the configuration variables as they
  stand during one call (a rewrite by the ConfigMap handler while the call runs is not modelled), and the
  library functions on metadata and conditions that the controllers call, with a locale per group of
  functions for what the library documents about them. \<open>gvkString\<close> is the text of a group, version and
  kind; \<open>selectTimer\<close> is the choice of a \<^verbatim>\<open>select\<close> statement between a timer and a message that are both
  ready, which Go leaves open.
\<close>

record 'w env = "'w kenv" +
  conf :: config
  libSetStatusCondition :: "condition list \<Rightarrow> condition \<Rightarrow> condition list"
  libAddFinalizer :: "string list \<Rightarrow> string \<Rightarrow> bool \<times> string list"
  libRemoveFinalizer :: "string list \<Rightarrow> string \<Rightarrow> bool \<times> string list"
  sortSlice :: "(secret \<Rightarrow> secret \<Rightarrow> bool) \<Rightarrow> secret list \<Rightarrow> secret list"
  gvkString :: "gvk \<Rightarrow> string"
  selectTimer :: "'w \<Rightarrow> bool"

text \<open>
  \<^verbatim>\<open>controllerutil.AddFinalizer\<close> reports whether it had to add the finalizer, \<^verbatim>\<open>RemoveFinalizer\<close> whether
  there was one; both leave the other finalizers alone.
\<close>

locale finalizer_library =
  fixes addF :: "string list \<Rightarrow> string \<Rightarrow> bool \<times> string list"
    and removeF :: "string list \<Rightarrow> string \<Rightarrow> bool \<times> string list"
  assumes add_present: "f \<in> set fs \<Longrightarrow> addF fs f = (False, fs)"
    and add_absent: "f \<notin> set fs \<Longrightarrow> addF fs f = (True, fs @ [f])"
    and remove_eq: "removeF fs f = (f \<in> set fs, filter (\<lambda>g. g \<noteq> f) fs)"
begin

lemma added_iff: "fst (addF fs f) \<longleftrightarrow> f \<notin> set fs"
  by (cases "f \<in> set fs") (simp_all add: add_present add_absent)

lemma added_holds: "f \<in> set (snd (addF fs f))"
  by (cases "f \<in> set fs") (simp_all add: add_present add_absent)

lemma removed_gone: "f \<notin> set (snd (removeF fs f))"
  by (simp add: remove_eq)

end

definition add_finalizer :: "string list \<Rightarrow> string \<Rightarrow> bool \<times> string list" where
  "add_finalizer fs f = (if f \<in> set fs then (False, fs) else (True, fs @ [f]))"

definition remove_finalizer :: "string list \<Rightarrow> string \<Rightarrow> bool \<times> string list" where
  "remove_finalizer fs f = (f \<in> set fs, filter (\<lambda>g. g \<noteq> f) fs)"

interpretation fin: finalizer_library add_finalizer remove_finalizer
  by unfold_locales (simp_all add: add_finalizer_def remove_finalizer_def)

text \<open>
  \<^verbatim>\<open>sort.Slice\<close> orders a slice by a \<^verbatim>\<open>less\<close> function and leaves the order of equal elements open, so the
  sorting function is a parameter too; the law is for a \<^verbatim>\<open>less\<close> that compares a key.
\<close>

locale slice_sorter =
  fixes srt :: "('a \<Rightarrow> 'a \<Rightarrow> bool) \<Rightarrow> 'a list \<Rightarrow> 'a list"
  assumes srt_mset: "mset (srt lt xs) = mset xs"
    and srt_sorted: "(\<And>a b. lt a b \<longleftrightarrow> (f a :: string) < f b) \<Longrightarrow> sorted (map f (srt lt xs))"
begin

lemma srt_set: "set (srt lt xs) = set xs"
  by (metis srt_mset set_mset_mset)

end

text \<open>An insertion sort by a \<^verbatim>\<open>less\<close> function.\<close>

fun insert_less :: "('a \<Rightarrow> 'a \<Rightarrow> bool) \<Rightarrow> 'a \<Rightarrow> 'a list \<Rightarrow> 'a list" where
  "insert_less lt x [] = [x]"
| "insert_less lt x (y # ys) = (if lt y x then y # insert_less lt x ys else x # y # ys)"

definition sort_less :: "('a \<Rightarrow> 'a \<Rightarrow> bool) \<Rightarrow> 'a list \<Rightarrow> 'a list" where
  "sort_less lt xs = foldr (insert_less lt) xs []"

lemma mset_insert_less [simp]: "mset (insert_less lt x xs) = add_mset x (mset xs)"
  by (induction xs) simp_all

lemma sorted_insert_less:
  fixes f :: "'a \<Rightarrow> string"
  assumes "\<And>a b. lt a b \<longleftrightarrow> f a < f b" and "sorted (map f xs)"
  shows "sorted (map f (insert_less lt x xs))"
proof -
  have "set (map f (insert_less lt x ys)) = insert (f x) (f ` set ys)" for ys
    using mset_insert_less[of lt x ys] by (metis image_insert set_map set_mset_add_mset_insert set_mset_mset)
  with assms show ?thesis by (induction xs) (fastforce simp: not_less dest: less_imp_le)+
qed

interpretation srt: slice_sorter sort_less
proof unfold_locales
  show "mset (sort_less lt xs) = mset xs" for lt and xs :: "'a list"
    by (induction xs) (simp_all add: sort_less_def)
  show "sorted (map f (sort_less lt xs))"
    if "\<And>a b. lt a b \<longleftrightarrow> (f a :: string) < f b" for lt f and xs :: "'a list"
    by (induction xs) (simp_all add: sort_less_def sorted_insert_less[OF that])
qed

section \<open>Names shared by the packages\<close>

definition operatorName :: string where
  "operatorName = ''btp-manager''"

definition operandName :: string where
  "operandName = ''sap-btp-operator''"

definition mutatingWebhookName :: string where
  "mutatingWebhookName = operandName @ ''-mutating-webhook-configuration''"

definition validatingWebhookName :: string where
  "validatingWebhookName = operandName @ ''-validating-webhook-configuration''"

definition deletionFinalizer :: string where
  "deletionFinalizer = ''operator.kyma-project.io/'' @ operatorName"

definition managedByLabelKey :: string where
  "managedByLabelKey = ''app.kubernetes.io/managed-by''"

definition forceDeleteLabelKey :: string where
  "forceDeleteLabelKey = ''force-delete''"

definition managedByLabelFilter :: "(string, string) gomap" where
  "managedByLabelFilter = [(managedByLabelKey, operatorName)]"

definition bindingGvk :: gvk where
  "bindingGvk = \<lparr>Group = ''services.cloud.sap.com'', Version = ''v1'', Kind = ''ServiceBinding''\<rparr>"

definition instanceGvk :: gvk where
  "instanceGvk = \<lparr>Group = ''services.cloud.sap.com'', Version = ''v1'', Kind = ''ServiceInstance''\<rparr>"

end
