(* ===== verification/Mem_Cluster.thy ===== *)
theory Mem_Cluster
  imports Env
begin

text \<open>
  A small in-memory cluster with the documented behaviour of the API server's requests, without latency
  and without concurrent writers. No property is about it: the examples that instantiate the properties
  run on it.
\<close>

record cluster =
  mSecrets :: "secret list"
  mConfigMaps :: "configmap list"
  mCrs :: "btpoperator list"
  mCRDs :: "string list"
  mObjs :: "unstr list"
  mPods :: "pod list"
  mNamespaces :: "string list"
  mJobs :: "job list"

definition not_found :: error where
  "not_found = ApiError NotFound ''not found''"

definition find_key :: "objkey \<Rightarrow> 'z objmeta_scheme list \<Rightarrow> error + 'z objmeta_scheme" where
  "find_key k xs = (case List.find (\<lambda>x. ObjectKeyFromObject x = k) xs of None \<Rightarrow> Inl not_found | Some x \<Rightarrow> Inr x)"

definition put :: "'z objmeta_scheme \<Rightarrow> 'z objmeta_scheme list \<Rightarrow> 'z objmeta_scheme list" where
  "put x = map (\<lambda>y. if ObjectKeyFromObject y = ObjectKeyFromObject x then x else y)"

definition without :: "objkey \<Rightarrow> 'z objmeta_scheme list \<Rightarrow> 'z objmeta_scheme list" where
  "without k = filter (\<lambda>y. ObjectKeyFromObject y \<noteq> k)"

definition has_key :: "objkey \<Rightarrow> 'z objmeta_scheme list \<Rightarrow> bool" where
  "has_key k xs = list_ex (\<lambda>y. ObjectKeyFromObject y = k) xs"

definition matches_labels :: "(string, string) gomap \<Rightarrow> 'z objmeta_scheme \<Rightarrow> bool" where
  "matches_labels ls x = list_all (\<lambda>(k, v). map_of (Labels x) k = Some v) ls"

definition list_kind :: "gvk \<Rightarrow> unstr \<Rightarrow> bool" where
  "list_kind g u = (Group (Gvk u) = Group g \<and> Version (Gvk u) = Version g \<and>
     (Kind (Gvk u) = Kind g \<or> Kind (Gvk u) @ ''List'' = Kind g))"

definition same_obj :: "unstr \<Rightarrow> unstr \<Rightarrow> bool" where
  "same_obj u v = (Gvk u = Gvk v \<and> ObjectKeyFromObject u = ObjectKeyFromObject v)"

definition mem_delete :: "string \<Rightarrow> objkey \<Rightarrow> cluster \<Rightarrow> error option \<times> cluster" where
  "mem_delete kind k w =
     (if kind = ''Secret'' then
        if has_key k (mSecrets w) then (None, w\<lparr>mSecrets := without k (mSecrets w)\<rparr>) else (Some not_found, w)
      else if kind = ''ConfigMap'' then
        if has_key k (mConfigMaps w) then (None, w\<lparr>mConfigMaps := without k (mConfigMaps w)\<rparr>) else (Some not_found, w)
      else if kind = ''Pod'' then
        if has_key k (mPods w) then (None, w\<lparr>mPods := without k (mPods w)\<rparr>) else (Some not_found, w)
      else if list_ex (\<lambda>u. GetKind u = kind \<and> ObjectKeyFromObject u = k) (mObjs w)
        then (None, w\<lparr>mObjs := filter (\<lambda>u. \<not> (GetKind u = kind \<and> ObjectKeyFromObject u = k)) (mObjs w)\<rparr>)
        else (Some not_found, w))"

definition mem_client :: "cluster client" where
  "mem_client = \<lparr>
     clGetSecret = \<lambda>k w. (find_key k (mSecrets w), w),
     clGetConfigMap = \<lambda>k w. (find_key k (mConfigMaps w), w),
     clGetBtpOperator = \<lambda>k w. (find_key k (mCrs w), w),
     clGetCRD = \<lambda>n w. (if n \<in> set (mCRDs w) then None else Some not_found, w),
     clGetUnstructured = \<lambda>g k w. (find_key k (filter (\<lambda>u. Gvk u = g) (mObjs w)), w),
     clGetJob = \<lambda>k w. (find_key k (mJobs w), w),
     clListSecrets = \<lambda>ls w. (Inr (filter (matches_labels ls) (mSecrets w)), w),
     clListPods = \<lambda>ns ls w. (Inr (filter (\<lambda>p. (ns = [] \<or> Namespace p = ns) \<and> matches_labels ls p) (mPods w)), w),
     clListNamespaces = \<lambda>w. (Inr (mNamespaces w), w),
     clListUnstructured = \<lambda>g ns w.
       (Inr (filter (\<lambda>u. list_kind g u \<and> (ns = [] \<or> Namespace u = ns)) (mObjs w)), w),
     clCreate = \<lambda>u w.
       (if list_ex (same_obj u) (mObjs w) then (Some (ApiError AlreadyExists ''already exists''), w)
        else (None, w\<lparr>mObjs := mObjs w @ [u]\<rparr>)),
     clCreateJob = \<lambda>j w. (None, w\<lparr>mJobs := mJobs w @ [j]\<rparr>),
     clUpdate = \<lambda>u w.
       (if list_ex (same_obj u) (mObjs w)
        then (None, w\<lparr>mObjs := map (\<lambda>v. if same_obj u v then u else v) (mObjs w)\<rparr>)
        else (Some not_found, w)),
     clUpdateSecret = \<lambda>x w.
       (if has_key (ObjectKeyFromObject x) (mSecrets w) then (Inr x, w\<lparr>mSecrets := put x (mSecrets w)\<rparr>)
        else (Inl not_found, w)),
     clUpdateBtpOperator = \<lambda>x w.
       (if has_key (ObjectKeyFromObject x) (mCrs w) then (Inr x, w\<lparr>mCrs := put x (mCrs w)\<rparr>)
        else (Inl not_found, w)),
     clStatusUpdate = \<lambda>x w.
       (if has_key (ObjectKeyFromObject x) (mCrs w) then (Inr x, w\<lparr>mCrs := put x (mCrs w)\<rparr>)
        else (Inl not_found, w)),
     clPatchBtpOperator = \<lambda>b x w.
       (if has_key (ObjectKeyFromObject x) (mCrs w) then (None, w\<lparr>mCrs := put x (mCrs w)\<rparr>)
        else (Some not_found, w)),
     clDelete = mem_delete,
     clDeleteAllOf = \<lambda>g ns ls w.
       (None, w\<lparr>mObjs := filter (\<lambda>u. \<not> (Gvk u = g \<and> Namespace u = ns \<and> matches_labels ls u)) (mObjs w)\<rparr>)\<rparr>"

definition mem_env :: "cluster env" where
  "mem_env = \<lparr>cli = mem_client, apicli = mem_client, latency = (\<lambda>w. 0), conf = default_config,
     libSetStatusCondition = set_condition, libAddFinalizer = add_finalizer,
     libRemoveFinalizer = remove_finalizer, sortSlice = sort_less,
     gvkString = (\<lambda>g. Group g @ ''/'' @ Version g @ '', Kind='' @ Kind g), selectTimer = (\<lambda>w. False)\<rparr>"

definition empty_cluster :: cluster where
  "empty_cluster = \<lparr>mSecrets = [], mConfigMaps = [], mCrs = [], mCRDs = [], mObjs = [], mPods = [],
     mNamespaces = [''kyma-system''], mJobs = []\<rparr>"

definition example_status :: status where
  "example_status = \<lparr>CrState = StateProcessing, Conditions = []\<rparr>"

definition primary_cr :: "status \<Rightarrow> btpoperator" where
  "primary_cr st = \<lparr>Name = BtpOperatorCrName, Namespace = KymaSystemNamespaceName, Labels = [], Annotations = [],
     Finalizers = [deletionFinalizer], DeletionTimestamp = None, ResourceVersion = ''1'', Status = st\<rparr>"

definition cr_cluster :: "status \<Rightarrow> cluster" where
  "cr_cluster st = empty_cluster\<lparr>mCrs := [primary_cr st]\<rparr>"

definition cr_kstate :: "status \<Rightarrow> cluster kstate" where
  "cr_kstate st = \<lparr>api = cr_cluster st, clock = 0, trace = [], crp = primary_cr st\<rparr>"

lemmas mem_simps =
  mem_env_def mem_client_def empty_cluster_def primary_cr_def cr_cluster_def cr_kstate_def find_key_def
  put_def without_def has_key_def matches_labels_def list_kind_def same_obj_def mem_delete_def not_found_def
  example_status_def ObjectKeyFromObject_def BtpOperatorCrName_def KymaSystemNamespaceName_def

lemma mem_env_simps [simp]:
  "cli mem_env = mem_client" "apicli mem_env = mem_client" "latency mem_env w = 0"
  "conf mem_env = default_config" "libSetStatusCondition mem_env = set_condition"
  "libAddFinalizer mem_env = add_finalizer" "libRemoveFinalizer mem_env = remove_finalizer"
  "sortSlice mem_env = sort_less" "gvkString mem_env g = Group g @ ''/'' @ Version g @ '', Kind='' @ Kind g"
  "selectTimer mem_env w = False"
  by (simp_all add: mem_env_def)

lemma default_config_simps [simp]:
  "StatusUpdateTimeout default_config = 10 * Second"
  "StatusUpdateCheckInterval default_config = 500 * Millisecond"
  by (simp_all add: default_config_def)

end
