(* ===== verification/Status_Updater.thy ===== *)
theory Status_Updater
  imports Mem_Cluster
begin

text \<open>
  \<^verbatim>\<open>UpdateBtpOperatorStatus\<close> of the reconciler: the loop that reads the CR, writes the wanted state and
  condition, and reads again until the CR shows them or the time is up. The CR is the object behind the
  caller's pointer (\<open>crp\<close>), which every read and every answered write overwrites.
\<close>

section \<open>The loop\<close>

text \<open>
  One pass of the loop starts with the time check of the \<^verbatim>\<open>for\<close> clause. \<open>err\<close> is the Go variable, the
  error of the last request. Fuel counts passes; running out of it is the value \<open>Diverged\<close>.
\<close>

primrec status_loop ::
    "('w, 'v) env_scheme \<Rightarrow> int \<Rightarrow> cr_state \<Rightarrow> reason \<Rightarrow> string \<Rightarrow> nat \<Rightarrow> error option
      \<Rightarrow> (('w, 'z) kstate_scheme, error option) state" where
  "status_loop E timeout newState reason message 0 err = ret (Some Diverged)"
| "status_loop E timeout newState reason message (Suc n) err = do {
     now \<leftarrow> Now;
     if \<not> now < timeout then ret err
     else do {
       cr \<leftarrow> get_cr;
       r \<leftarrow> GetBtpOperator E cli (ObjectKeyFromObject cr);
       case r of
         Inl e \<Rightarrow>
           if IsNotFound e then ret None
           else do {
             Sleep (StatusUpdateCheckInterval (conf E));
             status_loop E timeout newState reason message n (Some e) }
       | Inr cr \<Rightarrow> do {
           set_cr cr;
           if CrState (Status cr) = newState \<and> IsMsgForGivenReasonEqual cr (reason_string reason) message
           then ret None
           else do {
             let st = WithState (Status cr) newState;
             let newConditions =
               (case ConditionFromExistingReason reason message of
                  None \<Rightarrow> Some (Conditions st)
                | Some newCondition \<Rightarrow>
                    SetStatusCondition (libSetStatusCondition E) (Conditions st) newCondition);
             case newConditions of
               None \<Rightarrow> ret (Some (Panicked ''nil condition pointer''))
             | Some cs \<Rightarrow> do {
                 let cr' = SetStatus cr (st\<lparr>Conditions := cs\<rparr>);
                 set_cr cr';
                 u \<leftarrow> StatusUpdate E cli cr';
                 case u of
                   Inl e \<Rightarrow> do {
                     Sleep (StatusUpdateCheckInterval (conf E));
                     status_loop E timeout newState reason message n (Some e) }
                 | Inr updated \<Rightarrow> do {
                     set_cr updated;
                     Sleep (StatusUpdateCheckInterval (conf E));
                     status_loop E timeout newState reason message n None } } } } } }"

text \<open>Every pass that does not return sleeps for the check interval, which bounds the number of passes.\<close>

definition status_fuel :: "config \<Rightarrow> nat" where
  "status_fuel c = nat (StatusUpdateTimeout c div StatusUpdateCheckInterval c) + 2"

definition UpdateBtpOperatorStatus ::
    "('w, 'v) env_scheme \<Rightarrow> cr_state \<Rightarrow> reason \<Rightarrow> string \<Rightarrow> (('w, 'z) kstate_scheme, error option) state" where
  "UpdateBtpOperatorStatus E newState reason message = do {
     start \<leftarrow> Now;
     status_loop E (start + StatusUpdateTimeout (conf E)) newState reason message (status_fuel (conf E)) None }"

section \<open>Number of passes\<close>

lemma status_loop_more_fuel:
  assumes "0 < StatusUpdateCheckInterval (conf E)"
    and "timeout \<le> clock s + int n * StatusUpdateCheckInterval (conf E)"
  shows "run_state (status_loop E timeout st r msg (Suc n + k) err) s =
         run_state (status_loop E timeout st r msg (Suc n) err) s"
  using assms(2)
proof (induction n arbitrary: s err)
  case 0
  then show ?case by (simp add: run_simps)
next
  case (Suc n)
  have later: "timeout \<le> clock s' + int n * StatusUpdateCheckInterval (conf E)"
    if "clock s + StatusUpdateCheckInterval (conf E) \<le> clock s'" for s' :: "('a, 'c) kstate_scheme"
    using that Suc.prems by (simp add: algebra_simps)
  have step: "run_state (status_loop E timeout st r msg (Suc (n + k)) e) s' =
              run_state (status_loop E timeout st r msg (Suc n) e) s'"
    if "clock s + StatusUpdateCheckInterval (conf E) \<le> clock s'" for e and s' :: "('a, 'c) kstate_scheme"
    using Suc.IH[OF later[OF that]] by simp
  have slept: "clock s + StatusUpdateCheckInterval (conf E)
                 \<le> clock s + int a + int b + max 0 (StatusUpdateCheckInterval (conf E))"
    "clock s + StatusUpdateCheckInterval (conf E) \<le> clock s + int a + max 0 (StatusUpdateCheckInterval (conf E))"
    for a b
    by simp_all
  show ?case
    unfolding add_Suc status_loop.simps(2)[of _ _ _ _ _ "Suc (n + k)"] status_loop.simps(2)[of _ _ _ _ _ "Suc n"]
    by (auto simp: run_simps Let_def step slept split: sum.split option.split simp del: status_loop.simps)
qed

text \<open>The clock never runs backwards, so the fuel chosen is enough from any start.\<close>

lemma status_fuel_enough:
  assumes "0 < StatusUpdateCheckInterval c"
  shows "t + StatusUpdateTimeout c \<le> t + int (status_fuel c - 1) * StatusUpdateCheckInterval c"
  using poll_bound[OF assms, of "StatusUpdateTimeout c"] by (simp add: status_fuel_def)

section \<open>What a pass may write\<close>

definition status_write :: "cr_state \<Rightarrow> reason \<Rightarrow> string \<Rightarrow> btpoperator \<Rightarrow> bool" where
  "status_write st r msg o' \<longleftrightarrow>
     CrState (Status o') = st \<and> msg_in (Conditions (Status o')) (reason_string r) msg"

definition status_events :: "cr_state \<Rightarrow> reason \<Rightarrow> string \<Rightarrow> event set" where
  "status_events st r msg =
     range (EvGet ''BtpOperator'') \<union> EvStatusUpdate ` {o'. status_write st r msg o'} \<union> range EvSleep"

lemma status_events_simps [simp]:
  "EvGet ''BtpOperator'' k \<in> status_events st r msg"
  "EvSleep d \<in> status_events st r msg"
  "EvStatusUpdate o' \<in> status_events st r msg \<longleftrightarrow> status_write st r msg o'"
  by (auto simp: status_events_def)

lemma status_write_set:
  assumes "condition_setter (libSetStatusCondition E)"
    and "SetStatusCondition (libSetStatusCondition E) (Conditions (WithState (Status cr) st)) c = Some cs"
    and "CndReason c = reason_string r" and "CndMessage c = msg"
  shows "status_write st r msg (SetStatus cr (WithState (Status cr) st\<lparr>Conditions := cs\<rparr>))"
  using condition_setter.wrapper_msg_in[OF assms(1,2)] assms(3,4)
  by (simp add: status_write_def SetStatus_def WithState_def)

lemma emits_status_loop:
  assumes "condition_setter (libSetStatusCondition E)"
  shows "emits (status_events st r msg) (status_loop E timeout st r msg n err)"
proof (induction n arbitrary: err)
  case 0
  then show ?case by (simp add: emits_intros)
next
  case (Suc n)
  show ?case
    by (auto intro!: emits_intros Suc.IH status_write_set[OF assms] simp: Let_def)
qed

lemma emits_UpdateBtpOperatorStatus:
  "condition_setter (libSetStatusCondition E)
    \<Longrightarrow> emits (status_events st r msg) (UpdateBtpOperatorStatus E st r msg)"
  by (auto simp: UpdateBtpOperatorStatus_def intro!: emits_intros emits_status_loop)

lemma status_loop_requests:
  "length (trace (snd (run_state (status_loop E timeout st r msg n err) s))) \<le> length (trace s) + 3 * n"
proof (induction n arbitrary: err s)
  case 0
  then show ?case by simp
next
  case (Suc n)
  have le: "length (trace (snd (run_state (status_loop E timeout st r msg n e) s'))) \<le> length (trace s) + (3 + 3 * n)"
    if "length (trace s') \<le> length (trace s) + 3" for e and s' :: "('a, 'b) kstate_scheme"
    using order_trans[OF Suc.IH[of e s'] add_right_mono[OF that]] by simp
  show ?case
    by (auto simp: run_simps Let_def split: sum.split option.split intro!: le)
qed

text \<open>
  One round of a client that answers: the CR is read, written, and read back as it was written before
  the time is up.
\<close>

definition reads_back ::
    "('w, 'v) env_scheme \<Rightarrow> cr_state \<Rightarrow> reason \<Rightarrow> string \<Rightarrow> btpoperator \<Rightarrow> condition list \<Rightarrow> btpoperator
      \<Rightarrow> ('w, 'z) kstate_scheme \<Rightarrow> bool" where
  "reads_back E st r msg old cs new s \<longleftrightarrow>
     (\<exists>w1 w2 w3.
        clGetBtpOperator (cli E) (ObjectKeyFromObject (crp s)) (api s) = (Inr old, w1) \<and>
        clStatusUpdate (cli E) new w1 = (Inr new, w2) \<and>
        clGetBtpOperator (cli E) (ObjectKeyFromObject (crp s)) w2 = (Inr new, w3) \<and>
        int (latency E w1) + int (latency E w2) + StatusUpdateCheckInterval (conf E)
          < StatusUpdateTimeout (conf E)) \<and>
     Conditions (Status old) = map Some cs \<and>
     ObjectKeyFromObject old = ObjectKeyFromObject (crp s) \<and>
     new = old\<lparr>Status := \<lparr>CrState = st, Conditions = map Some (libSetStatusCondition E cs
       \<lparr>CndType = ReadyType, CndStatus = reason_status r, CndReason = reason_string r,
        CndMessage = msg, CndObservedGeneration = 0\<rparr>)\<rparr>\<rparr>"

section \<open>Properties\<close>

text \<open>
  C31: with a positive check interval the update loop ends: the number of passes the model allows is
  never the limit (any larger number gives the same run), and it sends at most three requests per pass.
\<close>

theorem status_update_terminates:
  assumes "0 < StatusUpdateCheckInterval (conf E)" and "status_fuel (conf E) \<le> n"
  shows "run_state (status_loop E (clock s + StatusUpdateTimeout (conf E)) st r msg n None) s =
           run_state (UpdateBtpOperatorStatus E st r msg) s \<and>
         length (trace (snd (run_state (UpdateBtpOperatorStatus E st r msg) s)))
           \<le> length (trace s) + 3 * (nat (StatusUpdateTimeout (conf E) div StatusUpdateCheckInterval (conf E)) + 2)"
proof -
  let ?T = "clock s + StatusUpdateTimeout (conf E)" and ?n = "status_fuel (conf E)"
  have "Suc (?n - 1) = ?n" by (simp add: status_fuel_def)
  with status_loop_more_fuel[OF assms(1), of ?T s "?n - 1" st r msg "n - ?n" None]
    status_fuel_enough[OF assms(1), of "clock s"] assms(2)
  have "run_state (status_loop E ?T st r msg n None) s = run_state (status_loop E ?T st r msg ?n None) s"
    by simp
  then show ?thesis
    using status_loop_requests[of E ?T st r msg ?n None s]
    by (simp add: UpdateBtpOperatorStatus_def run_simps status_fuel_def)
qed


text \<open>
  C8: whatever the API server answers, a status update sends only reads of the CR and status writes
  that carry the wanted state together with a condition of the wanted reason and message.
\<close>

theorem status_update_writes:
  assumes "condition_setter (libSetStatusCondition E)"
    and "run_state (UpdateBtpOperatorStatus E st r msg) s = (err, s')"
  shows "\<exists>t. trace s' = trace s @ t \<and>
           set t \<subseteq> range (EvGet ''BtpOperator'') \<union> range EvSleep \<union>
             EvStatusUpdate ` {o'. CrState (Status o') = st \<and> IsMsgForGivenReasonEqual o' (reason_string r) msg}"
proof -
  obtain t where "trace s' = trace s @ t" "set t \<subseteq> status_events st r msg"
    using emitsD[OF emits_UpdateBtpOperatorStatus[OF assms(1)] assms(2)] by blast
  then show ?thesis by (auto simp: status_events_def status_write_def IsMsgForGivenReasonEqual_def)
qed

section \<open>Witnesses\<close>

theorem status_update_terminates_witness:
  "run_state (status_loop mem_env (0 + 10 * Second) StateReady ReconcileSucceeded ''ok'' 100 None)
     (cr_kstate example_status) =
   run_state (UpdateBtpOperatorStatus mem_env StateReady ReconcileSucceeded ''ok'') (cr_kstate example_status)"
  using status_update_terminates[of mem_env 100 "cr_kstate example_status" StateReady ReconcileSucceeded "''ok''"]
  by (simp add: status_fuel_def cr_kstate_def)

definition example_ready :: status where
  "example_ready = \<lparr>CrState = StateReady, Conditions = [Some
     \<lparr>CndType = ReadyType, CndStatus = reason_status ReconcileSucceeded,
      CndReason = reason_string ReconcileSucceeded, CndMessage = ''ok'', CndObservedGeneration = 0\<rparr>]\<rparr>"

lemma example_reads_back:
  "reads_back mem_env StateReady ReconcileSucceeded ''ok'' (primary_cr example_status) []
     (primary_cr example_ready) (cr_kstate example_status)"
  by (simp add: reads_back_def mem_simps example_ready_def)


theorem status_update_writes_witness:
  "\<exists>t. trace (snd (run_state (UpdateBtpOperatorStatus mem_env StateReady ReconcileSucceeded ''ok'')
          (cr_kstate example_status))) = [] @ t \<and>
       set t \<subseteq> range (EvGet ''BtpOperator'') \<union> range EvSleep \<union> EvStatusUpdate ` {o'. CrState (Status o') = StateReady \<and>
         IsMsgForGivenReasonEqual o' (reason_string ReconcileSucceeded) ''ok''}"
  using status_update_writes[OF _ prod.collapse[symmetric], of mem_env StateReady ReconcileSucceeded "''ok''"
      "cr_kstate example_status"]
  by (simp add: setc.condition_setter_axioms cr_kstate_def)

end
