(* ===== verification/Drift.thy ===== *)
theory Drift
  imports Status_Updater
begin

text \<open>
  The drift detector (\<^verbatim>\<open>internal/credentials/drift\<close>): it remembers the cluster ID and the credentials
  namespace found in the manager's secret, compares them with what the operand uses, leaves the previous
  values as annotations on the secret, and deletes the operand's outdated secrets and pod.
\<close>

section \<open>State\<close>

record drift_detector =
  previousCredentialsNamespace :: string
  clusterIdFromSapBtpManagerSecret :: string
  clusterIdFromSapBtpServiceOperatorConfigMap :: string
  clusterIdFromSapBtpServiceOperatorClusterIdSecret :: string
  credentialsNamespaceFromSapBtpManagerSecret :: string
  credentialsNamespaceFromSapBtpServiceOperatorSecret :: string

record 'w dstate = "'w kstate" +
  dd :: drift_detector

definition SapBtpServiceOperatorSecretName :: string where
  "SapBtpServiceOperatorSecretName = ''sap-btp-service-operator''"

definition SapBtpServiceOperatorClusterIdSecretName :: string where
  "SapBtpServiceOperatorClusterIdSecretName = operandName @ ''-clusterid''"

definition SapBtpServiceOperatorConfigMapName :: string where
  "SapBtpServiceOperatorConfigMapName = operandName @ ''-config''"

definition ClusterIdConfigMapKey :: string where
  "ClusterIdConfigMapKey = ''CLUSTER_ID''"

definition clusterIdSecretKey :: string where
  "clusterIdSecretKey = ''cluster_id''"

definition credentialsNamespaceSecretKey :: string where
  "credentialsNamespaceSecretKey = ''credentials_namespace''"

definition initialClusterIdSecretKey :: string where
  "initialClusterIdSecretKey = ''INITIAL_CLUSTER_ID''"

definition previousClusterIdAnnotationKey :: string where
  "previousClusterIdAnnotationKey = ''operator.kyma-project.io/previous-cluster-id''"

definition previousCredentialsNamespaceAnnotationKey :: string where
  "previousCredentialsNamespaceAnnotationKey = ''operator.kyma-project.io/previous-credentials-namespace''"

definition instanceLabelKey :: string where
  "instanceLabelKey = ''app.kubernetes.io/instance''"

definition modify_dd :: "(drift_detector \<Rightarrow> drift_detector) \<Rightarrow> (('w, 'z) dstate_scheme, unit) state" where
  "modify_dd f = modify (\<lambda>s. s\<lparr>dd := f (dd s)\<rparr>)"

section \<open>Operations\<close>

text \<open>\<open>None\<close> is the nil pointer that the caller passes when there is no secret.\<close>

definition detector_from_secret :: "config \<Rightarrow> secret option \<Rightarrow> drift_detector \<Rightarrow> drift_detector" where
  "detector_from_secret c so d =
     (let ns = (case so of
                  None \<Rightarrow> ChartNamespace c
                | Some x \<Rightarrow>
                    (case map_of (Data x) credentialsNamespaceSecretKey of
                       None \<Rightarrow> ChartNamespace c
                     | Some v \<Rightarrow> if length v > 0 then v else ChartNamespace c));
          d1 = (case so of
                  None \<Rightarrow> d
                | Some x \<Rightarrow> d\<lparr>clusterIdFromSapBtpManagerSecret := mget (Data x) clusterIdSecretKey,
                    previousCredentialsNamespace := mget (Annotations x) previousCredentialsNamespaceAnnotationKey\<rparr>)
      in d1\<lparr>credentialsNamespaceFromSapBtpManagerSecret := ns,
            credentialsNamespaceFromSapBtpServiceOperatorSecret := ns\<rparr>)"

definition InitializeFromSecret ::
    "('w, 'v) env_scheme \<Rightarrow> secret option \<Rightarrow> (('w, 'z) dstate_scheme, unit) state" where
  "InitializeFromSecret E so = modify_dd (detector_from_secret (conf E) so)"

definition annotateSecret ::
    "('w, 'v) env_scheme \<Rightarrow> secret \<Rightarrow> string \<Rightarrow> string
      \<Rightarrow> (('w, 'z) dstate_scheme, error option \<times> secret) state" where
  "annotateSecret E s key value =
     (if mget (Annotations s) key = value then ret (None, s)
      else do {
        let s' = s\<lparr>Annotations := mset_key key value (Annotations s)\<rparr>;
        r \<leftarrow> UpdateSecret E cli s';
        case r of Inl e \<Rightarrow> ret (Some e, s') | Inr x \<Rightarrow> ret (None, x) })"

definition drift_getSecretByNameAndNamespace ::
    "('w, 'v) env_scheme \<Rightarrow> string \<Rightarrow> string \<Rightarrow> (('w, 'z) dstate_scheme, error + secret option) state" where
  "drift_getSecretByNameAndNamespace E name ns = do {
     r \<leftarrow> GetSecret E apicli \<lparr>KeyName = name, KeyNamespace = ns\<rparr>;
     case r of
       Inl e \<Rightarrow> if IsNotFound e then ret (Inr None)
                 else ret (Inl (wrap (''while getting '' @ name @ '' secret from '' @ ns @ '' namespace: '') e))
     | Inr x \<Rightarrow> ret (Inr (Some x)) }"

definition getSapBtpServiceOperatorPod ::
    "('w, 'v) env_scheme \<Rightarrow> (('w, 'z) dstate_scheme, error + pod option) state" where
  "getSapBtpServiceOperatorPod E = do {
     r \<leftarrow> ListPods E apicli [] [(instanceLabelKey, operandName)];
     case r of
       Inl e \<Rightarrow> ret (Inl (wrap ''unable to list SAP BTP service operator pods: '' e))
     | Inr pods \<Rightarrow>
         ret (Inr (List.find (\<lambda>p. HasPrefix (Name p) operandName \<and> Namespace p = ChartNamespace (conf E)) pods)) }"

text \<open>The kind in the message is that of a typed object read by the client, whose type information is empty.\<close>

definition deleteObject ::
    "('w, 'v) env_scheme \<Rightarrow> string \<Rightarrow> objkey \<Rightarrow> (('w, 'z) dstate_scheme, error option) state" where
  "deleteObject E kind k = do {
     r \<leftarrow> Delete E apicli kind k;
     case r of
       None \<Rightarrow> ret None
     | Some e \<Rightarrow> ret (Some (wrap (''while deleting '' @ KeyName k @ ''  from '' @ KeyNamespace k @ '' namespace: '') e)) }"

definition restartSapBtpServiceOperatorPodIfNotReady ::
    "('w, 'v) env_scheme \<Rightarrow> (('w, 'z) dstate_scheme, error option) state" where
  "restartSapBtpServiceOperatorPodIfNotReady E = do {
     r \<leftarrow> getSapBtpServiceOperatorPod E;
     case r of
       Inl e \<Rightarrow> ret (Some e)
     | Inr None \<Rightarrow> ret None
     | Inr (Some pod) \<Rightarrow>
         if list_ex (\<lambda>c. c = (''Ready'', ''False'')) (PodConditions pod)
         then deleteObject E ''Pod'' (ObjectKeyFromObject pod)
         else ret None }"

text \<open>The loop over the sorted secrets: the one in the previous namespace at once, else the first found.\<close>

fun pick_secret :: "string \<Rightarrow> secret option \<Rightarrow> secret list \<Rightarrow> secret option" where
  "pick_secret prev found [] = found"
| "pick_secret prev found (x # xs) =
     (if Name x \<noteq> SapBtpServiceOperatorSecretName then pick_secret prev found xs
      else if Namespace x = prev then Some x
      else pick_secret prev (case found of None \<Rightarrow> Some x | Some y \<Rightarrow> Some y) xs)"

definition GetDefaultCredentialsSecret ::
    "('w, 'v) env_scheme \<Rightarrow> (('w, 'z) dstate_scheme, error + secret option) state" where
  "GetDefaultCredentialsSecret E = do {
     r \<leftarrow> ListSecrets E cli [(managedByLabelKey, operatorName)];
     case r of
       Inl e \<Rightarrow> ret (Inl (wrap ''unable to list managed secrets: '' e))
     | Inr items \<Rightarrow>
         if length items = 0 then ret (Inr None)
         else do {
           prev \<leftarrow> gets (\<lambda>s. previousCredentialsNamespace (dd s));
           ret (Inr (pick_secret prev None (sortSlice E (\<lambda>a b. Namespace a < Namespace b) items))) } }"

definition GetSapBtpServiceOperatorConfigMap ::
    "('w, 'v) env_scheme \<Rightarrow> (('w, 'z) dstate_scheme, error + configmap option) state" where
  "GetSapBtpServiceOperatorConfigMap E = do {
     r \<leftarrow> GetConfigMap E cli
            \<lparr>KeyName = SapBtpServiceOperatorConfigMapName, KeyNamespace = ChartNamespace (conf E)\<rparr>;
     case r of
       Inl e \<Rightarrow> if IsNotFound e then ret (Inr None) else ret (Inl e)
     | Inr cm \<Rightarrow> ret (Inr (Some cm)) }"

text \<open>
  The Check and Resolve methods return the error with its reason, and the required secret as they leave
  it behind the pointer.
\<close>

definition CheckCredentialsNamespaceDrift ::
    "('w, 'v) env_scheme \<Rightarrow> secret \<Rightarrow> (('w, 'z) dstate_scheme, ErrorWithReason option \<times> secret) state" where
  "CheckCredentialsNamespaceDrift E required = do {
     r \<leftarrow> GetDefaultCredentialsSecret E;
     case r of
       Inl e \<Rightarrow> ret (Some (NewErrorWithReason GettingDefaultCredentialsSecretFailed (Error e)), required)
     | Inr None \<Rightarrow> ret (None, required)
     | Inr (Some x) \<Rightarrow> do {
         modify_dd (\<lambda>d. d\<lparr>credentialsNamespaceFromSapBtpServiceOperatorSecret := Namespace x\<rparr>);
         d \<leftarrow> gets dd;
         if credentialsNamespaceFromSapBtpManagerSecret d \<noteq> credentialsNamespaceFromSapBtpServiceOperatorSecret d
         then do {
           (err, required) \<leftarrow> annotateSecret E required previousCredentialsNamespaceAnnotationKey
                                (credentialsNamespaceFromSapBtpServiceOperatorSecret d);
           case err of
             Some e \<Rightarrow> ret (Some (NewErrorWithReason AnnotatingSecretFailed (Error e)), required)
           | None \<Rightarrow> ret (None, required) }
         else ret (None, required) } }"

definition CheckClusterIdConfigMapDrift ::
    "('w, 'v) env_scheme \<Rightarrow> secret \<Rightarrow> (('w, 'z) dstate_scheme, ErrorWithReason option \<times> secret) state" where
  "CheckClusterIdConfigMapDrift E required = do {
     r \<leftarrow> GetSapBtpServiceOperatorConfigMap E;
     case r of
       Inl e \<Rightarrow> ret (Some (NewErrorWithReason GettingSapBtpServiceOperatorConfigMapFailed (Error e)), required)
     | Inr None \<Rightarrow> ret (None, required)
     | Inr (Some cm) \<Rightarrow> do {
         let cid = mget (CmData cm) (ToUpper clusterIdSecretKey);
         modify_dd (\<lambda>d. d\<lparr>clusterIdFromSapBtpServiceOperatorConfigMap := cid,
                           clusterIdFromSapBtpServiceOperatorClusterIdSecret := cid\<rparr>);
         d \<leftarrow> gets dd;
         if clusterIdFromSapBtpManagerSecret d \<noteq> clusterIdFromSapBtpServiceOperatorConfigMap d
         then do {
           (err, required) \<leftarrow> annotateSecret E required previousClusterIdAnnotationKey
                                (clusterIdFromSapBtpServiceOperatorConfigMap d);
           case err of
             Some e \<Rightarrow> ret (Some (NewErrorWithReason AnnotatingSecretFailed (Error e)), required)
           | None \<Rightarrow> ret (None, required) }
         else ret (None, required) } }"

definition ResolveClusterIdSecretDrift ::
    "('w, 'v) env_scheme \<Rightarrow> secret \<Rightarrow> (('w, 'z) dstate_scheme, ErrorWithReason option \<times> secret) state" where
  "ResolveClusterIdSecretDrift E required = do {
     ns \<leftarrow> gets (\<lambda>s. credentialsNamespaceFromSapBtpServiceOperatorSecret (dd s));
     r \<leftarrow> drift_getSecretByNameAndNamespace E SapBtpServiceOperatorClusterIdSecretName ns;
     case r of
       Inl e \<Rightarrow> ret (Some (NewErrorWithReason GettingSapBtpServiceOperatorClusterIdSecretFailed (Error e)), required)
     | Inr None \<Rightarrow> ret (None, required)
     | Inr (Some x) \<Rightarrow> do {
         (case map_of (Data x) initialClusterIdSecretKey of
            None \<Rightarrow> skip
          | Some v \<Rightarrow>
              if length v > 0
              then modify_dd (\<lambda>d. d\<lparr>clusterIdFromSapBtpServiceOperatorClusterIdSecret := v\<rparr>)
              else skip);
         d \<leftarrow> gets dd;
         if clusterIdFromSapBtpServiceOperatorConfigMap d \<noteq> clusterIdFromSapBtpServiceOperatorClusterIdSecret d
         then do {
           (err, required) \<leftarrow> annotateSecret E required previousClusterIdAnnotationKey
                                (clusterIdFromSapBtpServiceOperatorClusterIdSecret d);
           case err of
             Some e \<Rightarrow> ret (Some (NewErrorWithReason AnnotatingSecretFailed (Error e)), required)
           | None \<Rightarrow> do {
               err \<leftarrow> deleteObject E ''Secret'' (ObjectKeyFromObject x);
               case err of
                 Some e \<Rightarrow> ret (Some (NewErrorWithReason DeletionOfOrphanedResourcesFailed (Error e)), required)
               | None \<Rightarrow> do {
                   err \<leftarrow> restartSapBtpServiceOperatorPodIfNotReady E;
                   case err of
                     Some e \<Rightarrow> ret (Some (NewErrorWithReason ResourceRemovalFailed
                       (''while restarting SAP BTP service operator pod: '' @ Error e)), required)
                   | None \<Rightarrow> ret (None, required) } } }
         else ret (None, required) } }"

definition isCredentialsNamespaceChanged :: "drift_detector \<Rightarrow> bool" where
  "isCredentialsNamespaceChanged d =
     (credentialsNamespaceFromSapBtpServiceOperatorSecret d \<noteq> [] \<and>
      credentialsNamespaceFromSapBtpManagerSecret d \<noteq> credentialsNamespaceFromSapBtpServiceOperatorSecret d)"

definition isClusterIdChanged :: "drift_detector \<Rightarrow> bool" where
  "isClusterIdChanged d =
     (clusterIdFromSapBtpServiceOperatorConfigMap d \<noteq> [] \<and>
      (clusterIdFromSapBtpManagerSecret d \<noteq> clusterIdFromSapBtpServiceOperatorConfigMap d \<or>
       clusterIdFromSapBtpServiceOperatorConfigMap d \<noteq> clusterIdFromSapBtpServiceOperatorClusterIdSecret d))"

text \<open>Deleting what is there: nothing for a nil object.\<close>

definition deleteIfPresent ::
    "('w, 'v) env_scheme \<Rightarrow> string \<Rightarrow> 'y objmeta_scheme option \<Rightarrow> (('w, 'z) dstate_scheme, error option) state" where
  "deleteIfPresent E kind ob =
     (case ob of None \<Rightarrow> ret None | Some x \<Rightarrow> deleteObject E kind (ObjectKeyFromObject x))"

definition DeleteChangedResources :: "('w, 'v) env_scheme \<Rightarrow> (('w, 'z) dstate_scheme, error option) state" where
  "DeleteChangedResources E = do {
     d \<leftarrow> gets dd;
     let ns = credentialsNamespaceFromSapBtpServiceOperatorSecret d;
     r1 \<leftarrow> drift_getSecretByNameAndNamespace E SapBtpServiceOperatorClusterIdSecretName ns;
     case r1 of
       Inl e \<Rightarrow> ret (Some e)
     | Inr clusterIdSecret \<Rightarrow> do {
         r2 \<leftarrow> getSapBtpServiceOperatorPod E;
         case r2 of
           Inl e \<Rightarrow> ret (Some e)
         | Inr pod \<Rightarrow> do {
             r3 \<leftarrow> drift_getSecretByNameAndNamespace E SapBtpServiceOperatorSecretName ns;
             case r3 of
               Inl e \<Rightarrow> ret (Some e)
             | Inr credentialsSecret \<Rightarrow> do {
                 err \<leftarrow> (if isCredentialsNamespaceChanged d \<or> isClusterIdChanged d
                        then do {
                          err \<leftarrow> deleteIfPresent E ''Secret'' clusterIdSecret;
                          case err of Some e \<Rightarrow> ret (Some e) | None \<Rightarrow> deleteIfPresent E ''Pod'' pod }
                        else ret None);
                 case err of
                   Some e \<Rightarrow> ret (Some e)
                 | None \<Rightarrow>
                     if isCredentialsNamespaceChanged d
                     then deleteIfPresent E ''Secret'' credentialsSecret
                     else ret None } } } }"

definition DeleteClusterIdSecret :: "('w, 'v) env_scheme \<Rightarrow> (('w, 'z) dstate_scheme, error option) state" where
  "DeleteClusterIdSecret E = do {
     ns \<leftarrow> gets (\<lambda>s. credentialsNamespaceFromSapBtpManagerSecret (dd s));
     r \<leftarrow> drift_getSecretByNameAndNamespace E SapBtpServiceOperatorClusterIdSecretName ns;
     case r of
       Inl e \<Rightarrow> ret (Some (wrap ''failed to get cluster ID secret: '' e))
     | Inr None \<Rightarrow> ret None
     | Inr (Some x) \<Rightarrow> do {
         err \<leftarrow> deleteObject E ''Secret'' (ObjectKeyFromObject x);
         case err of
           Some e \<Rightarrow> ret (Some (wrap ''failed to delete cluster ID secret: '' e))
         | None \<Rightarrow> ret None } }"

section \<open>Effects\<close>

definition drift_events :: "event set" where
  "drift_events = reads \<union> range EvUpdateSecret \<union> {EvDelete kind k | kind k. kind = ''Secret'' \<or> kind = ''Pod''}"

lemma drift_events_simps [simp]:
  "EvGet k n \<in> drift_events" "EvList k m \<in> drift_events" "EvUpdateSecret x \<in> drift_events"
  "EvDelete kind n \<in> drift_events \<longleftrightarrow> kind = ''Secret'' \<or> kind = ''Pod''"
  "EvStatusUpdate c \<notin> drift_events" "EvUpdateCr c \<notin> drift_events"
  by (auto simp: drift_events_def)

lemma emits_modify_dd [emits_intros]: "emits A (modify_dd f)"
  by (simp add: modify_dd_def emits_def)

lemma emits_InitializeFromSecret [emits_intros]: "emits A (InitializeFromSecret E so)"
  by (simp add: InitializeFromSecret_def emits_intros)

lemma emits_annotateSecret:
  assumes "EvUpdateSecret (x\<lparr>Annotations := mset_key key value (Annotations x)\<rparr>) \<in> A"
  shows "emits A (annotateSecret E x key value)"
  using assms by (auto simp: annotateSecret_def Let_def intro!: emits_intros)

lemma emits_getSecret [emits_intros]: "emits drift_events (drift_getSecretByNameAndNamespace E n ns)"
  by (auto simp: drift_getSecretByNameAndNamespace_def intro!: emits_intros)

lemma emits_getPod [emits_intros]: "emits drift_events (getSapBtpServiceOperatorPod E)"
  by (auto simp: getSapBtpServiceOperatorPod_def intro!: emits_intros)

lemma emits_deleteObject [emits_intros]: "EvDelete kind k \<in> A \<Longrightarrow> emits A (deleteObject E kind k)"
  by (auto simp: deleteObject_def intro!: emits_intros)

lemma emits_deleteIfPresent [emits_intros]:
  "(\<And>x. ob = Some x \<Longrightarrow> EvDelete kind (ObjectKeyFromObject x) \<in> A) \<Longrightarrow> emits A (deleteIfPresent E kind ob)"
  by (auto simp: deleteIfPresent_def intro!: emits_intros)

lemma emits_restartPod [emits_intros]: "emits drift_events (restartSapBtpServiceOperatorPodIfNotReady E)"
  by (auto simp: restartSapBtpServiceOperatorPodIfNotReady_def intro!: emits_intros)

lemma emits_GetDefaultCredentialsSecret: "emits reads (GetDefaultCredentialsSecret E)"
  by (auto simp: GetDefaultCredentialsSecret_def intro!: emits_intros)

lemma emits_GetSapBtpServiceOperatorConfigMap: "emits reads (GetSapBtpServiceOperatorConfigMap E)"
  by (auto simp: GetSapBtpServiceOperatorConfigMap_def intro!: emits_intros)

lemma reads_drift_events: "reads \<subseteq> drift_events"
  by (auto simp: drift_events_def)

lemmas emits_drift_reads [emits_intros] =
  emits_GetDefaultCredentialsSecret[THEN emits_mono, OF reads_drift_events]
  emits_GetSapBtpServiceOperatorConfigMap[THEN emits_mono, OF reads_drift_events]

lemma emits_CheckCredentialsNamespaceDrift: "emits drift_events (CheckCredentialsNamespaceDrift E x)"
  by (auto simp: CheckCredentialsNamespaceDrift_def intro!: emits_intros emits_annotateSecret)

lemma emits_CheckClusterIdConfigMapDrift: "emits drift_events (CheckClusterIdConfigMapDrift E x)"
  by (auto simp: CheckClusterIdConfigMapDrift_def Let_def intro!: emits_intros emits_annotateSecret)

lemma emits_ResolveClusterIdSecretDrift: "emits drift_events (ResolveClusterIdSecretDrift E x)"
  by (auto simp: ResolveClusterIdSecretDrift_def intro!: emits_intros emits_annotateSecret)

lemma emits_DeleteChangedResources: "emits drift_events (DeleteChangedResources E)"
  by (auto simp: DeleteChangedResources_def Let_def intro!: emits_intros)

lemma emits_DeleteClusterIdSecret: "emits drift_events (DeleteClusterIdSecret E)"
  by (auto simp: DeleteClusterIdSecret_def intro!: emits_intros)

lemma keeps_annotateSecret [keeps_intros]: "keeps dd (annotateSecret E x k v)"
  by (auto simp: annotateSecret_def UpdateSecret_def Let_def intro!: keeps_intros)

lemma keeps_CheckClusterIdConfigMapDrift:
  "keeps (\<lambda>s. (credentialsNamespaceFromSapBtpManagerSecret (dd s),
              credentialsNamespaceFromSapBtpServiceOperatorSecret (dd s))) (CheckClusterIdConfigMapDrift E x)"
  by (auto simp: CheckClusterIdConfigMapDrift_def GetSapBtpServiceOperatorConfigMap_def GetConfigMap_def
      annotateSecret_def UpdateSecret_def modify_dd_def Let_def intro!: keeps_intros keeps_modify)

section \<open>Choosing the default credentials secret\<close>

definition candidates :: "secret list \<Rightarrow> secret set" where
  "candidates items = {x \<in> set items. Name x = SapBtpServiceOperatorSecretName}"

text \<open>The contract of the choice: the previous namespace's secret if there is one, else the least namespace's.\<close>

definition chosen :: "string \<Rightarrow> secret set \<Rightarrow> secret option \<Rightarrow> bool" where
  "chosen prev cands r \<longleftrightarrow>
     (case r of
        None \<Rightarrow> cands = {}
      | Some x \<Rightarrow> x \<in> cands \<and>
          (Namespace x = prev \<or> (\<forall>y \<in> cands. Namespace y \<noteq> prev \<and> Namespace x \<le> Namespace y)))"

lemma pick_secret_found:
  assumes "sorted (map Namespace (x # xs))" and "Namespace x \<noteq> prev"
  shows "\<exists>y. pick_secret prev (Some x) xs = Some y \<and>
           (y \<in> candidates xs \<and> Namespace y = prev \<or>
            y = x \<and> (\<forall>z \<in> candidates xs. Namespace z \<noteq> prev \<and> Namespace x \<le> Namespace z))"
  using assms by (induction xs) (auto simp: candidates_def)

lemma pick_secret_chosen:
  assumes "sorted (map Namespace xs)"
  shows "chosen prev (candidates xs) (pick_secret prev None xs)"
  using assms
proof (induction xs)
  case (Cons x xs)
  show ?case
  proof (cases "Name x = SapBtpServiceOperatorSecretName \<and> Namespace x \<noteq> prev")
    case True
    with pick_secret_found[OF Cons.prems, of prev] show ?thesis
      by (auto simp: chosen_def candidates_def)
  next
    case False
    then show ?thesis using Cons by (auto simp: chosen_def candidates_def split: option.splits)
  qed
qed (simp add: chosen_def candidates_def)

lemma chosen_unique:
  assumes "chosen prev cands r" and "chosen prev cands r'" and "inj_on Namespace cands"
  shows "r = r'"
  using assms unfolding chosen_def inj_on_def by (cases r; cases r') (auto, metis antisym)

lemma candidates_inj:
  assumes "distinct (map ObjectKeyFromObject items)"
  shows "inj_on Namespace (candidates items)"
  using assms by (auto simp: inj_on_def candidates_def distinct_map ObjectKeyFromObject_def)

lemma pick_sorted:
  assumes "slice_sorter srt'"
  shows "chosen prev (candidates items) (pick_secret prev None (srt' (\<lambda>a b. Namespace a < Namespace b) items))"
proof -
  have "sorted (map Namespace (srt' (\<lambda>a b. Namespace a < Namespace b) items))"
    by (rule slice_sorter.srt_sorted[OF assms]) simp
  from pick_secret_chosen[OF this, of prev] show ?thesis
    by (simp add: candidates_def slice_sorter.srt_set[OF assms])
qed

lemma run_GetDefaultCredentialsSecret:
  assumes "clListSecrets (cli E) [(managedByLabelKey, operatorName)] (api s) = (Inr items, w)"
    and "slice_sorter (sortSlice E)"
  shows "\<exists>r. fst (run_state (GetDefaultCredentialsSecret E) s) = Inr r \<and>
             chosen (previousCredentialsNamespace (dd s)) (candidates items) r"
  using assms(1) pick_sorted[OF assms(2), of "previousCredentialsNamespace (dd s)" items]
  by (auto simp: GetDefaultCredentialsSecret_def run_simps chosen_def candidates_def)

section \<open>Which objects are deleted\<close>

definition deletions :: "event list \<Rightarrow> (string \<times> objkey) list" where
  "deletions t = List.map_filter (\<lambda>ev. case ev of EvDelete kind k \<Rightarrow> Some (kind, k) | _ \<Rightarrow> None) t"

lemma deletions_simps [simp]:
  "deletions [] = []" "deletions (t @ t') = deletions t @ deletions t'"
  "deletions (EvDelete kind k # t) = (kind, k) # deletions t" "deletions (EvGet g k # t) = deletions t"
  "deletions (EvList g n # t) = deletions t" "deletions (EvSleep d # t) = deletions t"
  by (simp_all add: deletions_def map_filter_def)

definition found_secret :: "error + secret \<Rightarrow> secret option" where
  "found_secret r = (case r of Inl e \<Rightarrow> None | Inr x \<Rightarrow> Some x)"

definition readable :: "error + secret \<Rightarrow> bool" where
  "readable r = (case r of Inl e \<Rightarrow> IsNotFound e | Inr x \<Rightarrow> True)"

definition present :: "string \<Rightarrow> 'y objmeta_scheme option \<Rightarrow> (string \<times> objkey) list" where
  "present kind ob = (case ob of None \<Rightarrow> [] | Some x \<Rightarrow> [(kind, ObjectKeyFromObject x)])"

definition outdated ::
    "config \<Rightarrow> drift_detector \<Rightarrow> error + secret \<Rightarrow> pod list \<Rightarrow> error + secret \<Rightarrow> (string \<times> objkey) list" where
  "outdated c d cid pods cred =
     (if isCredentialsNamespaceChanged d \<or> isClusterIdChanged d
      then present ''Secret'' (found_secret cid) @
           present ''Pod'' (List.find (\<lambda>p. HasPrefix (Name p) operandName \<and> Namespace p = ChartNamespace c) pods)
      else []) @
     (if isCredentialsNamespaceChanged d then present ''Secret'' (found_secret cred) else [])"

text \<open>Deleting one object of a list of outdated ones: the rest follows only when it succeeds.\<close>

lemma wp_deleteIfPresent [wp_simps]:
  "wp (deleteIfPresent E kind ob) Q s =
     (case ob of
        None \<Rightarrow> Q None s
      | Some x \<Rightarrow> wp (deleteObject E kind (ObjectKeyFromObject x)) Q s)"
  by (simp add: deleteIfPresent_def wp_simps split: option.split)

lemma wp_deleteObject [wp_simps]:
  "wp (deleteObject E kind k) Q s =
     (case clDelete (apicli E) kind k (api s) of
        (r, w) \<Rightarrow> Q (map_option (wrap (''while deleting '' @ KeyName k @ ''  from '' @ KeyNamespace k @ '' namespace: '')) r)
                     (s\<lparr>api := w, clock := clock s + int (latency E w), trace := trace s @ [EvDelete kind k]\<rparr>))"
  by (simp add: deleteObject_def Delete_def wp_simps wp_api_call split: prod.split option.split)

lemma wp_drift_getSecret:
  assumes "clGetSecret (apicli E) \<lparr>KeyName = n, KeyNamespace = ns\<rparr> (api s) = (r, w)" and "readable r"
  shows "wp (drift_getSecretByNameAndNamespace E n ns) Q s =
     Q (Inr (found_secret r)) (s\<lparr>api := w, clock := clock s + int (latency E w),
        trace := trace s @ [EvGet ''Secret'' \<lparr>KeyName = n, KeyNamespace = ns\<rparr>]\<rparr>)"
  using assms
  by (auto simp: drift_getSecretByNameAndNamespace_def GetSecret_def readable_def found_secret_def
      wp_simps wp_api_call split: sum.splits)

text \<open>What \<open>DeleteChangedResources\<close> reads before it decides, as the API server answers in that state.\<close>

definition reads_outdated ::
    "('w, 'v) env_scheme \<Rightarrow> ('w, 'z) dstate_scheme \<Rightarrow> error + secret \<Rightarrow> pod list \<Rightarrow> error + secret \<Rightarrow> bool" where
  "reads_outdated E s cid pods cred \<longleftrightarrow>
     (\<exists>w1 w2 w3. let ns = credentialsNamespaceFromSapBtpServiceOperatorSecret (dd s) in
        clGetSecret (apicli E) \<lparr>KeyName = SapBtpServiceOperatorClusterIdSecretName, KeyNamespace = ns\<rparr> (api s) = (cid, w1) \<and>
        clListPods (apicli E) [] [(instanceLabelKey, operandName)] w1 = (Inr pods, w2) \<and>
        clGetSecret (apicli E) \<lparr>KeyName = SapBtpServiceOperatorSecretName, KeyNamespace = ns\<rparr> w2 = (cred, w3)) \<and>
     readable cid \<and> readable cred"

lemma wp_DeleteChangedResources:
  assumes "reads_outdated E s cid pods cred"
  shows "wp (DeleteChangedResources E) (\<lambda>err s'. \<exists>rest.
           deletions (trace s) @ outdated (conf E) (dd s) cid pods cred = deletions (trace s') @ rest \<and>
           (err = None \<longrightarrow> rest = [])) s"
proof -
  let ?ns = "credentialsNamespaceFromSapBtpServiceOperatorSecret (dd s)"
  obtain w1 w2 w3 where
    "clGetSecret (apicli E) \<lparr>KeyName = SapBtpServiceOperatorClusterIdSecretName, KeyNamespace = ?ns\<rparr> (api s) = (cid, w1)"
    "clListPods (apicli E) [] [(instanceLabelKey, operandName)] w1 = (Inr pods, w2)"
    "clGetSecret (apicli E) \<lparr>KeyName = SapBtpServiceOperatorSecretName, KeyNamespace = ?ns\<rparr> w2 = (cred, w3)"
    "readable cid" "readable cred"
    using assms unfolding reads_outdated_def Let_def by blast
  then show ?thesis
    unfolding DeleteChangedResources_def getSapBtpServiceOperatorPod_def ListPods_def
    by (simp add: wp_simps wp_drift_getSecret wp_api_call Let_def outdated_def present_def
        split: prod.split option.split)
qed

section \<open>The Detector interface\<close>

text \<open>
  The Go interfaces as records of their methods: what the configurator needs, extended by what the
  handlers need. \<open>drift_Detector\<close> is the implementation of this file behind them.
\<close>

record 's state_reader =
  InitializeFromSecret_m :: "secret option \<Rightarrow> ('s, unit) state"
  GetDefaultCredentialsSecret_m :: "('s, error + secret option) state"
  GetSapBtpServiceOperatorConfigMap_m :: "('s, error + configmap option) state"
  CredentialsNamespaceFromManager_m :: "('s, string) state"
  ClusterIdFromManager_m :: "('s, string) state"

record 's detector = "'s state_reader" +
  CheckCredentialsNamespaceDrift_m :: "secret \<Rightarrow> ('s, ErrorWithReason option \<times> secret) state"
  CheckClusterIdConfigMapDrift_m :: "secret \<Rightarrow> ('s, ErrorWithReason option \<times> secret) state"
  ResolveClusterIdSecretDrift_m :: "secret \<Rightarrow> ('s, ErrorWithReason option \<times> secret) state"
  DeleteClusterIdSecret_m :: "('s, error option) state"
  DeleteChangedResources_m :: "('s, error option) state"

definition CredentialsNamespaceFromManager :: "(('w, 'z) dstate_scheme, string) state" where
  "CredentialsNamespaceFromManager = gets (\<lambda>s. credentialsNamespaceFromSapBtpManagerSecret (dd s))"

definition ClusterIdFromManager :: "(('w, 'z) dstate_scheme, string) state" where
  "ClusterIdFromManager = gets (\<lambda>s. clusterIdFromSapBtpManagerSecret (dd s))"

definition drift_Detector :: "('w, 'v) env_scheme \<Rightarrow> ('w, 'z) dstate_scheme detector" where
  "drift_Detector E = \<lparr>
     InitializeFromSecret_m = InitializeFromSecret E,
     GetDefaultCredentialsSecret_m = GetDefaultCredentialsSecret E,
     GetSapBtpServiceOperatorConfigMap_m = GetSapBtpServiceOperatorConfigMap E,
     CredentialsNamespaceFromManager_m = CredentialsNamespaceFromManager,
     ClusterIdFromManager_m = ClusterIdFromManager,
     CheckCredentialsNamespaceDrift_m = CheckCredentialsNamespaceDrift E,
     CheckClusterIdConfigMapDrift_m = CheckClusterIdConfigMapDrift E,
     ResolveClusterIdSecretDrift_m = ResolveClusterIdSecretDrift E,
     DeleteClusterIdSecret_m = DeleteClusterIdSecret E,
     DeleteChangedResources_m = DeleteChangedResources E\<rparr>"

text \<open>What the configurator relies on: a reader only reads.\<close>

locale operator_state_reader =
  fixes R :: "(('w, 'z) kstate_scheme, 'r) state_reader_scheme"
  assumes init_reads: "emits reads (InitializeFromSecret_m R so)"
    and secret_reads: "emits reads (GetDefaultCredentialsSecret_m R)"
    and configmap_reads: "emits reads (GetSapBtpServiceOperatorConfigMap_m R)"
    and namespace_reads: "emits reads (CredentialsNamespaceFromManager_m R)"
    and cluster_id_reads: "emits reads (ClusterIdFromManager_m R)"

interpretation drift: operator_state_reader "drift_Detector E"
  by unfold_locales
    (simp_all add: drift_Detector_def emits_InitializeFromSecret emits_GetDefaultCredentialsSecret
      emits_GetSapBtpServiceOperatorConfigMap CredentialsNamespaceFromManager_def ClusterIdFromManager_def
      emits_gets)

section \<open>Properties\<close>

text \<open>
  C34: the default credentials secret that the detector works with is the operand's secret in the previously
  recorded namespace if it is there, and otherwise the operand's secret of the least namespace; there is
  none only if no managed secret carries the operand's name.
\<close>

theorem default_credentials_secret_choice:
  assumes "clListSecrets (cli E) [(managedByLabelKey, operatorName)] (api s) = (Inr items, w)"
    and "slice_sorter (sortSlice E)"
  shows "case fst (run_state (GetDefaultCredentialsSecret E) s) of
           Inl e \<Rightarrow> False
         | Inr None \<Rightarrow> \<forall>x \<in> set items. Name x \<noteq> SapBtpServiceOperatorSecretName
         | Inr (Some x) \<Rightarrow> x \<in> set items \<and> Name x = SapBtpServiceOperatorSecretName \<and>
             (Namespace x = previousCredentialsNamespace (dd s) \<or>
              (\<forall>y \<in> set items. Name y = SapBtpServiceOperatorSecretName \<longrightarrow>
                 Namespace y \<noteq> previousCredentialsNamespace (dd s) \<and> Namespace x \<le> Namespace y))"
  using run_GetDefaultCredentialsSecret[OF assms]
  by (auto simp: chosen_def candidates_def split: option.splits)

text \<open>
  C35: that choice depends neither on the order in which the API server lists the secrets nor on how
  \<^verbatim>\<open>sort.Slice\<close> arranges equal elements.
\<close>

theorem default_credentials_secret_deterministic:
  assumes "clListSecrets (cli E) [(managedByLabelKey, operatorName)] (api s) = (Inr items, w)"
    and "clListSecrets (cli E') [(managedByLabelKey, operatorName)] (api s') = (Inr items', w')"
    and "mset items = mset items'" and "distinct (map ObjectKeyFromObject items)"
    and "slice_sorter (sortSlice E)" and "slice_sorter (sortSlice E')"
    and "previousCredentialsNamespace (dd s) = previousCredentialsNamespace (dd s')"
  shows "fst (run_state (GetDefaultCredentialsSecret E) s) = fst (run_state (GetDefaultCredentialsSecret E') s')"
proof -
  have "candidates items = candidates items'"
    using mset_eq_setD[OF assms(3)] by (simp add: candidates_def)
  with run_GetDefaultCredentialsSecret[OF assms(1,5)] run_GetDefaultCredentialsSecret[OF assms(2,6)]
    chosen_unique candidates_inj[OF assms(4)] assms(7)
  show ?thesis by metis
qed

text \<open>
  C20: after provisioning the detector deletes exactly what the drift made outdated, in this order: on a
  changed credentials namespace or cluster ID the cluster ID secret and the operand's pod, on a changed
  namespace also the old credentials secret; nothing without a drift, and on an error a prefix of that.
\<close>

theorem delete_changed_resources_exact:
  assumes "reads_outdated E s cid pods cred"
    and "run_state (DeleteChangedResources E) s = (err, s')"
  shows "\<exists>t rest. trace s' = trace s @ t \<and> outdated (conf E) (dd s) cid pods cred = deletions t @ rest \<and>
           (err = None \<longrightarrow> rest = []) \<and> set t \<subseteq> reads \<union> {EvDelete kind k | kind k. kind = ''Secret'' \<or> kind = ''Pod''}"
proof -
  have "emits (reads \<union> {EvDelete kind k | kind k. kind = ''Secret'' \<or> kind = ''Pod''}) (DeleteChangedResources E)"
    by (auto simp: DeleteChangedResources_def drift_getSecretByNameAndNamespace_def
        getSapBtpServiceOperatorPod_def Let_def intro!: emits_intros)
  from emitsD[OF this assms(2)] obtain t where "trace s' = trace s @ t"
    "set t \<subseteq> reads \<union> {EvDelete kind k | kind k. kind = ''Secret'' \<or> kind = ''Pod''}" by blast
  with wp_run[OF wp_DeleteChangedResources[OF assms(1)] assms(2)] show ?thesis by auto
qed

section \<open>Witnesses\<close>

definition example_secret :: "string \<Rightarrow> string \<Rightarrow> (string, string) gomap \<Rightarrow> secret" where
  "example_secret name ns data = \<lparr>Name = name, Namespace = ns, Labels = [(managedByLabelKey, operatorName)],
     Annotations = [], Finalizers = [], DeletionTimestamp = None, ResourceVersion = ''1'', Data = data\<rparr>"

definition example_pod :: pod where
  "example_pod = \<lparr>Name = operandName @ ''-0'', Namespace = ''kyma-system'', Labels = [(instanceLabelKey, operandName)],
     Annotations = [], Finalizers = [], DeletionTimestamp = None, ResourceVersion = ''1'', PodConditions = []\<rparr>"

definition example_detector :: drift_detector where
  "example_detector = \<lparr>previousCredentialsNamespace = ''old'', clusterIdFromSapBtpManagerSecret = ''c1'',
     clusterIdFromSapBtpServiceOperatorConfigMap = ''c1'', clusterIdFromSapBtpServiceOperatorClusterIdSecret = ''c1'',
     credentialsNamespaceFromSapBtpManagerSecret = ''kyma-system'',
     credentialsNamespaceFromSapBtpServiceOperatorSecret = ''old''\<rparr>"

definition drift_secrets :: "secret list" where
  "drift_secrets = [example_secret SapBtpServiceOperatorSecretName ''zzz'' [],
     example_secret SapBtpServiceOperatorSecretName ''old'' [],
     example_secret SapBtpServiceOperatorClusterIdSecretName ''old'' []]"

definition drift_dstate :: "secret list \<Rightarrow> cluster dstate" where
  "drift_dstate xs = \<lparr>api = empty_cluster\<lparr>mSecrets := xs, mPods := [example_pod]\<rparr>, clock = 0, trace = [],
     crp = primary_cr example_status, dd = example_detector\<rparr>"

lemmas drift_example_simps =
  example_secret_def example_pod_def example_detector_def drift_secrets_def drift_dstate_def
  SapBtpServiceOperatorSecretName_def SapBtpServiceOperatorClusterIdSecretName_def operandName_def operatorName_def
  managedByLabelKey_def instanceLabelKey_def

lemma drift_secrets_listed:
  "clListSecrets (cli mem_env) [(managedByLabelKey, operatorName)] (api (drift_dstate drift_secrets)) =
     (Inr drift_secrets, api (drift_dstate drift_secrets))"
  "clListSecrets (cli mem_env) [(managedByLabelKey, operatorName)] (api (drift_dstate (rev drift_secrets))) =
     (Inr (rev drift_secrets), api (drift_dstate (rev drift_secrets)))"
  by (simp_all add: mem_simps drift_example_simps)

theorem default_credentials_secret_choice_witness:
  "case fst (run_state (GetDefaultCredentialsSecret mem_env) (drift_dstate drift_secrets)) of
     Inr (Some x) \<Rightarrow> Name x = SapBtpServiceOperatorSecretName \<and> x \<in> set drift_secrets
   | _ \<Rightarrow> False"
  using default_credentials_secret_choice[OF drift_secrets_listed(1)]
  by (auto simp: srt.slice_sorter_axioms drift_example_simps split: sum.splits option.splits)

theorem default_credentials_secret_deterministic_witness:
  "fst (run_state (GetDefaultCredentialsSecret mem_env) (drift_dstate drift_secrets)) =
   fst (run_state (GetDefaultCredentialsSecret mem_env) (drift_dstate (rev drift_secrets)))"
proof -
  have "distinct (map ObjectKeyFromObject drift_secrets)"
    by (simp add: drift_example_simps ObjectKeyFromObject_def)
  then show ?thesis
    by (intro default_credentials_secret_deterministic[OF drift_secrets_listed])
      (simp_all add: srt.slice_sorter_axioms drift_dstate_def)
qed

lemma drift_reads_outdated:
  "reads_outdated mem_env (drift_dstate drift_secrets)
     (Inr (example_secret SapBtpServiceOperatorClusterIdSecretName ''old'' [])) [example_pod]
     (Inr (example_secret SapBtpServiceOperatorSecretName ''old'' []))"
  by (simp add: reads_outdated_def readable_def mem_simps drift_example_simps Let_def)

theorem delete_changed_resources_exact_witness:
  "\<exists>t rest. trace (snd (run_state (DeleteChangedResources mem_env) (drift_dstate drift_secrets))) = t \<and>
     [(''Secret'', \<lparr>KeyName = ''sap-btp-operator-clusterid'', KeyNamespace = ''old''\<rparr>),
      (''Pod'', \<lparr>KeyName = ''sap-btp-operator-0'', KeyNamespace = ''kyma-system''\<rparr>),
      (''Secret'', \<lparr>KeyName = ''sap-btp-service-operator'', KeyNamespace = ''old''\<rparr>)] = deletions t @ rest"
  using delete_changed_resources_exact[OF drift_reads_outdated prod.collapse[symmetric]]
  by (auto simp: outdated_def present_def found_secret_def isCredentialsNamespaceChanged_def isClusterIdChanged_def
      HasPrefix_def ObjectKeyFromObject_def default_config_def drift_example_simps)

end
