(* ===== verification/Configurator.thy ===== *)
theory Configurator
  imports Drift
begin

text \<open>
  The check of the Ready state (\<^verbatim>\<open>internal/configurator\<close>): it decides whether the operand's credentials
  namespace or cluster ID differ from the manager's secret, so that the CR has to be processed again.
\<close>

text \<open>An empty reason string is \<open>None\<close>.\<close>

record CheckResult =
  ReprocessReason :: "reason option"
  ReprocessMessage :: string
  ErrorReason :: "reason option"
  ErrorMessage :: string

definition NoAction :: CheckResult where
  "NoAction = \<lparr>ReprocessReason = None, ReprocessMessage = [], ErrorReason = None, ErrorMessage = []\<rparr>"

definition configurator_Check :: "('s, 'r) state_reader_scheme \<Rightarrow> secret \<Rightarrow> ('s, CheckResult) state" where
  "configurator_Check R x = do {
     InitializeFromSecret_m R (Some x);
     r \<leftarrow> GetDefaultCredentialsSecret_m R;
     case r of
       Inl e \<Rightarrow> ret (NoAction\<lparr>ErrorReason := Some GettingDefaultCredentialsSecretFailed, ErrorMessage := Error e\<rparr>)
     | Inr defaultCredentialsSecret \<Rightarrow> do {
         changed \<leftarrow> (case defaultCredentialsSecret of
            None \<Rightarrow> ret None
          | Some y \<Rightarrow> do {
              managerNs \<leftarrow> CredentialsNamespaceFromManager_m R;
              if managerNs \<noteq> Namespace y
              then ret (Some (NoAction\<lparr>ReprocessReason := Some CredentialsNamespaceChanged,
                ReprocessMessage := ''credentials namespace changed from '' @ Namespace y @ '' to '' @ managerNs\<rparr>))
              else ret None });
         case changed of
           Some result \<Rightarrow> ret result
         | None \<Rightarrow> do {
             r \<leftarrow> GetSapBtpServiceOperatorConfigMap_m R;
             case r of
               Inl e \<Rightarrow> ret (NoAction\<lparr>ErrorReason := Some GettingSapBtpServiceOperatorConfigMapFailed,
                 ErrorMessage := Error e\<rparr>)
             | Inr None \<Rightarrow> ret NoAction
             | Inr (Some cm) \<Rightarrow> do {
                 let clusterIdFromCM = mget (CmData cm) ClusterIdConfigMapKey;
                 clusterId \<leftarrow> ClusterIdFromManager_m R;
                 if clusterId \<noteq> clusterIdFromCM
                 then ret (NoAction\<lparr>ReprocessReason := Some ClusterIdChanged,
                   ReprocessMessage := ''cluster ID changed from '' @ clusterIdFromCM @ '' to '' @ clusterId\<rparr>)
                 else ret NoAction } } } }"

section \<open>Clients of the reader interface\<close>

definition check_result_ok :: "CheckResult \<Rightarrow> bool" where
  "check_result_ok r \<longleftrightarrow>
     (\<forall>reason. ErrorReason r = Some reason \<longrightarrow> reason_state reason = StateError) \<and>
     (\<forall>reason. ReprocessReason r = Some reason \<longrightarrow> reason_state reason = StateProcessing)"

lemma returns_configurator_Check: "returns check_result_ok (configurator_Check R x)"
proof -
  have "returns (\<lambda>c. \<forall>r. c = Some r \<longrightarrow> check_result_ok r)
          (case y of None \<Rightarrow> ret None
           | Some y \<Rightarrow> do {
              managerNs \<leftarrow> CredentialsNamespaceFromManager_m R;
              if managerNs \<noteq> Namespace y
              then ret (Some (NoAction\<lparr>ReprocessReason := Some CredentialsNamespaceChanged,
                ReprocessMessage := ''credentials namespace changed from '' @ Namespace y @ '' to '' @ managerNs\<rparr>))
              else ret None })" for y :: "secret option"
    by (auto simp: check_result_ok_def NoAction_def intro!: returns_intros)
  then show ?thesis
    unfolding configurator_Check_def
    by (intro returns_intros returns_bind_strong[where Q = "\<lambda>c. \<forall>r. c = Some r \<longrightarrow> check_result_ok r"])
      (auto simp: check_result_ok_def NoAction_def Let_def intro!: returns_intros)
qed

context operator_state_reader
begin

lemma check_emits: "emits reads (configurator_Check R x)"
  by (auto simp: configurator_Check_def Let_def
      intro!: emits_intros init_reads secret_reads configmap_reads namespace_reads cluster_id_reads)

end

section \<open>Agreement with the drift detector\<close>

lemma cluster_id_key: "ToUpper clusterIdSecretKey = ClusterIdConfigMapKey"
  by code_simp

lemma detector_from_secret_idem_fields:
  "credentialsNamespaceFromSapBtpServiceOperatorSecret (detector_from_secret c (Some x) d) =
   credentialsNamespaceFromSapBtpManagerSecret (detector_from_secret c (Some x) d)"
  by (simp add: detector_from_secret_def Let_def)

text \<open>Reads that answer and leave the cluster as it is, with what they answer.\<close>

definition stable_reads ::
    "('w, 'v) env_scheme \<Rightarrow> 'w \<Rightarrow> secret list \<Rightarrow> error + configmap \<Rightarrow> bool" where
  "stable_reads E w items cm \<longleftrightarrow>
     clListSecrets (cli E) [(managedByLabelKey, operatorName)] w = (Inr items, w) \<and>
     clGetConfigMap (cli E) \<lparr>KeyName = SapBtpServiceOperatorConfigMapName, KeyNamespace = ChartNamespace (conf E)\<rparr> w
       = (cm, w) \<and>
     (\<forall>e. cm = Inl e \<longrightarrow> IsNotFound e)"

text \<open>The detector's two checks, as provisioning runs them.\<close>

definition drift_checks ::
    "('w, 'v) env_scheme \<Rightarrow> secret \<Rightarrow> (('w, 'z) dstate_scheme, ErrorWithReason option \<times> secret) state" where
  "drift_checks E x = do {
     InitializeFromSecret E (Some x);
     (err, x) \<leftarrow> CheckCredentialsNamespaceDrift E x;
     case err of
       Some e \<Rightarrow> ret (Some e, x)
     | None \<Rightarrow> CheckClusterIdConfigMapDrift E x }"

definition default_secret :: "('w, 'v) env_scheme \<Rightarrow> secret list \<Rightarrow> drift_detector \<Rightarrow> secret option" where
  "default_secret E items d =
     (if items = [] then None
      else pick_secret (previousCredentialsNamespace d) None
             (sortSlice E (\<lambda>a b. Namespace a < Namespace b) items))"

lemma run_GetDefaultCredentialsSecret_stable:
  assumes "stable_reads E (api s) items cm"
  shows "run_state (GetDefaultCredentialsSecret E) s =
     (Inr (default_secret E items (dd s)),
      s\<lparr>clock := clock s + int (latency E (api s)), trace := trace s @ [EvList ''Secret'' []]\<rparr>)"
  using assms by (simp add: GetDefaultCredentialsSecret_def run_simps stable_reads_def default_secret_def)

lemma run_GetConfigMap_stable:
  assumes "stable_reads E (api s) items cm"
  shows "run_state (GetSapBtpServiceOperatorConfigMap E) s =
     (Inr (case cm of Inl e \<Rightarrow> None | Inr x \<Rightarrow> Some x),
      s\<lparr>clock := clock s + int (latency E (api s)), trace := trace s @ [EvGet ''ConfigMap''
        \<lparr>KeyName = SapBtpServiceOperatorConfigMapName, KeyNamespace = ChartNamespace (conf E)\<rparr>]\<rparr>)"
  using assms by (auto simp: GetSapBtpServiceOperatorConfigMap_def run_simps stable_reads_def split: sum.splits)

lemma CheckClusterIdConfigMapDrift_stable:
  assumes "stable_reads E (api s) items cm"
    and "run_state (CheckClusterIdConfigMapDrift E x) s = ((err, x'), s')"
  shows "case cm of
           Inl e \<Rightarrow> err = None \<and> x' = x \<and> dd s' = dd s \<and> api s' = api s \<and>
             trace s' = trace s @ [EvGet ''ConfigMap'' \<lparr>KeyName = SapBtpServiceOperatorConfigMapName, KeyNamespace = ChartNamespace (conf E)\<rparr>]
         | Inr c \<Rightarrow>
             dd s' = (dd s)\<lparr>clusterIdFromSapBtpServiceOperatorConfigMap := mget (CmData c) ClusterIdConfigMapKey,
                        clusterIdFromSapBtpServiceOperatorClusterIdSecret := mget (CmData c) ClusterIdConfigMapKey\<rparr> \<and>
             (clusterIdFromSapBtpManagerSecret (dd s) = mget (CmData c) ClusterIdConfigMapKey \<longrightarrow>
                err = None \<and> x' = x \<and> api s' = api s \<and>
                trace s' = trace s @ [EvGet ''ConfigMap'' \<lparr>KeyName = SapBtpServiceOperatorConfigMapName, KeyNamespace = ChartNamespace (conf E)\<rparr>])"
  using assms(2)
  by (auto simp: CheckClusterIdConfigMapDrift_def run_GetConfigMap_stable[OF assms(1)] modify_dd_def cluster_id_key
      Let_def split: sum.splits if_splits option.splits prod.splits dest!: keepsD[OF keeps_annotateSecret])

lemma run_configurator_Check_stable:
  assumes "stable_reads E (api s) items cm"
  shows "run_state (configurator_Check (drift_Detector E) x) s =
    (let d = detector_from_secret (conf E) (Some x) (dd s);
         y = default_secret E items d;
         s1 = s\<lparr>dd := d, clock := clock s + int (latency E (api s)), trace := trace s @ [EvList ''Secret'' []]\<rparr>;
         s2 = s1\<lparr>clock := clock s1 + int (latency E (api s)), trace := trace s1 @ [EvGet ''ConfigMap''
                 \<lparr>KeyName = SapBtpServiceOperatorConfigMapName, KeyNamespace = ChartNamespace (conf E)\<rparr>]\<rparr>
     in if y \<noteq> None \<and> credentialsNamespaceFromSapBtpManagerSecret d \<noteq> Namespace (the y)
        then (NoAction\<lparr>ReprocessReason := Some CredentialsNamespaceChanged, ReprocessMessage :=
               ''credentials namespace changed from '' @ Namespace (the y) @ '' to '' @
               credentialsNamespaceFromSapBtpManagerSecret d\<rparr>, s1)
        else (case cm of
                Inl e \<Rightarrow> (NoAction, s2)
              | Inr c \<Rightarrow>
                  (if clusterIdFromSapBtpManagerSecret d \<noteq> mget (CmData c) ClusterIdConfigMapKey
                   then NoAction\<lparr>ReprocessReason := Some ClusterIdChanged, ReprocessMessage :=
                     ''cluster ID changed from '' @ mget (CmData c) ClusterIdConfigMapKey @ '' to '' @
                     clusterIdFromSapBtpManagerSecret d\<rparr>
                   else NoAction, s2)))"
proof -
  have ok: "stable_reads E (api t) items cm" if "api t = api s" for t :: "('a, 'c) dstate_scheme"
    using assms that by simp
  show ?thesis
    by (simp add: configurator_Check_def drift_Detector_def InitializeFromSecret_def modify_dd_def
        CredentialsNamespaceFromManager_def ClusterIdFromManager_def Let_def
        run_GetDefaultCredentialsSecret_stable[OF ok] run_GetConfigMap_stable[OF ok] split: sum.split option.split)
qed

section \<open>Properties\<close>


section \<open>Witnesses\<close>

definition example_required :: secret where
  "example_required = example_secret ''sap-btp-manager'' ''kyma-system'' [(''cluster_id'', ''c1'')]"

lemma drift_stable_reads:
  "stable_reads mem_env (api (drift_dstate drift_secrets)) drift_secrets (Inl not_found)"
  using drift_secrets_listed(1)
  by (simp add: stable_reads_def) (simp add: mem_simps drift_example_simps)


end
