(* ===== verification/Interfaces.thy ===== *)
theory Interfaces
  imports Configurator
begin

text \<open>
  The Go interfaces between the handlers and the managers, as records of methods over the program state,
  and per interface a locale with the contract the handlers rely on: no manager writes the BtpOperator CR
  or replaces the object the handler holds. The managers' theories interpret these locales.
\<close>

section \<open>Interfaces\<close>

text \<open>
  Methods that change the objects behind the pointers they are given return the changed objects. The
  server's answers to creates and updates of module resources are not kept: no later step reads more of
  these objects than their kind, name and namespace.
\<close>

record 's resource_manager =
  CreateUnstructuredObjectsFromManifestsDir_m :: "string \<Rightarrow> ('s, error + unstr list) state"
  PrepareModuleResources_m :: "unstr list \<Rightarrow> secret \<Rightarrow> ('s, error option \<times> unstr list) state"
  ApplyOrUpdateResources_m :: "unstr list \<Rightarrow> ('s, error option) state"
  WaitForResourcesReadiness_m :: "unstr list \<Rightarrow> ('s, error option) state"
  DeleteOutdatedResources_m :: "('s, error option) state"
  DeleteResources_m :: "unstr list \<Rightarrow> ('s, error option) state"
  DeleteCreationTimestamp_m :: "unstr list \<Rightarrow> unstr list"
  GetResourcesToApplyPath_m :: string
  GetResourcesToDeletePath_m :: string

record 's network_policy_manager =
  CleanupNetworkPolicies_m :: "('s, error option) state"
  DeleteOldWebhookNetworkPolicy_m :: "('s, error option) state"
  LoadNetworkPolicies_m :: "('s, error + unstr list) state"

record 's certificate_manager =
  PrepareAdmissionWebhooks_m :: "unstr list \<Rightarrow> ('s, error + unstr list) state"
  IsWebhookCertSignedBySelfSignedCA_m :: "('s, bool \<times> error option) state"
  GetSecretData_m :: "string \<Rightarrow> ('s, error + (string, string) gomap) state"

section \<open>Contracts\<close>

definition leaves_cr :: "(('w, 'z) kstate_scheme, 'a) state \<Rightarrow> bool" where
  "leaves_cr m \<longleftrightarrow> emits no_cr_write m \<and> keeps crp m"

named_theorems leaves_cr_intros \<open>operations that leave the CR alone\<close>

lemma leaves_crI: "emits no_cr_write m \<Longrightarrow> keeps crp m \<Longrightarrow> leaves_cr m"
  by (simp add: leaves_cr_def)

lemma leaves_cr_emits: "leaves_cr m \<Longrightarrow> emits no_cr_write m"
  and leaves_cr_keeps: "leaves_cr m \<Longrightarrow> keeps crp m"
  by (simp_all add: leaves_cr_def)

lemma leaves_cr_return [leaves_cr_intros]: "leaves_cr (ret a)"
  by (simp add: leaves_cr_def emits_intros keeps_intros)

lemma leaves_cr_gets [leaves_cr_intros]: "leaves_cr (gets g)"
  by (simp add: leaves_cr_def emits_intros keeps_intros)

lemma leaves_cr_get_cr [leaves_cr_intros]: "leaves_cr get_cr"
  by (simp add: leaves_cr_def emits_intros keeps_intros)

lemma leaves_cr_Now [leaves_cr_intros]: "leaves_cr Now"
  by (simp add: leaves_cr_def emits_intros keeps_intros)

lemma leaves_cr_Sleep [leaves_cr_intros]: "leaves_cr (Sleep d)"
  by (simp add: leaves_cr_def emits_intros keeps_Sleep)

lemma leaves_cr_bind [leaves_cr_intros]:
  "leaves_cr m \<Longrightarrow> (\<And>a. leaves_cr (f a)) \<Longrightarrow> leaves_cr (State_Monad.bind m f)"
  by (simp add: leaves_cr_def emits_bind keeps_bind)

lemma leaves_cr_if [leaves_cr_intros]:
  "(b \<Longrightarrow> leaves_cr m) \<Longrightarrow> (\<not> b \<Longrightarrow> leaves_cr n) \<Longrightarrow> leaves_cr (if b then m else n)"
  by simp

lemma leaves_cr_case_sum [leaves_cr_intros]:
  "(\<And>e. x = Inl e \<Longrightarrow> leaves_cr (f e)) \<Longrightarrow> (\<And>y. x = Inr y \<Longrightarrow> leaves_cr (g y))
    \<Longrightarrow> leaves_cr (case x of Inl e \<Rightarrow> f e | Inr y \<Rightarrow> g y)"
  by (cases x) simp_all

lemma leaves_cr_case_option [leaves_cr_intros]:
  "(x = None \<Longrightarrow> leaves_cr m) \<Longrightarrow> (\<And>y. x = Some y \<Longrightarrow> leaves_cr (g y))
    \<Longrightarrow> leaves_cr (case x of None \<Rightarrow> m | Some y \<Rightarrow> g y)"
  by (cases x) simp_all

lemma leaves_cr_case_prod [leaves_cr_intros]:
  "(\<And>a b. x = (a, b) \<Longrightarrow> leaves_cr (f a b)) \<Longrightarrow> leaves_cr (case x of (a, b) \<Rightarrow> f a b)"
  by (cases x) simp

lemma leaves_cr_api_call: "ev \<in> no_cr_write \<Longrightarrow> leaves_cr (api_call E ev f)"
  by (auto simp: leaves_cr_def intro!: emits_api_call keeps_intros)

lemma leaves_cr_requests [leaves_cr_intros]:
  "leaves_cr (GetSecret E c k)" "leaves_cr (GetConfigMap E c k)" "leaves_cr (GetBtpOperator E c k)"
  "leaves_cr (GetCRD E c n)" "leaves_cr (GetUnstructured E c g k)" "leaves_cr (GetJob E c k)"
  "leaves_cr (ListSecrets E c ls)" "leaves_cr (ListPods E c ns ls)" "leaves_cr (ListNamespaces E c)"
  "leaves_cr (ListUnstructured E c g ns)" "leaves_cr (Create E c u)" "leaves_cr (CreateJob E c j)"
  "leaves_cr (Update E c u)" "leaves_cr (UpdateSecret E c x)" "leaves_cr (Delete E c kind k)"
  "leaves_cr (DeleteAllOf E c g ns ls)"
  by (simp_all add: request_defs leaves_cr_api_call)

locale resource_management =
  fixes M :: "(('w, 'z) kstate_scheme, 'r) resource_manager_scheme"
  assumes create_objects: "leaves_cr (CreateUnstructuredObjectsFromManifestsDir_m M path)"
    and prepare: "leaves_cr (PrepareModuleResources_m M us x)"
    and apply_all: "leaves_cr (ApplyOrUpdateResources_m M us)"
    and wait_all: "leaves_cr (WaitForResourcesReadiness_m M us)"
    and delete_outdated: "leaves_cr (DeleteOutdatedResources_m M)"

definition delete_alls :: "event set" where
  "delete_alls = {EvDeleteAllOf g ns ls | g ns ls. True}"

lemma delete_alls_simps [simp]: "EvDeleteAllOf g ns ls \<in> delete_alls" "EvUpdate u \<notin> delete_alls"
  by (simp_all add: delete_alls_def)

locale network_policies =
  fixes N :: "(('w, 'z) kstate_scheme, 'r) network_policy_manager_scheme"
  assumes cleanup: "leaves_cr (CleanupNetworkPolicies_m N)"
    and cleanup_only: "emits delete_alls (CleanupNetworkPolicies_m N)"
    and delete_old: "leaves_cr (DeleteOldWebhookNetworkPolicy_m N)"
    and load: "leaves_cr (LoadNetworkPolicies_m N)"

locale certificates =
  fixes C :: "(('w, 'z) kstate_scheme, 'r) certificate_manager_scheme"
  assumes prepare_webhooks: "leaves_cr (PrepareAdmissionWebhooks_m C us)"

text \<open>The drift detector's methods, under the same contract; the errors they report are errors of the CR.\<close>

definition error_reason :: "ErrorWithReason option \<times> secret \<Rightarrow> bool" where
  "error_reason p \<longleftrightarrow> (\<forall>e. fst p = Some e \<longrightarrow> reason_state (EwrReason e) = StateError)"

locale drift_manager = operator_state_reader D
  for D :: "(('w, 'z) kstate_scheme, 'r) detector_scheme" +
  assumes det_init: "leaves_cr (InitializeFromSecret_m D so)"
    and det_namespace: "leaves_cr (CheckCredentialsNamespaceDrift_m D x)"
    and det_cluster_id: "leaves_cr (CheckClusterIdConfigMapDrift_m D x)"
    and det_resolve: "leaves_cr (ResolveClusterIdSecretDrift_m D x)"
    and det_delete_cluster_id: "leaves_cr (DeleteClusterIdSecret_m D)"
    and det_delete_changed: "leaves_cr (DeleteChangedResources_m D)"
    and det_namespace_reason: "returns error_reason (CheckCredentialsNamespaceDrift_m D x)"
    and det_cluster_id_reason: "returns error_reason (CheckClusterIdConfigMapDrift_m D x)"
    and det_resolve_reason: "returns error_reason (ResolveClusterIdSecretDrift_m D x)"

lemma leaves_cr_modify_dd [leaves_cr_intros]: "leaves_cr (modify_dd f)"
  by (auto simp: modify_dd_def leaves_cr_def emits_def intro!: keeps_modify)

lemmas drift_op_defs =
  InitializeFromSecret_def CheckCredentialsNamespaceDrift_def CheckClusterIdConfigMapDrift_def
  ResolveClusterIdSecretDrift_def DeleteClusterIdSecret_def DeleteChangedResources_def
  GetDefaultCredentialsSecret_def GetSapBtpServiceOperatorConfigMap_def annotateSecret_def
  drift_getSecretByNameAndNamespace_def getSapBtpServiceOperatorPod_def deleteObject_def
  restartSapBtpServiceOperatorPodIfNotReady_def deleteIfPresent_def Let_def

interpretation driftm: drift_manager "drift_Detector E"
proof unfold_locales
  show "returns error_reason (CheckCredentialsNamespaceDrift_m (drift_Detector E) x)"
    "returns error_reason (CheckClusterIdConfigMapDrift_m (drift_Detector E) x)"
    "returns error_reason (ResolveClusterIdSecretDrift_m (drift_Detector E) x)" for x
    by (auto simp: drift_Detector_def CheckCredentialsNamespaceDrift_def CheckClusterIdConfigMapDrift_def
        ResolveClusterIdSecretDrift_def error_reason_def NewErrorWithReason_def Let_def intro!: returns_intros)
qed (auto simp: drift_Detector_def drift_op_defs intro!: leaves_cr_intros)

end
