(* ===== verification/Manifest.thy ===== *)
theory Manifest
  imports Interfaces
begin

text \<open>
  Reading manifests (\<^verbatim>\<open>internal/manifest\<close>): the YAML files of a directory, split into documents at the
  separator lines, decoded and converted to unstructured objects. The file system, the decoder and the
  converter are parameters of the environment; the split follows the regular expression of the source.
\<close>

record 'w menv = "'w env" +
  osReadDir :: "string \<Rightarrow> error + string list"
  osReadFile :: "string \<Rightarrow> error + string"
  osGetenv :: "string \<Rightarrow> string"
  decodeManifest :: "string \<Rightarrow> error + unstr"
  toUnstructured :: "unstr \<Rightarrow> error + unstr"

definition PathSeparator :: char where
  "PathSeparator = CHR ''/''"

section \<open>Splitting a file\<close>

text \<open>
  The separator is \<^verbatim>\<open>(?m)^---\s*\n\<close>: at the start of a line three dashes, then white space (which
  includes line breaks, and as much of it as possible) up to a line break.
\<close>

definition is_space :: "char \<Rightarrow> bool" where
  "is_space c \<longleftrightarrow> c = CHR 0x09 \<or> c = CHR 0x0A \<or> c = CHR 0x0C \<or> c = CHR 0x0D \<or> c = CHR '' ''"

definition newline :: char where
  "newline = CHR 0x0A"

definition separator :: "string \<Rightarrow> string option" where
  "separator s =
     (if take 3 s = ''---''
      then let w = takeWhile is_space (drop 3 s)
           in if newline \<in> set w then Some (rev (takeWhile (\<lambda>c. c \<noteq> newline) (rev w)) @ drop (3 + length w) s)
              else None
      else None)"

lemma separator_shorter: "separator s = Some rest \<Longrightarrow> length rest < length s"
proof -
  assume sep: "separator s = Some rest"
  let ?w = "takeWhile is_space (drop 3 s)"
  from sep have s: "take 3 s = ''---''" and rest: "rest = rev (takeWhile (\<lambda>c. c \<noteq> newline) (rev ?w)) @ drop (3 + length ?w) s"
    by (auto simp: separator_def Let_def split: if_splits)
  have "length (take 3 s) = 3" using s by simp
  then have "3 \<le> length s" by simp
  moreover have "length (takeWhile (\<lambda>c. c \<noteq> newline) (rev ?w)) \<le> length ?w"
    using length_takeWhile_le[of "\<lambda>c. c \<noteq> newline" "rev ?w"] by simp
  moreover have "length ?w \<le> length (drop 3 s)" by (rule length_takeWhile_le)
  ultimately show ?thesis by (simp add: rest)
qed

text \<open>\<open>bol\<close> tells that the position is the start of a line; \<open>cur\<close> is the current document, reversed.\<close>

function split_docs :: "bool \<Rightarrow> string \<Rightarrow> string \<Rightarrow> string list" where
  "split_docs bol cur s =
     (case (if bol then separator s else None) of
        Some rest \<Rightarrow> rev cur # split_docs True [] rest
      | None \<Rightarrow> (case s of
                   [] \<Rightarrow> [rev cur]
                 | c # cs \<Rightarrow> split_docs (c = newline) (c # cur) cs))"
  by pat_completeness auto
termination
  by (relation "measure (\<lambda>(bol, cur, s). length s)") (auto dest: separator_shorter split: if_splits)

declare split_docs.simps [simp del]

definition yaml_documents :: "string \<Rightarrow> string list" where
  "yaml_documents data = filter (\<lambda>part. part \<noteq> [] \<and> part \<noteq> [newline]) (split_docs True [] data)"

section \<open>The handler\<close>

definition isYamlFile :: "string \<Rightarrow> bool" where
  "isYamlFile fileName = (HasSuffix fileName ''.yml'' \<or> HasSuffix fileName ''.yaml'')"

definition GetManifestsFromYaml :: "('w, 'v) menv_scheme \<Rightarrow> string \<Rightarrow> error + string list" where
  "GetManifestsFromYaml E yamlFile =
     (case osReadFile E yamlFile of Inl e \<Rightarrow> Inl e | Inr data \<Rightarrow> Inr (yaml_documents data))"

fun manifests_of_files :: "('w, 'v) menv_scheme \<Rightarrow> string \<Rightarrow> string list \<Rightarrow> error + string list" where
  "manifests_of_files E resourcesPath [] = Inr []"
| "manifests_of_files E resourcesPath (file # files) =
     (if \<not> isYamlFile file then manifests_of_files E resourcesPath files
      else case GetManifestsFromYaml E (resourcesPath @ PathSeparator # file) of
             Inl e \<Rightarrow> Inl (wrap ''while getting manifests from YAML: '' e)
           | Inr ms \<Rightarrow>
               (case manifests_of_files E resourcesPath files of
                  Inl e \<Rightarrow> Inl e
                | Inr rest \<Rightarrow> Inr (ms @ rest)))"

definition GetManifestsFromDir :: "('w, 'v) menv_scheme \<Rightarrow> string \<Rightarrow> error + string list" where
  "GetManifestsFromDir E resourcesPath =
     (case osReadDir E resourcesPath of Inl e \<Rightarrow> Inl e | Inr files \<Rightarrow> manifests_of_files E resourcesPath files)"

fun CreateObjectsFromManifests :: "('w, 'v) menv_scheme \<Rightarrow> string list \<Rightarrow> error + unstr list" where
  "CreateObjectsFromManifests E [] = Inr []"
| "CreateObjectsFromManifests E (m # ms) =
     (case decodeManifest E m of
        Inl e \<Rightarrow> Inl (wrap ''while creating object from manifest: '' e)
      | Inr obj \<Rightarrow>
          (case CreateObjectsFromManifests E ms of Inl e \<Rightarrow> Inl e | Inr objs \<Rightarrow> Inr (obj # objs)))"

definition CollectObjectsFromDir :: "('w, 'v) menv_scheme \<Rightarrow> string \<Rightarrow> error + unstr list" where
  "CollectObjectsFromDir E resourcesPath =
     (case GetManifestsFromDir E resourcesPath of
        Inl e \<Rightarrow> Inl (wrap (''while getting manifests from '' @ resourcesPath @ '' directory: '') e)
      | Inr manifests \<Rightarrow>
          (case CreateObjectsFromManifests E manifests of
             Inl e \<Rightarrow> Inl (wrap ''while creating objects from manifests: '' e)
           | Inr objects \<Rightarrow> Inr objects))"

fun ObjectsToUnstructured :: "('w, 'v) menv_scheme \<Rightarrow> unstr list \<Rightarrow> error + unstr list" where
  "ObjectsToUnstructured E [] = Inr []"
| "ObjectsToUnstructured E (obj # objs) =
     (case toUnstructured E obj of
        Inl e \<Rightarrow> Inl (wrap ''while creating Unstructured from Object: '' e)
      | Inr u \<Rightarrow> (case ObjectsToUnstructured E objs of Inl e \<Rightarrow> Inl e | Inr us \<Rightarrow> Inr (u # us)))"

section \<open>The decoder\<close>

text \<open>
  The handler makes its decoder on first use and keeps it. \<open>newDecoder\<close> is the codec factory of the API machinery.
\<close>

record 'sch manifest_handler =
  Scheme :: 'sch
  manifestDeserializer :: "(string \<Rightarrow> error + unstr) option"

definition getManifestDeserializer ::
    "('sch \<Rightarrow> string \<Rightarrow> error + unstr) \<Rightarrow> 'sch manifest_handler \<Rightarrow> (string \<Rightarrow> error + unstr) \<times> 'sch manifest_handler" where
  "getManifestDeserializer newDecoder h =
     (case manifestDeserializer h of
        None \<Rightarrow> let d = newDecoder (Scheme h) in (d, h\<lparr>manifestDeserializer := Some d\<rparr>)
      | Some d \<Rightarrow> (d, h))"

definition CreateObjectFromManifest ::
    "('sch \<Rightarrow> string \<Rightarrow> error + unstr) \<Rightarrow> 'sch manifest_handler \<Rightarrow> string \<Rightarrow> (error + unstr) \<times> 'sch manifest_handler" where
  "CreateObjectFromManifest newDecoder h m =
     (let (decode, h') = getManifestDeserializer newDecoder h in
      (case decode m of Inl e \<Rightarrow> Inl e | Inr obj \<Rightarrow> Inr obj, h'))"

fun create_each ::
    "('sch \<Rightarrow> string \<Rightarrow> error + unstr) \<Rightarrow> 'sch manifest_handler \<Rightarrow> string list \<Rightarrow> (error + unstr list) \<times> 'sch manifest_handler" where
  "create_each newDecoder h [] = (Inr [], h)"
| "create_each newDecoder h (m # ms) =
     (case CreateObjectFromManifest newDecoder h m of
        (Inl e, h') \<Rightarrow> (Inl (wrap ''while creating object from manifest: '' e), h')
      | (Inr obj, h') \<Rightarrow>
          (case create_each newDecoder h' ms of (Inl e, h'') \<Rightarrow> (Inl e, h'') | (Inr objs, h'') \<Rightarrow> (Inr (obj # objs), h'')))"

text \<open>Keeping the decoder makes no difference: on a fresh handler the manifests decode as with one decoder for all.\<close>

definition own_decoder :: "('sch \<Rightarrow> string \<Rightarrow> error + unstr) \<Rightarrow> 'sch manifest_handler \<Rightarrow> bool" where
  "own_decoder newDecoder h \<longleftrightarrow> manifestDeserializer h \<in> {None, Some (newDecoder (Scheme h))}"

lemma CreateObjectFromManifest_eq:
  assumes "own_decoder newDecoder h"
  shows "\<exists>h'. CreateObjectFromManifest newDecoder h m = (newDecoder (Scheme h) m, h') \<and> own_decoder newDecoder h' \<and> Scheme h' = Scheme h"
  using assms
  by (auto simp: own_decoder_def CreateObjectFromManifest_def getManifestDeserializer_def Let_def split: sum.splits)

lemma create_each_eq:
  assumes "own_decoder newDecoder h" and "decodeManifest E = newDecoder (Scheme h)"
  shows "fst (create_each newDecoder h ms) = CreateObjectsFromManifests E ms"
  using assms
proof (induction ms arbitrary: h)
  case (Cons m ms)
  obtain h' where h': "CreateObjectFromManifest newDecoder h m = (newDecoder (Scheme h) m, h')" "own_decoder newDecoder h'"
    "Scheme h' = Scheme h" using CreateObjectFromManifest_eq[OF Cons.prems(1)] by blast
  then show ?case using Cons.IH[OF h'(2)] Cons.prems(2)
    by (auto split: sum.splits prod.splits)
qed simp

section \<open>Splitting inverts joining\<close>

text \<open>A document without a separator line that ends with a line break and starts with a visible character.\<close>

fun no_separator :: "bool \<Rightarrow> string \<Rightarrow> bool" where
  "no_separator bol [] \<longleftrightarrow> True"
| "no_separator bol (c # cs) \<longleftrightarrow> (bol \<longrightarrow> separator (c # cs) = None) \<and> no_separator (c = newline) cs"

definition plain_document :: "string \<Rightarrow> bool" where
  "plain_document d \<longleftrightarrow> d \<noteq> [] \<and> \<not> is_space (hd d) \<and> last d = newline \<and> no_separator True d"

lemma newline_space [simp]: "is_space newline"
  by (simp add: is_space_def newline_def)

lemma takeWhile_stops:
  assumes "\<exists>x \<in> set xs. \<not> P x"
  shows "takeWhile P (xs @ ys) = takeWhile P xs"
  using assms by (auto simp: takeWhile_append)

lemma separator_append:
  assumes "separator d = None" and "d \<noteq> []" and "last d = newline"
  shows "separator (d @ rest) = None"
proof (cases "take 3 (d @ rest) = ''---''")
  case True
  have "3 \<le> length d"
  proof (rule ccontr)
    assume "\<not> 3 \<le> length d"
    moreover have "newline \<in> set d" using assms(2,3) last_in_set by metis
    ultimately have "newline \<in> set (take 3 (d @ rest))" by simp
    then have "newline \<in> set ''---''" by (simp only: True)
    then show False by (simp add: newline_def)
  qed
  then have d: "take 3 d = ''---''" "drop 3 (d @ rest) = drop 3 d @ rest" using True by simp_all
  let ?w = "takeWhile is_space (drop 3 d)"
  have no_nl: "newline \<notin> set ?w" using assms(1) d(1) by (auto simp: separator_def Let_def split: if_splits)
  have "\<exists>x \<in> set (drop 3 d). \<not> is_space x"
  proof (rule ccontr)
    assume "\<not> (\<exists>x \<in> set (drop 3 d). \<not> is_space x)"
    then have "?w = drop 3 d" by (simp add: takeWhile_eq_all_conv)
    moreover have "drop 3 d \<noteq> []"
      using d(1) assms(2,3) \<open>3 \<le> length d\<close> by (cases "length d = 3") (auto simp: newline_def)
    ultimately show False using no_nl assms(3) by (metis last_drop last_in_set length_greater_0_conv length_drop zero_less_diff)
  qed
  from takeWhile_stops[OF this, of rest] no_nl \<open>3 \<le> length d\<close> show ?thesis
    by (simp add: separator_def Let_def)
qed (simp add: separator_def)

lemma split_docs_plain:
  assumes "no_separator bol d" and "d \<noteq> []" and "last d = newline"
  shows "split_docs bol cur (d @ rest) = split_docs True (rev d @ cur) rest"
  using assms
proof (induction d arbitrary: bol cur)
  case (Cons c cs)
  have none: "bol \<Longrightarrow> separator (c # cs @ rest) = None"
    using Cons.prems separator_append[of "c # cs" rest] by auto
  have step: "split_docs bol cur ((c # cs) @ rest) = split_docs (c = newline) (c # cur) (cs @ rest)"
    using none by (subst split_docs.simps) (auto split: option.split)
  show ?case
  proof (cases cs)
    case Nil
    with Cons.prems step show ?thesis by simp
  next
    case (Cons c' cs')
    with Cons.IH[of "c = newline" "c # cur"] Cons.prems step show ?thesis by simp
  qed
qed simp

text \<open>Documents joined by separator lines.\<close>

fun join_docs :: "string list \<Rightarrow> string" where
  "join_docs [] = []"
| "join_docs [d] = d"
| "join_docs (d # e # ds) = d @ ''---'' @ newline # join_docs (e # ds)"

lemma separator_line:
  assumes "rest = [] \<or> \<not> is_space (hd rest)"
  shows "separator (''---'' @ newline # rest) = Some rest"
proof -
  have "takeWhile is_space rest = []" using assms by (cases rest) auto
  then show ?thesis by (simp add: separator_def)
qed

lemma split_join:
  assumes "\<forall>d \<in> set ds. plain_document d" and "ds \<noteq> []"
  shows "split_docs True [] (join_docs ds) = ds @ [[]] \<or> split_docs True [] (join_docs ds) = ds"
  using assms
proof (induction ds rule: join_docs.induct)
  case (2 d)
  then have "split_docs True [] (d @ []) = split_docs True (rev d) []"
    using split_docs_plain[of True d "[]" "[]"] by (simp add: plain_document_def)
  then show ?case by (simp add: split_docs.simps[of True "rev d"] separator_def)
next
  case (3 d e ds)
  have hd: "\<not> is_space (hd (join_docs (e # ds)))" "join_docs (e # ds) \<noteq> []"
    using 3 by (cases ds; auto simp: plain_document_def)+
  have "split_docs True [] (join_docs (d # e # ds)) = split_docs True (rev d) (''---'' @ newline # join_docs (e # ds))"
    using 3 split_docs_plain[of True d "[]" "''---'' @ newline # join_docs (e # ds)"] by (simp add: plain_document_def)
  also have "\<dots> = d # split_docs True [] (join_docs (e # ds))"
    using separator_line[of "join_docs (e # ds)"] hd by (subst split_docs.simps) simp
  finally show ?case using 3 by auto
qed simp

section \<open>Properties\<close>

text \<open>
  C37: reading back a file made of documents joined by separator lines gives exactly those documents, as
  long as none of them contains a separator line itself.
\<close>

theorem manifest_documents_roundtrip:
  assumes "\<forall>d \<in> set ds. plain_document d" and "osReadFile E f = Inr (join_docs ds)"
  shows "GetManifestsFromYaml E f = Inr ds"
proof (cases "ds = []")
  case True
  then show ?thesis
    using assms(2) by (simp add: GetManifestsFromYaml_def yaml_documents_def split_docs.simps separator_def)
next
  case False
  have "d \<noteq> [] \<and> d \<noteq> [newline]" if "d \<in> set ds" for d
    using assms(1) that by (auto simp: plain_document_def)
  then have "filter (\<lambda>part. part \<noteq> [] \<and> part \<noteq> [newline]) ds = ds" by (simp add: filter_id_conv)
  with split_join[OF assms(1) False] assms(2) show ?thesis
    by (auto simp: GetManifestsFromYaml_def yaml_documents_def)
qed

section \<open>Witnesses\<close>

definition mem_menv :: "(string \<times> string list) list \<Rightarrow> (string \<times> string) list \<Rightarrow> (string \<Rightarrow> error + unstr) \<Rightarrow> cluster menv" where
  "mem_menv dirs files dec = env.extend mem_env (menv.fields
     (\<lambda>d. case map_of dirs d of None \<Rightarrow> Inl not_found | Some fs \<Rightarrow> Inr fs)
     (\<lambda>f. case map_of files f of None \<Rightarrow> Inl not_found | Some data \<Rightarrow> Inr data)
     (\<lambda>v. ''image'') dec Inr)"

definition example_documents :: "string list" where
  "example_documents = [''kind: A'' @ [newline], ''kind: B'' @ newline # ''---x'' @ [newline]]"

theorem manifest_documents_roundtrip_witness:
  "GetManifestsFromYaml (mem_menv [] [(''f'', join_docs example_documents)] (\<lambda>m. Inl not_found)) ''f''
     = Inr example_documents"
proof -
  have "\<forall>d \<in> set example_documents. plain_document d"
    by (simp add: example_documents_def plain_document_def is_space_def newline_def separator_def)
  then show ?thesis
    by (rule manifest_documents_roundtrip) (simp add: mem_menv_def env.defs menv.defs)
qed

end
