(* ===== verification/Network_Policy.thy ===== *)
theory Network_Policy
  imports Manifest
begin

text \<open>The network policy manager (\<^verbatim>\<open>internal/k8s/networkpolicy\<close>).\<close>

definition networkPolicyGvk :: gvk where
  "networkPolicyGvk = \<lparr>Group = ''networking.k8s.io'', Version = ''v1'', Kind = ''NetworkPolicy''\<rparr>"

definition oldWebhookNetworkPolicyName :: string where
  "oldWebhookNetworkPolicyName = ''kyma-project.io--btp-operator-allow-to-webhook''"

definition managedLabelsFilter :: "(string, string) gomap" where
  "managedLabelsFilter = [(''app.kubernetes.io/managed-by'', ''btp-manager'')]"

definition getNetworkPoliciesPath :: "config \<Rightarrow> string" where
  "getNetworkPoliciesPath c = ManagerResourcesPath c @ PathSeparator # ''network-policies''"

definition LoadNetworkPolicies :: "('w, 'v) menv_scheme \<Rightarrow> error + unstr list" where
  "LoadNetworkPolicies E =
     (case CollectObjectsFromDir E (getNetworkPoliciesPath (conf E)) of
        Inl e \<Rightarrow> Inl e
      | Inr objects \<Rightarrow> ObjectsToUnstructured E objects)"

definition CleanupNetworkPolicies :: "('w, 'v) menv_scheme \<Rightarrow> (('w, 'z) kstate_scheme, error option) state" where
  "CleanupNetworkPolicies E = do {
     err \<leftarrow> DeleteAllOf E cli networkPolicyGvk (ChartNamespace (conf E)) managedLabelsFilter;
     case err of
       Some e \<Rightarrow>
         if \<not> (IsNotFound e \<or> has_reason MethodNotSupported e \<or> has_reason NoMatch e)
         then ret (Some (wrap ''failed to delete network policies: '' e))
         else ret None
     | None \<Rightarrow> ret None }"

definition DeleteOldWebhookNetworkPolicy :: "('w, 'v) menv_scheme \<Rightarrow> (('w, 'z) kstate_scheme, error option) state" where
  "DeleteOldWebhookNetworkPolicy E = do {
     err \<leftarrow> Delete E cli ''NetworkPolicy''
              \<lparr>KeyName = oldWebhookNetworkPolicyName, KeyNamespace = ChartNamespace (conf E)\<rparr>;
     case err of
       Some e \<Rightarrow>
         if \<not> IsNotFound e then ret (Some (wrap ''failed to delete old webhook network policy: '' e)) else ret None
     | None \<Rightarrow> ret None }"

definition networkPolicy_Manager ::
    "('w, 'v) menv_scheme \<Rightarrow> (('w, 'z) kstate_scheme) network_policy_manager" where
  "networkPolicy_Manager E = \<lparr>
     CleanupNetworkPolicies_m = CleanupNetworkPolicies E,
     DeleteOldWebhookNetworkPolicy_m = DeleteOldWebhookNetworkPolicy E,
     LoadNetworkPolicies_m = ret (LoadNetworkPolicies E)\<rparr>"

interpretation npm: network_policies "networkPolicy_Manager E"
  by unfold_locales
    (auto simp: networkPolicy_Manager_def CleanupNetworkPolicies_def DeleteOldWebhookNetworkPolicy_def
      intro!: leaves_cr_intros emits_intros)

end
