(* ===== verification/Module_Resource.thy ===== *)
theory Module_Resource
  imports Network_Policy
begin

text \<open>
  The module resource manager (\<^verbatim>\<open>internal/manager/moduleresource\<close>): preparing the objects of the manifests,
  applying and deleting them, and waiting until the cluster reports them ready. Accessors of nested fields
  of an unstructured object are library functions of the environment.
\<close>

section \<open>Nested fields\<close>

record 'w renv = "'w menv" +
  NestedSlice :: "json \<Rightarrow> string list \<Rightarrow> error + json list option"
  SetNestedSlice :: "json \<Rightarrow> json list \<Rightarrow> string list \<Rightarrow> error + json"
  NestedStringMap :: "json \<Rightarrow> string list \<Rightarrow> error + (string, string) gomap option"
  SetNestedStringMap :: "json \<Rightarrow> (string, string) gomap \<Rightarrow> string list \<Rightarrow> error + json"
  SetNestedField :: "json \<Rightarrow> json \<Rightarrow> string list \<Rightarrow> error + json"
  base64 :: "string \<Rightarrow> string"
  yamlUnmarshal :: "string \<Rightarrow> error + (string, json) gomap"

section \<open>The chart version\<close>

definition extractStringValue :: "('w, 'v) renv_scheme \<Rightarrow> string \<Rightarrow> string \<Rightarrow> error + string" where
  "extractStringValue E data key =
     (case yamlUnmarshal E data of
        Inl e \<Rightarrow> Inl e
      | Inr obj \<Rightarrow>
          (case map_of obj key of
             None \<Rightarrow> Inr []
           | Some (JStr str) \<Rightarrow> Inr str
           | Some v \<Rightarrow> Inl (Errorf (''value for key '' @ quote key @ '' is not a string''))))"

definition ExtractStringValueFromYamlForGivenKey :: "('w, 'v) renv_scheme \<Rightarrow> string \<Rightarrow> string \<Rightarrow> error + string" where
  "ExtractStringValueFromYamlForGivenKey E filePath key =
     (case osReadFile E filePath of Inl e \<Rightarrow> Inl e | Inr data \<Rightarrow> extractStringValue E data key)"

section \<open>Preparing objects\<close>

text \<open>
  The objects are pointers of one slice: a step that fails part way leaves the changes made so far, but
  its callers then drop the slice, so a failing step only returns its error.
\<close>

definition addLabelsInPodTemplate :: "('w, 'v) renv_scheme \<Rightarrow> unstr \<Rightarrow> error + unstr" where
  "addLabelsInPodTemplate E u =
     (let path = [''spec'', ''template'', ''metadata'', ''labels''] in
      case NestedStringMap E (Object u) path of
        Inl e \<Rightarrow> Inl (wrap (''failed to get pod template labels for deployment '' @ Name u @ '': '') e)
      | Inr found \<Rightarrow>
          let tplLabels = (case found of None \<Rightarrow> [] | Some m \<Rightarrow> m);
              tplLabels' = mset_key ''kyma-project.io/module'' ''btp-operator'' tplLabels
          in (case SetNestedStringMap E (Object u) tplLabels' path of
                Inl e \<Rightarrow> Inl (wrap (''failed to set pod template labels for deployment '' @ Name u @ '': '') e)
              | Inr obj \<Rightarrow> Inr (u\<lparr>Object := obj\<rparr>)))"

definition module_labels :: "string \<Rightarrow> (string, string) gomap \<Rightarrow> (string, string) gomap" where
  "module_labels chartVersion labels =
     mset_key ''kyma-project.io/module'' ''btp-operator''
       (mset_key ''chart-version'' chartVersion
         (mset_key ''app.kubernetes.io/managed-by'' ''btp-manager'' labels))"

fun AddLabels :: "('w, 'v) renv_scheme \<Rightarrow> string \<Rightarrow> unstr list \<Rightarrow> error + unstr list" where
  "AddLabels E chartVersion [] = Inr []"
| "AddLabels E chartVersion (u # us) =
     (let u' = u\<lparr>Labels := module_labels chartVersion (Labels u)\<rparr> in
      case (if GetKind u' = ''Deployment'' then addLabelsInPodTemplate E u' else Inr u') of
        Inl e \<Rightarrow> Inl e
      | Inr u'' \<Rightarrow> (case AddLabels E chartVersion us of Inl e \<Rightarrow> Inl e | Inr us' \<Rightarrow> Inr (u'' # us')))"

definition SetNamespace :: "config \<Rightarrow> unstr list \<Rightarrow> unstr list" where
  "SetNamespace c us = map (\<lambda>u. u\<lparr>Namespace := ChartNamespace c\<rparr>) us"

fun set_fields :: "('w, 'v) renv_scheme \<Rightarrow> (string \<times> json \<times> string) list \<Rightarrow> json \<Rightarrow> error + json" where
  "set_fields E [] obj = Inr obj"
| "set_fields E ((key, v, what) # rest) obj =
     (case SetNestedField E obj v [''data'', key] of
        Inl e \<Rightarrow> Inl (wrap (''failed to set '' @ what @ '': '') e)
      | Inr obj' \<Rightarrow> set_fields E rest obj')"

definition SetConfigMapValues :: "('w, 'v) renv_scheme \<Rightarrow> string \<Rightarrow> string \<Rightarrow> unstr \<Rightarrow> error + unstr" where
  "SetConfigMapValues E credentialsNamespace clusterId u =
     (case set_fields E
             [(''CLUSTER_ID'', JStr clusterId, ''CLUSTER_ID''),
              (''RELEASE_NAMESPACE'', JStr credentialsNamespace, ''release namespace''),
              (''MANAGEMENT_NAMESPACE'', JStr credentialsNamespace, ''management namespace''),
              (''ENABLE_LIMITED_CACHE'', JStr (EnableLimitedCache (conf E)), ''enable limited cache'')]
             (Object u) of
        Inl e \<Rightarrow> Inl e
      | Inr obj \<Rightarrow> Inr (u\<lparr>Object := obj\<rparr>))"

definition SetSecretValues :: "('w, 'v) renv_scheme \<Rightarrow> string \<Rightarrow> secret \<Rightarrow> unstr \<Rightarrow> error + unstr" where
  "SetSecretValues E credentialsNamespace x u =
     (let entries = filter (\<lambda>(k, v). k \<noteq> ''cluster_id'' \<and> k \<noteq> ''credentials_namespace'') (Data x) in
      case set_fields E (map (\<lambda>(k, v). (k, JStr (base64 E v), ''secret field '' @ k)) entries) (Object u) of
        Inl e \<Rightarrow> Inl e
      | Inr obj \<Rightarrow> Inr (u\<lparr>Namespace := credentialsNamespace, Object := obj\<rparr>))"

text \<open>\<^verbatim>\<open>%v\<close> of a dynamic value; a map is printed in the order of its keys.\<close>

definition show_int :: "int \<Rightarrow> string" where
  "show_int i = (if i < 0 then CHR ''-'' # show_nat (nat (- i)) else show_nat (nat i))"

fun show_json :: "json \<Rightarrow> string" where
  "show_json JNull = ''<nil>''"
| "show_json (JBool b) = show_bool b"
| "show_json (JNum i) = show_int i"
| "show_json (JStr s) = s"
| "show_json (JBytes s) = ''['' @ Join (map (\<lambda>c. show_nat (of_char c)) s) '' '' @ '']''"
| "show_json (JList xs) = ''['' @ Join (map show_json xs) '' '' @ '']''"
| "show_json (JObj m) =
     ''map['' @ Join (map (\<lambda>(k, t). k @ '':'' @ t) (sort_key fst (map (\<lambda>p. (fst p, show_json (snd p))) m))) '' '' @ '']''"

text \<open>The first container of that name gets the image; a container that is no object is an error.\<close>

fun set_image :: "string \<Rightarrow> string \<Rightarrow> json list \<Rightarrow> error + json list option" where
  "set_image containerName img [] = Inr None"
| "set_image containerName img (c # cs) =
     (case c of
        JObj container \<Rightarrow>
          if map_of container ''name'' = Some (JStr containerName)
          then Inr (Some (JObj (mset_key ''image'' (JStr img) container) # cs))
          else (case set_image containerName img cs of
                  Inl e \<Rightarrow> Inl e
                | Inr None \<Rightarrow> Inr None
                | Inr (Some cs') \<Rightarrow> Inr (Some (c # cs')))
      | _ \<Rightarrow> Inl (Errorf (''cannot cast container field to map[string]interface{}: '' @ show_json c)))"

definition setContainerImage :: "('w, 'v) renv_scheme \<Rightarrow> unstr \<Rightarrow> string \<Rightarrow> string \<Rightarrow> error + unstr" where
  "setContainerImage E u containerName img =
     (let path = [''spec'', ''template'', ''spec'', ''containers''] in
      case NestedSlice E (Object u) path of
        Inl e \<Rightarrow> Inl (wrap (''failed to get containers from '' @ GetKind u @ '' '' @ Name u @ '': '') e)
      | Inr None \<Rightarrow> Inl (Errorf (''containers not found in '' @ GetKind u @ '' '' @ Name u))
      | Inr (Some containers) \<Rightarrow>
          (case set_image containerName img containers of
             Inl e \<Rightarrow> Inl e
           | Inr None \<Rightarrow> Inl (Errorf (''container '' @ containerName @ '' not found in '' @ GetKind u @ '' '' @ Name u))
           | Inr (Some containers') \<Rightarrow>
               (case SetNestedSlice E (Object u) containers' path of
                  Inl e \<Rightarrow> Inl e
                | Inr obj \<Rightarrow> Inr (u\<lparr>Object := obj\<rparr>))))"

definition SetDeploymentImages :: "('w, 'v) renv_scheme \<Rightarrow> unstr \<Rightarrow> error + unstr" where
  "SetDeploymentImages E u =
     (case setContainerImage E u ''manager'' (osGetenv E ''SAP_BTP_SERVICE_OPERATOR'') of
        Inl e \<Rightarrow> Inl (wrap ''failed to set container image for sap-btp-service-operator: '' e)
      | Inr u' \<Rightarrow> Inr u')"

text \<open>The last object of a name and kind, by its position in the slice.\<close>

definition last_index :: "('a \<Rightarrow> bool) \<Rightarrow> 'a list \<Rightarrow> nat option" where
  "last_index P xs = (case filter (\<lambda>i. P (xs ! i)) [0..<length xs] of [] \<Rightarrow> None | is \<Rightarrow> Some (last is))"

definition update_at :: "nat \<Rightarrow> ('a \<Rightarrow> error + 'a) \<Rightarrow> 'a list \<Rightarrow> error + 'a list" where
  "update_at i f xs = (case f (xs ! i) of Inl e \<Rightarrow> Inl e | Inr x \<Rightarrow> Inr (xs[i := x]))"

definition is_operator_configmap :: "unstr \<Rightarrow> bool" where
  "is_operator_configmap u = (Name u = ''sap-btp-operator-config'' \<and> GetKind u = ''ConfigMap'')"

definition is_operator_secret :: "unstr \<Rightarrow> bool" where
  "is_operator_secret u = (Name u = ''sap-btp-service-operator'' \<and> GetKind u = ''Secret'')"

definition is_operator_deployment :: "config \<Rightarrow> unstr \<Rightarrow> bool" where
  "is_operator_deployment c u = (Name u = DeploymentName c \<and> GetKind u = ''Deployment'')"

definition prepare_objects ::
    "('w, 'v) renv_scheme \<Rightarrow> string \<Rightarrow> string \<Rightarrow> unstr list \<Rightarrow> secret \<Rightarrow> error + unstr list" where
  "prepare_objects E credentialsNamespace clusterId us x =
     (case (last_index is_operator_configmap us, last_index is_operator_secret us,
            last_index (is_operator_deployment (conf E)) us) of
        (Some ci, Some si, Some di) \<Rightarrow>
          (case ExtractStringValueFromYamlForGivenKey E (ChartPath (conf E) @ PathSeparator # ''Chart.yaml'') ''version'' of
             Inl e \<Rightarrow> Inl (wrap ''failed to get module chart version: '' e)
           | Inr chartVer \<Rightarrow>
               (case AddLabels E chartVer us of
                  Inl e \<Rightarrow> Inl (wrap ''failed to add labels to resources: '' e)
                | Inr us1 \<Rightarrow>
                    (case update_at ci (SetConfigMapValues E credentialsNamespace clusterId) (SetNamespace (conf E) us1) of
                       Inl e \<Rightarrow> Inl (wrap ''failed to set ConfigMap values: '' e)
                     | Inr us2 \<Rightarrow>
                         (case update_at si (SetSecretValues E credentialsNamespace x) us2 of
                            Inl e \<Rightarrow> Inl (wrap ''failed to set Secret values: '' e)
                          | Inr us3 \<Rightarrow>
                              (case update_at di (SetDeploymentImages E) us3 of
                                 Inl e \<Rightarrow> Inl (wrap ''failed to set container images in Deployment: '' e)
                               | Inr us4 \<Rightarrow> Inr us4)))))
      | (ci, si, di) \<Rightarrow>
          Inl (Errorf (''required module resources not found in manifests (configMap='' @ show_bool (ci \<noteq> None) @
            '', secret='' @ show_bool (si \<noteq> None) @ '', deployment='' @ show_bool (di \<noteq> None) @ '')'')))"

definition PrepareModuleResources ::
    "('w, 'v) renv_scheme \<Rightarrow> unstr list \<Rightarrow> secret \<Rightarrow> (('w, 'z) dstate_scheme, error option \<times> unstr list) state" where
  "PrepareModuleResources E us x = do {
     credentialsNamespace \<leftarrow> CredentialsNamespaceFromManager;
     clusterId \<leftarrow> ClusterIdFromManager;
     ret (case prepare_objects E credentialsNamespace clusterId us x of
            Inl e \<Rightarrow> (Some e, us)
          | Inr us' \<Rightarrow> (None, us')) }"

definition DeleteCreationTimestamp :: "unstr list \<Rightarrow> unstr list" where
  "DeleteCreationTimestamp us = map (\<lambda>u. u\<lparr>CreationTimestamp := None\<rparr>) us"

section \<open>Reading, applying, deleting\<close>

definition GetResourcesToApplyPath :: "config \<Rightarrow> string" where
  "GetResourcesToApplyPath c = ResourcesPath c @ PathSeparator # ''apply''"

definition GetResourcesToDeletePath :: "config \<Rightarrow> string" where
  "GetResourcesToDeletePath c = ResourcesPath c @ PathSeparator # ''delete''"

definition CreateUnstructuredObjectsFromManifestsDir :: "('w, 'v) menv_scheme \<Rightarrow> string \<Rightarrow> error + unstr list" where
  "CreateUnstructuredObjectsFromManifestsDir E manifestsDir =
     (case CollectObjectsFromDir E manifestsDir of
        Inl e \<Rightarrow> Inl (wrap (''while collecting objects from directory '' @ manifestsDir @ '': '') e)
      | Inr objects \<Rightarrow>
          (case ObjectsToUnstructured E objects of
             Inl e \<Rightarrow> Inl (wrap ''while converting to unstructured: '' e)
           | Inr us \<Rightarrow> Inr us))"

definition applyResource :: "('w, 'v) env_scheme \<Rightarrow> unstr \<Rightarrow> (('w, 'z) kstate_scheme, error option) state" where
  "applyResource E u = do {
     err \<leftarrow> Create E cli u;
     ret (map_option (wrap (''while creating '' @ Name u @ '' '' @ GetKind u @ '': '')) err) }"

definition updateResource :: "('w, 'v) env_scheme \<Rightarrow> unstr \<Rightarrow> (('w, 'z) kstate_scheme, error option) state" where
  "updateResource E u = do {
     err \<leftarrow> Update E cli u;
     ret (map_option (wrap (''while updating '' @ Name u @ '' '' @ GetKind u @ '': '')) err) }"

definition applyOrUpdateResource :: "('w, 'v) env_scheme \<Rightarrow> unstr \<Rightarrow> (('w, 'z) kstate_scheme, error option) state" where
  "applyOrUpdateResource E u = do {
     r \<leftarrow> GetUnstructured E cli (Gvk u) (ObjectKeyFromObject u);
     case r of
       Inl e \<Rightarrow>
         if IsNotFound e then applyResource E u
         else ret (Some (wrap (''while trying to get '' @ Name u @ '' '' @ GetKind u @ '': '') e))
     | Inr preExistingResource \<Rightarrow>
         updateResource E (u\<lparr>ResourceVersion := ResourceVersion preExistingResource\<rparr>) }"

fun ApplyOrUpdateResources :: "('w, 'v) env_scheme \<Rightarrow> unstr list \<Rightarrow> (('w, 'z) kstate_scheme, error option) state" where
  "ApplyOrUpdateResources E [] = ret None"
| "ApplyOrUpdateResources E (u # us) = do {
     err \<leftarrow> applyOrUpdateResource E u;
     case err of Some e \<Rightarrow> ret (Some e) | None \<Rightarrow> ApplyOrUpdateResources E us }"

fun delete_each :: "('w, 'v) env_scheme \<Rightarrow> unstr list \<Rightarrow> string list \<Rightarrow> (('w, 'z) kstate_scheme, string list) state" where
  "delete_each E [] errs = ret errs"
| "delete_each E (u # us) errs = do {
     err \<leftarrow> Delete E cli (GetKind u) (ObjectKeyFromObject u);
     let errs' = (case err of
                    None \<Rightarrow> errs
                  | Some e \<Rightarrow> if \<not> IsNotFound e
                              then errs @ [''failed to delete '' @ Name u @ '' '' @ GetKind u @ '': '' @ Error e]
                              else errs);
     delete_each E us errs' }"

definition DeleteResources :: "('w, 'v) env_scheme \<Rightarrow> unstr list \<Rightarrow> (('w, 'z) kstate_scheme, error option) state" where
  "DeleteResources E us = do {
     errs \<leftarrow> delete_each E us [];
     ret (if length errs > 0 then Some (Errorf (Join errs '', '')) else None) }"

definition DeleteOutdatedResources :: "('w, 'v) menv_scheme \<Rightarrow> (('w, 'z) kstate_scheme, error option) state" where
  "DeleteOutdatedResources E =
     (case CreateUnstructuredObjectsFromManifestsDir E (GetResourcesToDeletePath (conf E)) of
        Inl e \<Rightarrow> ret (Some (wrap ''failed to create deletable objects from manifests: '' e))
      | Inr objects \<Rightarrow> DeleteResources E objects)"

section \<open>Waiting for readiness\<close>

definition json_string :: "json option \<Rightarrow> string" where
  "json_string v = (case v of Some (JStr x) \<Rightarrow> x | _ \<Rightarrow> [])"

fun deployment_conditions :: "json list \<Rightarrow> bool \<times> bool \<Rightarrow> bool \<times> bool" where
  "deployment_conditions [] acc = acc"
| "deployment_conditions (c # cs) (available, progressing) =
     (case c of
        JObj cond \<Rightarrow>
          let condType = json_string (map_of cond ''type''); condStatus = json_string (map_of cond ''status'') in
          if condType = ''Available'' then deployment_conditions cs (condStatus = ''True'', progressing)
          else if condType = ''Progressing'' then deployment_conditions cs (available, condStatus = ''True'')
          else deployment_conditions cs (available, progressing)
      | _ \<Rightarrow> deployment_conditions cs (available, progressing))"

definition isDeploymentReady :: "('w, 'v) renv_scheme \<Rightarrow> unstr \<Rightarrow> bool" where
  "isDeploymentReady E u =
     (case NestedSlice E (Object u) [''status'', ''conditions''] of
        Inl e \<Rightarrow> False
      | Inr None \<Rightarrow> False
      | Inr (Some cs) \<Rightarrow>
          let (available, progressing) = deployment_conditions cs (False, False) in available \<and> progressing)"

definition isResourceReady :: "('w, 'v) renv_scheme \<Rightarrow> unstr \<Rightarrow> bool" where
  "isResourceReady E u = (if GetKind u = ''Deployment'' then isDeploymentReady E u else True)"

text \<open>
  The request's context ends after the check interval: a request that took that long has timed out. The
  caller's context is not cancelled during the call.
\<close>

primrec wait_loop ::
    "('w, 'v) renv_scheme \<Rightarrow> unstr \<Rightarrow> int \<Rightarrow> nat \<Rightarrow> (('w, 'z) kstate_scheme, error option) state" where
  "wait_loop E u start 0 = ret (Some Diverged)"
| "wait_loop E u start (Suc n) = do {
     now \<leftarrow> Now;
     if now - start \<ge> ReadyTimeout (conf E)
     then ret (Some (Errorf (''timeout waiting for '' @ Name u @ '' '' @ GetKind u @ '' to be ready'')))
     else do {
       r \<leftarrow> GetUnstructured E cli (Gvk u) (ObjectKeyFromObject u);
       answered \<leftarrow> Now;
       let timedOut = (answered - now \<ge> ReadyCheckInterval (conf E));
       if (case r of Inl e \<Rightarrow> False | Inr current \<Rightarrow> isResourceReady E current) then ret None
       else case (case r of
                    Inl e \<Rightarrow> if \<not> IsNotFound e \<and> \<not> timedOut then Some e else None
                  | Inr current \<Rightarrow> None) of
              Some e \<Rightarrow> ret (Some (wrap (''while checking readiness of '' @ Name u @ '' '' @ GetKind u @ '': '') e))
            | None \<Rightarrow> do {
                Sleep (ReadyCheckInterval (conf E));
                wait_loop E u start n } } }"

definition wait_fuel :: "config \<Rightarrow> nat" where
  "wait_fuel c = nat (ReadyTimeout c div ReadyCheckInterval c) + 2"

definition waitForResource :: "('w, 'v) renv_scheme \<Rightarrow> unstr \<Rightarrow> (('w, 'z) kstate_scheme, error option) state" where
  "waitForResource E u = do {
     start \<leftarrow> Now;
     wait_loop E u start (wait_fuel (conf E)) }"

text \<open>
  One goroutine per object, all started at the same time: each runs on its own copy of the clock, and
  the results arrive in the order of their times. The first error to arrive is the result.
\<close>

fun wait_each :: "('w, 'v) renv_scheme \<Rightarrow> int \<Rightarrow> unstr list \<Rightarrow> (('w, 'z) kstate_scheme, (int \<times> error option) list) state" where
  "wait_each E start [] = ret []"
| "wait_each E start (u # us) = do {
     modify (\<lambda>s. s\<lparr>clock := start\<rparr>);
     err \<leftarrow> waitForResource E u;
     arrival \<leftarrow> Now;
     rest \<leftarrow> wait_each E start us;
     ret ((arrival, err) # rest) }"

definition WaitForResourcesReadiness :: "('w, 'v) renv_scheme \<Rightarrow> unstr list \<Rightarrow> (('w, 'z) kstate_scheme, error option) state" where
  "WaitForResourcesReadiness E us = do {
     start \<leftarrow> Now;
     results \<leftarrow> wait_each E start us;
     modify (\<lambda>s. s\<lparr>clock := Max (insert start (fst ` set results))\<rparr>);
     ret (case List.find (\<lambda>(t, err). err \<noteq> None) (sort_key fst results) of
            None \<Rightarrow> None
          | Some (t, err) \<Rightarrow> err) }"

definition moduleResource_Manager :: "('w, 'v) renv_scheme \<Rightarrow> (('w, 'z) dstate_scheme) resource_manager" where
  "moduleResource_Manager E = \<lparr>
     CreateUnstructuredObjectsFromManifestsDir_m = (\<lambda>path. ret (CreateUnstructuredObjectsFromManifestsDir E path)),
     PrepareModuleResources_m = PrepareModuleResources E,
     ApplyOrUpdateResources_m = ApplyOrUpdateResources E,
     WaitForResourcesReadiness_m = WaitForResourcesReadiness E,
     DeleteOutdatedResources_m = DeleteOutdatedResources E,
     DeleteResources_m = DeleteResources E,
     DeleteCreationTimestamp_m = DeleteCreationTimestamp,
     GetResourcesToApplyPath_m = GetResourcesToApplyPath (conf E),
     GetResourcesToDeletePath_m = GetResourcesToDeletePath (conf E)\<rparr>"

section \<open>Effects\<close>

lemma leaves_cr_set_clock: "leaves_cr (modify (\<lambda>s. s\<lparr>clock := f s\<rparr>))"
  by (auto simp: leaves_cr_def emits_def intro!: keeps_modify)

lemma leaves_cr_ApplyOrUpdateResources: "leaves_cr (ApplyOrUpdateResources E us)"
  by (induction us)
    (auto simp: applyOrUpdateResource_def applyResource_def updateResource_def intro!: leaves_cr_intros)

lemma leaves_cr_delete_each: "leaves_cr (delete_each E us errs)"
  by (induction us arbitrary: errs) (auto simp: Let_def intro!: leaves_cr_intros)

lemma leaves_cr_wait_loop: "leaves_cr (wait_loop E u start n)"
  by (induction n) (auto simp: Let_def intro!: leaves_cr_intros)

lemma leaves_cr_wait_each: "leaves_cr (wait_each E start us)"
  by (induction us) (auto simp: waitForResource_def intro!: leaves_cr_intros leaves_cr_wait_loop leaves_cr_set_clock)

interpretation mrm: resource_management "moduleResource_Manager E"
proof unfold_locales
  show "leaves_cr (WaitForResourcesReadiness_m (moduleResource_Manager E) us)" for us
    by (auto simp: moduleResource_Manager_def WaitForResourcesReadiness_def
        intro!: leaves_cr_intros leaves_cr_wait_each leaves_cr_set_clock)
  show "leaves_cr (DeleteOutdatedResources_m (moduleResource_Manager E))"
    by (auto simp: moduleResource_Manager_def DeleteOutdatedResources_def DeleteResources_def
        intro!: leaves_cr_intros leaves_cr_delete_each)
qed (auto simp: moduleResource_Manager_def PrepareModuleResources_def CredentialsNamespaceFromManager_def
      ClusterIdFromManager_def leaves_cr_ApplyOrUpdateResources intro!: leaves_cr_intros)

section \<open>Nested fields of an object\<close>

text \<open>What the library documents about setting a field and reading it back.\<close>

locale nested_fields =
  fixes nget :: "json \<Rightarrow> string list \<Rightarrow> json option"
    and nset :: "json \<Rightarrow> json \<Rightarrow> string list \<Rightarrow> error + json"
  assumes get_set: "nset ob v p = Inr ob' \<Longrightarrow> nget ob' p = Some v"
    and get_sibling: "nset ob v (p @ [k]) = Inr ob' \<Longrightarrow> k' \<noteq> k \<Longrightarrow> nget ob' (p @ [k']) = nget ob (p @ [k'])"
begin

lemma set_fields_other:
  assumes "SetNestedField E = nset" and "set_fields E kvs ob = Inr ob'" and "k \<notin> fst ` set kvs"
  shows "nget ob' [''data'', k] = nget ob [''data'', k]"
  using assms(2,3)
proof (induction kvs arbitrary: ob)
  case (Cons e kvs)
  obtain k0 v0 w0 where e: "e = (k0, v0, w0)" by (metis surj_pair)
  then obtain ob1 where 1: "nset ob v0 [''data'', k0] = Inr ob1" "set_fields E kvs ob1 = Inr ob'"
    using Cons.prems(1) assms(1) by (auto split: sum.splits)
  have "nget ob1 [''data'', k] = nget ob [''data'', k]"
    using get_sibling[of ob v0 "[''data'']" k0 ob1 k] 1(1) Cons.prems(2) e by auto
  with Cons.IH[OF 1(2)] Cons.prems(2) show ?case by simp
qed simp

lemma set_fields_get:
  assumes "SetNestedField E = nset" and "set_fields E kvs ob = Inr ob'" and "distinct (map fst kvs)"
    and "(k, v, w) \<in> set kvs"
  shows "nget ob' [''data'', k] = Some v"
  using assms(2-4)
proof (induction kvs arbitrary: ob)
  case (Cons e kvs)
  obtain k0 v0 w0 where e: "e = (k0, v0, w0)" by (metis surj_pair)
  then obtain ob1 where 1: "nset ob v0 [''data'', k0] = Inr ob1" "set_fields E kvs ob1 = Inr ob'"
    using Cons.prems(1) assms(1) by (auto split: sum.splits)
  show ?case
  proof (cases "k = k0")
    case True
    with Cons.prems(2,3) e have "k \<notin> fst ` set kvs" "v = v0" by (auto simp: image_iff)
    with set_fields_other[OF assms(1) 1(2)] get_set[OF 1(1)] True show ?thesis by simp
  next
    case False
    with Cons.IH[OF 1(2)] Cons.prems(2,3) e show ?thesis by simp
  qed
qed simp

end

fun json_get :: "json \<Rightarrow> string list \<Rightarrow> json option" where
  "json_get ob [] = Some ob"
| "json_get (JObj fs) (k # ks) = (case map_of fs k of None \<Rightarrow> None | Some ob \<Rightarrow> json_get ob ks)"
| "json_get ob (k # ks) = None"

fun json_set :: "json \<Rightarrow> json \<Rightarrow> string list \<Rightarrow> error + json" where
  "json_set ob v [] = Inr v"
| "json_set (JObj fs) v (k # ks) =
     (case json_set (case map_of fs k of None \<Rightarrow> JObj [] | Some ob \<Rightarrow> ob) v ks of
        Inl e \<Rightarrow> Inl e
      | Inr ob \<Rightarrow> Inr (JObj (mset_key k ob fs)))"
| "json_set ob v (k # ks) = Inl (Errorf ''value cannot be set'')"

lemma json_get_set: "json_set ob v p = Inr ob' \<Longrightarrow> json_get ob' p = Some v"
  by (induction ob v p arbitrary: ob' rule: json_set.induct) (auto split: sum.splits)

lemma json_get_sibling:
  "json_set ob v (p @ [k]) = Inr ob' \<Longrightarrow> k' \<noteq> k \<Longrightarrow> json_get ob' (p @ [k']) = json_get ob (p @ [k'])"
proof (induction p arbitrary: ob ob')
  case Nil
  then show ?case by (cases ob) (auto split: sum.splits)
next
  case (Cons a p)
  then obtain fs sub where ob: "ob = JObj fs" "ob' = JObj (mset_key a sub fs)"
    "json_set (case map_of fs a of None \<Rightarrow> JObj [] | Some x \<Rightarrow> x) v (p @ [k]) = Inr sub"
    by (cases ob) (auto split: sum.splits)
  from Cons.IH[OF ob(3) Cons.prems(2)] ob(1,2) show ?case
    by (cases "map_of fs a"; cases p) auto
qed

interpretation nested: nested_fields json_get json_set
  by unfold_locales (simp_all add: json_get_set json_get_sibling)

section \<open>Prepared objects\<close>

definition labelled :: "string \<Rightarrow> unstr \<Rightarrow> bool" where
  "labelled chartVersion u \<longleftrightarrow>
     map_of (Labels u) ''app.kubernetes.io/managed-by'' = Some ''btp-manager'' \<and>
     map_of (Labels u) ''kyma-project.io/module'' = Some ''btp-operator'' \<and>
     map_of (Labels u) ''chart-version'' = Some chartVersion"

text \<open>Same object up to labels, namespace and contents.\<close>

definition same_identity :: "unstr \<Rightarrow> unstr \<Rightarrow> bool" where
  "same_identity u v \<longleftrightarrow> Name v = Name u \<and> Gvk v = Gvk u"

lemma addLabelsInPodTemplate_same:
  "addLabelsInPodTemplate E u = Inr v \<Longrightarrow> Name v = Name u \<and> Gvk v = Gvk u \<and> Labels v = Labels u \<and> Namespace v = Namespace u"
  by (auto simp: addLabelsInPodTemplate_def Let_def split: sum.splits)

lemma AddLabels_spec:
  "AddLabels E ver us = Inr vs \<Longrightarrow> list_all2 (\<lambda>u v. same_identity u v \<and> labelled ver v) us vs"
proof (induction us arbitrary: vs)
  case (Cons u us)
  let ?u = "u\<lparr>Labels := module_labels ver (Labels u)\<rparr>"
  obtain v where v: "(if GetKind ?u = ''Deployment'' then addLabelsInPodTemplate E ?u else Inr ?u) = Inr v"
    using Cons.prems by (auto simp: Let_def split: sum.splits)
  then have "same_identity u v \<and> Labels v = module_labels ver (Labels u)"
    by (auto simp: same_identity_def dest!: addLabelsInPodTemplate_same split: if_splits)
  moreover have "labelled ver v" using calculation by (simp add: labelled_def module_labels_def)
  ultimately show ?case using Cons v by (auto simp: Let_def split: sum.splits)
qed simp

lemma SetConfigMapValues_same:
  "SetConfigMapValues E ns cid u = Inr v \<Longrightarrow> Name v = Name u \<and> Gvk v = Gvk u \<and> Labels v = Labels u \<and> Namespace v = Namespace u"
  by (auto simp: SetConfigMapValues_def split: sum.splits)

lemma SetSecretValues_same:
  "SetSecretValues E ns x u = Inr v \<Longrightarrow> Name v = Name u \<and> Gvk v = Gvk u \<and> Labels v = Labels u \<and> Namespace v = ns"
  by (auto simp: SetSecretValues_def Let_def split: sum.splits)

lemma SetDeploymentImages_same:
  "SetDeploymentImages E u = Inr v \<Longrightarrow> Name v = Name u \<and> Gvk v = Gvk u \<and> Labels v = Labels u \<and> Namespace v = Namespace u"
  by (auto simp: SetDeploymentImages_def setContainerImage_def Let_def split: sum.splits option.splits)

lemma last_index_Some: "last_index P xs = Some i \<Longrightarrow> i < length xs \<and> P (xs ! i)"
proof -
  assume "last_index P xs = Some i"
  then have ne: "filter (\<lambda>i. P (xs ! i)) [0..<length xs] \<noteq> []" and i: "i = last (filter (\<lambda>i. P (xs ! i)) [0..<length xs])"
    by (auto simp: last_index_def split: list.splits)
  from last_in_set[OF ne] i show ?thesis by auto
qed

lemma update_at_Inr: "update_at i f xs = Inr ys \<Longrightarrow> \<exists>y. f (xs ! i) = Inr y \<and> ys = xs[i := y]"
  by (auto simp: update_at_def split: sum.splits)

text \<open>The stages of a successful preparation.\<close>

lemma prepare_objects_stages:
  assumes "prepare_objects E ns cid us x = Inr vs"
  obtains ci si di ver us1 c y d where
    "last_index is_operator_configmap us = Some ci" "last_index is_operator_secret us = Some si"
    "last_index (is_operator_deployment (conf E)) us = Some di"
    "ExtractStringValueFromYamlForGivenKey E (ChartPath (conf E) @ PathSeparator # ''Chart.yaml'') ''version'' = Inr ver"
    "AddLabels E ver us = Inr us1"
    "SetConfigMapValues E ns cid (SetNamespace (conf E) us1 ! ci) = Inr c"
    "SetSecretValues E ns x ((SetNamespace (conf E) us1)[ci := c] ! si) = Inr y"
    "SetDeploymentImages E ((SetNamespace (conf E) us1)[ci := c, si := y] ! di) = Inr d"
    "vs = (SetNamespace (conf E) us1)[ci := c, si := y, di := d]"
  using assms
  by (auto simp: prepare_objects_def split: option.splits sum.splits dest!: update_at_Inr)

lemma SetNamespace_nth: "i < length us \<Longrightarrow> SetNamespace c us ! i = (us ! i)\<lparr>Namespace := ChartNamespace c\<rparr>"
  by (simp add: SetNamespace_def)

lemma prepare_objects_spec:
  assumes "prepare_objects E ns cid us x = Inr vs"
  shows "\<exists>ver. length vs = length us \<and>
     (\<forall>i < length us. same_identity (us ! i) (vs ! i) \<and> labelled ver (vs ! i) \<and>
        Namespace (vs ! i) = (if last_index is_operator_secret us = Some i then ns else ChartNamespace (conf E)))"
proof -
  obtain ci si di ver us1 c y d where st:
    "last_index is_operator_configmap us = Some ci" "last_index is_operator_secret us = Some si"
    "last_index (is_operator_deployment (conf E)) us = Some di"
    "AddLabels E ver us = Inr us1"
    "SetConfigMapValues E ns cid (SetNamespace (conf E) us1 ! ci) = Inr c"
    "SetSecretValues E ns x ((SetNamespace (conf E) us1)[ci := c] ! si) = Inr y"
    "SetDeploymentImages E ((SetNamespace (conf E) us1)[ci := c, si := y] ! di) = Inr d"
    "vs = (SetNamespace (conf E) us1)[ci := c, si := y, di := d]"
    using assms by (rule prepare_objects_stages)
  have idx: "ci < length us" "si < length us" "di < length us" "ci \<noteq> si" "ci \<noteq> di" "si \<noteq> di"
    using last_index_Some[OF st(1)] last_index_Some[OF st(2)] last_index_Some[OF st(3)]
    by (auto simp: is_operator_configmap_def is_operator_secret_def is_operator_deployment_def)
  have labels: "list_all2 (\<lambda>u v. same_identity u v \<and> labelled ver v) us us1" by (rule AddLabels_spec[OF st(4)])
  have len: "length us1 = length us" using list_all2_lengthD[OF labels] by simp
  have each: "same_identity (us ! i) (us1 ! i) \<and> labelled ver (us1 ! i)" if "i < length us" for i
    using list_all2_nthD[OF labels that] .
  note same = SetConfigMapValues_same[OF st(5)] SetSecretValues_same[OF st(6)] SetDeploymentImages_same[OF st(7)]
  show ?thesis
    using idx len each same st(2,8)
    by (intro exI[of _ ver])
       (auto simp: SetNamespace_nth nth_list_update same_identity_def labelled_def SetNamespace_def)
qed

lemma prepare_objects_values:
  assumes "prepare_objects E ns cid us x = Inr vs"
  shows "\<exists>c \<in> set vs. \<exists>y \<in> set vs. \<exists>u v. is_operator_configmap c \<and> is_operator_secret y \<and>
           SetConfigMapValues E ns cid u = Inr c \<and> SetSecretValues E ns x v = Inr y"
proof -
  obtain ci si di ver us1 c y d where st:
    "last_index is_operator_configmap us = Some ci" "last_index is_operator_secret us = Some si"
    "last_index (is_operator_deployment (conf E)) us = Some di"
    "AddLabels E ver us = Inr us1"
    "SetConfigMapValues E ns cid (SetNamespace (conf E) us1 ! ci) = Inr c"
    "SetSecretValues E ns x ((SetNamespace (conf E) us1)[ci := c] ! si) = Inr y"
    "vs = (SetNamespace (conf E) us1)[ci := c, si := y, di := d]"
    using assms by (rule prepare_objects_stages)
  have idx: "ci < length us" "si < length us" "ci \<noteq> si" "ci \<noteq> di" "si \<noteq> di"
    "is_operator_configmap (us ! ci)" "is_operator_secret (us ! si)"
    using last_index_Some[OF st(1)] last_index_Some[OF st(2)] last_index_Some[OF st(3)]
    by (auto simp: is_operator_configmap_def is_operator_secret_def is_operator_deployment_def)
  have labels: "list_all2 (\<lambda>u v. same_identity u v \<and> labelled ver v) us us1" by (rule AddLabels_spec[OF st(4)])
  have len: "length us1 = length us" using list_all2_lengthD[OF labels] by simp
  have "vs ! ci = c" "vs ! si = y" "ci < length vs" "si < length vs"
    using idx len st(7) by (auto simp: nth_list_update SetNamespace_def)
  then have "c \<in> set vs" "y \<in> set vs" by (metis nth_mem)+
  moreover have "is_operator_configmap c" "is_operator_secret y"
    using idx len list_all2_nthD[OF labels idx(1)] list_all2_nthD[OF labels idx(2)]
      SetConfigMapValues_same[OF st(5)] SetSecretValues_same[OF st(6)]
    by (auto simp: is_operator_configmap_def is_operator_secret_def SetNamespace_nth same_identity_def
        nth_list_update SetNamespace_def)
  ultimately show ?thesis using st(5,6) by blast
qed

lemma PrepareModuleResources_run:
  assumes "run_state (PrepareModuleResources E us x) s = ((None, vs), s')"
  shows "prepare_objects E (credentialsNamespaceFromSapBtpManagerSecret (dd s))
           (clusterIdFromSapBtpManagerSecret (dd s)) us x = Inr vs"
  using assms
  by (auto simp: PrepareModuleResources_def CredentialsNamespaceFromManager_def ClusterIdFromManager_def split: sum.splits)

section \<open>Writes and readiness\<close>

text \<open>Each object is looked up and then created, or updated with the version found.\<close>

fun applied :: "unstr list \<Rightarrow> event list \<Rightarrow> bool" where
  "applied [] t \<longleftrightarrow> t = []"
| "applied (u # us) t \<longleftrightarrow>
     (\<exists>ev t'. t = EvGet (GetKind u) (ObjectKeyFromObject u) # ev # t' \<and>
        (ev = EvCreate u \<or> (\<exists>rv. ev = EvUpdate (u\<lparr>ResourceVersion := rv\<rparr>))) \<and> applied us t')"

lemma wp_ApplyOrUpdateResources:
  "wp (ApplyOrUpdateResources E us) (\<lambda>err s'. err = None \<longrightarrow> (\<exists>t. trace s' = trace s @ t \<and> applied us t)) s"
proof (induction us arbitrary: s)
  case (Cons u us)
  have step: "wp (ApplyOrUpdateResources E us)
      (\<lambda>err s'. err = None \<longrightarrow> (\<exists>t. trace s' = trace s @ t \<and> applied (u # us) t))
      (s\<lparr>api := w, clock := c, trace := trace s @ [EvGet (GetKind u) (ObjectKeyFromObject u), ev]\<rparr>)"
    if "ev = EvCreate u \<or> (\<exists>rv. ev = EvUpdate (u\<lparr>ResourceVersion := rv\<rparr>))" for w c ev
    using that by (intro wp_mono[OF Cons.IH]) auto
  show ?case
    by (auto simp: wp_simps wp_api_call applyOrUpdateResource_def applyResource_def updateResource_def
        GetUnstructured_def Create_def Update_def simp del: applied.simps
        split: prod.split sum.split option.split intro!: step)
qed (simp add: wp_simps)

lemma wait_loop_ready:
  "run_state (wait_loop E u start n) s = (None, s') \<Longrightarrow>
     \<exists>w current. clGetUnstructured (cli E) (Gvk u) (ObjectKeyFromObject u) w = (Inr current, api s') \<and> isResourceReady E current"
proof (induction n arbitrary: s)
  case (Suc n)
  obtain r w where r: "clGetUnstructured (cli E) (Gvk u) (ObjectKeyFromObject u) (api s) = (r, w)" by fastforce
  show ?case
    using Suc.prems Suc.IH r
    by (auto simp: run_simps Let_def split: if_splits sum.splits option.splits intro: exI[of _ "api s"])
qed simp

lemma wait_each_ready:
  "run_state (wait_each E start us) s = (results, s') \<Longrightarrow> \<forall>p \<in> set results. snd p = None \<Longrightarrow>
     \<forall>u \<in> set us. \<exists>w w' current. clGetUnstructured (cli E) (Gvk u) (ObjectKeyFromObject u) w = (Inr current, w') \<and>
                    isResourceReady E current"
proof (induction us arbitrary: s results)
  case (Cons u us)
  let ?s = "s\<lparr>clock := start\<rparr>"
  obtain err s1 where 1: "run_state (waitForResource E u) ?s = (err, s1)" by fastforce
  obtain rest s2 where 2: "run_state (wait_each E start us) s1 = (rest, s2)" by fastforce
  have results: "results = (clock s1, err) # rest" "s2 = s'"
    using Cons.prems(1) 1 2 by (auto simp: run_simps)
  then have "err = None" using Cons.prems(2) by simp
  with wait_loop_ready[of E u start "wait_fuel (conf E)" ?s s1] 1
  have "\<exists>w w' current. clGetUnstructured (cli E) (Gvk u) (ObjectKeyFromObject u) w = (Inr current, w') \<and> isResourceReady E current"
    by (auto simp: waitForResource_def run_simps)
  moreover have "\<forall>p \<in> set rest. snd p = None" using Cons.prems(2) results by simp
  ultimately show ?case using Cons.IH[of s1 rest] 2 results(2) by simp
qed simp

lemma wait_loop_more_fuel:
  assumes "0 < ReadyCheckInterval (conf E)"
    and "start + ReadyTimeout (conf E) \<le> clock s + int n * ReadyCheckInterval (conf E)"
  shows "run_state (wait_loop E u start (Suc n + k)) s = run_state (wait_loop E u start (Suc n)) s"
  using assms(2)
proof (induction n arbitrary: s)
  case 0
  then show ?case by (simp add: run_simps)
next
  case (Suc n)
  let ?d = "ReadyCheckInterval (conf E)"
  obtain r w where r: "clGetUnstructured (cli E) (Gvk u) (ObjectKeyFromObject u) (api s) = (r, w)" by fastforce
  let ?s = "s\<lparr>api := w, clock := clock s + int (latency E w) + max 0 ?d,
              trace := trace s @ [EvGet (GetKind u) (ObjectKeyFromObject u), EvSleep ?d]\<rparr>"
  have "start + ReadyTimeout (conf E) \<le> clock ?s + int n * ?d"
    using Suc.prems assms(1) by (simp add: algebra_simps)
  from Suc.IH[OF this] show ?case
    unfolding add_Suc wait_loop.simps(2)[of _ _ _ "Suc (n + k)"] wait_loop.simps(2)[of _ _ _ "Suc n"]
    by (auto simp: run_simps r Let_def simp del: wait_loop.simps split: sum.split option.split)
qed

section \<open>Properties\<close>

text \<open>
  C6: preparing the module resources keeps every object's name and type, labels each of them with the
  operator, the module and one chart version, and puts all of them into the chart namespace except the
  operand's secret, which goes to the credentials namespace.
\<close>

theorem prepared_labels_and_namespaces:
  assumes "run_state (PrepareModuleResources E us x) s = ((None, vs), s')"
  shows "\<exists>ver. length vs = length us \<and>
     (\<forall>i < length us. Name (vs ! i) = Name (us ! i) \<and> Gvk (vs ! i) = Gvk (us ! i) \<and>
        map_of (Labels (vs ! i)) ''app.kubernetes.io/managed-by'' = Some ''btp-manager'' \<and>
        map_of (Labels (vs ! i)) ''kyma-project.io/module'' = Some ''btp-operator'' \<and>
        map_of (Labels (vs ! i)) ''chart-version'' = Some ver \<and>
        Namespace (vs ! i) =
          (if last_index is_operator_secret us = Some i
           then credentialsNamespaceFromSapBtpManagerSecret (dd s) else ChartNamespace (conf E)))"
  using prepare_objects_spec[OF PrepareModuleResources_run[OF assms]]
  by (simp add: same_identity_def labelled_def)



text \<open>
  C33: waiting for readiness succeeds only if every object was read back in a ready state; a Deployment
  is ready when its conditions report it available and progressing.
\<close>

theorem wait_success_means_ready:
  assumes "run_state (WaitForResourcesReadiness E us) s = (None, s')" and "u \<in> set us"
  shows "\<exists>w w' current. clGetUnstructured (cli E) (Gvk u) (ObjectKeyFromObject u) w = (Inr current, w') \<and>
           (GetKind current = ''Deployment'' \<longrightarrow> isDeploymentReady E current)"
proof -
  obtain results s1 where 1: "run_state (wait_each E (clock s) us) s = (results, s1)" by fastforce
  have "\<forall>p \<in> set results. snd p = None"
    using assms(1) 1
    by (fastforce simp: WaitForResourcesReadiness_def run_simps find_None_iff split: option.splits prod.splits
        dest!: find_Some_iff[THEN iffD1])
  with wait_each_ready[OF 1] assms(2) show ?thesis by (fastforce simp: isResourceReady_def)
qed

text \<open>
  Waiting for an object ends: with a positive check interval the number of polls the model allows is
  never the limit; any larger number gives the same run.
\<close>

lemma wait_terminates:
  assumes "0 < ReadyCheckInterval (conf E)" and "wait_fuel (conf E) \<le> n"
  shows "run_state (wait_loop E u (clock s) n) s = run_state (waitForResource E u) s"
proof -
  have "clock s + ReadyTimeout (conf E) \<le> clock s + int (wait_fuel (conf E) - 1) * ReadyCheckInterval (conf E)"
    using poll_bound[OF assms(1), of "ReadyTimeout (conf E)"] by (simp add: wait_fuel_def)
  from wait_loop_more_fuel[OF assms(1) this, of u "n - wait_fuel (conf E)"]
  have "run_state (wait_loop E u (clock s) (Suc (wait_fuel (conf E) - 1) + (n - wait_fuel (conf E)))) s =
        run_state (wait_loop E u (clock s) (Suc (wait_fuel (conf E) - 1))) s" .
  moreover have "Suc (wait_fuel (conf E) - 1) = wait_fuel (conf E)" by (simp add: wait_fuel_def)
  ultimately show ?thesis
    using assms(2) by (simp add: waitForResource_def run_simps del: wait_loop.simps)
qed

section \<open>Witnesses\<close>

definition mem_renv :: "cluster renv" where
  "mem_renv = menv.extend (mem_menv [] [(ChartPath default_config @ PathSeparator # ''Chart.yaml'', ''version: 1.0'')] (\<lambda>m. Inl not_found))
     (renv.fields
        (\<lambda>ob p. case json_get ob p of None \<Rightarrow> Inr None | Some (JList xs) \<Rightarrow> Inr (Some xs) | Some v \<Rightarrow> Inl (Errorf ''no slice''))
        (\<lambda>ob xs p. json_set ob (JList xs) p)
        (\<lambda>ob p. Inr None)
        (\<lambda>ob m p. json_set ob (JObj (map (\<lambda>(k, v). (k, JStr v)) m)) p)
        json_set (\<lambda>x. ''b64:'' @ x) (\<lambda>x. Inr [(''version'', JStr ''1.0'')]))"

definition example_object :: "string \<Rightarrow> string \<Rightarrow> json \<Rightarrow> unstr" where
  "example_object kind name ob = \<lparr>Name = name, Namespace = [], Labels = [], Annotations = [], Finalizers = [],
     DeletionTimestamp = None, ResourceVersion = [], Gvk = \<lparr>Group = ''apps'', Version = ''v1'', Kind = kind\<rparr>,
     CreationTimestamp = None, ManagedFields = False, Object = ob\<rparr>"

definition example_objects :: "unstr list" where
  "example_objects =
     [example_object ''Deployment'' ''sap-btp-operator-controller-manager''
        (JObj [(''spec'', JObj [(''template'', JObj [(''spec'', JObj [(''containers'',
           JList [JObj [(''name'', JStr ''manager'')]])])])])]),
      example_object ''Secret'' ''sap-btp-service-operator'' (JObj []),
      example_object ''ConfigMap'' ''sap-btp-operator-config'' (JObj [])]"

definition example_manager_secret :: secret where
  "example_manager_secret = example_secret ''sap-btp-manager'' ''kyma-system''
     [(''clientid'', ''me''), (''cluster_id'', ''c1'')]"

definition prepare_run :: "((error option \<times> unstr list) \<times> cluster dstate)" where
  "prepare_run = run_state (PrepareModuleResources mem_renv example_objects example_manager_secret) (drift_dstate [])"

lemmas mem_renv_simps =
  mem_renv_def mem_menv_def env.defs menv.defs renv.defs

lemma prepare_run_ok:
  "run_state (PrepareModuleResources mem_renv example_objects example_manager_secret) (drift_dstate []) =
     ((None, snd (fst prepare_run)), snd prepare_run)"
proof -
  have "fst (fst prepare_run) = None" unfolding prepare_run_def by code_simp
  then show ?thesis by (metis prepare_run_def prod.collapse)
qed

theorem prepared_labels_and_namespaces_witness:
  "length (snd (fst prepare_run)) = 3 \<and> Namespace (snd (fst prepare_run) ! 1) = ''kyma-system'' \<and>
   map_of (Labels (snd (fst prepare_run) ! 2)) ''app.kubernetes.io/managed-by'' = Some ''btp-manager''"
proof -
  have "length example_objects = 3" "last_index is_operator_secret example_objects = Some 1" by code_simp+
  with prepared_labels_and_namespaces[OF prepare_run_ok] show ?thesis
    by (auto simp: drift_example_simps)
qed



definition ready_deployment :: unstr where
  "ready_deployment = example_object ''Deployment'' ''d'' (JObj [(''status'', JObj [(''conditions'',
     JList [JObj [(''type'', JStr ''Available''), (''status'', JStr ''True'')],
            JObj [(''type'', JStr ''Progressing''), (''status'', JStr ''True'')]])])])"

definition ready_dstate :: "cluster dstate" where
  "ready_dstate = drift_dstate []\<lparr>api := empty_cluster\<lparr>mObjs := [ready_deployment]\<rparr>\<rparr>"

theorem wait_success_means_ready_witness:
  "\<exists>w w' current. clGetUnstructured mem_client (Gvk ready_deployment) (ObjectKeyFromObject ready_deployment) w =
      (Inr current, w') \<and> (GetKind current = ''Deployment'' \<longrightarrow> isDeploymentReady mem_renv current)"
proof -
  have "fst (run_state (WaitForResourcesReadiness mem_renv [ready_deployment]) ready_dstate) = None" by code_simp
  then have "run_state (WaitForResourcesReadiness mem_renv [ready_deployment]) ready_dstate =
      (None, snd (run_state (WaitForResourcesReadiness mem_renv [ready_deployment]) ready_dstate))"
    by (metis prod.collapse)
  from wait_success_means_ready[OF this, of ready_deployment] show ?thesis
    by (simp add: mem_renv_simps)
qed

end
