(* ===== verification/Certs.thy ===== *)
theory Certs
  imports Module_Resource
begin

text \<open>
  Certificates (\<^verbatim>\<open>internal/certs\<close>). The cryptographic library is a part of the environment: keys and
  encoded certificates are opaque byte strings, and randomness is drawn from the world. The locale
  \<open>x509_library\<close> states what its documentation promises about certificates it has made itself: they parse
  back with the fields of their template (times cut to seconds), and a leaf signed with the key of a
  certificate authority verifies against it while both are valid.
\<close>

section \<open>The library\<close>

datatype signature_algorithm = UnknownSignatureAlgorithm | SHA256WithRSA

datatype public_key_algorithm = UnknownPublicKeyAlgorithm | RSA

record x509cert =
  SerialNumber :: int
  DNSNames :: "string list"
  NotBefore :: int
  NotAfter :: int
  IsCA :: bool
  ExtKeyUsage :: "int list"
  KeyUsage :: int
  BasicConstraintsValid :: bool
  SignatureAlgorithm :: signature_algorithm
  PublicKeyAlgorithm :: public_key_algorithm
  SubjectKeyId :: string
  PublicKey :: string
  Signature :: string
  Raw :: string

abbreviation "ExtKeyUsageServerAuth \<equiv> (1 :: int)"
abbreviation "ExtKeyUsageClientAuth \<equiv> (2 :: int)"
abbreviation "KeyUsageDigitalSignature \<equiv> (1 :: int)"
abbreviation "KeyUsageCertSign \<equiv> (32 :: int)"

record 'w cenv = "'w renv" +
  rsaGenerateKey :: "int \<Rightarrow> 'w \<Rightarrow> (error + string) \<times> 'w"
  publicOf :: "string \<Rightarrow> string"
  marshalPKIXPublicKey :: "string \<Rightarrow> error + string"
  sha256 :: "string \<Rightarrow> string"
  randIntn :: "int \<Rightarrow> 'w \<Rightarrow> int \<times> 'w"
  createCertificate :: "x509cert \<Rightarrow> x509cert \<Rightarrow> string \<Rightarrow> string \<Rightarrow> 'w \<Rightarrow> (error + string) \<times> 'w"
  parseCertificate :: "string \<Rightarrow> error + x509cert"
  marshalPKCS1PrivateKey :: "string \<Rightarrow> string"
  parsePKCS1PrivateKey :: "string \<Rightarrow> error + string"
  pemEncode :: "string \<Rightarrow> string \<Rightarrow> error + string"
  pemEncodeToMemory :: "string \<Rightarrow> string \<Rightarrow> string"
  pemDecode :: "string \<Rightarrow> string option"
  appendCertsFromPEM :: "string \<Rightarrow> bool \<times> x509cert list"
  x509Verify :: "x509cert \<Rightarrow> x509cert list \<Rightarrow> int \<Rightarrow> error option"
  secretToUnstructured :: "string \<Rightarrow> string \<Rightarrow> secret \<Rightarrow> error + unstr"

text \<open>Randomness changes the world and sends no request.\<close>

definition draw :: "('w \<Rightarrow> 'a \<times> 'w) \<Rightarrow> (('w, 'z) kstate_scheme, 'a) state" where
  "draw f = State_Monad.State (\<lambda>s. let (a, w) = f (api s) in (a, s\<lparr>api := w\<rparr>))"

lemma run_draw [run_simps]: "run_state (draw f) s = (fst (f (api s)), s\<lparr>api := snd (f (api s))\<rparr>)"
  by (simp add: draw_def split: prod.split)

lemma wp_draw: "wp (draw f) Q s = (case f (api s) of (a, w) \<Rightarrow> Q a (s\<lparr>api := w\<rparr>))"
  by (simp add: draw_def wp_def split: prod.splits)

lemma leaves_cr_draw [leaves_cr_intros]: "leaves_cr (draw f)"
  by (simp add: leaves_cr_def emits_def keeps_def run_draw)

section \<open>Making certificates\<close>

definition randMax :: int where
  "randMax = 10000"

definition getDns :: "string list" where
  "getDns = [''sap-btp-operator-webhook-service.kyma-system.svc'', ''sap-btp-operator-webhook-service.kyma-system'']"

definition DecodeCertificate :: "('w, 'v) cenv_scheme \<Rightarrow> string \<Rightarrow> error + string" where
  "DecodeCertificate E cert =
     (case pemDecode E cert of None \<Rightarrow> Inl (Errorf ''while decoding cert to pem'') | Some bytes \<Rightarrow> Inr bytes)"

definition self_signed_template :: "int \<Rightarrow> int \<Rightarrow> int \<Rightarrow> string \<Rightarrow> x509cert" where
  "self_signed_template serial now expiration keyId = \<lparr>
     SerialNumber = serial, DNSNames = getDns, NotBefore = now, NotAfter = expiration, IsCA = True,
     ExtKeyUsage = [ExtKeyUsageClientAuth, ExtKeyUsageServerAuth],
     KeyUsage = KeyUsageDigitalSignature + KeyUsageCertSign, BasicConstraintsValid = True,
     SignatureAlgorithm = SHA256WithRSA, PublicKeyAlgorithm = RSA,
     SubjectKeyId = keyId, PublicKey = [], Signature = [], Raw = []\<rparr>"

definition signed_template :: "int \<Rightarrow> int \<Rightarrow> int \<Rightarrow> string \<Rightarrow> x509cert" where
  "signed_template serial now expiration keyId = \<lparr>
     SerialNumber = serial, DNSNames = getDns, NotBefore = now, NotAfter = expiration, IsCA = False,
     ExtKeyUsage = [ExtKeyUsageClientAuth, ExtKeyUsageServerAuth],
     KeyUsage = KeyUsageDigitalSignature, BasicConstraintsValid = False,
     SignatureAlgorithm = SHA256WithRSA, PublicKeyAlgorithm = RSA,
     SubjectKeyId = keyId, PublicKey = [], Signature = [], Raw = []\<rparr>"

text \<open>The new certificate and its private key, PEM encoded.\<close>

definition encode_pair :: "('w, 'v) cenv_scheme \<Rightarrow> string \<Rightarrow> string \<Rightarrow> error + string \<times> string" where
  "encode_pair E newCertificate key =
     (case pemEncode E ''CERTIFICATE'' newCertificate of
        Inl e \<Rightarrow> Inl e
      | Inr certPem \<Rightarrow>
          (case pemEncode E ''RSA PRIVATE KEY'' (marshalPKCS1PrivateKey E key) of
             Inl e \<Rightarrow> Inl e
           | Inr keyPem \<Rightarrow> Inr (certPem, keyPem)))"

definition GenerateSelfSignedCertificate ::
    "('w, 'v) cenv_scheme \<Rightarrow> int \<Rightarrow> (('w, 'z) kstate_scheme, error + string \<times> string) state" where
  "GenerateSelfSignedCertificate E expiration = do {
     r \<leftarrow> draw (rsaGenerateKey E (RsaKeyBits (conf E)));
     case r of
       Inl e \<Rightarrow> ret (Inl e)
     | Inr key \<Rightarrow>
         (case marshalPKIXPublicKey E (publicOf E key) of
            Inl e \<Rightarrow> ret (Inl e)
          | Inr pubKeyBytes \<Rightarrow> do {
              serial \<leftarrow> draw (randIntn E randMax);
              now \<leftarrow> Now;
              let template = self_signed_template serial now expiration (sha256 E pubKeyBytes);
              r \<leftarrow> draw (createCertificate E template template (publicOf E key) key);
              ret (case r of Inl e \<Rightarrow> Inl e | Inr der \<Rightarrow> encode_pair E der key) }) }"

definition GenerateSignedCertificate ::
    "('w, 'v) cenv_scheme \<Rightarrow> int \<Rightarrow> string \<Rightarrow> string \<Rightarrow> (('w, 'z) kstate_scheme, error + string \<times> string) state" where
  "GenerateSignedCertificate E expiration sourceCertificate sourcePrivateKey = do {
     r \<leftarrow> draw (rsaGenerateKey E (RsaKeyBits (conf E)));
     case r of
       Inl e \<Rightarrow> ret (Inl e)
     | Inr key \<Rightarrow>
         (case marshalPKIXPublicKey E (publicOf E key) of
            Inl e \<Rightarrow> ret (Inl e)
          | Inr pubKeyBytes \<Rightarrow> do {
              serial \<leftarrow> draw (randIntn E randMax);
              now \<leftarrow> Now;
              let template = signed_template serial now expiration (sha256 E pubKeyBytes);
              case DecodeCertificate E sourceCertificate of
                Inl e \<Rightarrow> ret (Inl e)
              | Inr certBytes \<Rightarrow>
                  (case parseCertificate E certBytes of
                     Inl e \<Rightarrow> ret (Inl e)
                   | Inr parsedSourceCertificate \<Rightarrow>
                       (case DecodeCertificate E sourcePrivateKey of
                          Inl e \<Rightarrow> ret (Inl e)
                        | Inr keyBytes \<Rightarrow>
                            (case parsePKCS1PrivateKey E keyBytes of
                               Inl e \<Rightarrow> ret (Inl e)
                             | Inr parsedSourcePrivateKey \<Rightarrow> do {
                                 r \<leftarrow> draw (createCertificate E template parsedSourceCertificate (publicOf E key)
                                        parsedSourcePrivateKey);
                                 ret (case r of Inl e \<Rightarrow> Inl e | Inr der \<Rightarrow> encode_pair E der key) }))) }) }"

section \<open>Checking certificates\<close>

text \<open>The result is Go's pair of a flag and an error; the flag is \<^verbatim>\<open>true\<close> next to some of the errors.\<close>

definition VerifyIfLeafIsSignedByGivenCA ::
    "('w, 'v) cenv_scheme \<Rightarrow> int \<Rightarrow> string \<Rightarrow> string \<Rightarrow> bool \<times> error option" where
  "VerifyIfLeafIsSignedByGivenCA E now caCertificate leafCertificate =
     (case DecodeCertificate E caCertificate of
        Inl e \<Rightarrow> (True, Some (wrap ''CA certificate: '' e))
      | Inr caBytes \<Rightarrow>
     (case DecodeCertificate E leafCertificate of
        Inl e \<Rightarrow> (True, Some (wrap ''leaf certificate: '' e))
      | Inr leafBytes \<Rightarrow>
     (case parseCertificate E caBytes of
        Inl e \<Rightarrow> (False, Some (wrap ''CA certificate: '' e))
      | Inr ca \<Rightarrow>
          if \<not> IsCA ca then (False, Some (Errorf ''CA certificate is not CA''))
          else
            let (ok, roots) = appendCertsFromPEM E (pemEncodeToMemory E ''CERTIFICATE'' (Raw ca)) in
            if \<not> ok then (False, Some (Errorf ''appending first pem to root fail''))
            else (case parseCertificate E leafBytes of
                    Inl e \<Rightarrow> (False, Some (wrap ''leaf certificate: '' e))
                  | Inr leaf \<Rightarrow>
                      if IsCA leaf then (False, Some (Errorf ''leaf certificate is a CA one but it is expected to be leaf''))
                      else (case x509Verify E leaf roots now of
                              Some e \<Rightarrow> (False, Some (wrap ''failed to verify certificate: '' e))
                            | None \<Rightarrow> (True, None))))))"

definition CertificateExpires :: "x509cert \<Rightarrow> int \<Rightarrow> int \<Rightarrow> bool" where
  "CertificateExpires cert expirationBoundary now = (now > NotAfter cert + expirationBoundary)"

lemma leaves_cr_certs [leaves_cr_intros]:
  "leaves_cr (GenerateSelfSignedCertificate E t)" "leaves_cr (GenerateSignedCertificate E t c k)"
  by (auto simp: GenerateSelfSignedCertificate_def GenerateSignedCertificate_def Let_def intro!: leaves_cr_intros)

section \<open>What the library promises\<close>

text \<open>Times are stored in whole seconds.\<close>

definition cut_to_second :: "int \<Rightarrow> int \<Rightarrow> bool" where
  "cut_to_second stored t \<longleftrightarrow> stored \<le> t \<and> t < stored + Second"

definition from_template :: "x509cert \<Rightarrow> string \<Rightarrow> x509cert \<Rightarrow> bool" where
  "from_template template pub cert \<longleftrightarrow>
     cut_to_second (NotBefore cert) (NotBefore template) \<and> cut_to_second (NotAfter cert) (NotAfter template) \<and>
     IsCA cert = (IsCA template \<and> BasicConstraintsValid template) \<and>
     BasicConstraintsValid cert = BasicConstraintsValid template \<and> KeyUsage cert = KeyUsage template \<and>
     ExtKeyUsage cert = ExtKeyUsage template \<and> PublicKey cert = pub"

definition can_sign :: "x509cert \<Rightarrow> bool" where
  "can_sign ca \<longleftrightarrow> IsCA ca \<and> BasicConstraintsValid ca \<and> bit (KeyUsage ca) 5 \<and> ExtKeyUsageServerAuth \<in> set (ExtKeyUsage ca)"

definition valid_at :: "x509cert \<Rightarrow> int \<Rightarrow> bool" where
  "valid_at cert t \<longleftrightarrow> NotBefore cert \<le> t \<and> t \<le> NotAfter cert"

locale x509_library =
  fixes E :: "('w, 'v) cenv_scheme"
  assumes pem_roundtrip: "pemEncode E ty b = Inr p \<Longrightarrow> pemDecode E p = Some b"
    and pem_empty: "pemDecode E [] = None"
    and key_roundtrip: "parsePKCS1PrivateKey E (marshalPKCS1PrivateKey E k) = Inr k"
    and created_parses: "createCertificate E tmpl parent pub priv w = (Inr der, w') \<Longrightarrow>
           \<exists>c. parseCertificate E der = Inr c \<and> from_template tmpl pub c"
    and pool_of_parsed: "parseCertificate E der = Inr c \<Longrightarrow>
           appendCertsFromPEM E (pemEncodeToMemory E ''CERTIFICATE'' (Raw c)) = (True, [c])"
    and signed_verifies: "createCertificate E tmpl ca pub priv w = (Inr der, w') \<Longrightarrow> parseCertificate E der = Inr leaf \<Longrightarrow>
           publicOf E priv = PublicKey ca \<Longrightarrow> can_sign ca \<Longrightarrow> ExtKeyUsageServerAuth \<in> set (ExtKeyUsage tmpl) \<Longrightarrow>
           valid_at ca t \<Longrightarrow> valid_at leaf t \<Longrightarrow> x509Verify E leaf [ca] t = None"

text \<open>A PEM certificate and key that belong together and can sign.\<close>

definition authority :: "('w, 'v) cenv_scheme \<Rightarrow> string \<Rightarrow> string \<Rightarrow> x509cert \<Rightarrow> bool" where
  "authority E certPem keyPem ca \<longleftrightarrow>
     (\<exists>der keyBytes key. DecodeCertificate E certPem = Inr der \<and> parseCertificate E der = Inr ca \<and>
        DecodeCertificate E keyPem = Inr keyBytes \<and> parsePKCS1PrivateKey E keyBytes = Inr key \<and>
        PublicKey ca = publicOf E key \<and> can_sign ca)"

text \<open>A PEM certificate for a leaf that verifies against an authority while both are valid.\<close>

definition signed_leaf :: "('w, 'v) cenv_scheme \<Rightarrow> x509cert \<Rightarrow> string \<Rightarrow> x509cert \<Rightarrow> bool" where
  "signed_leaf E ca certPem leaf \<longleftrightarrow>
     (\<exists>der. DecodeCertificate E certPem = Inr der \<and> parseCertificate E der = Inr leaf) \<and> \<not> IsCA leaf \<and>
     (\<forall>t. valid_at ca t \<longrightarrow> valid_at leaf t \<longrightarrow> x509Verify E leaf [ca] t = None)"

context x509_library
begin

lemma decoded_nonempty: "DecodeCertificate E p = Inr b \<Longrightarrow> p \<noteq> []"
  by (auto simp: DecodeCertificate_def pem_empty)

lemma encode_pair_decodes:
  assumes "encode_pair E der key = Inr (certPem, keyPem)"
  shows "DecodeCertificate E certPem = Inr der" "DecodeCertificate E keyPem = Inr (marshalPKCS1PrivateKey E key)"
  using assms by (auto simp: encode_pair_def DecodeCertificate_def split: sum.splits dest!: pem_roundtrip)

lemma self_signed_authority:
  assumes "run_state (GenerateSelfSignedCertificate E expiration) s = (Inr (certPem, keyPem), s')"
  shows "\<exists>ca. authority E certPem keyPem ca \<and> cut_to_second (NotBefore ca) (clock s) \<and>
           cut_to_second (NotAfter ca) expiration"
proof -
  obtain key serial keyId w der w' where
    created: "createCertificate E (self_signed_template serial (clock s) expiration keyId)
       (self_signed_template serial (clock s) expiration keyId) (publicOf E key) key w = (Inr der, w')"
    and pair: "encode_pair E der key = Inr (certPem, keyPem)"
    using assms
    by (auto simp: GenerateSelfSignedCertificate_def Let_def run_simps prod_eq_iff split: sum.splits)
  obtain ca where ca: "parseCertificate E der = Inr ca"
    "from_template (self_signed_template serial (clock s) expiration keyId) (publicOf E key) ca"
    using created_parses[OF created] by blast
  have "can_sign ca" using ca(2) by (simp add: from_template_def self_signed_template_def can_sign_def)
  with ca encode_pair_decodes[OF pair] key_roundtrip show ?thesis
    by (auto simp: authority_def from_template_def self_signed_template_def)
qed

lemma signed_leaf_generated:
  assumes "authority E certPem keyPem ca"
    and "run_state (GenerateSignedCertificate E expiration certPem keyPem) s = (Inr (leafPem, leafKeyPem), s')"
  shows "leafKeyPem \<noteq> [] \<and> (\<exists>leaf. signed_leaf E ca leafPem leaf \<and> cut_to_second (NotBefore leaf) (clock s) \<and>
           cut_to_second (NotAfter leaf) expiration)"
proof -
  obtain der0 kb priv where au: "DecodeCertificate E certPem = Inr der0" "parseCertificate E der0 = Inr ca"
    "DecodeCertificate E keyPem = Inr kb" "parsePKCS1PrivateKey E kb = Inr priv"
    "PublicKey ca = publicOf E priv" "can_sign ca"
    using assms(1) by (auto simp: authority_def)
  obtain key serial keyId w der w' where
    created: "createCertificate E (signed_template serial (clock s) expiration keyId) ca (publicOf E key) priv w = (Inr der, w')"
    and pair: "encode_pair E der key = Inr (leafPem, leafKeyPem)"
    using assms(2) au
    by (auto simp: GenerateSignedCertificate_def Let_def run_simps prod_eq_iff split: sum.splits)
  obtain leaf where leaf: "parseCertificate E der = Inr leaf"
    "from_template (signed_template serial (clock s) expiration keyId) (publicOf E key) leaf"
    using created_parses[OF created] by blast
  have "x509Verify E leaf [ca] t = None" if "valid_at ca t" "valid_at leaf t" for t
    by (rule signed_verifies[OF created leaf(1) au(5)[symmetric] au(6) _ that]) (simp add: signed_template_def)
  with leaf encode_pair_decodes[OF pair] show ?thesis
    by (auto simp: signed_leaf_def from_template_def signed_template_def dest: decoded_nonempty)
qed

text \<open>The check that the manager makes accepts such a leaf while both certificates are valid.\<close>

lemma signed_leaf_verified:
  assumes "authority E certPem keyPem ca" and "signed_leaf E ca leafPem leaf"
    and "valid_at ca t" and "valid_at leaf t"
  shows "VerifyIfLeafIsSignedByGivenCA E t certPem leafPem = (True, None)"
  using assms pool_of_parsed
  by (auto simp: VerifyIfLeafIsSignedByGivenCA_def authority_def signed_leaf_def can_sign_def)

end

lemma keeps_draw [keeps_intros]: "(\<And>s w. f (s\<lparr>api := w\<rparr>) = f s) \<Longrightarrow> keeps f (draw g)"
  by (simp add: keeps_def run_draw)

lemma keeps_certs [keeps_intros]:
  assumes "\<And>s w. f (s\<lparr>api := w\<rparr>) = f s"
  shows "keeps f (GenerateSelfSignedCertificate E t)" "keeps f (GenerateSignedCertificate E t c k)"
  by (auto simp: GenerateSelfSignedCertificate_def GenerateSignedCertificate_def Let_def assms intro!: keeps_intros)

end
