(* ===== verification/Secrets_Manager.thy ===== *)
theory Secrets_Manager
  imports Interfaces
begin

text \<open>
  The generic object manager (\<^verbatim>\<open>internal/k8s/generic\<close>), which wraps the client's errors with the kind and
  name of the object, and the secrets manager on top of it (\<^verbatim>\<open>internal/k8s/secrets\<close>), which reads the two
  certificate secrets and treats a missing one as no secret. The object manager is generic in Go: here it
  takes the request as an argument.
\<close>

section \<open>The object manager\<close>

definition kindOf :: "string \<Rightarrow> string \<Rightarrow> string" where
  "kindOf objectKind typeName = (if objectKind \<noteq> [] then objectKind else typeName)"

definition om_errorf :: "string \<Rightarrow> string \<Rightarrow> string \<Rightarrow> error \<Rightarrow> error" where
  "om_errorf verb kind name = wrap (''while '' @ verb @ '' '' @ kind @ '' '' @ quote name @ '': '')"

definition om_Create :: "('w, 'v) env_scheme \<Rightarrow> unstr \<Rightarrow> (('w, 'z) kstate_scheme, error option) state" where
  "om_Create E u = do {
     let kind = kindOf (GetKind u) ''Unstructured'';
     err \<leftarrow> Create E cli u;
     ret (map_option (om_errorf ''creating'' kind (Name u)) err) }"

definition om_Apply ::
    "unstr \<Rightarrow> (unstr \<Rightarrow> (('w, 'z) kstate_scheme, error option) state) \<Rightarrow> (('w, 'z) kstate_scheme, error option) state" where
  "om_Apply u applyPatch = do {
     let kind = kindOf (GetKind u) ''Unstructured'';
     err \<leftarrow> applyPatch u;
     ret (map_option (om_errorf ''applying'' kind (Name u)) err) }"

definition om_Get ::
    "string \<Rightarrow> objkey \<Rightarrow> (objkey \<Rightarrow> (('w, 'z) kstate_scheme, error + 'a) state)
      \<Rightarrow> (('w, 'z) kstate_scheme, error + 'a) state" where
  "om_Get kind k get = do {
     r \<leftarrow> get k;
     ret (case r of Inl e \<Rightarrow> Inl (om_errorf ''getting'' kind (KeyName k) e) | Inr x \<Rightarrow> Inr x) }"

definition om_List ::
    "(('w, 'z) kstate_scheme, error + 'a list) state \<Rightarrow> (('w, 'z) kstate_scheme, error + 'a list) state" where
  "om_List listing = do {
     r \<leftarrow> listing;
     ret (case r of Inl e \<Rightarrow> Inl (wrap ''while listing objects: '' e) | Inr xs \<Rightarrow> Inr xs) }"

definition om_Update :: "('w, 'v) env_scheme \<Rightarrow> unstr \<Rightarrow> (('w, 'z) kstate_scheme, error option) state" where
  "om_Update E u = do {
     let kind = kindOf (GetKind u) ''Unstructured'';
     err \<leftarrow> Update E cli u;
     ret (map_option (om_errorf ''updating'' kind (Name u)) err) }"

definition om_Delete ::
    "('w, 'v) env_scheme \<Rightarrow> string \<Rightarrow> objkey \<Rightarrow> (('w, 'z) kstate_scheme, error option) state" where
  "om_Delete E kind k = do {
     err \<leftarrow> Delete E cli kind k;
     ret (map_option (om_errorf ''deleting'' kind (KeyName k)) err) }"

section \<open>The secrets manager\<close>

definition caServerCertSecretName :: string where
  "caServerCertSecretName = ''ca-server-cert''"

definition webhookServerCertSecretName :: string where
  "webhookServerCertSecretName = ''webhook-server-cert''"

definition getOptionalSecretByNameAndNamespace ::
    "('w, 'v) env_scheme \<Rightarrow> string \<Rightarrow> string \<Rightarrow> (('w, 'z) kstate_scheme, error + secret option) state" where
  "getOptionalSecretByNameAndNamespace E name namespace = do {
     r \<leftarrow> om_Get (kindOf [] ''Secret'') \<lparr>KeyName = name, KeyNamespace = namespace\<rparr> (GetSecret E cli);
     ret (case r of
            Inl e \<Rightarrow> if IsNotFound e then Inr None else Inl e
          | Inr x \<Rightarrow> Inr (Some x)) }"

definition GetCaServerCertSecret :: "('w, 'v) env_scheme \<Rightarrow> (('w, 'z) kstate_scheme, error + secret option) state" where
  "GetCaServerCertSecret E =
     getOptionalSecretByNameAndNamespace E caServerCertSecretName (ChartNamespace (conf E))"

definition GetWebhookServerCertSecret :: "('w, 'v) env_scheme \<Rightarrow> (('w, 'z) kstate_scheme, error + secret option) state" where
  "GetWebhookServerCertSecret E =
     getOptionalSecretByNameAndNamespace E webhookServerCertSecretName (ChartNamespace (conf E))"

section \<open>Effects and results\<close>

lemma leaves_cr_om_Get: "(\<And>k. leaves_cr (get k)) \<Longrightarrow> leaves_cr (om_Get kind k get)"
  by (auto simp: om_Get_def intro!: leaves_cr_intros)

lemma leaves_cr_om_Apply: "(\<And>u. leaves_cr (applyPatch u)) \<Longrightarrow> leaves_cr (om_Apply u applyPatch)"
  by (auto simp: om_Apply_def Let_def intro!: leaves_cr_intros)

lemma leaves_cr_secrets [leaves_cr_intros]:
  "leaves_cr (GetCaServerCertSecret E)" "leaves_cr (GetWebhookServerCertSecret E)"
  by (auto simp: GetCaServerCertSecret_def GetWebhookServerCertSecret_def getOptionalSecretByNameAndNamespace_def
      intro!: leaves_cr_intros leaves_cr_om_Get)

text \<open>Wrapping an error does not hide its reason, so a missing secret is told apart from a failure.\<close>

lemma has_reason_om_errorf [simp]: "has_reason r (om_errorf verb kind name e) = has_reason r e"
  by (simp add: om_errorf_def)

definition optional_result :: "error + 'a \<Rightarrow> string \<Rightarrow> error + 'a option" where
  "optional_result r name =
     (case r of
        Inl e \<Rightarrow> if IsNotFound e then Inr None else Inl (om_errorf ''getting'' ''Secret'' name e)
      | Inr x \<Rightarrow> Inr (Some x))"

lemma run_optional_secret:
  "run_state (getOptionalSecretByNameAndNamespace E name ns) s =
     (let k = \<lparr>KeyName = name, KeyNamespace = ns\<rparr>; (r, s') = run_state (GetSecret E cli k) s
      in (optional_result r name, s'))"
  by (auto simp: getOptionalSecretByNameAndNamespace_def om_Get_def kindOf_def optional_result_def Let_def
      split: prod.split sum.split)

end
