(* ===== verification/Certificate_Manager.thy ===== *)
theory Certificate_Manager
  imports Certs Secrets_Manager
begin

text \<open>
  The webhook certificate manager (\<^verbatim>\<open>internal/webhook/certificate/manager.go\<close>): it keeps the certificate
  authority and the webhook's certificate in two secrets, makes new ones when they are missing, broken or
  about to expire, and writes the authority's certificate into every webhook configuration.
\<close>

section \<open>State\<close>

record 'w cstate = "'w dstate" +
  certsRegenerationCounter :: int

definition IncrementCertsRegenerationCounter :: "(('w, 'z) cstate_scheme, unit) state" where
  "IncrementCertsRegenerationCounter = modify (\<lambda>s. s\<lparr>certsRegenerationCounter := certsRegenerationCounter s + 1\<rparr>)"

section \<open>The certificate secrets\<close>

definition CaCertSecretName :: string where "CaCertSecretName = ''ca-server-cert''"
definition WebhookCertSecretName :: string where "WebhookCertSecretName = ''webhook-server-cert''"
definition CaCertSecretCertField :: string where "CaCertSecretCertField = ''ca.crt''"
definition CaCertSecretKeyField :: string where "CaCertSecretKeyField = ''ca.key''"
definition WebhookCertSecretCertField :: string where "WebhookCertSecretCertField = ''tls.crt''"
definition WebhookCertSecretKeyField :: string where "WebhookCertSecretKeyField = ''tls.key''"

lemmas cert_names =
  CaCertSecretName_def WebhookCertSecretName_def CaCertSecretCertField_def CaCertSecretKeyField_def
  WebhookCertSecretCertField_def WebhookCertSecretKeyField_def

definition getSecretDataValueByKey :: "string \<Rightarrow> (string, string) gomap \<Rightarrow> error + string" where
  "getSecretDataValueByKey key data =
     (case map_of data key of
        None \<Rightarrow> Inl (Errorf (''missing key: '' @ key))
      | Some v \<Rightarrow> if length v = 0 then Inl (Errorf (''empty value for key: '' @ key)) else Inr v)"

definition certFieldFromSecretBySecretName :: "string \<Rightarrow> error + string" where
  "certFieldFromSecretBySecretName secretName =
     (if secretName = CaCertSecretName then Inr CaCertSecretCertField
      else if secretName = WebhookCertSecretName then Inr WebhookCertSecretCertField
      else Inl (Errorf (''unknown secret '' @ quote secretName @ '' - cert field undefined'')))"

definition privateKeyFieldFromSecretBySecretName :: "string \<Rightarrow> error + string" where
  "privateKeyFieldFromSecretBySecretName secretName =
     (if secretName = CaCertSecretName then Inr CaCertSecretKeyField
      else if secretName = WebhookCertSecretName then Inr WebhookCertSecretKeyField
      else Inl (Errorf (''unknown secret '' @ quote secretName @ '' - private key field undefined'')))"

definition certificate_secret :: "string \<Rightarrow> string \<Rightarrow> (string, string) gomap \<Rightarrow> secret" where
  "certificate_secret namespace secretName data = \<lparr>
     Name = secretName, Namespace = namespace, Labels = [(''app.kubernetes.io/managed-by'', ''btp-manager'')],
     Annotations = [], Finalizers = [], DeletionTimestamp = None, ResourceVersion = [], Data = data\<rparr>"

definition buildCertificateSecret ::
    "('w, 'v) cenv_scheme \<Rightarrow> string \<Rightarrow> string \<Rightarrow> string \<Rightarrow> error + unstr" where
  "buildCertificateSecret E secretName certificate privateKey =
     (case certFieldFromSecretBySecretName secretName of
        Inl e \<Rightarrow> Inl e
      | Inr certFieldName \<Rightarrow>
          (case privateKeyFieldFromSecretBySecretName secretName of
             Inl e \<Rightarrow> Inl e
           | Inr privateKeyFieldName \<Rightarrow>
               secretToUnstructured E ''Secret'' ''v1''
                 (certificate_secret (ChartNamespace (conf E)) secretName
                    [(certFieldName, certificate), (privateKeyFieldName, privateKey)])))"

section \<open>Validation\<close>

definition validateCert :: "('w, 'v) cenv_scheme \<Rightarrow> int \<Rightarrow> secret \<Rightarrow> error option" where
  "validateCert E now x =
     (case certFieldFromSecretBySecretName (Name x) of
        Inl e \<Rightarrow> Some e
      | Inr certFieldName \<Rightarrow>
     (case getSecretDataValueByKey certFieldName (Data x) of
        Inl e \<Rightarrow> Some e
      | Inr encodedCert \<Rightarrow>
     (case privateKeyFieldFromSecretBySecretName (Name x) of
        Inl e \<Rightarrow> Some e
      | Inr privateKeyFieldName \<Rightarrow>
     (case getSecretDataValueByKey privateKeyFieldName (Data x) of
        Inl e \<Rightarrow> Some e
      | Inr _ \<Rightarrow>
     (case DecodeCertificate E encodedCert of
        Inl e \<Rightarrow> Some e
      | Inr bytes \<Rightarrow>
     (case parseCertificate E bytes of
        Inl e \<Rightarrow> Some e
      | Inr cert \<Rightarrow>
          if CertificateExpires cert (ExpirationBoundary (conf E)) now then Some (Errorf ''cert expires soon'')
          else None))))))"

text \<open>The errors of \<^verbatim>\<open>verifyCASign\<close> are told apart by their type.\<close>

datatype webhook_cert_error = InvalidCert error | CertificateSignError string

definition verifyCASign :: "('w, 'v) cenv_scheme \<Rightarrow> int \<Rightarrow> string \<Rightarrow> string \<Rightarrow> webhook_cert_error option" where
  "verifyCASign E now caCert signedCert =
     (case VerifyIfLeafIsSignedByGivenCA E now caCert signedCert of
        (ok, Some e) \<Rightarrow> Some (CertificateSignError (Error e))
      | (ok, None) \<Rightarrow>
          if \<not> ok then Some (CertificateSignError ''certificate is not signed by the provided CA'') else None)"

definition validateWebhookCert :: "('w, 'v) cenv_scheme \<Rightarrow> int \<Rightarrow> secret \<Rightarrow> string \<Rightarrow> webhook_cert_error option" where
  "validateWebhookCert E now webhookCertSecret caCert =
     (case validateCert E now webhookCertSecret of
        Some e \<Rightarrow> Some (InvalidCert e)
      | None \<Rightarrow> verifyCASign E now caCert (mget (Data webhookCertSecret) WebhookCertSecretCertField))"

section \<open>Webhook manifests\<close>

fun set_ca_bundles :: "string \<Rightarrow> json list \<Rightarrow> error + json list" where
  "set_ca_bundles caBundle [] = Inr []"
| "set_ca_bundles caBundle (webhook # webhooks) =
     (case webhook of
        JObj genericWebhook \<Rightarrow>
          (case map_of genericWebhook ''clientConfig'' of
             Some (JObj genericClientConfig) \<Rightarrow>
               (case set_ca_bundles caBundle webhooks of
                  Inl e \<Rightarrow> Inl e
                | Inr rest \<Rightarrow>
                    Inr (JObj (mset_key ''clientConfig''
                           (JObj (mset_key ''caBundle'' (JBytes caBundle) genericClientConfig)) genericWebhook) # rest))
           | _ \<Rightarrow> Inl (Errorf ''while casting webhook.clientConfig object to map[string]interface{}''))
      | _ \<Rightarrow> Inl (Errorf ''while casting webhook object to map[string]interface{}''))"

definition set_top_field :: "string \<Rightarrow> json \<Rightarrow> json \<Rightarrow> json" where
  "set_top_field k v ob = (case ob of JObj fs \<Rightarrow> JObj (mset_key k v fs) | _ \<Rightarrow> JObj [(k, v)])"

definition prepareWebhookManifest :: "('w, 'v) cenv_scheme \<Rightarrow> string \<Rightarrow> unstr \<Rightarrow> error + unstr" where
  "prepareWebhookManifest E caBundle webhookManifest =
     (case NestedSlice E (Object webhookManifest) [''webhooks''] of
        Inl e \<Rightarrow> Inl (wrap ''while getting webhooks array from the webhook manifest: '' e)
      | Inr None \<Rightarrow> Inl (Errorf ''webhooks array does not exist in the webhook manifest'')
      | Inr (Some webhooks) \<Rightarrow>
          (case set_ca_bundles caBundle webhooks of
             Inl e \<Rightarrow> Inl e
           | Inr webhooks' \<Rightarrow>
               Inr (webhookManifest\<lparr>ManagedFields := False,
                      Object := set_top_field ''webhooks'' (JList webhooks') (Object webhookManifest)\<rparr>)))"

fun prepareWebhooksManifests :: "('w, 'v) cenv_scheme \<Rightarrow> string \<Rightarrow> unstr list \<Rightarrow> error + unstr list" where
  "prepareWebhooksManifests E caBundle [] = Inr []"
| "prepareWebhooksManifests E caBundle (u # us) =
     (case prepareWebhookManifest E caBundle u of
        Inl e \<Rightarrow> Inl e
      | Inr u' \<Rightarrow> (case prepareWebhooksManifests E caBundle us of Inl e \<Rightarrow> Inl e | Inr us' \<Rightarrow> Inr (u' # us')))"

section \<open>Making certificates\<close>

definition generateSelfSignedCert ::
    "('w, 'v) cenv_scheme \<Rightarrow> (('w, 'z) cstate_scheme, error + string \<times> string) state" where
  "generateSelfSignedCert E = do {
     now \<leftarrow> Now;
     r \<leftarrow> GenerateSelfSignedCertificate E (now + CaCertificateExpiration (conf E));
     ret (case r of Inl e \<Rightarrow> Inl (wrap ''while generating self signed cert: '' e) | Inr p \<Rightarrow> Inr p) }"

definition generateSignedCert ::
    "('w, 'v) cenv_scheme \<Rightarrow> string \<Rightarrow> string \<Rightarrow> (('w, 'z) cstate_scheme, error + string \<times> string) state" where
  "generateSignedCert E caCert caPrivateKey = do {
     now \<leftarrow> Now;
     r \<leftarrow> GenerateSignedCertificate E (now + WebhookCertificateExpiration (conf E)) caCert caPrivateKey;
     ret (case r of Inl e \<Rightarrow> Inl (wrap ''while generating webhook signed cert: '' e) | Inr p \<Rightarrow> Inr p) }"

definition regenerateCertificates ::
    "('w, 'v) cenv_scheme \<Rightarrow> unstr list \<Rightarrow> (('w, 'z) cstate_scheme, error + unstr list) state" where
  "regenerateCertificates E webhookResources = do {
     r \<leftarrow> generateSelfSignedCert E;
     case r of
       Inl e \<Rightarrow> ret (Inl (wrap ''while generating CA self signed cert: '' e))
     | Inr (caCertificate, caPrivateKey) \<Rightarrow>
         (case buildCertificateSecret E CaCertSecretName caCertificate caPrivateKey of
            Inl e \<Rightarrow> ret (Inl (wrap ''while building secret with regenerated CA self signed cert: '' e))
          | Inr caSecret \<Rightarrow> do {
              r \<leftarrow> generateSignedCert E caCertificate caPrivateKey;
              case r of
                Inl e \<Rightarrow> ret (Inl (wrap ''while generating webhook signed cert: '' e))
              | Inr (webhookCertificate, webhookPrivateKey) \<Rightarrow>
                  (case buildCertificateSecret E WebhookCertSecretName webhookCertificate webhookPrivateKey of
                     Inl e \<Rightarrow> ret (Inl (wrap ''while building regenerated webhook signed cert secret: '' e))
                   | Inr webhookSecret \<Rightarrow>
                       (case prepareWebhooksManifests E caCertificate webhookResources of
                          Inl e \<Rightarrow> ret (Inl (wrap ''while preparing webhooks manifests: '' e))
                        | Inr preparedWebhooks \<Rightarrow> do {
                            IncrementCertsRegenerationCounter;
                            ret (Inr ([caSecret, webhookSecret] @ preparedWebhooks)) })) }) }"

definition regenerateWebhookCertificate ::
    "('w, 'v) cenv_scheme \<Rightarrow> unstr list \<Rightarrow> (string, string) gomap \<Rightarrow> (('w, 'z) cstate_scheme, error + unstr list) state" where
  "regenerateWebhookCertificate E webhookResources caCertSecretData = do {
     r \<leftarrow> generateSignedCert E (mget caCertSecretData CaCertSecretCertField) (mget caCertSecretData CaCertSecretKeyField);
     case r of
       Inl e \<Rightarrow> ret (Inl (wrap ''while regenerating webhook signed cert: '' e))
     | Inr (webhookCertificate, webhookPrivateKey) \<Rightarrow>
         (case buildCertificateSecret E WebhookCertSecretName webhookCertificate webhookPrivateKey of
            Inl e \<Rightarrow> ret (Inl (wrap ''while building regenerated webhook signed cert secret: '' e))
          | Inr webhookSecret \<Rightarrow>
              (case prepareWebhooksManifests E (mget caCertSecretData CaCertSecretCertField) webhookResources of
                 Inl e \<Rightarrow> ret (Inl (wrap ''while preparing webhooks manifests: '' e))
               | Inr preparedWebhooks \<Rightarrow> do {
                   IncrementCertsRegenerationCounter;
                   ret (Inr ([webhookSecret] @ preparedWebhooks)) })) }"

definition PrepareAdmissionWebhooks ::
    "('w, 'v) cenv_scheme \<Rightarrow> unstr list \<Rightarrow> (('w, 'z) cstate_scheme, error + unstr list) state" where
  "PrepareAdmissionWebhooks E webhookResources = do {
     r \<leftarrow> GetCaServerCertSecret E;
     case r of
       Inl e \<Rightarrow> ret (Inl e)
     | Inr None \<Rightarrow> regenerateCertificates E webhookResources
     | Inr (Some caCertSecret) \<Rightarrow> do {
         now \<leftarrow> Now;
         if validateCert E now caCertSecret \<noteq> None then regenerateCertificates E webhookResources
         else do {
           let caBundle = mget (Data caCertSecret) CaCertSecretCertField;
           r \<leftarrow> GetWebhookServerCertSecret E;
           case r of
             Inl e \<Rightarrow> ret (Inl e)
           | Inr None \<Rightarrow> regenerateWebhookCertificate E webhookResources (Data caCertSecret)
           | Inr (Some webhookCertSecret) \<Rightarrow> do {
               now \<leftarrow> Now;
               case validateWebhookCert E now webhookCertSecret caBundle of
                 Some (CertificateSignError m) \<Rightarrow> regenerateCertificates E webhookResources
               | Some (InvalidCert e) \<Rightarrow> regenerateWebhookCertificate E webhookResources (Data caCertSecret)
               | None \<Rightarrow> ret (prepareWebhooksManifests E caBundle webhookResources) } } } }"

section \<open>Reading certificates\<close>

definition IsWebhookCertSignedBySelfSignedCA ::
    "('w, 'v) cenv_scheme \<Rightarrow> (('w, 'z) cstate_scheme, bool \<times> error option) state" where
  "IsWebhookCertSignedBySelfSignedCA E = do {
     r \<leftarrow> GetCaServerCertSecret E;
     case r of
       Inl e \<Rightarrow> ret (False, Some e)
     | Inr None \<Rightarrow> ret (False, Some (Errorf (''secret '' @ quote CaCertSecretName @ '' not found'')))
     | Inr (Some caSecret) \<Rightarrow>
         (case getSecretDataValueByKey CaCertSecretCertField (Data caSecret) of
            Inl e \<Rightarrow> ret (False, Some (wrap (''CA secret '' @ quote CaCertSecretName @ '': '') e))
          | Inr caCert \<Rightarrow> do {
              r \<leftarrow> GetWebhookServerCertSecret E;
              case r of
                Inl e \<Rightarrow> ret (False, Some e)
              | Inr None \<Rightarrow> ret (False, Some (Errorf (''secret '' @ quote WebhookCertSecretName @ '' not found'')))
              | Inr (Some webhookSecret) \<Rightarrow>
                  (case getSecretDataValueByKey WebhookCertSecretCertField (Data webhookSecret) of
                     Inl e \<Rightarrow> ret (False, Some (wrap (''webhook secret '' @ quote WebhookCertSecretName @ '': '') e))
                   | Inr webhookCert \<Rightarrow> do {
                       now \<leftarrow> Now;
                       ret (VerifyIfLeafIsSignedByGivenCA E now caCert webhookCert) }) }) }"

definition secret_data :: "string \<Rightarrow> error + secret option \<Rightarrow> error + (string, string) gomap" where
  "secret_data name r =
     (case r of
        Inl e \<Rightarrow> Inl e
      | Inr None \<Rightarrow> Inl (Errorf (''secret '' @ quote name @ '' not found''))
      | Inr (Some x) \<Rightarrow> Inr (Data x))"

definition GetSecretData ::
    "('w, 'v) cenv_scheme \<Rightarrow> string \<Rightarrow> (('w, 'z) cstate_scheme, error + (string, string) gomap) state" where
  "GetSecretData E name =
     (if name = CaCertSecretName then do { r \<leftarrow> GetCaServerCertSecret E; ret (secret_data name r) }
      else if name = WebhookCertSecretName then do { r \<leftarrow> GetWebhookServerCertSecret E; ret (secret_data name r) }
      else ret (Inl (Errorf (''unknown secret '' @ quote name))))"

definition certificate_Manager :: "('w, 'v) cenv_scheme \<Rightarrow> (('w, 'z) cstate_scheme) certificate_manager" where
  "certificate_Manager E = \<lparr>
     PrepareAdmissionWebhooks_m = PrepareAdmissionWebhooks E,
     IsWebhookCertSignedBySelfSignedCA_m = IsWebhookCertSignedBySelfSignedCA E,
     GetSecretData_m = GetSecretData E\<rparr>"

section \<open>Effects\<close>

lemma leaves_cr_increment [leaves_cr_intros]: "leaves_cr IncrementCertsRegenerationCounter"
  by (auto simp: IncrementCertsRegenerationCounter_def leaves_cr_def emits_def intro!: keeps_modify)

lemma leaves_cr_regenerate [leaves_cr_intros]:
  "leaves_cr (regenerateCertificates E us)" "leaves_cr (regenerateWebhookCertificate E us data)"
  by (auto simp: regenerateCertificates_def regenerateWebhookCertificate_def generateSelfSignedCert_def
      generateSignedCert_def intro!: leaves_cr_intros)

interpretation certm: certificates "certificate_Manager E"
  by unfold_locales
    (auto simp: certificate_Manager_def PrepareAdmissionWebhooks_def Let_def intro!: leaves_cr_intros
      split: webhook_cert_error.split)

section \<open>CA bundles in webhook configurations\<close>

definition webhook_bundle :: "json \<Rightarrow> json option" where
  "webhook_bundle webhook =
     (case webhook of
        JObj fs \<Rightarrow> (case map_of fs ''clientConfig'' of Some (JObj cc) \<Rightarrow> map_of cc ''caBundle'' | _ \<Rightarrow> None)
      | _ \<Rightarrow> None)"

definition webhook_bundles :: "unstr \<Rightarrow> json option list" where
  "webhook_bundles u =
     (case Object u of
        JObj fs \<Rightarrow> (case map_of fs ''webhooks'' of Some (JList ws) \<Rightarrow> map webhook_bundle ws | _ \<Rightarrow> [])
      | _ \<Rightarrow> [])"

text \<open>The object prepared from \<open>u\<close>: as many webhooks, each with this CA bundle.\<close>

definition bundled :: "('w, 'v) cenv_scheme \<Rightarrow> string \<Rightarrow> unstr \<Rightarrow> unstr \<Rightarrow> bool" where
  "bundled E ca u v \<longleftrightarrow> Name v = Name u \<and> Namespace v = Namespace u \<and> Gvk v = Gvk u \<and> Labels v = Labels u \<and>
     (\<exists>webhooks. NestedSlice E (Object u) [''webhooks''] = Inr (Some webhooks) \<and>
        webhook_bundles v = replicate (length webhooks) (Some (JBytes ca)))"

lemma set_ca_bundles_bundle:
  "set_ca_bundles ca ws = Inr ws' \<Longrightarrow> map webhook_bundle ws' = replicate (length ws) (Some (JBytes ca))"
  by (induction ws arbitrary: ws')
     (auto simp: webhook_bundle_def split: json.splits option.splits sum.splits)

lemma webhook_bundles_set:
  "webhook_bundles (u\<lparr>ManagedFields := b, Object := set_top_field ''webhooks'' (JList ws) ob\<rparr>) = map webhook_bundle ws"
  by (cases ob) (simp_all add: webhook_bundles_def set_top_field_def)

lemma prepareWebhookManifest_bundled: "prepareWebhookManifest E ca u = Inr v \<Longrightarrow> bundled E ca u v"
  by (auto simp: prepareWebhookManifest_def bundled_def webhook_bundles_set
      split: sum.splits option.splits dest!: set_ca_bundles_bundle)

lemma prepareWebhooksManifests_bundled:
  "prepareWebhooksManifests E ca us = Inr vs \<Longrightarrow> list_all2 (bundled E ca) us vs"
  by (induction us arbitrary: vs) (auto split: sum.splits dest!: prepareWebhookManifest_bundled)

section \<open>Runs\<close>

lemma wp_increment [wp_simps]:
  "wp IncrementCertsRegenerationCounter Q s = Q () (s\<lparr>certsRegenerationCounter := certsRegenerationCounter s + 1\<rparr>)"
  by (simp add: IncrementCertsRegenerationCounter_def wp_simps)

lemma keeps_generate [keeps_intros]:
  assumes "\<And>s w. f (s\<lparr>api := w\<rparr>) = f s"
  shows "keeps f (generateSelfSignedCert E)" "keeps f (generateSignedCert E c k)"
  by (auto simp: generateSelfSignedCert_def generateSignedCert_def assms intro!: keeps_intros)

lemma wp_keeps: "keeps f m \<Longrightarrow> (\<And>a s'. f s' = f s \<Longrightarrow> Q a s') \<Longrightarrow> wp m Q s"
  by (auto intro!: wpI dest: keepsD)

text \<open>The webhooks come with the secrets they trust, and making secrets counts one regeneration.\<close>

lemma regenerateCertificates_run:
  "wp (regenerateCertificates E us) (\<lambda>r s'. \<forall>vs. r = Inr vs \<longrightarrow>
     (\<exists>ca key x y ws. vs = [x, y] @ ws \<and> buildCertificateSecret E CaCertSecretName ca key = Inr x \<and>
        list_all2 (bundled E ca) us ws \<and> certsRegenerationCounter s' = certsRegenerationCounter s + 1)) s"
  unfolding regenerateCertificates_def wp_simps
  by (rule wp_keeps[of certsRegenerationCounter], simp add: keeps_intros,
      auto simp: wp_simps split: sum.split
        intro!: wp_keeps[of certsRegenerationCounter] keeps_intros dest!: prepareWebhooksManifests_bundled)

lemma regenerateWebhookCertificate_run:
  "wp (regenerateWebhookCertificate E us data) (\<lambda>r s'. \<forall>vs. r = Inr vs \<longrightarrow>
     (\<exists>y ws. vs = [y] @ ws \<and> list_all2 (bundled E (mget data CaCertSecretCertField)) us ws \<and>
        certsRegenerationCounter s' = certsRegenerationCounter s + 1)) s"
  unfolding regenerateWebhookCertificate_def wp_simps
  by (rule wp_keeps[of certsRegenerationCounter], simp add: keeps_intros,
      auto simp: wp_simps split: sum.split dest!: prepareWebhooksManifests_bundled)

definition secret_key :: "('w, 'v) cenv_scheme \<Rightarrow> string \<Rightarrow> objkey" where
  "secret_key E name = \<lparr>KeyName = name, KeyNamespace = ChartNamespace (conf E)\<rparr>"

lemma wp_secret_reads [wp_simps]:
  "wp (GetCaServerCertSecret E) Q s =
     (case clGetSecret (cli E) (secret_key E CaCertSecretName) (api s) of (r, w) \<Rightarrow>
        Q (optional_result r CaCertSecretName) (s\<lparr>api := w, clock := clock s + int (latency E w),
           trace := trace s @ [EvGet ''Secret'' (secret_key E CaCertSecretName)]\<rparr>))"
  "wp (GetWebhookServerCertSecret E) Q s =
     (case clGetSecret (cli E) (secret_key E WebhookCertSecretName) (api s) of (r, w) \<Rightarrow>
        Q (optional_result r WebhookCertSecretName) (s\<lparr>api := w, clock := clock s + int (latency E w),
           trace := trace s @ [EvGet ''Secret'' (secret_key E WebhookCertSecretName)]\<rparr>))"
  by (simp_all add: wp_def GetCaServerCertSecret_def GetWebhookServerCertSecret_def run_optional_secret secret_key_def
      caServerCertSecretName_def webhookServerCertSecretName_def CaCertSecretName_def WebhookCertSecretName_def
      run_simps Let_def split: prod.split)

lemma optional_result_Some: "optional_result r name = Inr (Some x) \<longleftrightarrow> r = Inr x"
  by (auto simp: optional_result_def split: sum.splits)

section \<open>Fresh certificates\<close>

text \<open>The secrets of an authority and of a leaf it has signed, both valid for a time from \<open>t0\<close> on.\<close>

definition fresh_secrets :: "('w, 'v) cenv_scheme \<Rightarrow> int \<Rightarrow> secret \<Rightarrow> secret \<Rightarrow> bool" where
  "fresh_secrets E t0 x y \<longleftrightarrow> Name x = CaCertSecretName \<and> Name y = WebhookCertSecretName \<and>
     (\<exists>caCert caKey cert key ca leaf.
        Data x = [(CaCertSecretCertField, caCert), (CaCertSecretKeyField, caKey)] \<and>
        Data y = [(WebhookCertSecretCertField, cert), (WebhookCertSecretKeyField, key)] \<and> key \<noteq> [] \<and>
        authority E caCert caKey ca \<and> signed_leaf E ca cert leaf \<and>
        NotBefore ca \<le> t0 \<and> NotBefore leaf \<le> t0 \<and>
        t0 + CaCertificateExpiration (conf E) < NotAfter ca + Second \<and>
        t0 + WebhookCertificateExpiration (conf E) < NotAfter leaf + Second)"

text \<open>The last moment at which certificates made at \<open>t0\<close> are neither expired nor about to expire.\<close>

definition fresh_until :: "config \<Rightarrow> int \<Rightarrow> int" where
  "fresh_until c t0 =
     t0 + min (CaCertificateExpiration c) (WebhookCertificateExpiration c) + min 0 (ExpirationBoundary c) - Second"

lemma getSecretDataValueByKey_Some:
  "map_of data k = Some v \<Longrightarrow> v \<noteq> [] \<Longrightarrow> getSecretDataValueByKey k data = Inr v"
  by (simp add: getSecretDataValueByKey_def)

context x509_library
begin

lemma fresh_ca_valid:
  assumes "fresh_secrets E t0 x y" and "now \<le> fresh_until (conf E) t0"
  shows "validateCert E now x = None"
  using assms
  by (auto simp: fresh_secrets_def fresh_until_def validateCert_def certFieldFromSecretBySecretName_def
      privateKeyFieldFromSecretBySecretName_def getSecretDataValueByKey_def CertificateExpires_def authority_def
      cert_names decoded_nonempty dest: decoded_nonempty)

lemma fresh_webhook_valid:
  assumes "fresh_secrets E t0 x y" and "t0 \<le> now" and "now \<le> fresh_until (conf E) t0"
  shows "validateWebhookCert E now y (mget (Data x) CaCertSecretCertField) = None"
proof -
  obtain caCert caKey cert key ca leaf where fr:
    "Data x = [(CaCertSecretCertField, caCert), (CaCertSecretKeyField, caKey)]"
    "Data y = [(WebhookCertSecretCertField, cert), (WebhookCertSecretKeyField, key)]" "key \<noteq> []"
    "Name y = WebhookCertSecretName" "authority E caCert caKey ca" "signed_leaf E ca cert leaf"
    "NotBefore ca \<le> t0" "NotBefore leaf \<le> t0"
    "t0 + CaCertificateExpiration (conf E) < NotAfter ca + Second"
    "t0 + WebhookCertificateExpiration (conf E) < NotAfter leaf + Second"
    using assms(1) by (auto simp: fresh_secrets_def)
  have "valid_at ca now" "valid_at leaf now"
    using fr(7-10) assms(2,3) by (auto simp: valid_at_def fresh_until_def)
  with signed_leaf_verified[OF fr(5,6)] have "VerifyIfLeafIsSignedByGivenCA E now caCert cert = (True, None)" by simp
  moreover have "validateCert E now y = None"
    using fr(2-4,6,10) assms(3)
    by (auto simp: fresh_until_def validateCert_def certFieldFromSecretBySecretName_def
        privateKeyFieldFromSecretBySecretName_def getSecretDataValueByKey_def CertificateExpires_def signed_leaf_def
        cert_names dest: decoded_nonempty)
  ultimately show ?thesis
    using fr(1,2) by (simp add: validateWebhookCert_def verifyCASign_def mget_def)
qed

lemma regenerated_fresh:
  assumes "run_state (regenerateCertificates E us) s = (Inr vs, s')"
  shows "\<exists>x y. fresh_secrets E (clock s) x y \<and> secretToUnstructured E ''Secret'' ''v1'' x = Inr (vs ! 0) \<and>
           secretToUnstructured E ''Secret'' ''v1'' y = Inr (vs ! 1)"
proof -
  obtain r1 s1 where 1: "run_state (GenerateSelfSignedCertificate E (clock s + CaCertificateExpiration (conf E))) s = (r1, s1)"
    by fastforce
  then obtain caCert caKey where r1: "r1 = Inr (caCert, caKey)"
    using assms by (cases r1) (auto simp: regenerateCertificates_def generateSelfSignedCert_def run_simps)
  have clk: "clock s1 = clock s" using keepsD[OF _ 1, of clock] by (simp add: keeps_certs)
  obtain r2 s2 where 2: "run_state (GenerateSignedCertificate E (clock s1 + WebhookCertificateExpiration (conf E)) caCert caKey) s1 = (r2, s2)"
    by fastforce
  then obtain cert key where r2: "r2 = Inr (cert, key)"
    using assms 1 r1
    by (cases r2) (auto simp: regenerateCertificates_def generateSelfSignedCert_def generateSignedCert_def run_simps
        split: sum.splits)
  obtain ca where ca: "authority E caCert caKey ca" "cut_to_second (NotBefore ca) (clock s)"
    "cut_to_second (NotAfter ca) (clock s + CaCertificateExpiration (conf E))"
    using self_signed_authority 1 r1 by blast
  obtain leaf where leaf: "signed_leaf E ca cert leaf" "cut_to_second (NotBefore leaf) (clock s1)"
    "cut_to_second (NotAfter leaf) (clock s1 + WebhookCertificateExpiration (conf E))" "key \<noteq> []"
    using signed_leaf_generated[OF ca(1)] 2 r2 by blast
  let ?x = "certificate_secret (ChartNamespace (conf E)) CaCertSecretName [(CaCertSecretCertField, caCert), (CaCertSecretKeyField, caKey)]"
  let ?y = "certificate_secret (ChartNamespace (conf E)) WebhookCertSecretName [(WebhookCertSecretCertField, cert), (WebhookCertSecretKeyField, key)]"
  have "fresh_secrets E (clock s) ?x ?y"
    using ca leaf clk by (fastforce simp: fresh_secrets_def certificate_secret_def cut_to_second_def)
  moreover have "secretToUnstructured E ''Secret'' ''v1'' ?x = Inr (vs ! 0)" "secretToUnstructured E ''Secret'' ''v1'' ?y = Inr (vs ! 1)"
    using assms 1 r1 2 r2
    by (auto simp: regenerateCertificates_def generateSelfSignedCert_def generateSignedCert_def run_simps
        buildCertificateSecret_def certFieldFromSecretBySecretName_def privateKeyFieldFromSecretBySecretName_def
        CaCertSecretName_def WebhookCertSecretName_def IncrementCertsRegenerationCounter_def split: sum.splits)
  ultimately show ?thesis by blast
qed

lemma fresh_kept:
  assumes "fresh_secrets E t0 x y" and "t0 \<le> clock s"
    and "clGetSecret (cli E) (secret_key E CaCertSecretName) (api s) = (Inr x, w)"
    and "clGetSecret (cli E) (secret_key E WebhookCertSecretName) w = (Inr y, w')"
    and "clock s + int (latency E w) + int (latency E w') \<le> fresh_until (conf E) t0"
  shows "wp (PrepareAdmissionWebhooks E us) (\<lambda>r s'. r = prepareWebhooksManifests E (mget (Data x) CaCertSecretCertField) us \<and>
           certsRegenerationCounter s' = certsRegenerationCounter s) s"
  using assms(3,4) fresh_ca_valid[OF assms(1), of "clock s + int (latency E w)"]
    fresh_webhook_valid[OF assms(1), of "clock s + int (latency E w) + int (latency E w')"] assms(2,5)
  by (simp add: PrepareAdmissionWebhooks_def wp_simps optional_result_def)

end

section \<open>Properties\<close>

text \<open>What a successful preparation returns: the webhooks trust the authority that is kept or new.\<close>

definition prepared_webhooks ::
    "('w, 'v) cenv_scheme \<Rightarrow> ('w, 'z) cstate_scheme \<Rightarrow> unstr list \<Rightarrow> unstr list \<Rightarrow> ('w, 'z) cstate_scheme \<Rightarrow> bool" where
  "prepared_webhooks E s us vs s' \<longleftrightarrow>
     (\<exists>ca secrets ws. vs = secrets @ ws \<and> list_all2 (bundled E ca) us ws \<and>
        certsRegenerationCounter s' = certsRegenerationCounter s + (if secrets = [] then 0 else 1) \<and>
        ((\<exists>x. fst (clGetSecret (cli E) (secret_key E CaCertSecretName) (api s)) = Inr x \<and>
              ca = mget (Data x) CaCertSecretCertField \<and> validateCert E (clock s + int (latency E (snd (clGetSecret (cli E)
                (secret_key E CaCertSecretName) (api s))))) x = None \<and> length secrets \<le> 1) \<or>
         (\<exists>key x y. secrets = [x, y] \<and> buildCertificateSecret E CaCertSecretName ca key = Inr x)))"

lemma wp_regenerated:
  "certsRegenerationCounter s1 = certsRegenerationCounter s \<Longrightarrow>
   wp (regenerateCertificates E us) (\<lambda>r s'. \<forall>vs. r = Inr vs \<longrightarrow> prepared_webhooks E s us vs s') s1"
  by (rule wp_mono[OF regenerateCertificates_run])
     (simp add: prepared_webhooks_def, metis append_Cons append_Nil list.distinct(1))

lemma wp_PrepareAdmissionWebhooks:
  "wp (PrepareAdmissionWebhooks E us) (\<lambda>r s'. \<forall>vs. r = Inr vs \<longrightarrow> prepared_webhooks E s us vs s') s"
proof -
  obtain r w where r: "clGetSecret (cli E) (secret_key E CaCertSecretName) (api s) = (r, w)" by fastforce
  let ?now = "clock s + int (latency E w)"
  have webhook_only: "wp (regenerateWebhookCertificate E us (Data x)) (\<lambda>r s'. \<forall>vs. r = Inr vs \<longrightarrow> prepared_webhooks E s us vs s') s1"
    if "r = Inr x" "validateCert E ?now x = None" "certsRegenerationCounter s1 = certsRegenerationCounter s" for x s1
    by (rule wp_mono[OF regenerateWebhookCertificate_run]) (use that r in \<open>fastforce simp: prepared_webhooks_def\<close>)
  have kept: "prepared_webhooks E s us vs s1"
    if "r = Inr x" "validateCert E ?now x = None" "certsRegenerationCounter s1 = certsRegenerationCounter s"
      "prepareWebhooksManifests E (mget (Data x) CaCertSecretCertField) us = Inr vs" for x s1 vs
    using that r prepareWebhooksManifests_bundled[OF that(4)] by (fastforce simp: prepared_webhooks_def)
  show ?thesis
    unfolding PrepareAdmissionWebhooks_def
    using r webhook_only kept
    by (auto simp: wp_simps Let_def optional_result_Some split: prod.split sum.split option.split webhook_cert_error.split
        intro!: wp_regenerated)
qed


text \<open>
  C16: certificates that were regenerated at a time \<open>t\<close> are accepted by every later preparation that reads
  them back before they come near their expiry: no new certificate is made, and the webhooks get the CA
  certificate of the regenerated secret.
\<close>

theorem fresh_certificates_kept:
  fixes s :: "('w, 'z) cstate_scheme" and E :: "('w, 'v) cenv_scheme"
  assumes "x509_library E" and "run_state (regenerateCertificates E us) s = (Inr vs, s1)"
  shows "\<exists>x y. secretToUnstructured E ''Secret'' ''v1'' x = Inr (vs ! 0) \<and>
     secretToUnstructured E ''Secret'' ''v1'' y = Inr (vs ! 1) \<and>
     (\<forall>(s2 :: ('w, 'z) cstate_scheme) x' y' w w' r s3. clock s \<le> clock s2 \<longrightarrow> Name x' = Name x \<longrightarrow> Data x' = Data x \<longrightarrow>
        Name y' = Name y \<longrightarrow> Data y' = Data y \<longrightarrow>
        clGetSecret (cli E) (secret_key E CaCertSecretName) (api s2) = (Inr x', w) \<longrightarrow>
        clGetSecret (cli E) (secret_key E WebhookCertSecretName) w = (Inr y', w') \<longrightarrow>
        clock s2 + int (latency E w) + int (latency E w') \<le> fresh_until (conf E) (clock s) \<longrightarrow>
        run_state (PrepareAdmissionWebhooks E us') s2 = (r, s3) \<longrightarrow>
        r = prepareWebhooksManifests E (mget (Data x) CaCertSecretCertField) us' \<and>
        certsRegenerationCounter s3 = certsRegenerationCounter s2)"
proof -
  obtain x y where xy: "fresh_secrets E (clock s) x y" "secretToUnstructured E ''Secret'' ''v1'' x = Inr (vs ! 0)"
    "secretToUnstructured E ''Secret'' ''v1'' y = Inr (vs ! 1)"
    using x509_library.regenerated_fresh[OF assms] by blast
  have "r = prepareWebhooksManifests E (mget (Data x) CaCertSecretCertField) us' \<and>
        certsRegenerationCounter s3 = certsRegenerationCounter s2"
    if same: "Name x' = Name x" "Data x' = Data x" "Name y' = Name y" "Data y' = Data y"
      and reads: "clock s \<le> clock s2" "clGetSecret (cli E) (secret_key E CaCertSecretName) (api s2) = (Inr x', w)"
      "clGetSecret (cli E) (secret_key E WebhookCertSecretName) w = (Inr y', w')"
      "clock s2 + int (latency E w) + int (latency E w') \<le> fresh_until (conf E) (clock s)"
      and run: "run_state (PrepareAdmissionWebhooks E us') s2 = (r, s3)"
    for s2 s3 :: "('w, 'z) cstate_scheme" and x' y' w w' r
  proof -
    have "fresh_secrets E (clock s) x' y'" using xy(1) same by (simp add: fresh_secrets_def)
    from wp_run[OF x509_library.fresh_kept[OF assms(1) this reads] run] same(2) show ?thesis by simp
  qed
  with xy(2,3) show ?thesis by blast
qed

end
