(* ===== verification/Provisioning.thy ===== *)
theory Provisioning
  imports Interfaces
begin

text \<open>
  The provisioning handler (\<^verbatim>\<open>internal/provisioning\<close>): verifying the required secret, the drift checks,
  preparing and applying the module resources, and the paths the Ready state and the deprovisioning use.
\<close>

section \<open>Data\<close>

record ProvisionResult =
  WarningReason :: "ErrorWithReason option"
  PrErrorReason :: "ErrorWithReason option"

definition ProvisionSucceeded :: ProvisionResult where
  "ProvisionSucceeded = \<lparr>WarningReason = None, PrErrorReason = None\<rparr>"

definition ProvisionWarning :: "ErrorWithReason \<Rightarrow> ProvisionResult" where
  "ProvisionWarning e = \<lparr>WarningReason = Some e, PrErrorReason = None\<rparr>"

definition ProvisionError :: "ErrorWithReason \<Rightarrow> ProvisionResult" where
  "ProvisionError e = \<lparr>WarningReason = None, PrErrorReason = Some e\<rparr>"

record 's prov_handler =
  pDriftDetector :: "'s detector"
  pModuleResourceManager :: "'s resource_manager"
  pNetworkPolicyManager :: "'s network_policy_manager option"
  pCertManager :: "'s certificate_manager"
  pEnableSISBController :: "('s, unit) state"

section \<open>The required secret\<close>

definition requiredKeys :: "string list" where
  "requiredKeys = [''clientid'', ''clientsecret'', ''sm_url'', ''tokenurl'', ''cluster_id'']"

text \<open>One pass over the keys, with the two lists it fills.\<close>

fun check_keys :: "(string, string) gomap \<Rightarrow> string list \<Rightarrow> string list \<times> string list \<Rightarrow> string list \<times> string list" where
  "check_keys data [] acc = acc"
| "check_keys data (key # keys) (missingKeys, missingValues) =
     (case map_of data key of
        None \<Rightarrow> check_keys data keys (missingKeys @ [key], missingValues)
      | Some value \<Rightarrow>
          check_keys data keys (missingKeys, if length value = 0 then missingValues @ [key] else missingValues))"

definition verifySecret :: "secret \<Rightarrow> error option" where
  "verifySecret x =
     (let (missingKeys, missingValues) = check_keys (Data x) requiredKeys ([], []);
          errs = (if length missingKeys > 0
                  then [''key(s) '' @ Join missingKeys '', '' @ '' not found''] else []) @
                 (if length missingValues > 0
                  then [''missing value(s) for '' @ Join missingValues '', '' @ '' key(s)''] else [])
      in if length errs > 0 then Some (Errorf (Join errs '', '')) else None)"

text \<open>
  \<^verbatim>\<open>errSecretNotFound\<close> is built once, when the package is initialised, from the defaults of the
  configuration variables.
\<close>

definition errSecretNotFound :: error where
  "errSecretNotFound =
     Errorf (SecretName default_config @ '' Secret in '' @ ChartNamespace default_config @ '' namespace not found'')"

definition getRequiredSecret :: "('w, 'v) env_scheme \<Rightarrow> (('w, 'z) kstate_scheme, error + secret) state" where
  "getRequiredSecret E = do {
     r \<leftarrow> GetSecret E cli \<lparr>KeyName = SecretName (conf E), KeyNamespace = ChartNamespace (conf E)\<rparr>;
     case r of
       Inl e \<Rightarrow> if IsNotFound e then ret (Inl errSecretNotFound)
                 else ret (Inl (wrap ''unable to get Secret: '' e))
     | Inr x \<Rightarrow> ret (Inr x) }"

text \<open>\<^verbatim>\<open>errors.Is\<close> compares with the one error value, which a wrapped API error never is.\<close>

definition GetAndVerifyRequiredSecret ::
    "('w, 'v) env_scheme \<Rightarrow> (('w, 'z) kstate_scheme, ErrorWithReason + secret) state" where
  "GetAndVerifyRequiredSecret E = do {
     r \<leftarrow> getRequiredSecret E;
     case r of
       Inl e \<Rightarrow>
         if e = errSecretNotFound then ret (Inl (NewErrorWithReason MissingSecret (Error e)))
         else ret (Inl (NewErrorWithReason InvalidSecret (Error e)))
     | Inr x \<Rightarrow>
         (case verifySecret x of
            Some e \<Rightarrow> ret (Inl (NewErrorWithReason InvalidSecret (Error e)))
          | None \<Rightarrow> ret (Inr x)) }"

section \<open>Module resources\<close>

definition IsAdmissionWebhook :: "string \<Rightarrow> bool" where
  "IsAdmissionWebhook kind =
     (kind = ''MutatingWebhookConfiguration'' \<or> kind = ''ValidatingWebhookConfiguration'')"

fun partition_webhooks :: "unstr list \<Rightarrow> unstr list \<times> unstr list \<Rightarrow> unstr list \<times> unstr list" where
  "partition_webhooks [] acc = acc"
| "partition_webhooks (u # us) (webhooks, rest) =
     (if IsAdmissionWebhook (GetKind u) then partition_webhooks us (webhooks @ [u], rest)
      else partition_webhooks us (webhooks, rest @ [u]))"

definition PartitionWebhooks :: "unstr list \<Rightarrow> unstr list \<times> unstr list" where
  "PartitionWebhooks resources = partition_webhooks resources ([], [])"

definition prov_cleanupNetworkPolicies :: "'s prov_handler \<Rightarrow> ('s, error option) state" where
  "prov_cleanupNetworkPolicies H =
     (case pNetworkPolicyManager H of None \<Rightarrow> ret None | Some N \<Rightarrow> CleanupNetworkPolicies_m N)"

definition deleteOldWebhookNetworkPolicy :: "'s prov_handler \<Rightarrow> ('s, error option) state" where
  "deleteOldWebhookNetworkPolicy H =
     (case pNetworkPolicyManager H of None \<Rightarrow> ret None | Some N \<Rightarrow> DeleteOldWebhookNetworkPolicy_m N)"

definition addNetworkPoliciesToResources ::
    "'s prov_handler \<Rightarrow> unstr list \<Rightarrow> ('s, error + unstr list) state" where
  "addNetworkPoliciesToResources H resourcesToApply =
     (case pNetworkPolicyManager H of
        None \<Rightarrow> ret (Inr resourcesToApply)
      | Some N \<Rightarrow> do {
          r \<leftarrow> LoadNetworkPolicies_m N;
          case r of
            Inl e \<Rightarrow> ret (Inl (wrap ''failed to load network policies: '' e))
          | Inr networkPolicies \<Rightarrow> ret (Inr (resourcesToApply @ networkPolicies)) })"

text \<open>The branch on the annotation: the resources to go on with, or the error.\<close>

definition networkPolicyStep ::
    "(('w, 'z) kstate_scheme) prov_handler \<Rightarrow> unstr list \<Rightarrow> (('w, 'z) kstate_scheme, error + unstr list) state" where
  "networkPolicyStep H resourcesToApply = do {
     cr \<leftarrow> get_cr;
     if IsNetworkPoliciesDisabled cr
     then do {
       err \<leftarrow> prov_cleanupNetworkPolicies H;
       case err of
         Some e \<Rightarrow> ret (Inl (wrap ''failed to cleanup network policies: '' e))
       | None \<Rightarrow> ret (Inr resourcesToApply) }
     else addNetworkPoliciesToResources H resourcesToApply }"

definition reconcileResources ::
    "(('w, 'z) kstate_scheme) prov_handler \<Rightarrow> secret \<Rightarrow> (('w, 'z) kstate_scheme, error option) state" where
  "reconcileResources H x = do {
     let M = pModuleResourceManager H;
     r \<leftarrow> CreateUnstructuredObjectsFromManifestsDir_m M (GetResourcesToApplyPath_m M);
     case r of
       Inl e \<Rightarrow> ret (Some (wrap ''failed to create applicable objects from manifests: '' e))
     | Inr resourcesToApply \<Rightarrow> do {
         r \<leftarrow> networkPolicyStep H resourcesToApply;
         case r of
           Inl e \<Rightarrow> ret (Some e)
         | Inr resourcesToApply \<Rightarrow> do {
             err \<leftarrow> deleteOldWebhookNetworkPolicy H;
             case err of
               Some e \<Rightarrow> ret (Some (wrap ''failed to delete old webhook network policy: '' e))
             | None \<Rightarrow> do {
                 (err, resourcesToApply) \<leftarrow> PrepareModuleResources_m M resourcesToApply x;
                 case err of
                   Some e \<Rightarrow> ret (Some (wrap ''failed to prepare objects to apply: '' e))
                 | None \<Rightarrow> do {
                     let (webhookResources, nonWebhookResources) = PartitionWebhooks resourcesToApply;
                     r \<leftarrow> PrepareAdmissionWebhooks_m (pCertManager H) webhookResources;
                     case r of
                       Inl e \<Rightarrow> ret (Some (wrap ''failed to prepare admission webhooks: '' e))
                     | Inr preparedWebhooks \<Rightarrow> do {
                         let resourcesToApply =
                           DeleteCreationTimestamp_m M (nonWebhookResources @ preparedWebhooks);
                         err \<leftarrow> ApplyOrUpdateResources_m M resourcesToApply;
                         case err of
                           Some e \<Rightarrow> ret (Some (wrap ''failed to apply module resources: '' e))
                         | None \<Rightarrow> do {
                             err \<leftarrow> WaitForResourcesReadiness_m M resourcesToApply;
                             case err of
                               Some e \<Rightarrow> ret (Some (wrap ''timed out while waiting for resources readiness: '' e))
                             | None \<Rightarrow> ret None } } } } } } }"

section \<open>The handler's methods\<close>

definition ReconcileReady ::
    "(('w, 'z) kstate_scheme) prov_handler \<Rightarrow> secret \<Rightarrow> (('w, 'z) kstate_scheme, error option) state" where
  "ReconcileReady H x = do {
     err \<leftarrow> DeleteOutdatedResources_m (pModuleResourceManager H);
     case err of
       Some e \<Rightarrow> ret (Some e)
     | None \<Rightarrow> reconcileResources H x }"

definition ReconcileResourcesWithoutStatusChange ::
    "('w, 'v) env_scheme \<Rightarrow> (('w, 'z) kstate_scheme) prov_handler \<Rightarrow> (('w, 'z) kstate_scheme, unit) state" where
  "ReconcileResourcesWithoutStatusChange E H = do {
     r \<leftarrow> GetAndVerifyRequiredSecret E;
     case r of
       Inl e \<Rightarrow> skip
     | Inr x \<Rightarrow> do {
         DeleteOutdatedResources_m (pModuleResourceManager H);
         reconcileResources H x;
         skip } }"

definition Provision ::
    "('w, 'v) env_scheme \<Rightarrow> (('w, 'z) kstate_scheme) prov_handler \<Rightarrow> (('w, 'z) kstate_scheme, ProvisionResult) state" where
  "Provision E H = do {
     let D = pDriftDetector H;
     r \<leftarrow> GetAndVerifyRequiredSecret E;
     case r of
       Inl e \<Rightarrow> if EwrReason e = InvalidSecret then ret (ProvisionError e) else ret (ProvisionWarning e)
     | Inr x \<Rightarrow> do {
         InitializeFromSecret_m D (Some x);
         (err, x) \<leftarrow> CheckCredentialsNamespaceDrift_m D x;
         case err of
           Some e \<Rightarrow> ret (ProvisionError e)
         | None \<Rightarrow> do {
             (err, x) \<leftarrow> CheckClusterIdConfigMapDrift_m D x;
             case err of
               Some e \<Rightarrow> ret (ProvisionError e)
             | None \<Rightarrow> do {
                 (err, x) \<leftarrow> ResolveClusterIdSecretDrift_m D x;
                 case err of
                   Some e \<Rightarrow> ret (ProvisionError e)
                 | None \<Rightarrow> do {
                     err \<leftarrow> DeleteOutdatedResources_m (pModuleResourceManager H);
                     case err of
                       Some e \<Rightarrow> ret (ProvisionError (NewErrorWithReason ProvisioningFailed (Error e)))
                     | None \<Rightarrow> do {
                         err \<leftarrow> reconcileResources H x;
                         case err of
                           Some e \<Rightarrow> ret (ProvisionError (NewErrorWithReason ProvisioningFailed (Error e)))
                         | None \<Rightarrow> do {
                             err \<leftarrow> DeleteChangedResources_m D;
                             case err of
                               Some e \<Rightarrow> ret (ProvisionError (NewErrorWithReason ResourceRemovalFailed (Error e)))
                             | None \<Rightarrow> do {
                                 pEnableSISBController H;
                                 ret ProvisionSucceeded } } } } } } } }"

section \<open>Verification of the secret\<close>

lemma wrap_not_errSecretNotFound [simp]: "Wrapf p e q \<noteq> errSecretNotFound"
  by (simp add: errSecretNotFound_def)

lemma check_keys_eq:
  "check_keys data keys (mk, mv) =
     (mk @ filter (\<lambda>k. map_of data k = None) keys, mv @ filter (\<lambda>k. map_of data k = Some []) keys)"
  by (induction keys arbitrary: mk mv) (auto split: option.split)

lemma verifySecret_None_iff: "verifySecret x = None \<longleftrightarrow> (\<forall>k \<in> set requiredKeys. mget (Data x) k \<noteq> [])"
proof -
  have "mget (Data x) k \<noteq> [] \<longleftrightarrow> map_of (Data x) k \<noteq> None \<and> map_of (Data x) k \<noteq> Some []" for k
    by (auto simp: mget_def split: option.splits)
  then show ?thesis
    by (simp add: verifySecret_def check_keys_eq filter_empty_conv) blast
qed

lemma GetAndVerify_reasons:
  "returns (\<lambda>r. case r of
       Inl e \<Rightarrow> EwrReason e = MissingSecret \<or> EwrReason e = InvalidSecret
     | Inr x \<Rightarrow> verifySecret x = None) (GetAndVerifyRequiredSecret E)"
  by (auto simp: GetAndVerifyRequiredSecret_def NewErrorWithReason_def intro!: returns_intros)

lemma emits_GetAndVerify: "emits reads (GetAndVerifyRequiredSecret E)"
  by (auto simp: GetAndVerifyRequiredSecret_def getRequiredSecret_def intro!: emits_intros)

lemma leaves_cr_GetAndVerify [leaves_cr_intros]: "leaves_cr (GetAndVerifyRequiredSecret E)"
  by (auto simp: GetAndVerifyRequiredSecret_def getRequiredSecret_def intro!: leaves_cr_intros)

lemma PartitionWebhooks_eq:
  "PartitionWebhooks us = (filter (\<lambda>u. IsAdmissionWebhook (GetKind u)) us, filter (\<lambda>u. \<not> IsAdmissionWebhook (GetKind u)) us)"
proof -
  have "partition_webhooks us (ws, rs) =
          (ws @ filter (\<lambda>u. IsAdmissionWebhook (GetKind u)) us, rs @ filter (\<lambda>u. \<not> IsAdmissionWebhook (GetKind u)) us)" for ws rs
    by (induction us arbitrary: ws rs) simp_all
  then show ?thesis by (simp add: PartitionWebhooks_def)
qed

section \<open>The handler over managers that keep their contracts\<close>

definition provision_result_ok :: "ProvisionResult \<Rightarrow> bool" where
  "provision_result_ok r \<longleftrightarrow>
     (\<forall>e. WarningReason r = Some e \<longrightarrow> reason_state (EwrReason e) = StateWarning) \<and>
     (\<forall>e. PrErrorReason r = Some e \<longrightarrow> reason_state (EwrReason e) = StateError) \<and>
     \<not> (WarningReason r \<noteq> None \<and> PrErrorReason r \<noteq> None)"

locale provisioning = drift_manager "pDriftDetector H" + resource_management "pModuleResourceManager H" +
  certificates "pCertManager H"
  for H :: "(('w, 'z) kstate_scheme) prov_handler" +
  assumes policies: "pNetworkPolicyManager H = Some N \<Longrightarrow> network_policies N"
    and enable: "leaves_cr (pEnableSISBController H)"
begin

lemmas manager_steps =
  det_init det_namespace det_cluster_id det_resolve det_delete_changed
  create_objects prepare apply_all wait_all delete_outdated prepare_webhooks enable

lemma policy_steps:
  "leaves_cr (networkPolicyStep H us)" "leaves_cr (deleteOldWebhookNetworkPolicy H)"
  by (auto simp: networkPolicyStep_def prov_cleanupNetworkPolicies_def deleteOldWebhookNetworkPolicy_def
      addNetworkPoliciesToResources_def dest!: policies intro!: leaves_cr_intros
      intro: network_policies.cleanup network_policies.delete_old network_policies.load)

lemma reconcile_leaves_cr: "leaves_cr (reconcileResources H x)"
  by (auto simp: reconcileResources_def Let_def intro!: leaves_cr_intros manager_steps policy_steps)

lemma ready_leaves_cr: "leaves_cr (ReconcileReady H x)"
  by (auto simp: ReconcileReady_def intro!: leaves_cr_intros manager_steps reconcile_leaves_cr)

lemma restore_leaves_cr: "leaves_cr (ReconcileResourcesWithoutStatusChange E H)"
  by (auto simp: ReconcileResourcesWithoutStatusChange_def
      intro!: leaves_cr_intros manager_steps reconcile_leaves_cr)

lemma provision_leaves_cr: "leaves_cr (Provision E H)"
  by (auto simp: Provision_def Let_def intro!: leaves_cr_intros manager_steps reconcile_leaves_cr)

lemma provision_reasons: "returns provision_result_ok (Provision E H)"
proof -
  note results = provision_result_ok_def ProvisionError_def ProvisionWarning_def ProvisionSucceeded_def
    NewErrorWithReason_def
  note checks = returns_bind_strong[OF det_namespace_reason] returns_bind_strong[OF det_cluster_id_reason]
    returns_bind_strong[OF det_resolve_reason] returns_bind_strong[OF GetAndVerify_reasons]
  show ?thesis
    unfolding Provision_def Let_def
    apply (rule checks)
    apply (rule returns_case_sum)
     apply (force simp: results intro!: returns_intros)
    apply (rule returns_bind)
    apply (rule checks, rule returns_case_prod, rule returns_case_option[rotated])
     apply (force simp: results error_reason_def intro!: returns_intros)
    apply (rule checks, rule returns_case_prod, rule returns_case_option[rotated])
     apply (force simp: results error_reason_def intro!: returns_intros)
    apply (rule checks, rule returns_case_prod, rule returns_case_option[rotated])
     apply (force simp: results error_reason_def intro!: returns_intros)
    apply (auto simp: results intro!: returns_intros)
    done
qed

end

section \<open>Properties\<close>

text \<open>
  C17: provisioning starts with the required secret. If it is missing, unreadable, or one of its five
  required entries is missing or empty, provisioning reads it and does nothing else, and reports a warning
  with reason MissingSecret in the first case and an error with reason InvalidSecret in the others.
\<close>

theorem provision_needs_valid_secret:
  assumes "clGetSecret (cli E) \<lparr>KeyName = SecretName (conf E), KeyNamespace = ChartNamespace (conf E)\<rparr> (api s) = (r, w)"
    and "\<And>x. r = Inr x \<Longrightarrow>
           \<exists>k \<in> {''clientid'', ''clientsecret'', ''sm_url'', ''tokenurl'', ''cluster_id''}. mget (Data x) k = []"
  shows "\<exists>msg. run_state (Provision E H) s =
     (if (\<exists>e. r = Inl e \<and> IsNotFound e) then ProvisionWarning \<lparr>EwrMessage = msg, EwrReason = MissingSecret\<rparr>
      else ProvisionError \<lparr>EwrMessage = msg, EwrReason = InvalidSecret\<rparr>,
      s\<lparr>api := w, clock := clock s + int (latency E w),
        trace := trace s @ [EvGet ''Secret'' \<lparr>KeyName = SecretName (conf E), KeyNamespace = ChartNamespace (conf E)\<rparr>]\<rparr>)"
proof (cases r)
  case (Inl e)
  then show ?thesis
    using assms(1)
    by (cases "IsNotFound e")
      (auto simp: Provision_def GetAndVerifyRequiredSecret_def getRequiredSecret_def run_simps Let_def
        NewErrorWithReason_def)
next
  case (Inr x)
  then have "verifySecret x \<noteq> None"
    using assms(2)[of x] by (auto simp: verifySecret_None_iff requiredKeys_def)
  with Inr show ?thesis
    using assms(1)
    by (auto simp: Provision_def GetAndVerifyRequiredSecret_def getRequiredSecret_def run_simps Let_def
        NewErrorWithReason_def)
qed

section \<open>Witnesses\<close>

theorem provision_needs_valid_secret_witness:
  "\<forall>H :: cluster kstate prov_handler.
     map_option EwrReason (WarningReason (fst (run_state (Provision mem_env H) (cr_kstate example_status))))
       = Some MissingSecret"
proof
  fix H :: "cluster kstate prov_handler"
  have "clGetSecret (cli mem_env) \<lparr>KeyName = SecretName (conf mem_env), KeyNamespace = ChartNamespace (conf mem_env)\<rparr>
          (api (cr_kstate example_status)) = (Inl not_found, api (cr_kstate example_status))"
    by (simp add: mem_simps)
  from provision_needs_valid_secret[OF this, of H]
  show "map_option EwrReason (WarningReason (fst (run_state (Provision mem_env H) (cr_kstate example_status))))
          = Some MissingSecret"
    by (auto simp: not_found_def ProvisionWarning_def)
qed

end
