(* ===== verification/Deprovisioning.thy ===== *)
theory Deprovisioning
  imports Provisioning
begin

text \<open>
  The deprovisioning handler (\<^verbatim>\<open>internal/deprovisioning\<close>): blocking on existing service instances and
  bindings, the hard delete that a goroutine polls, the soft delete that strips finalizers, the removal of
  the module resources and finally of the CR's finalizer.
\<close>

section \<open>The handler\<close>

record 's deprov_handler =
  hUpdateBtpOperatorStatus :: "cr_state \<Rightarrow> reason \<Rightarrow> string \<Rightarrow> ('s, error option) state"
  hReconcileResourcesWithoutStatusChange :: "('s, unit) state"
  hDisableSISBController :: "('s, unit) state option"
  hDriftDetector :: "'s detector"
  hModuleResourceManager :: "'s resource_manager"
  hNetworkPolicyManager :: "'s network_policy_manager option"

definition IsForceDelete :: "btpoperator \<Rightarrow> bool" where
  "IsForceDelete cr =
     (case map_of (Labels cr) forceDeleteLabelKey of None \<Rightarrow> False | Some v \<Rightarrow> v = ''true'')"

definition GvkToList :: "gvk \<Rightarrow> gvk" where
  "GvkToList g = g\<lparr>Kind := Kind g @ ''List''\<rparr>"

definition isDeadlineExceeded :: "error \<Rightarrow> bool" where
  "isDeadlineExceeded e = has_reason DeadlineExceeded e"

section \<open>Requests about service instances and bindings\<close>

definition crdExists :: "('w, 'v) env_scheme \<Rightarrow> gvk \<Rightarrow> (('w, 'z) kstate_scheme, error + bool) state" where
  "crdExists E g = do {
     err \<leftarrow> GetCRD E cli (ToLower (Kind g) @ ''s.'' @ Group g);
     case err of
       Some e \<Rightarrow> if IsNotFound e then ret (Inr False) else ret (Inl e)
     | None \<Rightarrow> ret (Inr True) }"

definition numberOfResources :: "('w, 'v) env_scheme \<Rightarrow> gvk \<Rightarrow> (('w, 'z) kstate_scheme, error + nat) state" where
  "numberOfResources E g = do {
     r \<leftarrow> crdExists E g;
     case r of
       Inl e \<Rightarrow> ret (Inl e)
     | Inr False \<Rightarrow> ret (Inr 0)
     | Inr True \<Rightarrow> do {
         r \<leftarrow> ListUnstructured E cli g [];
         case r of Inl e \<Rightarrow> ret (Inl e) | Inr items \<Rightarrow> ret (Inr (length items)) } }"

fun hardDelete :: "('w, 'v) env_scheme \<Rightarrow> gvk \<Rightarrow> string list \<Rightarrow> (('w, 'z) kstate_scheme, error option) state" where
  "hardDelete E g [] = ret None"
| "hardDelete E g (ns # namespaces) = do {
     err \<leftarrow> DeleteAllOf E cli g ns [];
     case err of Some e \<Rightarrow> ret (Some e) | None \<Rightarrow> hardDelete E g namespaces }"

fun resourcesExist :: "('w, 'v) env_scheme \<Rightarrow> string list \<Rightarrow> gvk \<Rightarrow> (('w, 'z) kstate_scheme, error + bool) state" where
  "resourcesExist E [] g = ret (Inr False)"
| "resourcesExist E (ns # namespaces) g = do {
     r \<leftarrow> ListUnstructured E cli g ns;
     let anyLeft = (case r of Inl e \<Rightarrow> if \<not> IsNotFound e then Inl e else Inr False
                            | Inr items \<Rightarrow> Inr (length items > 0));
     case anyLeft of
       Inl e \<Rightarrow> ret (Inl e)
     | Inr left \<Rightarrow> if left then ret (Inr True) else resourcesExist E namespaces g }"

section \<open>Hard delete\<close>

text \<open>
  The goroutine and the \<^verbatim>\<open>select\<close> that waits for it, in one thread: the handler only waits while the
  goroutine works, so the goroutine's requests come first. \<open>deadline\<close> is when the timer of the \<^verbatim>\<open>select\<close>
  fires; from then on the goroutine finds a message in the timeout channel at the head of its loop and
  returns without a result, \<open>None\<close>. Requests of a pass that is under way when the timer fires may in the
  program overlap with the soft delete; the channels themselves are modelled in \<open>Hard_Delete_Channels\<close>.
\<close>

definition crd_check :: "('w, 'v) env_scheme \<Rightarrow> gvk \<Rightarrow> string list \<Rightarrow> (('w, 'z) kstate_scheme, bool \<times> error list) state" where
  "crd_check E g namespaces = do {
     r \<leftarrow> crdExists E g;
     case r of
       Inl e \<Rightarrow> ret (False, [e])
     | Inr False \<Rightarrow> ret (False, [])
     | Inr True \<Rightarrow> do {
         err \<leftarrow> hardDelete E g namespaces;
         case err of
           None \<Rightarrow> ret (True, [])
         | Some e \<Rightarrow> ret (True, if isDeadlineExceeded e then [] else [e]) } }"

definition left_check ::
    "('w, 'v) env_scheme \<Rightarrow> bool \<Rightarrow> string list \<Rightarrow> gvk \<Rightarrow> (('w, 'z) kstate_scheme, error + bool) state" where
  "left_check E crd namespaces g = (if crd then resourcesExist E namespaces g else ret (Inr False))"

primrec hard_delete_loop ::
    "('w, 'v) env_scheme \<Rightarrow> string list \<Rightarrow> bool \<Rightarrow> bool \<Rightarrow> int \<Rightarrow> nat \<Rightarrow> (('w, 'z) kstate_scheme, bool option) state" where
  "hard_delete_loop E namespaces sbCrd siCrd deadline 0 = ret None"
| "hard_delete_loop E namespaces sbCrd siCrd deadline (Suc n) = do {
     now \<leftarrow> Now;
     if deadline \<le> now then ret None
     else do {
       r \<leftarrow> left_check E sbCrd namespaces bindingGvk;
       case r of
         Inl e \<Rightarrow> ret (Some False)
       | Inr sbLeft \<Rightarrow> do {
           r \<leftarrow> left_check E siCrd namespaces instanceGvk;
           case r of
             Inl e \<Rightarrow> ret (Some False)
           | Inr siLeft \<Rightarrow>
               if \<not> sbLeft \<and> \<not> siLeft then ret (Some True)
               else do {
                 Sleep (HardDeleteCheckInterval (conf E));
                 hard_delete_loop E namespaces sbCrd siCrd deadline n } } } }"

definition hard_delete_fuel :: "config \<Rightarrow> nat" where
  "hard_delete_fuel c = nat (HardDeleteTimeout c div HardDeleteCheckInterval c) + 2"

definition handleHardDelete ::
    "('w, 'v) env_scheme \<Rightarrow> string list \<Rightarrow> int \<Rightarrow> (('w, 'z) kstate_scheme, bool option) state" where
  "handleHardDelete E namespaces deadline = do {
     (sbCrdExists, errs) \<leftarrow> crd_check E bindingGvk namespaces;
     (siCrdExists, errs') \<leftarrow> crd_check E instanceGvk namespaces;
     if length (errs @ errs') > 0 then ret (Some False)
     else hard_delete_loop E namespaces sbCrdExists siCrdExists deadline (hard_delete_fuel (conf E)) }"

text \<open>
  What the \<^verbatim>\<open>select\<close> sees: the goroutine's result if it comes before the deadline, the timer if there is
  none; for a result that is there only when the timer has fired too, the choice is open.
\<close>

definition await_hard_delete ::
    "('w, 'v) env_scheme \<Rightarrow> string list \<Rightarrow> (('w, 'z) kstate_scheme, bool option) state" where
  "await_hard_delete E namespaces = do {
     start \<leftarrow> Now;
     let deadline = start + HardDeleteTimeout (conf E);
     result \<leftarrow> handleHardDelete E namespaces deadline;
     now \<leftarrow> Now;
     w \<leftarrow> gets api;
     ret (if now < deadline \<or> \<not> selectTimer E w then result else None) }"

section \<open>Module resources\<close>

definition deprov_cleanupNetworkPolicies :: "'s deprov_handler \<Rightarrow> ('s, error option) state" where
  "deprov_cleanupNetworkPolicies H =
     (case hNetworkPolicyManager H of None \<Rightarrow> ret None | Some N \<Rightarrow> CleanupNetworkPolicies_m N)"

fun delete_types ::
    "('w, 'v) env_scheme \<Rightarrow> string list \<Rightarrow> unstr list \<Rightarrow> (('w, 'z) kstate_scheme, error option) state" where
  "delete_types E deletedGvks [] = ret None"
| "delete_types E deletedGvks (u # us) =
     (if gvkString E (Gvk u) \<in> set deletedGvks then delete_types E deletedGvks us
      else do {
        err \<leftarrow> DeleteAllOf E cli (Gvk u) (ChartNamespace (conf E)) managedByLabelFilter;
        case err of
          Some e \<Rightarrow>
            if \<not> (IsNotFound e \<or> has_reason MethodNotSupported e \<or> has_reason NoMatch e) then ret (Some e)
            else delete_types E (gvkString E (Gvk u) # deletedGvks) us
        | None \<Rightarrow> delete_types E (gvkString E (Gvk u) # deletedGvks) us })"

definition deleteAllOfResourcesTypes ::
    "('w, 'v) env_scheme \<Rightarrow> unstr list \<Rightarrow> (('w, 'z) kstate_scheme, error option) state" where
  "deleteAllOfResourcesTypes E resourcesToDelete = delete_types E [] resourcesToDelete"

definition deleteBtpOperatorResources ::
    "('w, 'v) env_scheme \<Rightarrow> (('w, 'z) kstate_scheme) deprov_handler \<Rightarrow> (('w, 'z) kstate_scheme, error option) state" where
  "deleteBtpOperatorResources E H = do {
     let M = hModuleResourceManager H;
     r \<leftarrow> CreateUnstructuredObjectsFromManifestsDir_m M (GetResourcesToApplyPath_m M);
     case r of
       Inl e \<Rightarrow> ret (Some (wrap ''failed to create deletable objects from manifests: '' e))
     | Inr fromApply \<Rightarrow> do {
         r \<leftarrow> CreateUnstructuredObjectsFromManifestsDir_m M (GetResourcesToDeletePath_m M);
         case r of
           Inl e \<Rightarrow> ret (Some (wrap ''failed to create deletable objects from manifests: '' e))
         | Inr fromDelete \<Rightarrow> do {
             err \<leftarrow> deleteAllOfResourcesTypes E (fromApply @ fromDelete);
             case err of
               Some e \<Rightarrow> ret (Some (wrap ''failed to delete module resources: '' e))
             | None \<Rightarrow> do {
                 err \<leftarrow> deprov_cleanupNetworkPolicies H;
                 case err of
                   Some e \<Rightarrow> ret (Some (wrap ''failed to cleanup network policies during hard delete: '' e))
                 | None \<Rightarrow> do {
                     err \<leftarrow> DeleteClusterIdSecret_m (hDriftDetector H);
                     case err of
                       Some e \<Rightarrow> ret (Some (wrap ''failed to delete cluster ID secret: '' e))
                     | None \<Rightarrow> ret None } } } } }"

section \<open>Soft delete\<close>

fun delete_ignoring_not_found ::
    "('w, 'v) env_scheme \<Rightarrow> (string \<times> objkey) list \<Rightarrow> (('w, 'z) kstate_scheme, error option) state" where
  "delete_ignoring_not_found E [] = ret None"
| "delete_ignoring_not_found E ((kind, k) # rest) = do {
     err \<leftarrow> Delete E cli kind k;
     case err of
       Some e \<Rightarrow> if IsNotFound e then delete_ignoring_not_found E rest else ret (Some e)
     | None \<Rightarrow> delete_ignoring_not_found E rest }"

definition soft_delete_targets :: "config \<Rightarrow> (string \<times> objkey) list" where
  "soft_delete_targets c =
     [(''Deployment'', \<lparr>KeyName = DeploymentName c, KeyNamespace = ChartNamespace c\<rparr>),
      (''MutatingWebhookConfiguration'', \<lparr>KeyName = mutatingWebhookName, KeyNamespace = []\<rparr>),
      (''ValidatingWebhookConfiguration'', \<lparr>KeyName = validatingWebhookName, KeyNamespace = []\<rparr>)]"

definition preSoftDeleteCleanup ::
    "('w, 'v) env_scheme \<Rightarrow> (('w, 'z) kstate_scheme) deprov_handler \<Rightarrow> (('w, 'z) kstate_scheme, error option) state" where
  "preSoftDeleteCleanup E H = do {
     err \<leftarrow> delete_ignoring_not_found E (soft_delete_targets (conf E));
     case err of
       Some e \<Rightarrow> ret (Some e)
     | None \<Rightarrow> do {
         err \<leftarrow> deprov_cleanupNetworkPolicies H;
         case err of
           Some e \<Rightarrow> ret (Some (wrap ''failed to cleanup network policies during soft delete: '' e))
         | None \<Rightarrow> ret None } }"

fun soft_delete_items ::
    "('w, 'v) env_scheme \<Rightarrow> bool \<Rightarrow> unstr list \<Rightarrow> (('w, 'z) kstate_scheme, error option) state" where
  "soft_delete_items E isBinding [] = ret None"
| "soft_delete_items E isBinding (item # items) = do {
     err \<leftarrow> (case DeletionTimestamp item of
               None \<Rightarrow> Delete E cli (GetKind item) (ObjectKeyFromObject item)
             | Some t \<Rightarrow> ret None);
     case err of
       Some e \<Rightarrow> ret (Some e)
     | None \<Rightarrow> do {
         err \<leftarrow> Update E cli (item\<lparr>Finalizers := []\<rparr>);
         case err of
           Some e \<Rightarrow> ret (Some e)
         | None \<Rightarrow>
             if isBinding
             then do {
               err \<leftarrow> Delete E cli ''Secret'' (ObjectKeyFromObject item);
               case err of
                 Some e \<Rightarrow> if IsNotFound e then soft_delete_items E isBinding items else ret (Some e)
               | None \<Rightarrow> soft_delete_items E isBinding items }
             else soft_delete_items E isBinding items } }"

definition softDelete :: "('w, 'v) env_scheme \<Rightarrow> gvk \<Rightarrow> (('w, 'z) kstate_scheme, error option) state" where
  "softDelete E g = do {
     r \<leftarrow> ListUnstructured E cli (GvkToList g) [];
     case r of
       Inl e \<Rightarrow> ret (Some (Wrapf [] e ''; could not list in soft delete''))
     | Inr items \<Rightarrow> soft_delete_items E (Kind g = ''ServiceBinding'') items }"

definition ensureResourcesDontExist :: "('w, 'v) env_scheme \<Rightarrow> gvk \<Rightarrow> (('w, 'z) kstate_scheme, error option) state" where
  "ensureResourcesDontExist E g = do {
     r \<leftarrow> ListUnstructured E cli (GvkToList g) [];
     case r of
       Inl e \<Rightarrow> if \<not> IsNotFound e then ret (Some e) else ret None
     | Inr items \<Rightarrow>
         if length items > 0 then ret (Some (Errorf (''list returned '' @ show_nat (length items) @ '' records'')))
         else ret None }"

definition soft_delete_type :: "('w, 'v) env_scheme \<Rightarrow> bool \<Rightarrow> gvk \<Rightarrow> (('w, 'z) kstate_scheme, error option) state" where
  "soft_delete_type E crd g =
     (if crd
      then do {
        err \<leftarrow> softDelete E g;
        case err of Some e \<Rightarrow> ret (Some e) | None \<Rightarrow> ensureResourcesDontExist E g }
      else ret None)"

definition handleSoftDelete ::
    "('w, 'v) env_scheme \<Rightarrow> (('w, 'z) kstate_scheme) deprov_handler \<Rightarrow> (('w, 'z) kstate_scheme, error option) state" where
  "handleSoftDelete E H = do {
     err \<leftarrow> preSoftDeleteCleanup E H;
     case err of
       Some e \<Rightarrow> ret (Some e)
     | None \<Rightarrow> do {
         r \<leftarrow> crdExists E bindingGvk;
         case r of
           Inl e \<Rightarrow> ret (Some e)
         | Inr sbCrdExists \<Rightarrow> do {
             r \<leftarrow> crdExists E instanceGvk;
             case r of
               Inl e \<Rightarrow> ret (Some e)
             | Inr siCrdExists \<Rightarrow> do {
                 err \<leftarrow> soft_delete_type E sbCrdExists bindingGvk;
                 case err of
                   Some e \<Rightarrow> ret (Some e)
                 | None \<Rightarrow> do {
                     err \<leftarrow> soft_delete_type E siCrdExists instanceGvk;
                     case err of
                       Some e \<Rightarrow> ret (Some e)
                     | None \<Rightarrow> deleteBtpOperatorResources E H } } } } }"

section \<open>Deprovisioning\<close>

definition soft_delete_branch ::
    "('w, 'v) env_scheme \<Rightarrow> (('w, 'z) kstate_scheme) deprov_handler \<Rightarrow> (('w, 'z) kstate_scheme, error option) state" where
  "soft_delete_branch E H = do {
     err \<leftarrow> hUpdateBtpOperatorStatus H StateDeleting SoftDeleting ''Being soft deleted'';
     case err of Some e \<Rightarrow> ret (Some e) | None \<Rightarrow> handleSoftDelete E H }"

definition delete_everything ::
    "('w, 'v) env_scheme \<Rightarrow> (('w, 'z) kstate_scheme) deprov_handler \<Rightarrow> string list
      \<Rightarrow> (('w, 'z) kstate_scheme, error option) state" where
  "delete_everything E H namespaces = do {
     cr \<leftarrow> get_cr;
     err \<leftarrow> (if IsReasonStringEqual cr (reason_string ServiceInstancesAndBindingsNotCleaned)
            then hUpdateBtpOperatorStatus H StateDeleting HardDeleting
                   ''BtpOperator is to be deleted after cleaning service instance and binding resources''
            else ret None);
     case err of
       Some e \<Rightarrow> ret (Some e)
     | None \<Rightarrow> do {
         result \<leftarrow> await_hard_delete E namespaces;
         case result of
           None \<Rightarrow> soft_delete_branch E H
         | Some succeeded \<Rightarrow>
             if succeeded
             then do {
               err \<leftarrow> deleteBtpOperatorResources E H;
               case err of
                 Some e \<Rightarrow> do {
                   err' \<leftarrow> hUpdateBtpOperatorStatus H StateError ResourceRemovalFailed ''Unable to remove installed resources'';
                   case err' of Some e' \<Rightarrow> ret (Some e') | None \<Rightarrow> ret (Some e) }
               | None \<Rightarrow> ret None }
             else soft_delete_branch E H } }"

definition block_message :: "nat \<Rightarrow> nat \<Rightarrow> string" where
  "block_message numberOfInstances numberOfBindings =
     ''All service instances and bindings must be removed: '' @ show_nat numberOfInstances @ '' instance(s) and '' @
     show_nat numberOfBindings @ '' binding(s)''"

definition handleDeprovisioning ::
    "('w, 'v) env_scheme \<Rightarrow> (('w, 'z) kstate_scheme) deprov_handler \<Rightarrow> (('w, 'z) kstate_scheme, error option) state" where
  "handleDeprovisioning E H = do {
     r \<leftarrow> ListNamespaces E cli;
     case r of
       Inl e \<Rightarrow> ret (Some e)
     | Inr namespaces \<Rightarrow> do {
         cr \<leftarrow> get_cr;
         if IsForceDelete cr then delete_everything E H namespaces
         else do {
           r \<leftarrow> numberOfResources E bindingGvk;
           case r of
             Inl e \<Rightarrow> ret (Some e)
           | Inr numberOfBindings \<Rightarrow> do {
               r \<leftarrow> numberOfResources E instanceGvk;
               case r of
                 Inl e \<Rightarrow> ret (Some e)
               | Inr numberOfInstances \<Rightarrow>
                   if numberOfBindings > 0 \<or> numberOfInstances > 0
                   then if IsReasonStringEqual cr (reason_string ServiceInstancesAndBindingsNotCleaned) \<and>
                           CrState (Status cr) = StateWarning
                        then ret None
                        else hUpdateBtpOperatorStatus H StateWarning ServiceInstancesAndBindingsNotCleaned
                               (block_message numberOfInstances numberOfBindings)
                   else delete_everything E H namespaces } } } }"

definition deprov_getSecretByNameAndNamespace ::
    "('w, 'v) env_scheme \<Rightarrow> string \<Rightarrow> string \<Rightarrow> (('w, 'z) kstate_scheme, error + secret option) state" where
  "deprov_getSecretByNameAndNamespace E name ns = do {
     r \<leftarrow> GetSecret E apicli \<lparr>KeyName = name, KeyNamespace = ns\<rparr>;
     case r of
       Inl e \<Rightarrow> if IsNotFound e then ret (Inr None)
                 else ret (Inl (wrap (''while getting '' @ name @ '' secret from '' @ ns @ '' namespace: '') e))
     | Inr x \<Rightarrow> ret (Inr (Some x)) }"

definition remove_cr_finalizer ::
    "('w, 'v) env_scheme \<Rightarrow> (('w, 'z) kstate_scheme) deprov_handler \<Rightarrow> (('w, 'z) kstate_scheme, error option) state" where
  "remove_cr_finalizer E H = do {
     (case hDisableSISBController H of None \<Rightarrow> skip | Some disable \<Rightarrow> disable);
     cr \<leftarrow> get_cr;
     let cr' = cr\<lparr>Finalizers := snd (libRemoveFinalizer E (Finalizers cr) deletionFinalizer)\<rparr>;
     set_cr cr';
     r \<leftarrow> UpdateBtpOperator E cli cr';
     case r of
       Inl e \<Rightarrow> ret (Some e)
     | Inr updated \<Rightarrow> do { set_cr updated; ret None } }"

definition Deprovision ::
    "('w, 'v) env_scheme \<Rightarrow> (('w, 'z) kstate_scheme) deprov_handler \<Rightarrow> (('w, 'z) kstate_scheme, error option) state" where
  "Deprovision E H = do {
     r \<leftarrow> deprov_getSecretByNameAndNamespace E (SecretName (conf E)) (ChartNamespace (conf E));
     case r of
       Inl e \<Rightarrow> ret (Some (wrap ''failed to get the required secret: '' e))
     | Inr requiredSecret \<Rightarrow> do {
         InitializeFromSecret_m (hDriftDetector H) requiredSecret;
         cr \<leftarrow> get_cr;
         if length (Finalizers cr) = 0 then ret None
         else do {
           err \<leftarrow> handleDeprovisioning E H;
           case err of
             Some e \<Rightarrow> do { hReconcileResourcesWithoutStatusChange H; ret (Some e) }
           | None \<Rightarrow> do {
               cr \<leftarrow> get_cr;
               if IsReasonStringEqual cr (reason_string ServiceInstancesAndBindingsNotCleaned)
               then do {
                 hReconcileResourcesWithoutStatusChange H;
                 r \<leftarrow> numberOfResources E bindingGvk;
                 case r of
                   Inl e \<Rightarrow> ret (Some e)
                 | Inr numberOfBindings \<Rightarrow> do {
                     r \<leftarrow> numberOfResources E instanceGvk;
                     case r of
                       Inl e \<Rightarrow> ret (Some e)
                     | Inr numberOfInstances \<Rightarrow>
                         if numberOfBindings > 0 \<or> numberOfInstances > 0 then ret None
                         else remove_cr_finalizer E H } }
               else remove_cr_finalizer E H } } } }"

section \<open>Effects of the parts\<close>

lemma emits_crdExists [emits_intros]: "emits (reads \<union> A) (crdExists E g)"
  by (auto simp: crdExists_def intro!: emits_intros)

lemma emits_numberOfResources [emits_intros]: "emits (reads \<union> A) (numberOfResources E g)"
  by (auto simp: numberOfResources_def intro!: emits_intros split: bool.split)

lemma emits_hardDelete:
  "(\<And>ns. ns \<in> set namespaces \<Longrightarrow> EvDeleteAllOf g ns [] \<in> A) \<Longrightarrow> emits A (hardDelete E g namespaces)"
  by (induction namespaces) (auto intro!: emits_intros)

lemma emits_resourcesExist [emits_intros]: "emits (reads \<union> A) (resourcesExist E namespaces g)"
  by (induction namespaces) (auto simp: Let_def intro!: emits_intros)

lemma leaves_cr_crdExists [leaves_cr_intros]: "leaves_cr (crdExists E g)"
  by (auto simp: crdExists_def intro!: leaves_cr_intros)

lemma leaves_cr_numberOfResources [leaves_cr_intros]: "leaves_cr (numberOfResources E g)"
  by (auto simp: numberOfResources_def intro!: leaves_cr_intros split: bool.split)

lemma leaves_cr_hardDelete [leaves_cr_intros]: "leaves_cr (hardDelete E g namespaces)"
  by (induction namespaces) (auto intro!: leaves_cr_intros)

lemma leaves_cr_resourcesExist [leaves_cr_intros]: "leaves_cr (resourcesExist E namespaces g)"
  by (induction namespaces) (auto simp: Let_def intro!: leaves_cr_intros)

lemma leaves_cr_hard_delete_loop [leaves_cr_intros]:
  "leaves_cr (hard_delete_loop E namespaces sb si deadline n)"
  by (induction n) (auto simp: left_check_def intro!: leaves_cr_intros)

lemma leaves_cr_await_hard_delete [leaves_cr_intros]: "leaves_cr (await_hard_delete E namespaces)"
  by (auto simp: await_hard_delete_def handleHardDelete_def crd_check_def Let_def
      intro!: leaves_cr_intros split: bool.split)

lemma leaves_cr_delete_types [leaves_cr_intros]: "leaves_cr (delete_types E deleted us)"
  by (induction us arbitrary: deleted) (auto intro!: leaves_cr_intros)

lemma leaves_cr_delete_ignoring [leaves_cr_intros]: "leaves_cr (delete_ignoring_not_found E ts)"
  by (induction ts) (auto intro!: leaves_cr_intros)

lemma leaves_cr_soft_delete_items [leaves_cr_intros]: "leaves_cr (soft_delete_items E b items)"
  by (induction items) (auto intro!: leaves_cr_intros)

lemma leaves_cr_soft_delete_type [leaves_cr_intros]: "leaves_cr (soft_delete_type E crd g)"
  by (auto simp: soft_delete_type_def softDelete_def ensureResourcesDontExist_def intro!: leaves_cr_intros)

section \<open>One DeleteAllOf per type\<close>

fun first_types :: "gvk list \<Rightarrow> gvk list \<Rightarrow> gvk list" where
  "first_types seen [] = []"
| "first_types seen (g # gs) = (if g \<in> set seen then first_types seen gs else g # first_types (g # seen) gs)"

lemma first_types_set: "set (first_types seen gs) = set gs - set seen"
  by (induction gs arbitrary: seen) auto

lemma first_types_distinct: "distinct (first_types seen gs)"
  by (induction gs arbitrary: seen) (auto simp: first_types_set)

lemma wp_delete_types:
  assumes "inj_on (gvkString E) (set seen \<union> Gvk ` set us)"
  shows "wp (delete_types E (map (gvkString E) seen) us) (\<lambda>err s'. \<exists>rest.
           trace s @ map (\<lambda>g. EvDeleteAllOf g (ChartNamespace (conf E)) managedByLabelFilter) (first_types seen (map Gvk us))
             = trace s' @ rest \<and> (err = None \<longrightarrow> rest = [])) s"
  using assms
proof (induction us arbitrary: seen s)
  case (Cons u us)
  have new: "gvkString E (Gvk u) \<in> gvkString E ` set seen \<longleftrightarrow> Gvk u \<in> set seen"
    using Cons.prems by (auto simp: inj_on_def)
  have seen: "inj_on (gvkString E) (set seen \<union> Gvk ` set us)"
    "inj_on (gvkString E) (set (Gvk u # seen) \<union> Gvk ` set us)"
    using Cons.prems by (auto simp: inj_on_def)
  let ?ev = "\<lambda>g. EvDeleteAllOf g (ChartNamespace (conf E)) managedByLabelFilter"
  have sent: "wp (delete_types E (gvkString E (Gvk u) # map (gvkString E) seen) us) (\<lambda>err s'. \<exists>rest.
      trace s @ ?ev (Gvk u) # map ?ev (first_types (Gvk u # seen) (map Gvk us)) = trace s' @ rest \<and>
      (err = None \<longrightarrow> rest = [])) (s\<lparr>api := w, clock := c, trace := trace s @ [?ev (Gvk u)]\<rparr>)" for w c
    using Cons.IH[OF seen(2), of "s\<lparr>api := w, clock := c, trace := trace s @ [?ev (Gvk u)]\<rparr>"] by simp
  show ?case
    using Cons.IH[OF seen(1)] sent
    by (auto simp: new wp_simps wp_api_call DeleteAllOf_def split: prod.split option.split)
qed (simp add: wp_simps)

section \<open>The polling loop of the hard delete\<close>

lemma advances_resourcesExist: "advances (resourcesExist E namespaces g)"
  by (induction namespaces) (auto simp: ListUnstructured_def Let_def intro!: advances_intros)

lemma advances_left_check: "advances (left_check E crd namespaces g)"
  by (simp add: left_check_def advances_intros advances_resourcesExist)

lemma hard_delete_loop_more_fuel:
  assumes "0 < HardDeleteCheckInterval (conf E)"
    and "deadline \<le> clock s + int n * HardDeleteCheckInterval (conf E)"
  shows "run_state (hard_delete_loop E namespaces sb si deadline (Suc n + k)) s =
         run_state (hard_delete_loop E namespaces sb si deadline (Suc n)) s"
  using assms(2)
proof (induction n arbitrary: s)
  case 0
  then show ?case by (simp add: run_simps)
next
  case (Suc n)
  let ?d = "HardDeleteCheckInterval (conf E)"
  obtain r s1 where 1: "run_state (left_check E sb namespaces bindingGvk) s = (r, s1)" by fastforce
  obtain r' s2 where 2: "run_state (left_check E si namespaces instanceGvk) s1 = (r', s2)" by fastforce
  let ?s3 = "s2\<lparr>clock := clock s2 + max 0 ?d, trace := trace s2 @ [EvSleep ?d]\<rparr>"
  have "clock s \<le> clock s2"
    using advancesD[OF advances_left_check 1] advancesD[OF advances_left_check 2] by simp
  then have "deadline \<le> clock ?s3 + int n * ?d"
    using Suc.prems assms(1) by (simp add: algebra_simps)
  from Suc.IH[OF this] show ?case
    unfolding add_Suc hard_delete_loop.simps(2)[of _ _ _ _ _ "Suc (n + k)"]
      hard_delete_loop.simps(2)[of _ _ _ _ _ "Suc n"]
    by (auto simp: run_simps 1 2 simp del: hard_delete_loop.simps split: sum.split)
qed

text \<open>Every namespace was listed and found empty.\<close>

definition no_items :: "error + unstr list \<Rightarrow> bool" where
  "no_items r = (case r of Inl e \<Rightarrow> IsNotFound e | Inr items \<Rightarrow> items = [])"

fun lists_empty :: "('w, 'v) env_scheme \<Rightarrow> gvk \<Rightarrow> string list \<Rightarrow> 'w \<Rightarrow> 'w \<Rightarrow> bool" where
  "lists_empty E g [] w w' \<longleftrightarrow> w' = w"
| "lists_empty E g (ns # namespaces) w w' \<longleftrightarrow>
     (case clListUnstructured (cli E) g ns w of (r, w1) \<Rightarrow> no_items r \<and> lists_empty E g namespaces w1 w')"

lemma resourcesExist_False:
  "run_state (resourcesExist E namespaces g) s = (Inr False, s') \<Longrightarrow> lists_empty E g namespaces (api s) (api s')"
proof (induction namespaces arbitrary: s)
  case (Cons ns namespaces)
  obtain r w where r: "clListUnstructured (cli E) g ns (api s) = (r, w)" by fastforce
  have "no_items r"
    using Cons.prems r by (auto simp: run_simps no_items_def Let_def split: sum.splits if_splits)
  then show ?case
    using Cons.IH Cons.prems r
    by (fastforce simp: run_simps no_items_def Let_def split: sum.splits if_splits)
qed simp

definition none_left :: "('w, 'v) env_scheme \<Rightarrow> bool \<Rightarrow> gvk \<Rightarrow> string list \<Rightarrow> 'w \<Rightarrow> 'w \<Rightarrow> bool" where
  "none_left E crd g namespaces w w' \<longleftrightarrow> (if crd then lists_empty E g namespaces w w' else w' = w)"

lemma left_check_False:
  "run_state (left_check E crd namespaces g) s = (Inr False, s') \<Longrightarrow> none_left E crd g namespaces (api s) (api s')"
  by (auto simp: left_check_def none_left_def resourcesExist_False split: if_splits)

lemma hard_delete_loop_True:
  assumes "run_state (hard_delete_loop E namespaces sb si deadline n) s = (Some True, s')"
  shows "\<exists>w w'. none_left E sb bindingGvk namespaces w w' \<and> none_left E si instanceGvk namespaces w' (api s')"
  using assms
proof (induction n arbitrary: s)
  case (Suc n)
  obtain r s1 where 1: "run_state (left_check E sb namespaces bindingGvk) s = (r, s1)" by fastforce
  obtain r' s2 where 2: "run_state (left_check E si namespaces instanceGvk) s1 = (r', s2)" by fastforce
  show ?case
    using Suc left_check_False[of E sb namespaces bindingGvk s s1] left_check_False[of E si namespaces instanceGvk s1 s2]
    by (auto simp: run_simps 1 2 split: if_splits sum.splits)
qed simp

section \<open>Soft delete\<close>

lemma wp_delete_ignoring:
  "wp (delete_ignoring_not_found E ts) (\<lambda>err s'. \<exists>rest.
     trace s @ map (\<lambda>(kind, k). EvDelete kind k) ts = trace s' @ rest \<and> (err = None \<longrightarrow> rest = [])) s"
proof (induction ts arbitrary: s)
  case (Cons t ts)
  obtain kind k where t: "t = (kind, k)" by fastforce
  have sent: "wp (delete_ignoring_not_found E ts) (\<lambda>err s'. \<exists>rest.
      trace s @ EvDelete kind k # map (\<lambda>(kind, k). EvDelete kind k) ts = trace s' @ rest \<and> (err = None \<longrightarrow> rest = []))
      (s\<lparr>api := w, clock := c, trace := trace s @ [EvDelete kind k]\<rparr>)" for w c
    using Cons.IH[of "s\<lparr>api := w, clock := c, trace := trace s @ [EvDelete kind k]\<rparr>"] by simp
  show ?case
    using sent by (auto simp: t wp_simps wp_api_call Delete_def split: prod.split option.split)
qed (simp add: wp_simps)

lemma emits_delete_ignoring:
  "emits {EvDelete kind k | kind k. (kind, k) \<in> set ts} (delete_ignoring_not_found E ts)"
proof (induction ts)
  case (Cons t ts)
  obtain kind k where t: "t = (kind, k)" by fastforce
  show ?case by (auto simp: t intro!: emits_intros emits_mono[OF Cons.IH])
qed (simp add: emits_intros)

section \<open>The handler over collaborators that keep their contracts\<close>

text \<open>
  Status writes for a reason of the given set, with the state that the reason table gives for it; and the
  reasons of a deletion.
\<close>

definition coherent_status :: "reason set \<Rightarrow> event set" where
  "coherent_status rs = {EvStatusUpdate o' | o' r msg. r \<in> rs \<and> status_write (reason_state r) r msg o'}"

definition deletion_reasons :: "reason set" where
  "deletion_reasons = {ServiceInstancesAndBindingsNotCleaned, HardDeleting, SoftDeleting, ResourceRemovalFailed}"

abbreviation deletion_status :: "event set" where
  "deletion_status \<equiv> coherent_status deletion_reasons"

lemma deletion_reasons_simps [simp]:
  "ServiceInstancesAndBindingsNotCleaned \<in> deletion_reasons" "HardDeleting \<in> deletion_reasons"
  "SoftDeleting \<in> deletion_reasons" "ResourceRemovalFailed \<in> deletion_reasons"
  by (simp_all add: deletion_reasons_def)

definition removes_finalizer :: "event set" where
  "removes_finalizer = {EvUpdateCr c | c. deletionFinalizer \<notin> set (Finalizers c)}"

locale deprovisioning = drift_manager "hDriftDetector H" + resource_management "hModuleResourceManager H"
  for H :: "(('w, 'z) kstate_scheme) deprov_handler" +
  assumes dep_policies: "hNetworkPolicyManager H = Some N \<Longrightarrow> network_policies N"
    and status: "emits (status_events st r msg) (hUpdateBtpOperatorStatus H st r msg)"
    and restore: "leaves_cr (hReconcileResourcesWithoutStatusChange H)"
    and disable: "hDisableSISBController H = Some d \<Longrightarrow> leaves_cr d"
begin

lemma cleanup_policies: "leaves_cr (deprov_cleanupNetworkPolicies H)"
  by (auto simp: deprov_cleanupNetworkPolicies_def dest!: dep_policies intro!: leaves_cr_intros
      intro: network_policies.cleanup)

lemma cleanup_policies_only: "emits delete_alls (deprov_cleanupNetworkPolicies H)"
  by (auto simp: deprov_cleanupNetworkPolicies_def dest!: dep_policies intro!: emits_intros
      intro: network_policies.cleanup_only)

lemma pre_soft_delete:
  assumes "run_state (preSoftDeleteCleanup E H) s = (err, s')"
  shows "\<exists>t. trace s' = trace s @ t \<and> (\<forall>u. EvUpdate u \<notin> set t) \<and>
           (err = None \<longrightarrow> (\<exists>t'. t = map (\<lambda>(kind, k). EvDelete kind k) (soft_delete_targets (conf E)) @ t'))"
proof -
  obtain e s1 where 1: "run_state (delete_ignoring_not_found E (soft_delete_targets (conf E))) s = (e, s1)" by fastforce
  obtain t where t: "trace s1 = trace s @ t" "\<forall>u. EvUpdate u \<notin> set t"
    using emitsD[OF emits_delete_ignoring 1] by blast
  have all: "e = None \<Longrightarrow> t = map (\<lambda>(kind, k). EvDelete kind k) (soft_delete_targets (conf E))"
    using wp_run[OF wp_delete_ignoring 1] t(1) by auto
  obtain e' s2 where 2: "run_state (deprov_cleanupNetworkPolicies H) s1 = (e', s2)" by fastforce
  obtain t' where t': "trace s2 = trace s1 @ t'" "set t' \<subseteq> delete_alls"
    using emitsD[OF cleanup_policies_only 2] by blast
  show ?thesis
    using assms 1 2 t t' all
    by (auto simp: preSoftDeleteCleanup_def split: option.splits dest: subsetD)
qed

lemma delete_module_leaves_cr: "leaves_cr (deleteBtpOperatorResources E H)"
  by (auto simp: deleteBtpOperatorResources_def deleteAllOfResourcesTypes_def Let_def
      intro!: leaves_cr_intros create_objects cleanup_policies det_delete_cluster_id)

lemma soft_delete_leaves_cr: "leaves_cr (handleSoftDelete E H)"
  by (auto simp: handleSoftDelete_def preSoftDeleteCleanup_def
      intro!: leaves_cr_intros cleanup_policies delete_module_leaves_cr)

lemma quiet: "emits no_cr_write m \<Longrightarrow> emits (no_cr_write \<union> A) m"
  by (rule emits_mono) auto

lemma status_coherent:
  "reason_state r = st \<Longrightarrow> r \<in> deletion_reasons \<Longrightarrow> emits (no_cr_write \<union> deletion_status) (hUpdateBtpOperatorStatus H st r msg)"
  using status[of st r msg]
  by (rule emits_mono) (auto simp: status_events_def coherent_status_def)

lemma delete_everything_emits: "emits (no_cr_write \<union> deletion_status) (delete_everything E H namespaces)"
  by (auto simp: delete_everything_def soft_delete_branch_def intro!: emits_intros status_coherent
      quiet[OF leaves_cr_emits[OF leaves_cr_await_hard_delete]] quiet[OF leaves_cr_emits[OF soft_delete_leaves_cr]]
      quiet[OF leaves_cr_emits[OF delete_module_leaves_cr]])

lemma handle_emits: "emits (no_cr_write \<union> deletion_status) (handleDeprovisioning E H)"
  by (auto simp: handleDeprovisioning_def intro!: emits_intros status_coherent delete_everything_emits
      quiet[OF leaves_cr_emits[OF leaves_cr_numberOfResources]])

lemma disable_step: "leaves_cr (case hDisableSISBController H of None \<Rightarrow> skip | Some d \<Rightarrow> d)"
  by (auto split: option.split intro: leaves_cr_return disable)

lemma deprovision_emits:
  assumes "finalizer_library addF (libRemoveFinalizer E)"
  shows "emits (no_cr_write \<union> (deletion_status \<union> removes_finalizer)) (Deprovision E H)"
proof -
  have "EvUpdateCr (cr\<lparr>Finalizers := snd (libRemoveFinalizer E (Finalizers cr) deletionFinalizer)\<rparr>) \<in> removes_finalizer" for cr
    using finalizer_library.removed_gone[OF assms] by (simp add: removes_finalizer_def)
  then have "emits (no_cr_write \<union> (deletion_status \<union> removes_finalizer)) (remove_cr_finalizer E H)"
    by (auto simp: remove_cr_finalizer_def Let_def intro!: emits_intros quiet[OF leaves_cr_emits[OF disable_step]])
  moreover have "emits (no_cr_write \<union> (deletion_status \<union> removes_finalizer)) (handleDeprovisioning E H)"
    by (rule emits_mono[OF handle_emits]) auto
  ultimately show ?thesis
    by (auto simp: Deprovision_def deprov_getSecretByNameAndNamespace_def
        intro!: emits_intros quiet[OF leaves_cr_emits[OF det_init]] quiet[OF leaves_cr_emits[OF restore]]
        quiet[OF leaves_cr_emits[OF leaves_cr_numberOfResources]])
qed

end

section \<open>When the finalizer goes\<close>

text \<open>
  Everything \<^verbatim>\<open>Deprovision\<close> does before it removes the finalizer: \<open>Some result\<close> is an early return.
\<close>

definition deprov_prepare ::
    "('w, 'v) env_scheme \<Rightarrow> (('w, 'z) kstate_scheme) deprov_handler \<Rightarrow> (('w, 'z) kstate_scheme, error option option) state" where
  "deprov_prepare E H = do {
     r \<leftarrow> deprov_getSecretByNameAndNamespace E (SecretName (conf E)) (ChartNamespace (conf E));
     case r of
       Inl e \<Rightarrow> ret (Some (Some (wrap ''failed to get the required secret: '' e)))
     | Inr requiredSecret \<Rightarrow> do {
         InitializeFromSecret_m (hDriftDetector H) requiredSecret;
         cr \<leftarrow> get_cr;
         if length (Finalizers cr) = 0 then ret (Some None)
         else do {
           err \<leftarrow> handleDeprovisioning E H;
           case err of
             Some e \<Rightarrow> do { hReconcileResourcesWithoutStatusChange H; ret (Some (Some e)) }
           | None \<Rightarrow> do {
               cr \<leftarrow> get_cr;
               if IsReasonStringEqual cr (reason_string ServiceInstancesAndBindingsNotCleaned)
               then do {
                 hReconcileResourcesWithoutStatusChange H;
                 r \<leftarrow> numberOfResources E bindingGvk;
                 case r of
                   Inl e \<Rightarrow> ret (Some (Some e))
                 | Inr numberOfBindings \<Rightarrow> do {
                     r \<leftarrow> numberOfResources E instanceGvk;
                     case r of
                       Inl e \<Rightarrow> ret (Some (Some e))
                     | Inr numberOfInstances \<Rightarrow>
                         if numberOfBindings > 0 \<or> numberOfInstances > 0 then ret (Some None)
                         else ret None } }
               else ret None } } } }"

lemma Deprovision_eq:
  "run_state (Deprovision E H) s =
     (case run_state (deprov_prepare E H) s of
        (Some result, s1) \<Rightarrow> (result, s1)
      | (None, s1) \<Rightarrow> run_state (remove_cr_finalizer E H) s1)"
  unfolding Deprovision_def deprov_prepare_def
  by (auto simp: run_get_cr split: prod.split sum.split option.split if_split)

definition extends :: "('w, 'z) kstate_scheme \<Rightarrow> ('w, 'z) kstate_scheme \<Rightarrow> bool" where
  "extends s s' \<longleftrightarrow> (\<exists>t. trace s' = trace s @ t)"

lemma extends_refl [simp]: "extends s s"
  by (simp add: extends_def)

lemma extends_trans: "extends s s1 \<Longrightarrow> extends s1 s2 \<Longrightarrow> extends s s2"
  by (auto simp: extends_def)

lemma emits_extends: "emits A m \<Longrightarrow> run_state m s = (a, s') \<Longrightarrow> extends s s'"
  by (auto simp: extends_def dest: emitsD)

text \<open>Between the two states the module resources were removed without an error.\<close>

definition cleaned ::
    "('w, 'v) env_scheme \<Rightarrow> (('w, 'z) kstate_scheme) deprov_handler \<Rightarrow> ('w, 'z) kstate_scheme
      \<Rightarrow> ('w, 'z) kstate_scheme \<Rightarrow> bool" where
  "cleaned E H s s' \<longleftrightarrow>
     (\<exists>s1 s2. extends s s1 \<and> run_state (deleteBtpOperatorResources E H) s1 = (None, s2) \<and> extends s2 s')"

text \<open>Between the two states bindings and instances were counted, and there were none.\<close>

definition counted_zero :: "('w, 'v) env_scheme \<Rightarrow> ('w, 'z) kstate_scheme \<Rightarrow> ('w, 'z) kstate_scheme \<Rightarrow> bool" where
  "counted_zero E s s' \<longleftrightarrow>
     (\<exists>s1 s2. extends s s1 \<and> run_state (numberOfResources E bindingGvk) s1 = (Inr 0, s2) \<and>
              run_state (numberOfResources E instanceGvk) s2 = (Inr 0, s'))"

lemma cleaned_extends: "extends s s1 \<Longrightarrow> cleaned E H s1 s2 \<Longrightarrow> cleaned E H s s2"
  by (meson cleaned_def extends_trans)

lemma counted_zero_extends: "extends s s1 \<Longrightarrow> counted_zero E s1 s2 \<Longrightarrow> counted_zero E s s2"
  by (meson counted_zero_def extends_trans)

text \<open>An operation that succeeds only after it has removed the module resources.\<close>

definition cleans ::
    "('w, 'v) env_scheme \<Rightarrow> (('w, 'z) kstate_scheme) deprov_handler
      \<Rightarrow> (('w, 'z) kstate_scheme, error option) state \<Rightarrow> bool" where
  "cleans E H m \<longleftrightarrow> (\<forall>s s'. run_state m s = (None, s') \<longrightarrow> cleaned E H s s')"

lemma cleans_fail: "cleans E H (ret (Some e))"
  by (simp add: cleans_def)

lemma cleans_self: "cleans E H (deleteBtpOperatorResources E H)"
  by (auto simp: cleans_def cleaned_def intro: extends_refl)

lemma cleans_bind:
  assumes "emits A m" and "\<And>a. cleans E H (f a)"
  shows "cleans E H (State_Monad.bind m f)"
  using assms unfolding cleans_def
  by (auto split: prod.splits dest!: emits_extends intro: cleaned_extends)

lemma cleans_if: "(b \<Longrightarrow> cleans E H m) \<Longrightarrow> (\<not> b \<Longrightarrow> cleans E H n) \<Longrightarrow> cleans E H (if b then m else n)"
  by simp

lemma cleans_case_option:
  "(x = None \<Longrightarrow> cleans E H m) \<Longrightarrow> (\<And>y. x = Some y \<Longrightarrow> cleans E H (g y))
    \<Longrightarrow> cleans E H (case x of None \<Rightarrow> m | Some y \<Rightarrow> g y)"
  by (cases x) simp_all

lemma cleans_case_sum:
  "(\<And>e. x = Inl e \<Longrightarrow> cleans E H (f e)) \<Longrightarrow> (\<And>y. x = Inr y \<Longrightarrow> cleans E H (g y))
    \<Longrightarrow> cleans E H (case x of Inl e \<Rightarrow> f e | Inr y \<Rightarrow> g y)"
  by (cases x) simp_all

lemmas cleans_intros = cleans_fail cleans_self cleans_if cleans_case_option cleans_case_sum

lemma cleans_or_fails:
  assumes "\<And>e. returns (\<lambda>r. r \<noteq> None) (f e)"
  shows "cleans E H (do { err \<leftarrow> deleteBtpOperatorResources E H; case err of Some e \<Rightarrow> f e | None \<Rightarrow> ret None })"
  unfolding cleans_def
proof (intro allI impI)
  fix s s'
  assume run: "run_state (do { err \<leftarrow> deleteBtpOperatorResources E H; case err of Some e \<Rightarrow> f e | None \<Rightarrow> ret None }) s = (None, s')"
  obtain err s1 where 1: "run_state (deleteBtpOperatorResources E H) s = (err, s1)" by fastforce
  show "cleaned E H s s'"
  proof (cases err)
    case None
    with run 1 show ?thesis by (auto simp: cleaned_def intro: extends_refl)
  next
    case (Some e)
    with run 1 returnsD[OF assms[of e], of s1 None s'] show ?thesis by simp
  qed
qed

context deprovisioning
begin

lemma prepare_emits: "emits (no_cr_write \<union> deletion_status) (deprov_prepare E H)"
  by (auto simp: deprov_prepare_def deprov_getSecretByNameAndNamespace_def
      intro!: emits_intros handle_emits quiet[OF leaves_cr_emits[OF det_init]] quiet[OF leaves_cr_emits[OF restore]]
        quiet[OF leaves_cr_emits[OF leaves_cr_numberOfResources]])

end

text \<open>
  The contract of the status updater that the handler leans on: after a reported success the CR it holds
  carries a condition of the reason that was to be set.
\<close>

locale visible_deprovisioning = deprovisioning H
  for H :: "(('w, 'z) kstate_scheme) deprov_handler" +
  assumes visible: "run_state (hUpdateBtpOperatorStatus H st r msg) s = (None, s') \<Longrightarrow>
                      IsReasonStringEqual (crp s') (reason_string r)"
begin

lemma soft_delete_cleans: "cleans E H (soft_delete_branch E H)"
  by (auto simp: soft_delete_branch_def handleSoftDelete_def preSoftDeleteCleanup_def
      intro!: cleans_intros cleans_bind[OF status] cleans_bind[OF leaves_cr_emits] leaves_cr_intros cleanup_policies)

lemma delete_everything_cleans: "cleans E H (delete_everything E H namespaces)"
  unfolding delete_everything_def
  by (auto intro!: cleans_bind[OF emits_get_cr] cleans_intros cleans_bind[OF leaves_cr_emits[OF leaves_cr_await_hard_delete]]
      cleans_or_fails soft_delete_cleans returns_intros emits_return
      cleans_bind[OF emits_if[of _ _ "hUpdateBtpOperatorStatus H StateDeleting HardDeleting _"], OF status])

lemma handle_outcome:
  assumes "run_state (handleDeprovisioning E H) s = (None, s')"
  shows "cleaned E H s s' \<or> IsReasonStringEqual (crp s') (reason_string ServiceInstancesAndBindingsNotCleaned)"
proof -
  note step = leaves_cr_emits[OF leaves_cr_requests(9)] leaves_cr_emits[OF leaves_cr_numberOfResources]
  obtain r s1 where 1: "run_state (ListNamespaces E cli) s = (r, s1)" by fastforce
  show ?thesis
  proof (cases r)
    case (Inl e)
    with assms 1 show ?thesis by (simp add: handleDeprovisioning_def)
  next
    case (Inr namespaces)
    obtain rb s2 where 2: "run_state (numberOfResources E bindingGvk) s1 = (rb, s2)" by fastforce
    obtain ri s3 where 3: "run_state (numberOfResources E instanceGvk) s2 = (ri, s3)" by fastforce
    have ext: "extends s s1" "extends s s3"
      using emits_extends[OF step(1) 1] emits_extends[OF step(2) 2] emits_extends[OF step(2) 3]
      by (auto intro: extends_trans)
    have crp: "crp s1 = crp s" "crp s3 = crp s"
      using keepsD[OF leaves_cr_keeps[OF leaves_cr_requests(9)] 1]
        keepsD[OF leaves_cr_keeps[OF leaves_cr_numberOfResources] 2]
        keepsD[OF leaves_cr_keeps[OF leaves_cr_numberOfResources] 3] by simp_all
    have del: "cleaned E H s s'" if "run_state (delete_everything E H namespaces) s0 = (None, s')" "extends s s0" for s0
      using that delete_everything_cleans[of E namespaces] by (auto simp: cleans_def intro: cleaned_extends)
    show ?thesis
      using assms Inr 1 2 3 crp del[OF _ ext(1)] del[OF _ ext(2)] visible
      by (auto simp: handleDeprovisioning_def run_get_cr split: if_splits sum.splits)
  qed
qed

lemma prepare_outcome:
  assumes "run_state (deprov_prepare E H) s = (None, s')"
  shows "cleaned E H s s' \<or> counted_zero E s s'"
proof -
  obtain r s1 where 1: "run_state (deprov_getSecretByNameAndNamespace E (SecretName (conf E)) (ChartNamespace (conf E))) s = (r, s1)"
    by fastforce
  then obtain x where x: "r = Inr x" using assms by (auto simp: deprov_prepare_def split: sum.splits)
  obtain u s2 where 2: "run_state (InitializeFromSecret_m (hDriftDetector H) x) s1 = (u, s2)" by (metis surj_pair)
  obtain err s3 where 3: "run_state (handleDeprovisioning E H) s2 = (err, s3)" by fastforce
  have err: "err = None" using assms 1 2 3 x
    by (auto simp: deprov_prepare_def run_get_cr split: if_splits option.splits prod.splits)
  have "emits no_cr_write (deprov_getSecretByNameAndNamespace E (SecretName (conf E)) (ChartNamespace (conf E)))"
    by (auto simp: deprov_getSecretByNameAndNamespace_def intro!: emits_intros)
  then have s12: "extends s s2"
    using emits_extends[OF _ 1] emits_extends[OF leaves_cr_emits[OF det_init] 2] by (auto intro: extends_trans)
  then have s13: "extends s s3" using emits_extends[OF handle_emits 3] by (rule extends_trans)
  show ?thesis
  proof (cases "IsReasonStringEqual (crp s3) (reason_string ServiceInstancesAndBindingsNotCleaned)")
    case False
    with handle_outcome[of E s2 s3] 3 err have "cleaned E H s2 s3" by simp
    moreover have "s' = s3" using assms 1 2 3 x err False
      by (auto simp: deprov_prepare_def run_get_cr split: if_splits)
    ultimately show ?thesis using s12 by (auto intro: cleaned_extends)
  next
    case True
    obtain v s4 where 4: "run_state (hReconcileResourcesWithoutStatusChange H) s3 = (v, s4)" by (metis surj_pair)
    have "counted_zero E s4 s'"
      using assms 1 2 3 4 x err True
      by (auto simp: deprov_prepare_def run_get_cr counted_zero_def
          split: if_splits sum.splits prod.splits intro: extends_refl)
    then show ?thesis
      using s13 emits_extends[OF leaves_cr_emits[OF restore] 4] by (blast intro: counted_zero_extends extends_trans)
  qed
qed

lemma finalizer_safe:
  assumes "finalizer_library addF (libRemoveFinalizer E)"
    and "run_state (Deprovision E H) s = (err, s')" and "trace s' = trace s @ t" and "EvUpdateCr c \<in> set t"
  shows "deletionFinalizer \<notin> set (Finalizers c) \<and> last t = EvUpdateCr c \<and>
         (\<exists>s1. extends s1 s' \<and> (cleaned E H s s1 \<or> counted_zero E s s1))"
proof -
  obtain r s1 where 1: "run_state (deprov_prepare E H) s = (r, s1)" by fastforce
  obtain t1 where t1: "trace s1 = trace s @ t1" "set t1 \<subseteq> no_cr_write \<union> deletion_status"
    using emitsD[OF prepare_emits 1] by blast
  have r: "r = None"
    using assms(2-4) 1 t1 by (cases r) (auto simp: Deprovision_eq coherent_status_def)
  have remove: "run_state (remove_cr_finalizer E H) s1 = (err, s')"
    using assms(2) 1 r by (simp add: Deprovision_eq)
  obtain u s2 where 2: "run_state (case hDisableSISBController H of None \<Rightarrow> skip | Some d \<Rightarrow> d) s1 = (u, s2)"
    by (metis surj_pair)
  obtain t2 where t2: "trace s2 = trace s1 @ t2" "set t2 \<subseteq> no_cr_write"
    using emitsD[OF leaves_cr_emits[OF disable_step] 2] by blast
  let ?c = "(crp s2)\<lparr>Finalizers := snd (libRemoveFinalizer E (Finalizers (crp s2)) deletionFinalizer)\<rparr>"
  have "trace s' = trace s2 @ [EvUpdateCr ?c]"
    using remove 2 by (auto simp: remove_cr_finalizer_def run_simps Let_def split: sum.splits)
  moreover have "EvUpdateCr c \<notin> set t1" "EvUpdateCr c \<notin> set t2"
    using t1(2) t2(2) by (auto simp: coherent_status_def dest: subsetD)
  ultimately have "t = t1 @ t2 @ [EvUpdateCr ?c]" and c: "c = ?c" and ext: "extends s1 s'"
    using assms(3,4) t1(1) t2(1) by (auto simp: extends_def)
  moreover have "deletionFinalizer \<notin> set (Finalizers ?c)"
    using finalizer_library.removed_gone[OF assms(1)] by simp
  ultimately show ?thesis
    using prepare_outcome[of E s s1] 1 r c ext by auto
qed

end

section \<open>Properties\<close>


text \<open>
  C3: the hard delete reports success only after a pass that listed, for every resource type whose CRD
  exists, all namespaces and found each of them empty.
\<close>

theorem hard_delete_success_means_empty:
  assumes "run_state (handleHardDelete E namespaces deadline) s = (Some True, s')"
  shows "\<exists>sb si s1 s2 w w'.
           run_state (crd_check E bindingGvk namespaces) s = ((sb, []), s1) \<and>
           run_state (crd_check E instanceGvk namespaces) s1 = ((si, []), s2) \<and>
           (if sb then lists_empty E bindingGvk namespaces w w' else w' = w) \<and>
           (if si then lists_empty E instanceGvk namespaces w' (api s') else api s' = w')"
proof -
  obtain sb e1 s1 where 1: "run_state (crd_check E bindingGvk namespaces) s = ((sb, e1), s1)" by (metis surj_pair)
  obtain si e2 s2 where 2: "run_state (crd_check E instanceGvk namespaces) s1 = ((si, e2), s2)" by (metis surj_pair)
  have "e1 = []" "e2 = []"
    and loop: "run_state (hard_delete_loop E namespaces sb si deadline (hard_delete_fuel (conf E))) s2 = (Some True, s')"
    using assms 1 2 by (auto simp: handleHardDelete_def split: if_splits)
  with 1 2 hard_delete_loop_True[OF loop] show ?thesis by (fastforce simp: none_left_def)
qed

text \<open>
  C30: the hard delete ends: with a positive check interval, the number of polls the model allows is never
  the limit; any larger number gives the same run.
\<close>

theorem hard_delete_terminates:
  assumes "0 < HardDeleteCheckInterval (conf E)" and "hard_delete_fuel (conf E) \<le> n"
    and "deadline \<le> clock s + HardDeleteTimeout (conf E)"
  shows "run_state (hard_delete_loop E namespaces sb si deadline n) s =
         run_state (hard_delete_loop E namespaces sb si deadline (hard_delete_fuel (conf E))) s"
proof -
  let ?d = "HardDeleteCheckInterval (conf E)" and ?T = "HardDeleteTimeout (conf E)"
  have "?T \<le> int (nat (?T div ?d) + 1) * ?d"
    by (rule poll_bound[OF assms(1)])
  with assms(3) have "deadline \<le> clock s + int (hard_delete_fuel (conf E) - 1) * ?d"
    by (simp add: hard_delete_fuel_def)
  from hard_delete_loop_more_fuel[OF assms(1) this, of namespaces sb si "n - hard_delete_fuel (conf E)"]
  have "run_state (hard_delete_loop E namespaces sb si deadline
          (Suc (hard_delete_fuel (conf E) - 1) + (n - hard_delete_fuel (conf E)))) s =
        run_state (hard_delete_loop E namespaces sb si deadline (Suc (hard_delete_fuel (conf E) - 1))) s" .
  moreover have "Suc (hard_delete_fuel (conf E) - 1) = hard_delete_fuel (conf E)"
    by (simp add: hard_delete_fuel_def)
  ultimately show ?thesis using assms(2) by (simp del: hard_delete_loop.simps)
qed

text \<open>
  C1: while service instances or bindings exist and deletion is not forced, deprovisioning deletes
  nothing: it only reads, and sets the CR to Warning with reason ServiceInstancesAndBindingsNotCleaned.
\<close>

theorem blocked_deletion_deletes_nothing:
  assumes "condition_setter (libSetStatusCondition E)"
    and "hUpdateBtpOperatorStatus H = UpdateBtpOperatorStatus E" and "\<not> IsForceDelete (crp s)"
    and "run_state (do { r \<leftarrow> ListNamespaces E cli; b \<leftarrow> numberOfResources E bindingGvk;
                         i \<leftarrow> numberOfResources E instanceGvk; ret (r, b, i) }) s
         = ((Inr namespaces, Inr nb, Inr ni), s1)"
    and "nb > 0 \<or> ni > 0"
    and "run_state (handleDeprovisioning E H) s = (err, s')"
  shows "\<exists>t. trace s' = trace s @ t \<and>
           set t \<subseteq> reads \<union> range EvSleep \<union>
             EvStatusUpdate ` {o'. CrState (Status o') = StateWarning \<and>
               IsReasonStringEqual o' (reason_string ServiceInstancesAndBindingsNotCleaned)}"
proof -
  let ?A = "reads \<union> range EvSleep \<union> EvStatusUpdate ` {o'. CrState (Status o') = StateWarning \<and>
              IsReasonStringEqual o' (reason_string ServiceInstancesAndBindingsNotCleaned)}"
  let ?counts = "do { r \<leftarrow> ListNamespaces E cli; b \<leftarrow> numberOfResources E bindingGvk;
                      i \<leftarrow> numberOfResources E instanceGvk; ret (r, b, i) }"
  have "emits (reads \<union> {}) ?counts" and keep: "keeps crp ?counts"
    by (intro emits_intros leaves_cr_keeps leaves_cr_intros; simp)+
  from emitsD[OF this(1) assms(4)] obtain t1 where t1: "trace s1 = trace s @ t1" "set t1 \<subseteq> ?A" by auto
  have update: "emits ?A (UpdateBtpOperatorStatus E StateWarning ServiceInstancesAndBindingsNotCleaned msg)" for msg
    by (rule emits_mono[OF emits_UpdateBtpOperatorStatus[OF assms(1)]])
      (auto simp: status_events_def status_write_def IsReasonStringEqual_def dest: msg_in_imp_reason_in)
  have "crp s1 = crp s" using keepsD[OF keep assms(4)] .
  then have "s' = s1 \<or> run_state (UpdateBtpOperatorStatus E StateWarning ServiceInstancesAndBindingsNotCleaned
               (block_message ni nb)) s1 = (err, s')"
    using assms(2-6)
    by (auto simp: handleDeprovisioning_def run_get_cr split: if_splits prod.splits
        dest: keepsD[OF leaves_cr_keeps[OF leaves_cr_requests(9)]])
  then show ?thesis
    using t1 emitsD[OF update, of "block_message ni nb" s1 err s'] by auto
qed

text \<open>
  C22: a soft delete strips no finalizer from a service instance or binding before it has deleted the
  operand's deployment and both webhook configurations, in this order.
\<close>

theorem soft_delete_order:
  assumes "deprovisioning H" and "run_state (handleSoftDelete E H) s = (err, s')" and "trace s' = trace s @ t"
    and "EvUpdate u \<in> set t"
  shows "\<exists>t1 t2.
     t = [EvDelete ''Deployment'' \<lparr>KeyName = DeploymentName (conf E), KeyNamespace = ChartNamespace (conf E)\<rparr>,
          EvDelete ''MutatingWebhookConfiguration'' \<lparr>KeyName = mutatingWebhookName, KeyNamespace = []\<rparr>,
          EvDelete ''ValidatingWebhookConfiguration'' \<lparr>KeyName = validatingWebhookName, KeyNamespace = []\<rparr>] @ t1 @ t2 \<and>
     EvUpdate u \<in> set t2 \<and> (\<forall>u'. EvUpdate u' \<notin> set t1)"
proof -
  obtain e s1 where 1: "run_state (preSoftDeleteCleanup E H) s = (e, s1)" by fastforce
  from deprovisioning.pre_soft_delete[OF assms(1) 1] obtain t0 where t0: "trace s1 = trace s @ t0"
    "\<forall>u. EvUpdate u \<notin> set t0"
    "e = None \<longrightarrow> (\<exists>t'. t0 = map (\<lambda>(kind, k). EvDelete kind k) (soft_delete_targets (conf E)) @ t')" by blast
  have e: "e = None"
    using assms(2-4) 1 t0(1,2) by (cases e) (auto simp: handleSoftDelete_def)
  let ?rest = "do { r \<leftarrow> crdExists E bindingGvk;
         case r of Inl e \<Rightarrow> ret (Some e) | Inr sbCrdExists \<Rightarrow> do { r \<leftarrow> crdExists E instanceGvk;
             case r of Inl e \<Rightarrow> ret (Some e) | Inr siCrdExists \<Rightarrow> do {
                 err \<leftarrow> soft_delete_type E sbCrdExists bindingGvk;
                 case err of Some e \<Rightarrow> ret (Some e) | None \<Rightarrow> do {
                     err \<leftarrow> soft_delete_type E siCrdExists instanceGvk;
                     case err of Some e \<Rightarrow> ret (Some e) | None \<Rightarrow> deleteBtpOperatorResources E H } } } }"
  have rest: "run_state ?rest s1 = (err, s')"
    using assms(2) 1 e by (simp add: handleSoftDelete_def)
  have "emits no_cr_write ?rest"
    by (intro leaves_cr_emits leaves_cr_intros deprovisioning.delete_module_leaves_cr[OF assms(1)])
  from emitsD[OF this rest] obtain t2 where t2: "trace s' = trace s1 @ t2" by blast
  obtain t' where t': "t0 = map (\<lambda>(kind, k). EvDelete kind k) (soft_delete_targets (conf E)) @ t'"
    using t0(3) e by blast
  have "t = t0 @ t2" using assms(3) t0(1) t2 by simp
  with t' t0(2) assms(4) show ?thesis
    by (intro exI[of _ t'] exI[of _ t2]) (auto simp: soft_delete_targets_def)
qed

section \<open>Witnesses\<close>

definition example_unstr :: "gvk \<Rightarrow> string \<Rightarrow> unstr" where
  "example_unstr g name = \<lparr>Name = name, Namespace = ''kyma-system'', Labels = [(managedByLabelKey, operatorName)],
     Annotations = [], Finalizers = [''f''], DeletionTimestamp = None, ResourceVersion = ''1'', Gvk = g,
     CreationTimestamp = None, ManagedFields = False, Object = JObj []\<rparr>"


theorem hard_delete_success_means_empty_witness:
  "\<exists>sb si s1 s2. run_state (crd_check mem_env bindingGvk [''kyma-system'']) (cr_kstate example_status) = ((sb, []), s1) \<and>
     run_state (crd_check mem_env instanceGvk [''kyma-system'']) s1 = ((si, []), s2)"
proof -
  have "run_state (handleHardDelete mem_env [''kyma-system''] 100) (cr_kstate example_status)
          = (Some True, snd (run_state (handleHardDelete mem_env [''kyma-system''] 100) (cr_kstate example_status)))"
    by (simp add: handleHardDelete_def crd_check_def crdExists_def left_check_def hard_delete_fuel_def run_simps mem_simps)
  from hard_delete_success_means_empty[OF this] show ?thesis by blast
qed

theorem hard_delete_terminates_witness:
  "run_state (hard_delete_loop mem_env [''kyma-system''] True True (20 * Minute) 1000) (cr_kstate example_status) =
   run_state (hard_delete_loop mem_env [''kyma-system''] True True (20 * Minute) (hard_delete_fuel default_config))
     (cr_kstate example_status)"
  using hard_delete_terminates[of mem_env 1000 "20 * Minute" "cr_kstate example_status" "[''kyma-system'']" True True]
  by (simp add: default_config_def hard_delete_fuel_def cr_kstate_def del: hard_delete_loop.simps)

definition blocked_kstate :: "cluster kstate" where
  "blocked_kstate = (cr_kstate example_status)\<lparr>api := (cr_cluster example_status)
     \<lparr>mCRDs := [''serviceinstances.services.cloud.sap.com''], mObjs := [example_unstr instanceGvk ''si'']\<rparr>\<rparr>"

lemma crd_names:
  "ToLower (Kind bindingGvk) @ ''s.'' @ Group bindingGvk = ''servicebindings.services.cloud.sap.com''"
  "ToLower (Kind instanceGvk) @ ''s.'' @ Group instanceGvk = ''serviceinstances.services.cloud.sap.com''"
  by code_simp+

theorem blocked_deletion_deletes_nothing_witness:
  "\<forall>H :: cluster kstate deprov_handler. \<exists>t.
     trace (snd (run_state (handleDeprovisioning mem_env (H\<lparr>hUpdateBtpOperatorStatus := UpdateBtpOperatorStatus mem_env\<rparr>))
       blocked_kstate)) = t \<and>
     set t \<subseteq> reads \<union> range EvSleep \<union>
             EvStatusUpdate ` {o'. CrState (Status o') = StateWarning \<and>
               IsReasonStringEqual o' (reason_string ServiceInstancesAndBindingsNotCleaned)}"
proof
  fix H :: "cluster kstate deprov_handler"
  let ?counts = "do { r \<leftarrow> ListNamespaces mem_env cli; b \<leftarrow> numberOfResources mem_env bindingGvk;
                      i \<leftarrow> numberOfResources mem_env instanceGvk; ret (r, b, i) }"
  have "run_state ?counts blocked_kstate =
          ((Inr [''kyma-system''], Inr 0, Inr 1), snd (run_state ?counts blocked_kstate))"
    using crd_names
    by (simp add: numberOfResources_def crdExists_def run_simps blocked_kstate_def mem_simps)
      (simp add: example_unstr_def)
  from blocked_deletion_deletes_nothing[OF _ _ _ this _ prod.collapse[symmetric],
      of "H\<lparr>hUpdateBtpOperatorStatus := UpdateBtpOperatorStatus mem_env\<rparr>"]
  show "\<exists>t. trace (snd (run_state (handleDeprovisioning mem_env
       (H\<lparr>hUpdateBtpOperatorStatus := UpdateBtpOperatorStatus mem_env\<rparr>)) blocked_kstate)) = t \<and>
     set t \<subseteq> reads \<union> range EvSleep \<union>
             EvStatusUpdate ` {o'. CrState (Status o') = StateWarning \<and>
               IsReasonStringEqual o' (reason_string ServiceInstancesAndBindingsNotCleaned)}"
    by (simp add: setc.condition_setter_axioms blocked_kstate_def cr_kstate_def IsForceDelete_def primary_cr_def)
qed

end
