(* ===== verification/Instance_Binding.thy ===== *)
theory Instance_Binding
  imports Certificate_Manager Deprovisioning
begin

text \<open>
  Service instances and bindings: the manager that starts and stops a second controller manager for them
  (\<^verbatim>\<open>controllers/instance_binding_controller_manager.go\<close>) and the controller that is meant to run in it
  (\<^verbatim>\<open>controllers/serviceinstance_controller.go\<close>).
\<close>

section \<open>The manager of the controller\<close>

text \<open>
  Controller managers are numbered in the order of their creation. Cancelling a manager's context stops
  it; that its goroutine ends a little later is not modelled. \<open>sisbReconciler\<close> is whether that pointer is
  not nil, \<open>watching\<close> the managers in which the ServiceInstance controller was set up.
\<close>

record instance_binding =
  sisbReconciler :: bool
  mgr :: "nat option"
  created :: nat
  stopper :: "nat option"
  sisb_enabled :: bool
  running :: "nat list"
  watching :: "nat list"

record 'w sstate = "'w cstate" +
  ib :: instance_binding

record 'w senv = "'w cenv" +
  newManager :: "'w \<Rightarrow> error option \<times> 'w"
  setupSisb :: "'w \<Rightarrow> error option \<times> 'w"

definition modify_ib :: "(instance_binding \<Rightarrow> instance_binding) \<Rightarrow> (('w, 'z) sstate_scheme, unit) state" where
  "modify_ib f = modify (\<lambda>s. s\<lparr>ib := f (ib s)\<rparr>)"

definition NewInstanceBindingControllerManager :: instance_binding where
  "NewInstanceBindingControllerManager = \<lparr>sisbReconciler = False, mgr = None, created = 0, stopper = None,
     sisb_enabled = False, running = [], watching = []\<rparr>"

definition start_manager :: "nat \<Rightarrow> instance_binding \<Rightarrow> instance_binding" where
  "start_manager n m = m\<lparr>sisb_enabled := True, stopper := Some n, running := running m @ [n]\<rparr>"

definition EnableSISBController :: "('w, 'v) senv_scheme \<Rightarrow> (('w, 'z) sstate_scheme, unit) state" where
  "EnableSISBController E = do {
     m \<leftarrow> gets ib;
     if sisb_enabled m then skip
     else do {
       err \<leftarrow> draw (newManager E);
       case err of
         Some e \<Rightarrow> skip
       | None \<Rightarrow> do {
           let n = created m;
           modify_ib (\<lambda>m. m\<lparr>mgr := Some n, created := n + 1\<rparr>);
           if sisbReconciler m
           then do {
             err \<leftarrow> draw (setupSisb E);
             case err of
               Some e \<Rightarrow> skip
             | None \<Rightarrow> do {
                 modify_ib (\<lambda>m. m\<lparr>watching := watching m @ [n]\<rparr>);
                 modify_ib (start_manager n) } }
           else modify_ib (start_manager n) } } }"

definition DisableSISBController :: "(('w, 'z) sstate_scheme, unit) state" where
  "DisableSISBController = do {
     m \<leftarrow> gets ib;
     if \<not> sisb_enabled m then skip
     else do {
       (case stopper m of
          None \<Rightarrow> skip
        | Some n \<Rightarrow> modify_ib (\<lambda>m. m\<lparr>running := removeAll n (running m)\<rparr>));
       modify_ib (\<lambda>m. m\<lparr>sisb_enabled := False\<rparr>) } }"

section \<open>The controller\<close>

text \<open>Its predicate lets only deletions through.\<close>

datatype 'o watch_event = CreateEvent 'o | DeleteEvent 'o | UpdateEvent 'o 'o | GenericEvent 'o

fun deletionPredicate :: "'o watch_event \<Rightarrow> bool" where
  "deletionPredicate (CreateEvent ob) = False"
| "deletionPredicate (DeleteEvent ob) = True"
| "deletionPredicate (UpdateEvent old new) = False"
| "deletionPredicate (GenericEvent ob) = False"

text \<open>
  \<^verbatim>\<open>SetupWithManager\<close> of this controller: it watches instances (\<^verbatim>\<open>For\<close>) and bindings (\<^verbatim>\<open>Watches\<close>), both behind the predicate, and
  an event enqueues the object's own key. Events of other types do not reach it.
\<close>

definition si_enqueued_requests :: "unstr watch_event \<Rightarrow> objkey list" where
  "si_enqueued_requests ev =
     (let ob = (case ev of CreateEvent ob \<Rightarrow> ob | DeleteEvent ob \<Rightarrow> ob | UpdateEvent old new \<Rightarrow> new | GenericEvent ob \<Rightarrow> ob) in
      if (Gvk ob = instanceGvk \<or> Gvk ob = bindingGvk) \<and> deletionPredicate ev then [ObjectKeyFromObject ob] else [])"

lemma si_enqueues_deletions_only:
  "k \<in> set (si_enqueued_requests ev) \<longleftrightarrow>
     (\<exists>ob. ev = DeleteEvent ob \<and> (Gvk ob = instanceGvk \<or> Gvk ob = bindingGvk) \<and> k = ObjectKeyFromObject ob)"
  by (cases ev) (auto simp: si_enqueued_requests_def)

definition getPrimaryBtpOperator :: "('w, 'v) env_scheme \<Rightarrow> (('w, 'z) kstate_scheme, error + btpoperator) state" where
  "getPrimaryBtpOperator E = GetBtpOperator E cli PrimaryCrKey"

text \<open>One write, without reading the CR again and without a retry.\<close>

definition si_UpdateBtpOperatorStatus ::
    "('w, 'v) env_scheme \<Rightarrow> btpoperator \<Rightarrow> cr_state \<Rightarrow> reason \<Rightarrow> string \<Rightarrow> (('w, 'z) kstate_scheme, error option) state" where
  "si_UpdateBtpOperatorStatus E cr newState reason message =
     (let st = WithState (Status cr) newState;
          newConditions =
            (case ConditionFromExistingReason reason message of
               None \<Rightarrow> Some (Conditions st)
             | Some newCondition \<Rightarrow> SetStatusCondition (libSetStatusCondition E) (Conditions st) newCondition)
      in case newConditions of
           None \<Rightarrow> ret (Some (Panicked ''nil condition pointer''))
         | Some cs \<Rightarrow> do {
             u \<leftarrow> StatusUpdate E cli (SetStatus cr (st\<lparr>Conditions := cs\<rparr>));
             ret (case u of Inl e \<Rightarrow> Some e | Inr updated \<Rightarrow> None) })"

definition si_Reconcile :: "('w, 'v) env_scheme \<Rightarrow> (('w, 'z) kstate_scheme, error option) state" where
  "si_Reconcile E = do {
     r \<leftarrow> ListUnstructured E cli instanceGvk [];
     case r of
       Inl e \<Rightarrow> ret (Some e)
     | Inr instances \<Rightarrow>
         if length instances \<noteq> 0 then ret None
         else do {
           r \<leftarrow> ListUnstructured E cli bindingGvk [];
           case r of
             Inl e \<Rightarrow> ret (Some e)
           | Inr bindings \<Rightarrow>
               if length bindings \<noteq> 0 then ret None
               else do {
                 r \<leftarrow> getPrimaryBtpOperator E;
                 case r of
                   Inl e \<Rightarrow> ret (Some e)
                 | Inr btpOperator \<Rightarrow>
                     if IsReasonStringEqual btpOperator (reason_string ServiceInstancesAndBindingsNotCleaned)
                     then si_UpdateBtpOperatorStatus E btpOperator StateDeleting HardDeleting ''BtpOperator is to be deleted''
                     else ret None } } }"

section \<open>The life of the controller manager\<close>

text \<open>The handlers call the two operations in any order; each holds the mutex for its whole body.\<close>

datatype sisb_op = Enable | Disable

fun sisb_step :: "('w, 'v) senv_scheme \<Rightarrow> sisb_op \<Rightarrow> (('w, 'z) sstate_scheme, unit) state" where
  "sisb_step E Enable = EnableSISBController E"
| "sisb_step E Disable = DisableSISBController"

fun sisb_run :: "('w, 'v) senv_scheme \<Rightarrow> sisb_op list \<Rightarrow> (('w, 'z) sstate_scheme, unit) state" where
  "sisb_run E [] = skip"
| "sisb_run E (op # ops) = do { sisb_step E op; sisb_run E ops }"

text \<open>At most one controller manager runs, and it is the one the stopper cancels.\<close>

definition sisb_inv :: "instance_binding \<Rightarrow> bool" where
  "sisb_inv m \<longleftrightarrow> running m = (if sisb_enabled m then [the (stopper m)] else []) \<and>
     (sisb_enabled m \<longrightarrow> stopper m \<noteq> None) \<and> \<not> sisbReconciler m \<and> watching m = []"

lemma sisb_inv_init: "sisb_inv NewInstanceBindingControllerManager"
  by (simp add: sisb_inv_def NewInstanceBindingControllerManager_def)

lemma sisb_step_inv: "sisb_inv (ib s) \<Longrightarrow> sisb_inv (ib (snd (run_state (sisb_step E op) s)))"
  by (cases op)
     (auto simp: EnableSISBController_def DisableSISBController_def modify_ib_def start_manager_def sisb_inv_def
       run_draw Let_def split: option.split if_splits)

lemma sisb_run_inv: "sisb_inv (ib s) \<Longrightarrow> sisb_inv (ib (snd (run_state (sisb_run E ops) s)))"
proof (induction ops arbitrary: s)
  case (Cons op ops)
  from Cons.IH[OF sisb_step_inv[OF Cons.prems]] show ?case by (simp add: split_beta)
qed simp


text \<open>What the controller read: no instance and no binding was left, and the CR was blocked by them.\<close>

definition si_unblocked :: "('w, 'v) env_scheme \<Rightarrow> 'w \<Rightarrow> btpoperator \<Rightarrow> 'w \<Rightarrow> bool" where
  "si_unblocked E w cr w3 \<longleftrightarrow>
     (\<exists>w1 w2. clListUnstructured (cli E) instanceGvk [] w = (Inr [], w1) \<and>
        clListUnstructured (cli E) bindingGvk [] w1 = (Inr [], w2) \<and>
        clGetBtpOperator (cli E) PrimaryCrKey w2 = (Inr cr, w3) \<and>
        IsReasonStringEqual cr (reason_string ServiceInstancesAndBindingsNotCleaned))"

lemma si_update_write:
  assumes "condition_setter (libSetStatusCondition E)"
  shows "wp (si_UpdateBtpOperatorStatus E cr st r msg)
     (\<lambda>err s'. trace s' = trace s \<or> (\<exists>o'. trace s' = trace s @ [EvStatusUpdate o'] \<and> status_write st r msg o')) s"
  by (auto simp: si_UpdateBtpOperatorStatus_def wp_simps wp_api_call StatusUpdate_def Let_def
      split: option.split prod.split intro!: status_write_set[OF assms])

text \<open>
  The ServiceInstance controller only reads, except that it announces the deletion, with one status
  write, of a CR that was blocked by instances or bindings when none of them is left.
\<close>

lemma si_reconcile_writes:
  assumes "condition_setter (libSetStatusCondition E)" and "run_state (si_Reconcile E) s = (err, s')"
  shows "\<exists>t. trace s' = trace s @ t \<and>
     (\<forall>ev \<in> set t. ev \<in> reads \<or>
        (\<exists>o' cr w. ev = EvStatusUpdate o' \<and> status_write StateDeleting HardDeleting ''BtpOperator is to be deleted'' o' \<and>
           si_unblocked E (api s) cr w))"
proof -
  have "wp (si_Reconcile E) (\<lambda>err s'. \<exists>t. trace s' = trace s @ t \<and>
     (\<forall>ev \<in> set t. ev \<in> reads \<or>
        (\<exists>o' cr w. ev = EvStatusUpdate o' \<and> status_write StateDeleting HardDeleting ''BtpOperator is to be deleted'' o' \<and>
           si_unblocked E (api s) cr w))) s"
    unfolding si_Reconcile_def getPrimaryBtpOperator_def
    by (auto simp: wp_simps wp_api_call ListUnstructured_def GetBtpOperator_def si_unblocked_def
        split: prod.split sum.split intro!: wp_mono[OF si_update_write[OF assms(1)]])
  from wp_run[OF this assms(2)] show ?thesis .
qed

text \<open>
  If no instance and no binding is left and the CR is gone, the reconcile ends with the API server's
  error, so that it is retried; the branch for a CR that is already removed is never reached.
\<close>

lemma si_missing_cr_is_an_error:
  assumes "clListUnstructured (cli E) instanceGvk [] (api s) = (Inr [], w1)"
    and "clListUnstructured (cli E) bindingGvk [] w1 = (Inr [], w2)"
    and "clGetBtpOperator (cli E) PrimaryCrKey w2 = (Inl e, w3)"
  shows "fst (run_state (si_Reconcile E) s) = Some e"
  using assms
  by (simp add: si_Reconcile_def getPrimaryBtpOperator_def run_simps)

section \<open>Witnesses\<close>

definition example_sstate :: "cluster \<Rightarrow> cluster sstate" where
  "example_sstate w = cstate.extend (dstate.extend (drift_dstate []\<lparr>api := w\<rparr>) (cstate.fields 0))
     (sstate.fields NewInstanceBindingControllerManager)"

definition mem_senv :: "cluster cenv \<Rightarrow> cluster senv" where
  "mem_senv E = cenv.extend E (senv.fields (\<lambda>w. (None, w)) (\<lambda>w. (None, w)))"


end
