(* ===== verification/Watches.thy ===== *)
theory Watches
  imports Instance_Binding
begin

text \<open>
  The events that trigger a reconcile (the watch predicates of \<^verbatim>\<open>controllers/btpoperator_controller.go\<close>).
  Every watched object but the CR itself enqueues a request for the primary CR.
\<close>

section \<open>Watched objects\<close>

record deployment = objmeta +
  DepConditions :: "(string \<times> string) list"

text \<open>The CA bundle of each webhook; \<open>None\<close> is a nil slice, which \<^verbatim>\<open>reflect.DeepEqual\<close> tells from an empty one.\<close>

record webhook_configuration = objmeta +
  CABundles :: "string option list"

text \<open>An object as the predicates of the CR and of secrets receive it, before their type assertions.\<close>

datatype client_object = BtpOperatorObject btpoperator | SecretObject secret | OtherClientObject

definition reconcileRequestForPrimaryBtpOperator :: "'o \<Rightarrow> objkey list" where
  "reconcileRequestForPrimaryBtpOperator obj = [\<lparr>KeyName = BtpOperatorCrName, KeyNamespace = KymaSystemNamespaceName\<rparr>]"

section \<open>Predicates\<close>

fun watchBtpOperatorUpdatePredicate :: "client_object watch_event \<Rightarrow> bool" where
  "watchBtpOperatorUpdatePredicate (CreateEvent ob) = True"
| "watchBtpOperatorUpdatePredicate (DeleteEvent ob) = True"
| "watchBtpOperatorUpdatePredicate (UpdateEvent old new) =
     (case new of
        BtpOperatorObject newBtpOperator \<Rightarrow>
          let state = CrState (GetStatus newBtpOperator) in
          \<not> ((state = StateError \<or> state = StateWarning) \<and> DeletionTimestamp newBtpOperator = None)
      | _ \<Rightarrow> False)"
| "watchBtpOperatorUpdatePredicate (GenericEvent ob) = True"

definition isCredentialsSecret :: "config \<Rightarrow> secret \<Rightarrow> bool" where
  "isCredentialsSecret c x = (Namespace x = ChartNamespace c \<and> Name x = SecretName c)"

definition isCertSecret :: "config \<Rightarrow> secret \<Rightarrow> bool" where
  "isCertSecret c x = (Namespace x = ChartNamespace c \<and> (Name x = CaCertSecretName \<or> Name x = WebhookCertSecretName))"

definition isManagedSecret :: "config \<Rightarrow> secret \<Rightarrow> bool" where
  "isManagedSecret c x = (isCredentialsSecret c x \<or> isCertSecret c x)"

fun watchSecretPredicates :: "config \<Rightarrow> client_object watch_event \<Rightarrow> bool" where
  "watchSecretPredicates c (CreateEvent ob) = (case ob of SecretObject x \<Rightarrow> isManagedSecret c x | _ \<Rightarrow> False)"
| "watchSecretPredicates c (DeleteEvent ob) = (case ob of SecretObject x \<Rightarrow> isManagedSecret c x | _ \<Rightarrow> False)"
| "watchSecretPredicates c (UpdateEvent old new) = (case old of SecretObject x \<Rightarrow> isManagedSecret c x | _ \<Rightarrow> False)"
| "watchSecretPredicates c (GenericEvent ob) = True"

fun condition_statuses :: "(string \<times> string) list \<Rightarrow> string \<times> string \<Rightarrow> string \<times> string" where
  "condition_statuses [] acc = acc"
| "condition_statuses ((ty, st) # cs) (available, progressing) =
     (if ty = ''Available'' then condition_statuses cs (st, progressing)
      else if ty = ''Progressing'' then condition_statuses cs (available, st)
      else condition_statuses cs (available, progressing))"

definition deploymentConditionStatuses :: "deployment \<Rightarrow> string \<times> string" where
  "deploymentConditionStatuses d = condition_statuses (DepConditions d) ([], [])"

definition isManagedDeployment :: "config \<Rightarrow> deployment \<Rightarrow> bool" where
  "isManagedDeployment c d = (Name d = DeploymentName c \<and> Namespace d = ChartNamespace c)"

fun watchDeploymentPredicates :: "config \<Rightarrow> deployment watch_event \<Rightarrow> bool" where
  "watchDeploymentPredicates c (CreateEvent d) = isManagedDeployment c d"
| "watchDeploymentPredicates c (DeleteEvent d) = isManagedDeployment c d"
| "watchDeploymentPredicates c (UpdateEvent old new) =
     (if \<not> isManagedDeployment c new then False
      else let (newAvail, newProg) = deploymentConditionStatuses new;
               (oldAvail, oldProg) = deploymentConditionStatuses old
           in newAvail \<noteq> oldAvail \<or> newProg \<noteq> oldProg)"
| "watchDeploymentPredicates c (GenericEvent d) = True"

text \<open>The names of the network policies of the manifests, when they can be loaded.\<close>

definition policy_names :: "(error + unstr list) option \<Rightarrow> string set" where
  "policy_names loaded = (case loaded of Some (Inr ps) \<Rightarrow> {n \<in> Name ` set ps. n \<noteq> []} | _ \<Rightarrow> {})"

definition isManagedPolicy :: "string set \<Rightarrow> 'y objmeta_scheme \<Rightarrow> bool" where
  "isManagedPolicy nameSet p =
     (if mget (Labels p) managedByLabelKey = operatorName \<and> mget (Labels p) ''kyma-project.io/module'' = ''btp-operator''
      then True else Name p \<in> nameSet)"

fun watchNetworkPolicyPredicates :: "(error + unstr list) option \<Rightarrow> objmeta watch_event \<Rightarrow> bool" where
  "watchNetworkPolicyPredicates loaded (CreateEvent p) = isManagedPolicy (policy_names loaded) p"
| "watchNetworkPolicyPredicates loaded (DeleteEvent p) = isManagedPolicy (policy_names loaded) p"
| "watchNetworkPolicyPredicates loaded (UpdateEvent old new) =
     (isManagedPolicy (policy_names loaded) old \<or> isManagedPolicy (policy_names loaded) new)"
| "watchNetworkPolicyPredicates loaded (GenericEvent p) = True"

fun watchValidatingWebhooksPredicates :: "webhook_configuration watch_event \<Rightarrow> bool" where
  "watchValidatingWebhooksPredicates (CreateEvent ob) = (Name ob = validatingWebhookName)"
| "watchValidatingWebhooksPredicates (DeleteEvent ob) = (Name ob = validatingWebhookName)"
| "watchValidatingWebhooksPredicates (UpdateEvent old new) =
     (if Name old \<noteq> validatingWebhookName then False else CABundles old \<noteq> CABundles new)"
| "watchValidatingWebhooksPredicates (GenericEvent ob) = True"

fun watchMutatingWebhooksPredicates :: "webhook_configuration watch_event \<Rightarrow> bool" where
  "watchMutatingWebhooksPredicates (CreateEvent ob) = (Name ob = mutatingWebhookName)"
| "watchMutatingWebhooksPredicates (DeleteEvent ob) = (Name ob = mutatingWebhookName)"
| "watchMutatingWebhooksPredicates (UpdateEvent old new) =
     (if Name old \<noteq> mutatingWebhookName then False else CABundles old \<noteq> CABundles new)"
| "watchMutatingWebhooksPredicates (GenericEvent ob) = True"

section \<open>Readiness changes are seen\<close>

text \<open>The conditions of a Deployment as the readiness check reads them from the unstructured object.\<close>

definition condition_objects :: "(string \<times> string) list \<Rightarrow> json list" where
  "condition_objects cs = map (\<lambda>(ty, st). JObj [(''type'', JStr ty), (''status'', JStr st)]) cs"

lemma deployment_conditions_statuses:
  "deployment_conditions (condition_objects cs) (a = ''True'', p = ''True'') =
     (case condition_statuses cs (a, p) of (a', p') \<Rightarrow> (a' = ''True'', p' = ''True''))"
proof (induction cs arbitrary: a p)
  case (Cons c cs)
  obtain ty st where c: "c = (ty, st)" by fastforce
  show ?case
    using Cons.IH[of st p] Cons.IH[of a st] Cons.IH[of a p]
    by (simp add: c condition_objects_def json_string_def Let_def)
qed (simp add: condition_objects_def)

text \<open>
  The readiness that provisioning waits for and the watch of the Deployment agree on the conditions:
  an update after which the managed Deployment is ready and was not before, or the other way round,
  triggers a reconcile.
\<close>

lemma readiness_change_triggers:
  assumes "isManagedDeployment c new"
    and "NestedSlice E (Object u) [''status'', ''conditions''] = Inr (Some (condition_objects (DepConditions old)))"
    and "NestedSlice E (Object v) [''status'', ''conditions''] = Inr (Some (condition_objects (DepConditions new)))"
    and "isDeploymentReady E u \<noteq> isDeploymentReady E v"
  shows "watchDeploymentPredicates c (UpdateEvent old new)"
proof -
  have ready: "isDeploymentReady E x \<longleftrightarrow> deploymentConditionStatuses d = (''True'', ''True'')"
    if "NestedSlice E (Object x) [''status'', ''conditions''] = Inr (Some (condition_objects (DepConditions d)))" for x d
    using that deployment_conditions_statuses[of "DepConditions d" "[]" "[]"]
    by (auto simp: isDeploymentReady_def deploymentConditionStatuses_def split: prod.splits)
  have "deploymentConditionStatuses old \<noteq> deploymentConditionStatuses new"
    using assms(4) ready[OF assms(2)] ready[OF assms(3)] by auto
  with assms(1) show ?thesis by (auto split: prod.splits)
qed

end
