(* ===== verification/Reconciler.thy ===== *)
theory Reconciler
  imports Watches
begin

text \<open>
  The BtpOperator reconciler (\<^verbatim>\<open>controllers/btpoperator_controller.go\<close>): one call of \<^verbatim>\<open>Reconcile\<close> reads the CR
  and does what its state asks for. The abstract life cycle of the CR is the step relation
  \<open>cr_transition\<close>; the properties show that every status write of a reconcile is a step of it.
\<close>

section \<open>The reconciler\<close>

record 'w rstate = "'w sstate" +
  workqueueSize :: int

record 's reconciler =
  provisioningHandler :: "'s prov_handler"
  configurator :: "'s detector"
  deprovisioningHandler :: "'s deprov_handler option"

record ctrl_result =
  RequeueAfter :: int

definition Result :: ctrl_result where
  "Result = \<lparr>RequeueAfter = 0\<rparr>"

definition HandleWrongNamespaceOrName :: "('w, 'v) env_scheme \<Rightarrow> (('w, 'z) kstate_scheme, error option) state" where
  "HandleWrongNamespaceOrName E = UpdateBtpOperatorStatus E StateWarning WrongNamespaceOrName
     (''Your resource must be in the kyma-system namespace. The resource'' @ [CHR 39] @ ''s name must be btpoperator.'')"

definition HandleInitialState :: "('w, 'v) env_scheme \<Rightarrow> (('w, 'z) kstate_scheme, error option) state" where
  "HandleInitialState E = UpdateBtpOperatorStatus E StateProcessing Initialized ''Initialized''"

definition HandleProcessingState ::
    "('w, 'v) env_scheme \<Rightarrow> (('w, 'z) kstate_scheme) reconciler \<Rightarrow> (('w, 'z) kstate_scheme, error option) state" where
  "HandleProcessingState E R = do {
     result \<leftarrow> Provision E (provisioningHandler R);
     case WarningReason result of
       Some w \<Rightarrow> UpdateBtpOperatorStatus E StateWarning (EwrReason w) (EwrMessage w)
     | None \<Rightarrow>
         (case PrErrorReason result of
            Some e \<Rightarrow> UpdateBtpOperatorStatus E StateError (EwrReason e) (EwrMessage e)
          | None \<Rightarrow> UpdateBtpOperatorStatus E StateReady ReconcileSucceeded ''Module provisioning succeeded'') }"

definition no_deprovisioning_handler :: string where
  "no_deprovisioning_handler = ''deprovisioningHandler is not set; call SetDeprovisioningHandler before starting the manager''"

definition HandleWarningState ::
    "('w, 'v) env_scheme \<Rightarrow> (('w, 'z) kstate_scheme) reconciler
      \<Rightarrow> (('w, 'z) kstate_scheme, ctrl_result \<times> error option) state" where
  "HandleWarningState E R = do {
     cr \<leftarrow> get_cr;
     if IsReasonStringEqual cr (reason_string ServiceInstancesAndBindingsNotCleaned)
     then (case deprovisioningHandler R of
             None \<Rightarrow> ret (Result, Some (Errorf no_deprovisioning_handler))
           | Some H \<Rightarrow> do {
               err \<leftarrow> Deprovision E H;
               cr \<leftarrow> get_cr;
               if IsReasonStringEqual cr (reason_string ServiceInstancesAndBindingsNotCleaned)
               then ret (\<lparr>RequeueAfter = ReadyStateRequeueInterval (conf E)\<rparr>, err)
               else ret (Result, err) })
     else do {
       err \<leftarrow> UpdateBtpOperatorStatus E StateProcessing Updated ''CR has been updated'';
       ret (Result, err) } }"

definition HandleErrorState :: "('w, 'v) env_scheme \<Rightarrow> (('w, 'z) kstate_scheme, error option) state" where
  "HandleErrorState E = UpdateBtpOperatorStatus E StateProcessing Updated ''CR has been updated''"

definition HandleDeletingState ::
    "('w, 'v) env_scheme \<Rightarrow> (('w, 'z) kstate_scheme) reconciler \<Rightarrow> (('w, 'z) kstate_scheme, error option) state" where
  "HandleDeletingState E R =
     (case deprovisioningHandler R of
        None \<Rightarrow> ret (Some (Errorf no_deprovisioning_handler))
      | Some H \<Rightarrow> Deprovision E H)"

definition HandleReadyState ::
    "('w, 'v) env_scheme \<Rightarrow> (('w, 'z) kstate_scheme) reconciler \<Rightarrow> (('w, 'z) kstate_scheme, error option) state" where
  "HandleReadyState E R = do {
     r \<leftarrow> GetAndVerifyRequiredSecret E;
     case r of
       Inl e \<Rightarrow>
         if EwrReason e = InvalidSecret then UpdateBtpOperatorStatus E StateError (EwrReason e) (EwrMessage e)
         else UpdateBtpOperatorStatus E StateWarning (EwrReason e) (EwrMessage e)
     | Inr requiredSecret \<Rightarrow> do {
         result \<leftarrow> configurator_Check (configurator R) requiredSecret;
         case ErrorReason result of
           Some reason \<Rightarrow> UpdateBtpOperatorStatus E StateError reason (ErrorMessage result)
         | None \<Rightarrow>
             (case ReprocessReason result of
                Some reason \<Rightarrow> UpdateBtpOperatorStatus E StateProcessing reason (ReprocessMessage result)
              | None \<Rightarrow> do {
                  err \<leftarrow> ReconcileReady (provisioningHandler R) requiredSecret;
                  case err of
                    Some e \<Rightarrow> UpdateBtpOperatorStatus E StateError ReconcileFailed (Error e)
                  | None \<Rightarrow> ret None }) } }"

definition handle_state ::
    "('w, 'v) env_scheme \<Rightarrow> (('w, 'z) kstate_scheme) reconciler
      \<Rightarrow> (('w, 'z) kstate_scheme, ctrl_result \<times> error option) state" where
  "handle_state E R = do {
     cr \<leftarrow> get_cr;
     case CrState (Status cr) of
       StateNone \<Rightarrow> do { err \<leftarrow> HandleInitialState E; ret (Result, err) }
     | StateProcessing \<Rightarrow> do {
         err \<leftarrow> HandleProcessingState E R;
         ret (\<lparr>RequeueAfter = ProcessingStateRequeueInterval (conf E)\<rparr>, err) }
     | StateWarning \<Rightarrow> HandleWarningState E R
     | StateError \<Rightarrow> do { err \<leftarrow> HandleErrorState E; ret (Result, err) }
     | StateDeleting \<Rightarrow> do {
         err \<leftarrow> HandleDeletingState E R;
         cr \<leftarrow> get_cr;
         if IsReasonStringEqual cr (reason_string ServiceInstancesAndBindingsNotCleaned)
         then ret (\<lparr>RequeueAfter = ReadyStateRequeueInterval (conf E)\<rparr>, err)
         else ret (Result, err) }
     | StateReady \<Rightarrow> do {
         err \<leftarrow> HandleReadyState E R;
         ret (\<lparr>RequeueAfter = ReadyStateRequeueInterval (conf E)\<rparr>, err) } }"

definition reconcile_cr ::
    "('w, 'v) env_scheme \<Rightarrow> (('w, 'z) kstate_scheme) reconciler \<Rightarrow> objkey
      \<Rightarrow> (('w, 'z) kstate_scheme, ctrl_result \<times> error option) state" where
  "reconcile_cr E R req = do {
     r \<leftarrow> GetBtpOperator E cli req;
     case r of
       Inl e \<Rightarrow> if IsNotFound e then ret (Result, None) else ret (Result, Some e)
     | Inr reconcileCr \<Rightarrow> do {
         set_cr reconcileCr;
         if KeyName req \<noteq> BtpOperatorCrName \<or> KeyNamespace req \<noteq> KymaSystemNamespaceName
         then do { err \<leftarrow> HandleWrongNamespaceOrName E; ret (Result, err) }
         else do {
           let (added, finalizers) = libAddFinalizer E (Finalizers reconcileCr) deletionFinalizer;
           if added
           then do {
             let cr' = reconcileCr\<lparr>Finalizers := finalizers\<rparr>;
             set_cr cr';
             u \<leftarrow> UpdateBtpOperator E cli cr';
             case u of
               Inl e \<Rightarrow> ret (Result, Some e)
             | Inr updated \<Rightarrow> do { set_cr updated; ret (Result, None) } }
           else if DeletionTimestamp reconcileCr \<noteq> None \<and> CrState (Status reconcileCr) \<noteq> StateDeleting \<and>
                   \<not> IsReasonStringEqual reconcileCr (reason_string ServiceInstancesAndBindingsNotCleaned)
           then do {
             err \<leftarrow> UpdateBtpOperatorStatus E StateDeleting HardDeleting ''BtpOperator is to be deleted'';
             ret (Result, err) }
           else handle_state E R } } }"

definition Reconcile ::
    "('w, 'v) env_scheme \<Rightarrow> (('w, 'z) rstate_scheme) reconciler \<Rightarrow> objkey
      \<Rightarrow> (('w, 'z) rstate_scheme, ctrl_result \<times> error option) state" where
  "Reconcile E R req = do {
     modify (\<lambda>s. s\<lparr>workqueueSize := workqueueSize s + 1\<rparr>);
     result \<leftarrow> reconcile_cr E R req;
     modify (\<lambda>s. s\<lparr>workqueueSize := workqueueSize s - 1\<rparr>);
     ret result }"

section \<open>The life cycle of the CR\<close>

text \<open>
  The states a reconcile may write, by the state it found. A CR marked for deletion goes to Deleting
  first; a blocked deletion waits in Warning and is taken up again from there.
\<close>

inductive cr_transition :: "cr_state \<Rightarrow> cr_state \<Rightarrow> bool" where
  start: "cr_transition StateNone StateProcessing"
| provisioned: "cr_transition StateProcessing StateReady"
| provision_warning: "cr_transition StateProcessing StateWarning"
| provision_error: "cr_transition StateProcessing StateError"
| drifted: "cr_transition StateReady StateProcessing"
| secret_lost: "cr_transition StateReady StateWarning"
| ready_error: "cr_transition StateReady StateError"
| retry_error: "cr_transition StateError StateProcessing"
| retry_warning: "cr_transition StateWarning StateProcessing"
| blocked_again: "cr_transition StateWarning StateWarning"
| removal_failed_blocked: "cr_transition StateWarning StateError"
| blocked: "cr_transition StateDeleting StateWarning"
| removal_failed: "cr_transition StateDeleting StateError"
| deletion: "cr_transition st StateDeleting"

inductive_simps cr_transition_simps [simp]:
  "cr_transition StateNone st" "cr_transition StateProcessing st" "cr_transition StateReady st"
  "cr_transition StateError st" "cr_transition StateWarning st" "cr_transition StateDeleting st"
  "cr_transition st StateReady"

section \<open>Reconciles that do not reach the state handlers\<close>

lemma run_Reconcile:
  "run_state (Reconcile E R req) s =
     (case run_state (reconcile_cr E R req) (s\<lparr>workqueueSize := workqueueSize s + 1\<rparr>) of
        (r, s') \<Rightarrow> (r, s'\<lparr>workqueueSize := workqueueSize s' - 1\<rparr>))"
  by (simp add: Reconcile_def split: prod.split)

text \<open>The state after the CR was read.\<close>

definition after_read :: "('w, 'v) env_scheme \<Rightarrow> objkey \<Rightarrow> btpoperator \<Rightarrow> 'w \<Rightarrow> ('w, 'z) kstate_scheme \<Rightarrow> ('w, 'z) kstate_scheme" where
  "after_read E req cr w s = s\<lparr>api := w, clock := clock s + int (latency E w), trace := trace s @ [EvGet ''BtpOperator'' req], crp := cr\<rparr>"

lemma after_read_simps [simp]:
  "trace (after_read E req cr w s) = trace s @ [EvGet ''BtpOperator'' req]" "crp (after_read E req cr w s) = cr"
  "api (after_read E req cr w s) = w"
  by (simp_all add: after_read_def)

lemma run_reconcile_cr:
  assumes "clGetBtpOperator (cli E) req (api s) = (Inr cr, w)"
  shows "run_state (reconcile_cr E R req) s =
     (if req \<noteq> PrimaryCrKey
      then run_state (do { err \<leftarrow> HandleWrongNamespaceOrName E; ret (Result, err) }) (after_read E req cr w s)
      else if fst (libAddFinalizer E (Finalizers cr) deletionFinalizer)
      then run_state (do {
             let cr' = cr\<lparr>Finalizers := snd (libAddFinalizer E (Finalizers cr) deletionFinalizer)\<rparr>;
             set_cr cr';
             u \<leftarrow> UpdateBtpOperator E cli cr';
             case u of
               Inl e \<Rightarrow> ret (Result, Some e)
             | Inr updated \<Rightarrow> do { set_cr updated; ret (Result, None) } }) (after_read E req cr w s)
      else if DeletionTimestamp cr \<noteq> None \<and> CrState (Status cr) \<noteq> StateDeleting \<and>
              \<not> IsReasonStringEqual cr (reason_string ServiceInstancesAndBindingsNotCleaned)
      then run_state (do {
             err \<leftarrow> UpdateBtpOperatorStatus E StateDeleting HardDeleting ''BtpOperator is to be deleted'';
             ret (Result, err) }) (after_read E req cr w s)
      else run_state (handle_state E R) (after_read E req cr w s))"
  using assms
  by (cases req) (auto simp: reconcile_cr_def PrimaryCrKey_def run_simps after_read_def Let_def split: prod.split)


text \<open>
  The first thing that happens to a CR without the finalizer is that it gets it: its reconcile reads
  the CR and updates it with the finalizer appended, and sends nothing else.
\<close>

lemma finalizer_added_first:
  assumes "finalizer_library (libAddFinalizer E) removeF" and "deletionFinalizer \<notin> set (Finalizers cr)"
    and "clGetBtpOperator (cli E) PrimaryCrKey (api s) = (Inr cr, w)"
    and "run_state (Reconcile E R PrimaryCrKey) s = (res, s')"
  shows "trace s' = trace s @ [EvGet ''BtpOperator'' PrimaryCrKey,
           EvUpdateCr (cr\<lparr>Finalizers := Finalizers cr @ [deletionFinalizer]\<rparr>)]"
proof -
  have added: "libAddFinalizer E (Finalizers cr) deletionFinalizer = (True, Finalizers cr @ [deletionFinalizer])"
    by (rule finalizer_library.add_absent[OF assms(1,2)])
  show ?thesis
    using assms(4) run_reconcile_cr[of E PrimaryCrKey "s\<lparr>workqueueSize := workqueueSize s + 1\<rparr>" cr w R] assms(3)
    by (auto simp: run_Reconcile added run_simps Let_def split: sum.splits)
qed

text \<open>
  C39: the deletion of a CR is announced before anything is removed: the reconcile of a CR with a deletion
  timestamp that is neither Deleting nor blocked only writes the status Deleting with reason HardDeleting.
\<close>

theorem deletion_announced_first:
  assumes "condition_setter (libSetStatusCondition E)" and "finalizer_library (libAddFinalizer E) removeF"
    and "deletionFinalizer \<in> set (Finalizers cr)" and "DeletionTimestamp cr \<noteq> None" and "CrState (Status cr) \<noteq> StateDeleting"
    and "\<not> IsReasonStringEqual cr (reason_string ServiceInstancesAndBindingsNotCleaned)"
    and "clGetBtpOperator (cli E) PrimaryCrKey (api s) = (Inr cr, w)"
    and "run_state (Reconcile E R PrimaryCrKey) s = (res, s')"
  shows "\<exists>t. trace s' = trace s @ t \<and> set t \<subseteq> range (EvGet ''BtpOperator'') \<union> range EvSleep \<union>
     EvStatusUpdate ` {o'. CrState (Status o') = StateDeleting \<and> IsReasonStringEqual o' (reason_string HardDeleting)}"
proof -
  let ?s = "s\<lparr>workqueueSize := workqueueSize s + 1\<rparr>"
  let ?upd = "UpdateBtpOperatorStatus E StateDeleting HardDeleting ''BtpOperator is to be deleted''"
  obtain r s1 where 1: "run_state ?upd (after_read E PrimaryCrKey cr w ?s) = (r, s1)" by fastforce
  have "libAddFinalizer E (Finalizers cr) deletionFinalizer = (False, Finalizers cr)"
    by (rule finalizer_library.add_present[OF assms(2,3)])
  then have "s' = s1\<lparr>workqueueSize := workqueueSize s1 - 1\<rparr>"
    using assms(8) run_reconcile_cr[of E PrimaryCrKey ?s cr w R] assms(4-7) 1 by (simp add: run_Reconcile)
  moreover obtain t where "trace s1 = trace (after_read E PrimaryCrKey cr w ?s) @ t"
    "set t \<subseteq> status_events StateDeleting HardDeleting ''BtpOperator is to be deleted''"
    using emitsD[OF emits_UpdateBtpOperatorStatus[OF assms(1)] 1] by blast
  ultimately show ?thesis
    by (intro exI[of _ "EvGet ''BtpOperator'' PrimaryCrKey # t"])
      (auto simp: status_events_def status_write_def IsReasonStringEqual_def dest!: msg_in_imp_reason_in)
qed

section \<open>The state handlers over handlers that keep their contracts\<close>

text \<open>The writes to the CR that the life cycle allows from a state.\<close>

definition life_cycle :: "cr_state \<Rightarrow> event set" where
  "life_cycle st = no_cr_write \<union> coherent_status {r. cr_transition st (reason_state r)} \<union> removes_finalizer"

lemma life_cycle_no_cr_write: "ev \<in> no_cr_write \<Longrightarrow> ev \<in> life_cycle st"
  by (simp add: life_cycle_def)

lemma life_cycle_status:
  "EvStatusUpdate o' \<in> life_cycle st \<Longrightarrow> \<exists>reason msg. CrState (Status o') = reason_state reason \<and>
     IsMsgForGivenReasonEqual o' (reason_string reason) msg \<and> cr_transition st (reason_state reason)"
  by (auto simp: life_cycle_def coherent_status_def removes_finalizer_def status_write_def IsMsgForGivenReasonEqual_def)

lemma life_cycle_update: "EvUpdateCr c \<in> life_cycle st \<Longrightarrow> deletionFinalizer \<notin> set (Finalizers c)"
  by (auto simp: life_cycle_def coherent_status_def removes_finalizer_def)

lemma leaves_cr_life_cycle: "leaves_cr m \<Longrightarrow> emits (life_cycle st) m"
  by (drule leaves_cr_emits) (erule emits_mono, auto simp: life_cycle_def)

locale reconciling = p: provisioning "provisioningHandler R" + c: operator_state_reader "configurator R"
  for R :: "(('w, 'z) kstate_scheme) reconciler" +
  fixes E :: "('w, 'v) env_scheme"
  assumes setter: "condition_setter (libSetStatusCondition E)"
    and finalizers: "finalizer_library (libAddFinalizer E) (libRemoveFinalizer E)"
    and deprovisions: "deprovisioningHandler R = Some H \<Longrightarrow> deprovisioning H"
begin

lemma status_step:
  "reason_state r = st' \<Longrightarrow> cr_transition st st' \<Longrightarrow> emits (life_cycle st) (UpdateBtpOperatorStatus E st' r msg)"
  using emits_UpdateBtpOperatorStatus[OF setter, of st' r msg]
  by (rule emits_mono) (auto simp: status_events_def life_cycle_def coherent_status_def)

lemma processing_emits: "emits (life_cycle StateProcessing) (HandleProcessingState E R)"
  unfolding HandleProcessingState_def
proof (rule emits_bind_strong)
  show "emits (life_cycle StateProcessing) (Provision E (provisioningHandler R))"
    by (rule leaves_cr_life_cycle[OF p.provision_leaves_cr])
  fix s result s' assume "run_state (Provision E (provisioningHandler R)) s = (result, s')"
  from returnsD[OF p.provision_reasons this] show "emits (life_cycle StateProcessing)
    (case WarningReason result of
       Some w \<Rightarrow> UpdateBtpOperatorStatus E StateWarning (EwrReason w) (EwrMessage w)
     | None \<Rightarrow>
         (case PrErrorReason result of
            Some e \<Rightarrow> UpdateBtpOperatorStatus E StateError (EwrReason e) (EwrMessage e)
          | None \<Rightarrow> UpdateBtpOperatorStatus E StateReady ReconcileSucceeded ''Module provisioning succeeded''))"
    by (auto simp: provision_result_ok_def intro!: emits_intros status_step)
qed

lemma check_life_cycle: "emits (life_cycle StateReady) (configurator_Check (configurator R) x)"
  using c.check_emits by (rule emits_mono) (auto simp: life_cycle_def reads_def no_cr_write_def split: event.splits)

lemma ready_emits: "emits (life_cycle StateReady) (HandleReadyState E R)"
  unfolding HandleReadyState_def
proof (rule emits_bind_strong)
  show "emits (life_cycle StateReady) (GetAndVerifyRequiredSecret E)"
    by (rule leaves_cr_life_cycle) (rule leaves_cr_intros)
  fix s r s' assume "run_state (GetAndVerifyRequiredSecret E) s = (r, s')"
  from returnsD[OF GetAndVerify_reasons this] show "emits (life_cycle StateReady)
    (case r of
       Inl e \<Rightarrow>
         if EwrReason e = InvalidSecret then UpdateBtpOperatorStatus E StateError (EwrReason e) (EwrMessage e)
         else UpdateBtpOperatorStatus E StateWarning (EwrReason e) (EwrMessage e)
     | Inr requiredSecret \<Rightarrow> do {
         result \<leftarrow> configurator_Check (configurator R) requiredSecret;
         case ErrorReason result of
           Some reason \<Rightarrow> UpdateBtpOperatorStatus E StateError reason (ErrorMessage result)
         | None \<Rightarrow>
             (case ReprocessReason result of
                Some reason \<Rightarrow> UpdateBtpOperatorStatus E StateProcessing reason (ReprocessMessage result)
              | None \<Rightarrow> do {
                  err \<leftarrow> ReconcileReady (provisioningHandler R) requiredSecret;
                  case err of
                    Some e \<Rightarrow> UpdateBtpOperatorStatus E StateError ReconcileFailed (Error e)
                  | None \<Rightarrow> ret None }) })"
  proof (cases r)
    case (Inl e)
    with returnsD[OF GetAndVerify_reasons \<open>run_state _ s = (r, s')\<close>] show ?thesis
      by (auto intro!: emits_intros status_step)
  next
    case (Inr x)
    show ?thesis unfolding Inr sum.case
    proof (rule emits_bind_strong[OF check_life_cycle])
      fix s result s' assume "run_state (configurator_Check (configurator R) x) s = (result, s')"
      from returnsD[OF returns_configurator_Check this] show "emits (life_cycle StateReady)
        (case ErrorReason result of
           Some reason \<Rightarrow> UpdateBtpOperatorStatus E StateError reason (ErrorMessage result)
         | None \<Rightarrow>
             (case ReprocessReason result of
                Some reason \<Rightarrow> UpdateBtpOperatorStatus E StateProcessing reason (ReprocessMessage result)
              | None \<Rightarrow> do {
                  err \<leftarrow> ReconcileReady (provisioningHandler R) x;
                  case err of
                    Some e \<Rightarrow> UpdateBtpOperatorStatus E StateError ReconcileFailed (Error e)
                  | None \<Rightarrow> ret None }))"
        by (auto simp: check_result_ok_def intro!: emits_intros status_step leaves_cr_life_cycle[OF p.ready_leaves_cr])
    qed
  qed
qed

lemma deletion_steps:
  assumes "st = StateWarning \<or> st = StateDeleting"
  shows "deletion_status \<subseteq> coherent_status {r. cr_transition st (reason_state r)}"
proof -
  have "deletion_reasons \<subseteq> {r. cr_transition st (reason_state r)}"
    using assms by (auto simp: deletion_reasons_def)
  then show ?thesis by (auto simp: coherent_status_def)
qed

lemma deprovision_life_cycle:
  assumes "deprovisioningHandler R = Some H" and "st = StateWarning \<or> st = StateDeleting"
  shows "emits (life_cycle st) (Deprovision E H)"
  using deprovisioning.deprovision_emits[OF deprovisions[OF assms(1)] finalizers]
  by (rule emits_mono) (use deletion_steps[OF assms(2)] in \<open>auto simp: life_cycle_def\<close>)

lemma deleting_emits: "emits (life_cycle StateDeleting) (HandleDeletingState E R)"
  by (auto simp: HandleDeletingState_def split: option.split intro!: emits_intros deprovision_life_cycle)

lemma warning_emits: "emits (life_cycle StateWarning) (HandleWarningState E R)"
  by (auto simp: HandleWarningState_def intro!: emits_intros deprovision_life_cycle status_step)

lemma handle_state_step:
  assumes "run_state (handle_state E R) s = (res, s')"
  shows "\<exists>t. trace s' = trace s @ t \<and> set t \<subseteq> life_cycle (CrState (Status (crp s)))"
proof -
  let ?st = "CrState (Status (crp s))"
  have "wp (handle_state E R) (\<lambda>res s'. \<exists>t. trace s' = trace s @ t \<and> set t \<subseteq> life_cycle ?st) s"
    unfolding handle_state_def wp_bind wp_get_cr
    by (cases ?st; simp; rule emits_wp)
       (auto simp: HandleInitialState_def HandleErrorState_def
         intro!: emits_intros status_step processing_emits ready_emits warning_emits deleting_emits)
  from wp_run[OF this assms] show ?thesis .
qed

end

end
