(* ===== verification/Wiring.thy ===== *)
theory Wiring
  imports Reconciler
begin

text \<open>
  The program as \<^verbatim>\<open>main.go\<close> puts it together: the handlers over the concrete managers, and the reconciler over
  the handlers. The contracts under which the handlers were verified hold for these managers whenever the
  library functions behave as documented; the properties are about the whole.
\<close>

section \<open>The wiring\<close>

definition wired_provisioning :: "('w, 'v) senv_scheme \<Rightarrow> (('w, 'z) rstate_scheme) prov_handler" where
  "wired_provisioning E = \<lparr>
     pDriftDetector = drift_Detector E,
     pModuleResourceManager = moduleResource_Manager E,
     pNetworkPolicyManager = Some (networkPolicy_Manager E),
     pCertManager = certificate_Manager E,
     pEnableSISBController = EnableSISBController E\<rparr>"

definition wired_deprovisioning :: "('w, 'v) senv_scheme \<Rightarrow> (('w, 'z) rstate_scheme) deprov_handler" where
  "wired_deprovisioning E = \<lparr>
     hUpdateBtpOperatorStatus = UpdateBtpOperatorStatus E,
     hReconcileResourcesWithoutStatusChange = ReconcileResourcesWithoutStatusChange E (wired_provisioning E),
     hDisableSISBController = Some DisableSISBController,
     hDriftDetector = drift_Detector E,
     hModuleResourceManager = moduleResource_Manager E,
     hNetworkPolicyManager = Some (networkPolicy_Manager E)\<rparr>"

definition wired_reconciler :: "('w, 'v) senv_scheme \<Rightarrow> (('w, 'z) rstate_scheme) reconciler" where
  "wired_reconciler E = \<lparr>
     provisioningHandler = wired_provisioning E,
     configurator = drift_Detector E,
     deprovisioningHandler = Some (wired_deprovisioning E)\<rparr>"

definition ensureRequiredEnvs :: "('w, 'v) menv_scheme \<Rightarrow> string list \<Rightarrow> error option" where
  "ensureRequiredEnvs E envs =
     (let missingEnvs = filter (\<lambda>e. osGetenv E e = []) envs in
      if length missingEnvs > 0
      then Some (Errorf (''required environment variables not set: '' @ Join missingEnvs '', ''))
      else None)"

section \<open>Contracts\<close>

lemma leaves_cr_modify_ib [leaves_cr_intros]: "leaves_cr (modify_ib f)"
  by (auto simp: modify_ib_def leaves_cr_def emits_def intro!: keeps_modify)

lemma leaves_cr_sisb: "leaves_cr (EnableSISBController E)" "leaves_cr DisableSISBController"
  by (auto simp: EnableSISBController_def DisableSISBController_def Let_def intro!: leaves_cr_intros)

interpretation wprov: provisioning "wired_provisioning E"
proof -
  have eqs: "pDriftDetector (wired_provisioning E) = drift_Detector E"
    "pModuleResourceManager (wired_provisioning E) = moduleResource_Manager E"
    "pCertManager (wired_provisioning E) = certificate_Manager E"
    "pNetworkPolicyManager (wired_provisioning E) = Some (networkPolicy_Manager E)"
    "pEnableSISBController (wired_provisioning E) = EnableSISBController E"
    by (simp_all add: wired_provisioning_def)
  show "provisioning (wired_provisioning E)"
    unfolding provisioning_def provisioning_axioms_def eqs
    using driftm.drift_manager_axioms mrm.resource_management_axioms certm.certificates_axioms
      npm.network_policies_axioms leaves_cr_sisb(1) by blast
qed

text \<open>The library functions on conditions and finalizers behave as documented.\<close>

locale controller_libraries =
  fixes E :: "('w, 'v) senv_scheme"
  assumes conditions_documented: "condition_setter (libSetStatusCondition E)"
    and finalizers_documented: "finalizer_library (libAddFinalizer E) (libRemoveFinalizer E)"

sublocale controller_libraries \<subseteq> wdep: deprovisioning "wired_deprovisioning E"
proof -
  have eqs: "hDriftDetector (wired_deprovisioning E) = drift_Detector E"
    "hModuleResourceManager (wired_deprovisioning E) = moduleResource_Manager E"
    by (simp_all add: wired_deprovisioning_def)
  show "deprovisioning (wired_deprovisioning E)"
    unfolding deprovisioning_def deprovisioning_axioms_def eqs
    using driftm.drift_manager_axioms mrm.resource_management_axioms npm.network_policies_axioms
      emits_UpdateBtpOperatorStatus[OF conditions_documented] leaves_cr_sisb(2) wprov.restore_leaves_cr
    by (auto simp: wired_deprovisioning_def)
qed

sublocale controller_libraries \<subseteq> wrec: reconciling "wired_reconciler E" E
proof -
  have eqs: "provisioningHandler (wired_reconciler E) = wired_provisioning E"
    "configurator (wired_reconciler E) = drift_Detector E"
    "deprovisioningHandler (wired_reconciler E) = Some (wired_deprovisioning E)"
    by (simp_all add: wired_reconciler_def)
  show "reconciling (wired_reconciler E) E"
    unfolding reconciling_def reconciling_axioms_def eqs
    using wprov.provisioning_axioms drift.operator_state_reader_axioms conditions_documented finalizers_documented
      wdep.deprovisioning_axioms by auto
qed

context controller_libraries
begin

lemma reconcile_cr_steps:
  assumes "clGetBtpOperator (cli E) PrimaryCrKey (api s) = (Inr cr, w)"
    and "run_state (reconcile_cr E (wired_reconciler E) PrimaryCrKey) s = (res, s')"
  shows "\<exists>t. trace s' = trace s @ t \<and>
     set t \<subseteq> insert (EvUpdateCr (cr\<lparr>Finalizers := Finalizers cr @ [deletionFinalizer]\<rparr>)) (life_cycle (CrState (Status cr)))"
proof -
  let ?s = "after_read E PrimaryCrKey cr w s" and ?st = "CrState (Status cr)"
  let ?del = "UpdateBtpOperatorStatus E StateDeleting HardDeleting ''BtpOperator is to be deleted''"
  have get: "EvGet ''BtpOperator'' PrimaryCrKey \<in> life_cycle ?st" by (simp add: life_cycle_no_cr_write)
  have fin: "libAddFinalizer E (Finalizers cr) deletionFinalizer =
      (if deletionFinalizer \<in> set (Finalizers cr) then (False, Finalizers cr) else (True, Finalizers cr @ [deletionFinalizer]))"
    using finalizer_library.add_present[OF finalizers_documented] finalizer_library.add_absent[OF finalizers_documented] by simp
  consider (add) "deletionFinalizer \<notin> set (Finalizers cr)"
    | (announce) "run_state (do { err \<leftarrow> ?del; ret (Result, err) }) ?s = (res, s')"
    | (handle) "run_state (handle_state E (wired_reconciler E)) ?s = (res, s')"
    using assms(2) run_reconcile_cr[OF assms(1)] fin by (auto split: if_splits)
  then show ?thesis
  proof cases
    case add
    then show ?thesis
      using assms(2) run_reconcile_cr[OF assms(1)] fin get
      by (auto simp: run_simps Let_def split: sum.splits)
  next
    case announce
    have "emits (life_cycle ?st) (do { err \<leftarrow> ?del; ret (Result, err) })"
      by (auto intro!: emits_intros wrec.status_step cr_transition.deletion)
    from emitsD[OF this announce] get show ?thesis by auto
  next
    case handle
    from wrec.handle_state_step[OF this] get show ?thesis by auto
  qed
qed

end

section \<open>Reported status updates are visible\<close>

text \<open>
  What the deprovisioning handler takes for granted about the API server: the CR, which has a finalizer,
  does not vanish, an accepted status write is returned as written, and there is time for a status update.
\<close>

definition shows_status :: "cr_state \<Rightarrow> reason \<Rightarrow> btpoperator \<Rightarrow> bool" where
  "shows_status st r cr \<longleftrightarrow> CrState (Status cr) = st \<and> IsReasonStringEqual cr (reason_string r)"

locale steady_cluster = controller_libraries E
  for E :: "('w, 'v) senv_scheme" +
  assumes cr_stays: "fst (clGetBtpOperator (cli E) k w) = Inl e \<Longrightarrow> \<not> IsNotFound e"
    and written: "fst (clStatusUpdate (cli E) o' w) = Inr updated \<Longrightarrow> Status updated = Status o'"
    and time: "0 < StatusUpdateTimeout (conf E)"
begin

lemma status_loop_visible:
  "run_state (status_loop E timeout st r msg n err) s = (None, s') \<Longrightarrow>
   (err = None \<longrightarrow> clock s < timeout \<or> shows_status st r (crp s)) \<Longrightarrow> shows_status st r (crp s')"
proof (induction n arbitrary: err s)
  case (Suc n)
  show ?case
  proof (cases "clock s < timeout")
    case False
    with Suc.prems show ?thesis by (simp add: run_simps)
  next
    case True
    obtain g w where g: "clGetBtpOperator (cli E) (ObjectKeyFromObject (crp s)) (api s) = (g, w)" by fastforce
    show ?thesis
    proof (cases g)
      case (Inl e)
      then show ?thesis
        using Suc.prems(1) Suc.IH[of "Some e"] True g cr_stays[of "ObjectKeyFromObject (crp s)" "api s" e]
        by (auto simp: run_simps)
    next
      case (Inr cr)
      show ?thesis
      proof (cases "CrState (Status cr) = st \<and> IsMsgForGivenReasonEqual cr (reason_string r) msg")
        case True': True
        then show ?thesis
          using Suc.prems(1) True g Inr
          by (auto simp: run_simps shows_status_def IsReasonStringEqual_def IsMsgForGivenReasonEqual_def
              dest: msg_in_imp_reason_in)
      next
        case False
        have vis: "shows_status st r u"
          if "SetStatusCondition (libSetStatusCondition E) (Conditions (WithState (Status cr) st)) c = Some cs"
            "CndReason c = reason_string r" "CndMessage c = msg"
            "Status u = Status (SetStatus cr (WithState (Status cr) st\<lparr>Conditions := cs\<rparr>))" for c cs u
          using status_write_set[OF conditions_documented that(1-3)] that(4)
          by (auto simp: shows_status_def status_write_def IsReasonStringEqual_def dest: msg_in_imp_reason_in)
        from Suc.prems(1) True g Inr False show ?thesis
          by (auto simp: run_simps Let_def split: option.splits sum.splits
              dest!: Suc.IH intro: vis written simp: vis[OF _ _ _ written])
      qed
    qed
  qed
qed simp

lemma status_update_visible:
  "run_state (UpdateBtpOperatorStatus E st r msg) s = (None, s') \<Longrightarrow> shows_status st r (crp s')"
  using time by (auto simp: UpdateBtpOperatorStatus_def run_simps dest!: status_loop_visible)

end

sublocale steady_cluster \<subseteq> wvis: visible_deprovisioning "wired_deprovisioning E"
  by unfold_locales (auto simp: wired_deprovisioning_def shows_status_def dest!: status_update_visible)

context steady_cluster
begin

lemmas finalizer_safe_wired = wvis.finalizer_safe[OF finalizers_documented]

end

section \<open>Properties\<close>

text \<open>
  C2: every status that a reconcile of the primary CR writes is coherent, its state being the one the
  reason table gives for the reason of its condition, and a step of the CR's life cycle from the state that
  the reconcile found; and it updates the CR itself only to add or to remove the finalizer.
\<close>

theorem reconcile_follows_life_cycle:
  fixes s :: "('w, 'z) rstate_scheme" and E :: "('w, 'v) senv_scheme"
  assumes "condition_setter (libSetStatusCondition E)"
    and "finalizer_library (libAddFinalizer E) (libRemoveFinalizer E)"
    and "clGetBtpOperator (cli E) PrimaryCrKey (api s) = (Inr cr, w)"
    and "run_state (Reconcile E (wired_reconciler E) PrimaryCrKey) s = (res, s')"
  shows "\<exists>t. trace s' = trace s @ t \<and>
     (\<forall>o'. EvStatusUpdate o' \<in> set t \<longrightarrow>
        (\<exists>reason msg. CrState (Status o') = reason_state reason \<and>
           IsMsgForGivenReasonEqual o' (reason_string reason) msg \<and>
           cr_transition (CrState (Status cr)) (reason_state reason))) \<and>
     (\<forall>c. EvUpdateCr c \<in> set t \<longrightarrow>
        c = cr\<lparr>Finalizers := Finalizers cr @ [deletionFinalizer]\<rparr> \<or> deletionFinalizer \<notin> set (Finalizers c))"
proof -
  let ?s = "s\<lparr>workqueueSize := workqueueSize s + 1\<rparr>"
  obtain r s1 where 1: "run_state (reconcile_cr E (wired_reconciler E) PrimaryCrKey) ?s = (r, s1)" by fastforce
  have "clGetBtpOperator (cli E) PrimaryCrKey (api ?s) = (Inr cr, w)" using assms(3) by simp
  from controller_libraries.reconcile_cr_steps[OF controller_libraries.intro[OF assms(1,2)] this 1]
  obtain t where t: "trace s1 = trace s @ t"
    "set t \<subseteq> insert (EvUpdateCr (cr\<lparr>Finalizers := Finalizers cr @ [deletionFinalizer]\<rparr>)) (life_cycle (CrState (Status cr)))"
    by auto
  have "EvStatusUpdate o' \<in> set t \<Longrightarrow> EvStatusUpdate o' \<in> life_cycle (CrState (Status cr))"
    "EvUpdateCr c \<in> set t \<Longrightarrow> c = cr\<lparr>Finalizers := Finalizers cr @ [deletionFinalizer]\<rparr> \<or>
       EvUpdateCr c \<in> life_cycle (CrState (Status cr))" for o' c
    using t(2) by auto
  moreover have "trace s' = trace s @ t" using assms(4) 1 t(1) by (auto simp: run_Reconcile)
  ultimately show ?thesis by (metis life_cycle_status life_cycle_update)
qed


end
