(* ===== verification/Sym_X509.thy ===== *)
theory Sym_X509
  imports Certificate_Manager
begin

text \<open>
  A symbolic certificate library: a certificate's bytes are a readable encoding of its fields and of the
  key that signed it, and verification compares keys. It satisfies the laws of \<open>x509_library\<close>; the
  examples for the certificate manager run on it.
\<close>

section \<open>Encoding\<close>

text \<open>Values are encoded so that a decoder can read one and hand back the rest.\<close>

fun enc_nat :: "nat \<Rightarrow> string" where
  "enc_nat n = (if n = 0 then '';'' else (if even n then CHR ''0'' else CHR ''1'') # enc_nat (n div 2))"

declare enc_nat.simps [simp del]

fun dec_nat :: "string \<Rightarrow> (nat \<times> string) option" where
  "dec_nat [] = None"
| "dec_nat (c # cs) =
     (if c = CHR '';'' then Some (0, cs)
      else case dec_nat cs of None \<Rightarrow> None | Some (n, r) \<Rightarrow> Some (2 * n + (if c = CHR ''1'' then 1 else 0), r))"

definition enc_int :: "int \<Rightarrow> string" where
  "enc_int i = enc_nat (nat i) @ enc_nat (nat (- i))"

definition dec_int :: "string \<Rightarrow> (int \<times> string) option" where
  "dec_int cs = (case dec_nat cs of None \<Rightarrow> None | Some (m, r) \<Rightarrow>
     (case dec_nat r of None \<Rightarrow> None | Some (n, r') \<Rightarrow> Some (int m - int n, r')))"

definition enc_str :: "string \<Rightarrow> string" where
  "enc_str x = enc_nat (length x) @ x"

definition dec_str :: "string \<Rightarrow> (string \<times> string) option" where
  "dec_str cs = (case dec_nat cs of None \<Rightarrow> None | Some (n, r) \<Rightarrow> Some (take n r, drop n r))"

definition enc_ints :: "int list \<Rightarrow> string" where
  "enc_ints xs = enc_nat (length xs) @ concat (map enc_int xs)"

fun dec_ints_n :: "nat \<Rightarrow> string \<Rightarrow> (int list \<times> string) option" where
  "dec_ints_n 0 cs = Some ([], cs)"
| "dec_ints_n (Suc n) cs = (case dec_int cs of None \<Rightarrow> None | Some (i, r) \<Rightarrow>
     (case dec_ints_n n r of None \<Rightarrow> None | Some (is, r') \<Rightarrow> Some (i # is, r')))"

definition dec_ints :: "string \<Rightarrow> (int list \<times> string) option" where
  "dec_ints cs = (case dec_nat cs of None \<Rightarrow> None | Some (n, r) \<Rightarrow> dec_ints_n n r)"

lemma dec_enc_nat [simp]: "dec_nat (enc_nat n @ r) = Some (n, r)"
proof (induction n rule: less_induct)
  case (less n)
  have "n \<noteq> 0 \<Longrightarrow> dec_nat (enc_nat (n div 2) @ r) = Some (n div 2, r)" by (rule less) simp
  then show ?case by (subst enc_nat.simps) (auto elim!: oddE)
qed

lemma dec_enc_int [simp]: "dec_int (enc_int i @ r) = Some (i, r)"
  by (simp add: dec_int_def enc_int_def)

lemma dec_enc_str [simp]: "dec_str (enc_str x @ r) = Some (x, r)"
  by (simp add: dec_str_def enc_str_def)

lemma dec_enc_ints_n: "dec_ints_n (length xs) (concat (map enc_int xs) @ r) = Some (xs, r)"
  by (induction xs) simp_all

lemma dec_enc_ints [simp]: "dec_ints (enc_ints xs @ r) = Some (xs, r)"
  by (simp add: dec_ints_def enc_ints_def dec_enc_ints_n)

section \<open>Certificates\<close>

definition whole_second :: "int \<Rightarrow> int" where
  "whole_second t = t div Second * Second"

definition sym_create :: "x509cert \<Rightarrow> x509cert \<Rightarrow> string \<Rightarrow> string \<Rightarrow> string" where
  "sym_create tmpl parent pub priv =
     enc_int (whole_second (NotBefore tmpl)) @ enc_int (whole_second (NotAfter tmpl)) @
     enc_int (if IsCA tmpl \<and> BasicConstraintsValid tmpl then 1 else 0) @
     enc_int (if BasicConstraintsValid tmpl then 1 else 0) @
     enc_int (KeyUsage tmpl) @ enc_ints (ExtKeyUsage tmpl) @ enc_str pub @ enc_str priv"

definition sym_parse :: "string \<Rightarrow> error + x509cert" where
  "sym_parse der =
     (case Option.bind (dec_int der) (\<lambda>(nb, r). Option.bind (dec_int r) (\<lambda>(na, r). Option.bind (dec_int r) (\<lambda>(isca, r).
           Option.bind (dec_int r) (\<lambda>(bc, r). Option.bind (dec_int r) (\<lambda>(ku, r). Option.bind (dec_ints r) (\<lambda>(eku, r).
           Option.bind (dec_str r) (\<lambda>(pub, r). Option.bind (dec_str r) (\<lambda>(sig, r). Some (nb, na, isca, bc, ku, eku, pub, sig))))))))) of
        None \<Rightarrow> Inl (Errorf ''malformed certificate'')
      | Some (nb, na, isca, bc, ku, eku, pub, sig) \<Rightarrow>
          Inr \<lparr>SerialNumber = 0, DNSNames = [], NotBefore = nb, NotAfter = na, IsCA = (isca = 1), ExtKeyUsage = eku,
               KeyUsage = ku, BasicConstraintsValid = (bc = 1),
               SignatureAlgorithm = SHA256WithRSA, PublicKeyAlgorithm = RSA, SubjectKeyId = [], PublicKey = pub, Signature = sig,
               Raw = der\<rparr>)"

definition sym_verify :: "x509cert \<Rightarrow> x509cert list \<Rightarrow> int \<Rightarrow> error option" where
  "sym_verify leaf roots t =
     (if (\<exists>ca \<in> set roots. IsCA ca \<and> PublicKey ca = Signature leaf \<and> NotBefore ca \<le> t \<and> t \<le> NotAfter ca) \<and>
         NotBefore leaf \<le> t \<and> t \<le> NotAfter leaf
      then None else Some (Errorf ''unknown authority''))"

definition sym_pem :: "string \<Rightarrow> string" where
  "sym_pem b = ''PEM:'' @ b"

definition sym_unpem :: "string \<Rightarrow> string option" where
  "sym_unpem p = (if HasPrefix p ''PEM:'' then Some (drop 4 p) else None)"

definition sym_pool :: "string \<Rightarrow> bool \<times> x509cert list" where
  "sym_pool p = (case Option.bind (sym_unpem p) (\<lambda>b. case sym_parse b of Inl e \<Rightarrow> None | Inr c \<Rightarrow> Some c) of
                   None \<Rightarrow> (False, []) | Some c \<Rightarrow> (True, [c]))"

text \<open>Keys are numbered by the objects of the cluster; a public key is its private key's name.\<close>

definition sym_cenv :: "cluster cenv" where
  "sym_cenv = renv.extend mem_renv (cenv.fields
     (\<lambda>bits w. (Inr ''key'', w)) (\<lambda>k. k) Inr (\<lambda>x. ''hash'') (\<lambda>n w. (7, w))
     (\<lambda>tmpl parent pub priv w. (Inr (sym_create tmpl parent pub priv), w)) sym_parse
     (\<lambda>k. k) Inr (\<lambda>ty b. Inr (sym_pem b)) (\<lambda>ty b. sym_pem b) sym_unpem sym_pool sym_verify
     (\<lambda>kind ver x. Inr (example_object kind (Name x) (JObj [(''data'', JObj (map (\<lambda>(k, v). (k, JBytes v)) (Data x)))]))))"

lemma sym_pem_roundtrip [simp]: "sym_unpem (sym_pem b) = Some b"
  by (simp add: sym_unpem_def sym_pem_def HasPrefix_def)

lemma sym_unpem_empty [simp]: "sym_unpem [] = None"
  by (simp add: sym_unpem_def HasPrefix_def)

lemma sym_parse_create:
  "sym_parse (sym_create tmpl parent pub priv) =
     Inr \<lparr>SerialNumber = 0, DNSNames = [], NotBefore = whole_second (NotBefore tmpl), NotAfter = whole_second (NotAfter tmpl),
          IsCA = (IsCA tmpl \<and> BasicConstraintsValid tmpl), ExtKeyUsage = ExtKeyUsage tmpl, KeyUsage = KeyUsage tmpl,
          BasicConstraintsValid = BasicConstraintsValid tmpl,
          SignatureAlgorithm = SHA256WithRSA, PublicKeyAlgorithm = RSA, SubjectKeyId = [], PublicKey = pub, Signature = priv,
          Raw = sym_create tmpl parent pub priv\<rparr>"
proof -
  have s: "dec_str (enc_str x) = Some (x, [])" for x using dec_enc_str[of x "[]"] by simp
  show ?thesis unfolding sym_parse_def by (simp add: sym_create_def s)
qed

lemma sym_parse_raw: "sym_parse der = Inr c \<Longrightarrow> Raw c = der"
  by (auto simp: sym_parse_def split: option.splits)

lemma whole_second_cut: "cut_to_second (whole_second t) t"
proof -
  have "t = t div Second * Second + t mod Second" by simp
  moreover have "0 \<le> t mod Second" "t mod Second < Second" by simp_all
  ultimately show ?thesis unfolding cut_to_second_def whole_second_def by linarith
qed

lemmas sym_cenv_simps = sym_cenv_def mem_renv_simps cenv.defs

lemma sym_cenv_fields:
  "cli sym_cenv = mem_client" "latency sym_cenv w = 0" "conf sym_cenv = default_config"
  "rsaGenerateKey sym_cenv bits w = (Inr ''key'', w)" "publicOf sym_cenv k = k" "marshalPKIXPublicKey sym_cenv k = Inr k"
  "sha256 sym_cenv k = ''hash''" "randIntn sym_cenv n w = (7, w)"
  "createCertificate sym_cenv tmpl parent pub priv w = (Inr (sym_create tmpl parent pub priv), w)"
  "parseCertificate sym_cenv = sym_parse" "marshalPKCS1PrivateKey sym_cenv k = k" "parsePKCS1PrivateKey sym_cenv k = Inr k"
  "pemEncode sym_cenv ty b = Inr (sym_pem b)" "pemDecode sym_cenv = sym_unpem"
  "secretToUnstructured sym_cenv kind ver x =
     Inr (example_object kind (Name x) (JObj [(''data'', JObj (map (\<lambda>(k, v). (k, JBytes v)) (Data x)))]))"
  by (simp_all add: sym_cenv_simps)

interpretation sym: x509_library sym_cenv
proof unfold_locales
  fix tmpl parent pub priv w der w'
  assume c: "createCertificate sym_cenv tmpl parent pub priv w = (Inr der, w')"
  show "\<exists>c. parseCertificate sym_cenv der = Inr c \<and> from_template tmpl pub c"
    using c by (auto simp: sym_cenv_simps sym_parse_create from_template_def whole_second_cut)
  fix ca leaf t
  assume "createCertificate sym_cenv tmpl ca pub priv w = (Inr der, w')" "parseCertificate sym_cenv der = Inr leaf"
    "publicOf sym_cenv priv = PublicKey ca" "can_sign ca" "valid_at ca t" "valid_at leaf t"
  then show "x509Verify sym_cenv leaf [ca] t = None"
    by (auto simp: sym_cenv_simps sym_parse_create sym_verify_def valid_at_def can_sign_def)
next
  fix der c assume "parseCertificate sym_cenv der = Inr c"
  then show "appendCertsFromPEM sym_cenv (pemEncodeToMemory sym_cenv ''CERTIFICATE'' (Raw c)) = (True, [c])"
    using sym_parse_raw[of der c] by (simp add: sym_cenv_simps sym_pool_def)
qed (auto simp: sym_cenv_simps)

section \<open>Witnesses\<close>

definition example_webhook :: unstr where
  "example_webhook = example_object ''MutatingWebhookConfiguration'' ''mutating''
     (JObj [(''webhooks'', JList [JObj [(''clientConfig'', JObj [])]])])"

definition example_cstate :: "secret list \<Rightarrow> int \<Rightarrow> cluster cstate" where
  "example_cstate xs t = dstate.extend (drift_dstate xs\<lparr>clock := t\<rparr>) (cstate.fields 0)"

lemma example_webhook_prepared: "prepareWebhookManifest sym_cenv ca example_webhook \<noteq> Inl e"
  by (simp add: prepareWebhookManifest_def example_webhook_def example_object_def sym_cenv_simps)

lemma regenerated_run:
  "\<exists>x y ws s'. run_state (regenerateCertificates sym_cenv [example_webhook]) s = (Inr (x # y # ws), s') \<and>
     Name x = ''ca-server-cert'' \<and> Name y = ''webhook-server-cert''"
  by (auto simp: example_webhook_prepared regenerateCertificates_def generateSelfSignedCert_def generateSignedCert_def
      GenerateSelfSignedCertificate_def GenerateSignedCertificate_def sym_cenv_fields run_simps Let_def encode_pair_def
      DecodeCertificate_def sym_parse_create buildCertificateSecret_def certFieldFromSecretBySecretName_def
      privateKeyFieldFromSecretBySecretName_def IncrementCertsRegenerationCounter_def cert_names
      certificate_secret_def example_object_def split: sum.split)


text \<open>The regenerated secrets, stored and read back an hour later.\<close>

theorem fresh_certificates_kept_witness:
  "\<exists>x y r s3. run_state (PrepareAdmissionWebhooks sym_cenv [example_webhook])
       (example_cstate [x\<lparr>Namespace := ''kyma-system''\<rparr>, y\<lparr>Namespace := ''kyma-system''\<rparr>] Hour) = (r, s3) \<and>
     r = prepareWebhooksManifests sym_cenv (mget (Data x) ''ca.crt'') [example_webhook] \<and>
     certsRegenerationCounter s3 = 0"
proof -
  obtain a b ws s1 where gen: "run_state (regenerateCertificates sym_cenv [example_webhook]) (example_cstate [] 0) = (Inr (a # b # ws), s1)"
    "Name a = ''ca-server-cert''" "Name b = ''webhook-server-cert''"
    using regenerated_run by blast
  obtain x y where xy: "secretToUnstructured sym_cenv ''Secret'' ''v1'' x = Inr a"
     "secretToUnstructured sym_cenv ''Secret'' ''v1'' y = Inr b"
    and kept: "\<And>(s2 :: cluster cstate) x' y' w w' r s3. clock (example_cstate [] 0) \<le> clock s2 \<Longrightarrow> Name x' = Name x \<Longrightarrow> Data x' = Data x \<Longrightarrow>
        Name y' = Name y \<Longrightarrow> Data y' = Data y \<Longrightarrow>
        clGetSecret (cli sym_cenv) (secret_key sym_cenv CaCertSecretName) (api s2) = (Inr x', w) \<Longrightarrow>
        clGetSecret (cli sym_cenv) (secret_key sym_cenv WebhookCertSecretName) w = (Inr y', w') \<Longrightarrow>
        clock s2 + int (latency sym_cenv w) + int (latency sym_cenv w') \<le> fresh_until (conf sym_cenv) (clock (example_cstate [] 0)) \<Longrightarrow>
        run_state (PrepareAdmissionWebhooks sym_cenv [example_webhook]) s2 = (r, s3) \<Longrightarrow>
        r = prepareWebhooksManifests sym_cenv (mget (Data x) CaCertSecretCertField) [example_webhook] \<and>
        certsRegenerationCounter s3 = certsRegenerationCounter s2"
    using fresh_certificates_kept[OF sym.x509_library_axioms gen(1), of "[example_webhook]"] by auto
  have names: "Name x = ''ca-server-cert''" "Name y = ''webhook-server-cert''"
    using xy gen(2,3) by (auto simp: sym_cenv_fields example_object_def)
  let ?x = "x\<lparr>Namespace := ''kyma-system''\<rparr>" and ?y = "y\<lparr>Namespace := ''kyma-system''\<rparr>"
  let ?s = "example_cstate [?x, ?y] Hour"
  obtain r s3 where run: "run_state (PrepareAdmissionWebhooks sym_cenv [example_webhook]) ?s = (r, s3)" by fastforce
  have "clGetSecret (cli sym_cenv) (secret_key sym_cenv CaCertSecretName) (api ?s) = (Inr ?x, api ?s)"
    "clGetSecret (cli sym_cenv) (secret_key sym_cenv WebhookCertSecretName) (api ?s) = (Inr ?y, api ?s)"
    using names by (simp_all add: sym_cenv_fields mem_simps secret_key_def cert_names example_cstate_def dstate.defs
        cstate.defs drift_dstate_def default_config_def)
  with kept[OF _ _ _ _ _ this(1) this(2) _ run] run show ?thesis
    by (intro exI[of _ x] exI[of _ y] exI[of _ r] exI[of _ s3])
       (simp add: example_cstate_def dstate.defs cstate.defs drift_dstate_def fresh_until_def sym_cenv_fields
         default_config_def CaCertSecretCertField_def)
qed

end
