(* ===== verification/Wiring_Examples.thy ===== *)
theory Wiring_Examples
  imports Wiring Sym_X509
begin

text \<open>
  The wired program on the in-memory cluster with the symbolic certificate library: the laws of the
  library functions hold there, and the properties of the reconciler are instantiated on concrete runs.
  One of the runs shows a deletion that leaves the module resources behind.
\<close>

section \<open>The instance\<close>

definition sym_env :: "cluster senv" where
  "sym_env = mem_senv sym_cenv"

lemma sym_env_fields [simp]:
  "cli sym_env = mem_client" "apicli sym_env = mem_client" "latency sym_env w = 0" "conf sym_env = default_config"
  "libSetStatusCondition sym_env = set_condition" "libAddFinalizer sym_env = add_finalizer"
  "libRemoveFinalizer sym_env = remove_finalizer" "selectTimer sym_env w = False"
  by (simp_all add: sym_env_def mem_senv_def sym_cenv_def mem_renv_def mem_menv_def env.defs menv.defs renv.defs cenv.defs senv.defs)

interpretation sym_libraries: controller_libraries sym_env
  by (rule controller_libraries.intro) (simp_all add: setc.condition_setter_axioms fin.finalizer_library_axioms)

definition cr_rstate :: "btpoperator \<Rightarrow> cluster rstate" where
  "cr_rstate cr = sstate.extend (example_sstate (empty_cluster\<lparr>mCrs := [cr]\<rparr>)\<lparr>crp := cr\<rparr>) (rstate.fields 0)"

lemma cr_rstate_fields [simp]:
  "api (cr_rstate cr) = empty_cluster\<lparr>mCrs := [cr]\<rparr>" "trace (cr_rstate cr) = []" "crp (cr_rstate cr) = cr"
  "clock (cr_rstate cr) = 0"
  by (simp_all add: cr_rstate_def example_sstate_def drift_dstate_def dstate.defs cstate.defs sstate.defs rstate.defs)

lemma cr_rstate_read:
  "ObjectKeyFromObject cr = k \<Longrightarrow>
     clGetBtpOperator (cli sym_env) k (api (cr_rstate cr)) = (Inr cr, empty_cluster\<lparr>mCrs := [cr]\<rparr>)"
  by (simp add: mem_client_def find_key_def)

lemma primary_cr_key [simp]: "ObjectKeyFromObject (primary_cr st) = PrimaryCrKey"
  "ObjectKeyFromObject (primary_cr st\<lparr>Finalizers := fs\<rparr>) = PrimaryCrKey"
  "ObjectKeyFromObject (primary_cr st\<lparr>DeletionTimestamp := ts\<rparr>) = PrimaryCrKey"
  by (simp_all add: ObjectKeyFromObject_def primary_cr_def PrimaryCrKey_def)

section \<open>Witnesses\<close>


theorem deletion_announced_first_witness:
  "\<exists>t. trace (snd (run_state (Reconcile sym_env (wired_reconciler sym_env) PrimaryCrKey)
       (cr_rstate (primary_cr example_status\<lparr>DeletionTimestamp := Some 5\<rparr>)))) = t \<and>
     set t \<subseteq> range (EvGet ''BtpOperator'') \<union> range EvSleep \<union>
     EvStatusUpdate ` {o'. CrState (Status o') = StateDeleting \<and> IsReasonStringEqual o' (reason_string HardDeleting)}"
proof -
  let ?cr = "primary_cr example_status\<lparr>DeletionTimestamp := Some 5\<rparr>"
  have "deletionFinalizer \<in> set (Finalizers ?cr)" "DeletionTimestamp ?cr \<noteq> None" "CrState (Status ?cr) \<noteq> StateDeleting"
    "\<not> IsReasonStringEqual ?cr (reason_string ServiceInstancesAndBindingsNotCleaned)"
    by (simp_all add: primary_cr_def example_status_def IsReasonStringEqual_def)
  with deletion_announced_first[OF _ _ _ _ _ _ cr_rstate_read prod.collapse[symmetric], of remove_finalizer ?cr]
  show ?thesis by (simp add: setc.condition_setter_axioms fin.finalizer_library_axioms)
qed

theorem reconcile_follows_life_cycle_witness:
  "\<exists>t. trace (snd (run_state (Reconcile sym_env (wired_reconciler sym_env) PrimaryCrKey) (cr_rstate (primary_cr example_status)))) = t \<and>
     (\<forall>o'. EvStatusUpdate o' \<in> set t \<longrightarrow>
        (\<exists>reason msg. CrState (Status o') = reason_state reason \<and>
           IsMsgForGivenReasonEqual o' (reason_string reason) msg \<and> cr_transition StateProcessing (reason_state reason)))"
proof -
  have "condition_setter (libSetStatusCondition sym_env)"
    "finalizer_library (libAddFinalizer sym_env) (libRemoveFinalizer sym_env)"
    by (simp_all add: setc.condition_setter_axioms fin.finalizer_library_axioms)
  from reconcile_follows_life_cycle[OF this cr_rstate_read prod.collapse[symmetric], of "primary_cr example_status"]
  obtain t where "trace (snd (run_state (Reconcile sym_env (wired_reconciler sym_env) PrimaryCrKey)
      (cr_rstate (primary_cr example_status)))) = t"
    "\<forall>o'. EvStatusUpdate o' \<in> set t \<longrightarrow> (\<exists>reason msg. CrState (Status o') = reason_state reason \<and>
       IsMsgForGivenReasonEqual o' (reason_string reason) msg \<and>
       cr_transition (CrState (Status (primary_cr example_status))) (reason_state reason))"
    by auto
  moreover have "CrState (Status (primary_cr example_status)) = StateProcessing"
    by (simp add: primary_cr_def example_status_def)
  ultimately show ?thesis by metis
qed

section \<open>A soft delete\<close>

lemma example_unstr_fields [simp]:
  "Gvk (example_unstr g name) = g" "DeletionTimestamp (example_unstr g name) = None" "Name (example_unstr g name) = name"
  "Namespace (example_unstr g name) = ''kyma-system''"
  by (simp_all add: example_unstr_def)

definition soft_rstate :: "cluster rstate" where
  "soft_rstate = cr_rstate (primary_cr example_status)\<lparr>api := empty_cluster
     \<lparr>mCRDs := [''serviceinstances.services.cloud.sap.com''], mObjs := [example_unstr instanceGvk ''si'']\<rparr>\<rparr>"

lemma instance_kinds:
  "Group instanceGvk = ''services.cloud.sap.com''" "Version instanceGvk = ''v1''" "Kind instanceGvk = ''ServiceInstance''"
  "networkPolicyGvk \<noteq> instanceGvk" "instanceGvk \<noteq> networkPolicyGvk"
  by (simp_all add: instanceGvk_def networkPolicyGvk_def)

theorem soft_delete_order_witness:
  "\<exists>t1 t2. trace (snd (run_state (handleSoftDelete sym_env (wired_deprovisioning sym_env)) soft_rstate)) =
     [EvDelete ''Deployment'' \<lparr>KeyName = ''sap-btp-operator-controller-manager'', KeyNamespace = ''kyma-system''\<rparr>,
      EvDelete ''MutatingWebhookConfiguration'' \<lparr>KeyName = mutatingWebhookName, KeyNamespace = []\<rparr>,
      EvDelete ''ValidatingWebhookConfiguration'' \<lparr>KeyName = validatingWebhookName, KeyNamespace = []\<rparr>] @ t1 @ t2 \<and>
     EvUpdate (example_unstr instanceGvk ''si''\<lparr>Finalizers := []\<rparr>) \<in> set t2 \<and> (\<forall>u'. EvUpdate u' \<notin> set t1)"
proof -
  let ?run = "run_state (handleSoftDelete sym_env (wired_deprovisioning sym_env)) soft_rstate"
  have "EvUpdate (example_unstr instanceGvk ''si''\<lparr>Finalizers := []\<rparr>) \<in> set (trace (snd ?run))"
    using crd_names
    by (simp add: handleSoftDelete_def preSoftDeleteCleanup_def soft_delete_targets_def deprov_cleanupNetworkPolicies_def
        wired_deprovisioning_def networkPolicy_Manager_def CleanupNetworkPolicies_def crdExists_def soft_delete_type_def
        softDelete_def soft_rstate_def run_simps mem_simps GvkToList_def instance_kinds)
  moreover have "deprovisioning (wired_deprovisioning sym_env :: cluster rstate deprov_handler)"
    by (rule sym_libraries.wdep.deprovisioning_axioms)
  ultimately show ?thesis
    using soft_delete_order[OF _ prod.collapse[symmetric], of "wired_deprovisioning sym_env" sym_env soft_rstate]
    by (simp add: soft_rstate_def default_config_def)
qed

section \<open>A deletion that is unblocked while it is handled\<close>

text \<open>
  A cluster in which every CR is found or the request fails, and in which the service instances vanish
  after they have been listed once, because someone else is deleting them.
\<close>

definition vanishing_client :: "cluster client" where
  "vanishing_client = mem_client\<lparr>
     clGetBtpOperator := \<lambda>k w. (case find_key k (mCrs w) of Inl e \<Rightarrow> Inl (Errorf ''unavailable'') | Inr x \<Rightarrow> Inr x, w),
     clListUnstructured := \<lambda>g ns w. (fst (clListUnstructured mem_client g ns w), w\<lparr>mObjs := []\<rparr>)\<rparr>"

definition vanishing_env :: "cluster senv" where
  "vanishing_env = sym_env\<lparr>cli := vanishing_client, apicli := vanishing_client\<rparr>"

lemma vanishing_env_fields [simp]:
  "cli vanishing_env = vanishing_client" "apicli vanishing_env = vanishing_client" "latency vanishing_env w = 0"
  "conf vanishing_env = default_config" "libSetStatusCondition vanishing_env = set_condition"
  "libAddFinalizer vanishing_env = add_finalizer" "libRemoveFinalizer vanishing_env = remove_finalizer"
  by (simp_all add: vanishing_env_def)

lemma vanishing_steady:
  "fst (clGetBtpOperator vanishing_client k w) = Inl e \<Longrightarrow> \<not> IsNotFound e"
  "fst (clStatusUpdate vanishing_client x w) = Inr u \<Longrightarrow> Status u = Status x"
  by (auto simp: vanishing_client_def mem_client_def split: sum.splits if_splits)

interpretation vanishing: steady_cluster vanishing_env
  by (intro steady_cluster.intro controller_libraries.intro steady_cluster_axioms.intro)
    (auto simp: setc.condition_setter_axioms fin.finalizer_library_axioms dest: vanishing_steady)

definition blocked_cr :: btpoperator where
  "blocked_cr = primary_cr \<lparr>CrState = StateWarning, Conditions =
       
       [ConditionFromExistingReason ServiceInstancesAndBindingsNotCleaned (block_message 1 0)]\<rparr>\<lparr>DeletionTimestamp := Some 5\<rparr>"

definition vanishing_rstate :: "cluster rstate" where
  "vanishing_rstate = cr_rstate blocked_cr\<lparr>api := empty_cluster\<lparr>mCrs := [blocked_cr],
     mCRDs := [''serviceinstances.services.cloud.sap.com''], mObjs := [example_unstr instanceGvk ''si'']\<rparr>\<rparr>"

lemma blocked_cr_fields [simp]:
  "IsReasonStringEqual blocked_cr (reason_string ServiceInstancesAndBindingsNotCleaned)"
  "CrState (Status blocked_cr) = StateWarning" "\<not> IsForceDelete blocked_cr" "Finalizers blocked_cr = [deletionFinalizer]"
  "Name blocked_cr = ''btpoperator''" "Namespace blocked_cr = ''kyma-system''"
  by (simp_all add: blocked_cr_def primary_cr_def IsReasonStringEqual_def IsForceDelete_def BtpOperatorCrName_def
      KymaSystemNamespaceName_def)

lemma cr_rstate_ib [simp]: "sisb_enabled (ib (cr_rstate cr)) = False"
  by (simp add: cr_rstate_def example_sstate_def drift_dstate_def dstate.defs cstate.defs sstate.defs rstate.defs
      NewInstanceBindingControllerManager_def)

definition vanishing_run :: "error option \<times> cluster rstate" where
  "vanishing_run = run_state (Deprovision vanishing_env (wired_deprovisioning vanishing_env)) vanishing_rstate"

lemma vanishing_run_requests:
  "fst vanishing_run = None" "EvUpdateCr (blocked_cr\<lparr>Finalizers := []\<rparr>) \<in> set (trace (snd vanishing_run))"
  "set (trace (snd vanishing_run)) \<subseteq> insert (EvUpdateCr (blocked_cr\<lparr>Finalizers := []\<rparr>)) reads"
  unfolding vanishing_run_def using crd_names
  by (simp_all add: Deprovision_def deprov_getSecretByNameAndNamespace_def wired_deprovisioning_def drift_Detector_def
      InitializeFromSecret_def modify_dd_def handleDeprovisioning_def numberOfResources_def crdExists_def
      ReconcileResourcesWithoutStatusChange_def GetAndVerifyRequiredSecret_def getRequiredSecret_def
      remove_cr_finalizer_def DisableSISBController_def remove_finalizer_def reads_def
      vanishing_rstate_def vanishing_client_def run_simps mem_simps Let_def)



end
