(* ===== verification/Probe_Runner.thy ===== *)
theory Probe_Runner
  imports Manifest
begin

text \<open>
  The CA bundle probe (\<^verbatim>\<open>controllers/probe_runner.go\<close>): a background loop that runs a Job, reads the
  annotations which the Job leaves on the CR, sets a gauge, restarts the operand's pods after a rotation of
  the bundle and records the hash it has seen.
\<close>

section \<open>Context and time\<close>

text \<open>
  The context that stops the manager: \<open>ctxErr\<close> is its \<^verbatim>\<open>Err()\<close>, \<open>cancelledFirst\<close> tells whether it was
  cancelled before a deadline that has passed as well, and \<open>passTime d\<close> is what happens in the cluster
  while a goroutine waits for a timer of \<open>d\<close> or the end of the context, with the time this took.
\<close>

record 'w penv = "'w menv" +
  ctxErr :: "'w \<Rightarrow> error option"
  cancelledFirst :: "'w \<Rightarrow> bool"
  passTime :: "int \<Rightarrow> 'w \<Rightarrow> nat \<times> 'w"

record 'w pstate = "'w kstate" +
  statusGauge :: int

definition deadline_exceeded :: error where
  "deadline_exceeded = ApiError DeadlineExceeded ''context deadline exceeded''"

text \<open>The error of a context derived with a timeout; \<open>None\<close> while it is not done.\<close>

definition ctx_done :: "('w, 'v) penv_scheme \<Rightarrow> int \<Rightarrow> (('w, 'z) kstate_scheme, error option) state" where
  "ctx_done E deadline = do {
     now \<leftarrow> Now;
     w \<leftarrow> gets api;
     ret (case ctxErr E w of
            Some e \<Rightarrow> if now < deadline \<or> cancelledFirst E w then Some e else Some deadline_exceeded
          | None \<Rightarrow> if now < deadline then None else Some deadline_exceeded) }"

text \<open>Waiting for a timer or the end of the context: a timer never fires early.\<close>

definition pause :: "('w, 'v) penv_scheme \<Rightarrow> int \<Rightarrow> (('w, 'z) kstate_scheme, unit) state" where
  "pause E d = State_Monad.State (\<lambda>s.
     let (t, w) = passTime E d (api s)
     in ((), s\<lparr>api := w, clock := clock s + (if ctxErr E w = None then max d (int t) else int t),
               trace := trace s @ [EvSleep d]\<rparr>))"

section \<open>The runner\<close>

definition probeJobName :: string where
  "probeJobName = ''btp-manager-ca-bundle-probe''"

definition probeAnnotationStatus :: string where
  "probeAnnotationStatus = ''tls-probe-status''"

definition probeAnnotationHash :: string where
  "probeAnnotationHash = ''tls-probe-hash''"

definition probeAnnotationLastHash :: string where
  "probeAnnotationLastHash = ''tls-probe-last-hash''"

definition probeAnnotationUpdatedAt :: string where
  "probeAnnotationUpdatedAt = ''tls-probe-updated-at''"

definition probeStatusOK :: string where
  "probeStatusOK = ''ok''"

definition probeStatusAlert :: string where
  "probeStatusAlert = ''alert''"

definition jobWaitTimeout :: int where
  "jobWaitTimeout = 5 * Minute"

record probe_runner =
  probeImage :: string
  tokenURLOverride :: string
  forceHash :: string

definition NewProbeRunner :: "('w, 'v) menv_scheme \<Rightarrow> probe_runner" where
  "NewProbeRunner E = \<lparr>probeImage = osGetenv E ''PROBE_IMAGE'',
     tokenURLOverride = osGetenv E ''PROBE_TOKENURL_OVERRIDE'', forceHash = osGetenv E ''PROBE_FORCE_HASH''\<rparr>"

definition probe_job_key :: objkey where
  "probe_job_key = \<lparr>KeyName = probeJobName, KeyNamespace = KymaSystemNamespaceName\<rparr>"

definition probe_cr_key :: objkey where
  "probe_cr_key = \<lparr>KeyName = BtpOperatorCrName, KeyNamespace = KymaSystemNamespaceName\<rparr>"

section \<open>The Job\<close>

text \<open>
  The two loops that poll the Job until it is gone or finished: \<open>step\<close> is their body, which returns from
  the function with \<open>Some\<close> result or goes on. The last argument bounds the number of passes.
\<close>

primrec poll_job ::
    "('w, 'v) penv_scheme \<Rightarrow> int \<Rightarrow> (('w, 'z) kstate_scheme, error option option) state \<Rightarrow> nat
      \<Rightarrow> (('w, 'z) kstate_scheme, error option) state" where
  "poll_job E deadline step 0 = ret (Some Diverged)"
| "poll_job E deadline step (Suc n) = do {
     err \<leftarrow> ctx_done E deadline;
     case err of
       Some e \<Rightarrow> ret (Some e)
     | None \<Rightarrow> do {
         r \<leftarrow> step;
         case r of
           Some result \<Rightarrow> ret result
         | None \<Rightarrow> do {
             now \<leftarrow> Now;
             pause E (min (2 * Second) (deadline - now));
             err \<leftarrow> ctx_done E deadline;
             case err of
               Some e \<Rightarrow> ret (Some e)
             | None \<Rightarrow> poll_job E deadline step n } } }"

definition poll_job_fuel :: nat where
  "poll_job_fuel = nat (jobWaitTimeout div (2 * Second)) + 2"

definition old_job_gone :: "('w, 'v) penv_scheme \<Rightarrow> (('w, 'z) kstate_scheme, error option option) state" where
  "old_job_gone E = do {
     r \<leftarrow> GetJob E cli probe_job_key;
     ret (case r of Inl e \<Rightarrow> if IsNotFound e then Some None else Some (Some e) | Inr job \<Rightarrow> None) }"

definition deleteOldJob :: "('w, 'v) penv_scheme \<Rightarrow> (('w, 'z) kstate_scheme, error option) state" where
  "deleteOldJob E = do {
     r \<leftarrow> GetJob E cli probe_job_key;
     case r of
       Inl e \<Rightarrow> if IsNotFound e then ret None else ret (Some e)
     | Inr job \<Rightarrow> do {
         err \<leftarrow> Delete E cli ''Job'' (ObjectKeyFromObject job);
         case err of
           Some e \<Rightarrow> ret (Some e)
         | None \<Rightarrow> do {
             now \<leftarrow> Now;
             poll_job E (now + jobWaitTimeout) (old_job_gone E) poll_job_fuel } } }"

definition probe_env :: "probe_runner \<Rightarrow> (string \<times> string) list" where
  "probe_env r = [(''PROBE_NAMESPACE'', KymaSystemNamespaceName)]
     @ (if tokenURLOverride r \<noteq> [] then [(''PROBE_TOKENURL_OVERRIDE'', tokenURLOverride r)] else [])
     @ (if forceHash r \<noteq> [] then [(''PROBE_FORCE_HASH'', forceHash r)] else [])"

definition probe_job :: "probe_runner \<Rightarrow> job" where
  "probe_job r = \<lparr>Name = probeJobName, Namespace = KymaSystemNamespaceName, Labels = [], Annotations = [], Finalizers = [],
     DeletionTimestamp = None, ResourceVersion = [], BackoffLimit = Some 0,
     TemplateAnnotations = [(''sidecar.istio.io/inject'', ''false'')], RestartPolicy = ''Never'', ServiceAccountName = probeJobName,
     Containers = [\<lparr>ContainerName = ''probe'', Image = probeImage r, EnvVars = probe_env r\<rparr>], Succeeded = 0, Failed = 0\<rparr>"

definition createJob :: "('w, 'v) penv_scheme \<Rightarrow> probe_runner \<Rightarrow> (('w, 'z) kstate_scheme, error option) state" where
  "createJob E r = CreateJob E cli (probe_job r)"

definition job_finished :: "('w, 'v) penv_scheme \<Rightarrow> (('w, 'z) kstate_scheme, error option option) state" where
  "job_finished E = do {
     r \<leftarrow> GetJob E cli probe_job_key;
     ret (case r of
            Inl e \<Rightarrow> if IsNotFound e then Some None else Some (Some e)
          | Inr job \<Rightarrow> if Succeeded job > 0 then Some None else if Failed job > 0 then Some None else None) }"

definition waitForJob :: "('w, 'v) penv_scheme \<Rightarrow> (('w, 'z) kstate_scheme, error option) state" where
  "waitForJob E = do {
     now \<leftarrow> Now;
     poll_job E (now + jobWaitTimeout) (job_finished E) poll_job_fuel }"

section \<open>The result\<close>

fun delete_pods :: "('w, 'v) penv_scheme \<Rightarrow> pod list \<Rightarrow> (('w, 'z) kstate_scheme, error option) state" where
  "delete_pods E [] = ret None"
| "delete_pods E (pod # pods) = do {
     err \<leftarrow> Delete E cli ''Pod'' (ObjectKeyFromObject pod);
     case err of
       Some e \<Rightarrow> if IsNotFound e then delete_pods E pods else ret (Some e)
     | None \<Rightarrow> delete_pods E pods }"

definition restartBtpOperatorPods :: "('w, 'v) penv_scheme \<Rightarrow> (('w, 'z) kstate_scheme, error option) state" where
  "restartBtpOperatorPods E = do {
     r \<leftarrow> ListPods E cli KymaSystemNamespaceName [(''app.kubernetes.io/instance'', ''sap-btp-operator'')];
     case r of Inl e \<Rightarrow> ret (Some e) | Inr items \<Rightarrow> delete_pods E items }"

definition getUpdatedAt :: "('w, 'v) penv_scheme \<Rightarrow> (('w, 'z) kstate_scheme, error + string) state" where
  "getUpdatedAt E = do {
     r \<leftarrow> GetBtpOperator E cli probe_cr_key;
     case r of
       Inl e \<Rightarrow> ret (Inl (wrap ''getting BtpOperator CR: '' e))
     | Inr cr \<Rightarrow> ret (Inr (mget (Annotations cr) probeAnnotationUpdatedAt)) }"

definition record_last_hash :: "('w, 'v) penv_scheme \<Rightarrow> string \<Rightarrow> (('w, 'z) kstate_scheme, error option) state" where
  "record_last_hash E hash = do {
     r \<leftarrow> GetBtpOperator E cli probe_cr_key;
     case r of
       Inl e \<Rightarrow> ret (Some (wrap ''re-fetching BtpOperator CR for patch: '' e))
     | Inr freshCR \<Rightarrow> do {
         err \<leftarrow> PatchBtpOperator E cli freshCR
                  (freshCR\<lparr>Annotations := mset_key probeAnnotationLastHash hash (Annotations freshCR)\<rparr>);
         case err of
           Some e \<Rightarrow> ret (Some (wrap ''patching tls-probe-last-hash: '' e))
         | None \<Rightarrow> ret None } }"

definition process_probe_result ::
    "('w, 'v) penv_scheme \<Rightarrow> string \<Rightarrow> btpoperator \<Rightarrow> (('w, 'z) pstate_scheme, error option) state" where
  "process_probe_result E prevUpdatedAt cr = do {
     let status = mget (Annotations cr) probeAnnotationStatus;
     let hash = mget (Annotations cr) probeAnnotationHash;
     let lastHash = mget (Annotations cr) probeAnnotationLastHash;
     let updatedAt = mget (Annotations cr) probeAnnotationUpdatedAt;
     if updatedAt = prevUpdatedAt then ret None
     else do {
       modify (\<lambda>s. s\<lparr>statusGauge := if status = probeStatusAlert then 1 else 0\<rparr>);
       if hash = [] then ret None
       else do {
         err \<leftarrow> (if status = probeStatusOK \<and> hash \<noteq> lastHash \<and> lastHash \<noteq> []
                then restartBtpOperatorPods E else ret None);
         case err of
           Some e \<Rightarrow> ret (Some (wrap ''restarting btp-operator pods: '' e))
         | None \<Rightarrow> record_last_hash E hash } } }"

definition runCycle ::
    "('w, 'v) penv_scheme \<Rightarrow> probe_runner \<Rightarrow> (('w, 'z) pstate_scheme, error option) state" where
  "runCycle E r = do {
     err \<leftarrow> deleteOldJob E;
     case err of
       Some e \<Rightarrow> ret (Some (wrap ''deleting old probe job: '' e))
     | None \<Rightarrow> do {
         u \<leftarrow> getUpdatedAt E;
         case u of
           Inl e \<Rightarrow> ret (Some (wrap ''reading tls-probe-updated-at: '' e))
         | Inr prevUpdatedAt \<Rightarrow> do {
             err \<leftarrow> createJob E r;
             case err of
               Some e \<Rightarrow> ret (Some (wrap ''creating probe job: '' e))
             | None \<Rightarrow> do {
                 err \<leftarrow> waitForJob E;
                 case err of
                   Some e \<Rightarrow> ret (Some (wrap ''waiting for probe job: '' e))
                 | None \<Rightarrow> do {
                     g \<leftarrow> GetBtpOperator E cli probe_cr_key;
                     case g of
                       Inl e \<Rightarrow> ret (Some (wrap ''getting BtpOperator CR: '' e))
                     | Inr cr \<Rightarrow> process_probe_result E prevUpdatedAt cr } } } } }"

section \<open>The loop\<close>

text \<open>
  \<^verbatim>\<open>Start\<close> runs until the context ends, so its last argument is the number of ticks to follow;
  \<open>StillRunning\<close> is the state after them. A ticker drops the ticks nobody has waited for: the tick after
  one that was received at a time \<open>now\<close> is the next multiple of the interval. A tick and the end of the
  context may be ready together, then the choice is open (\<open>selectTimer\<close>).
\<close>

datatype start_outcome = Returned | StillRunning | Panics string

primrec probe_ticks ::
    "('w, 'v) penv_scheme \<Rightarrow> probe_runner \<Rightarrow> int \<Rightarrow> int \<Rightarrow> int \<Rightarrow> nat
      \<Rightarrow> (('w, 'z) pstate_scheme, start_outcome) state" where
  "probe_ticks E r interval start due 0 = ret StillRunning"
| "probe_ticks E r interval start due (Suc n) = do {
     now \<leftarrow> Now;
     pause E (max 0 (due - now));
     w \<leftarrow> gets api;
     now \<leftarrow> Now;
     if ctxErr E w \<noteq> None \<and> (now < due \<or> \<not> selectTimer E w) then ret Returned
     else do {
       runCycle E r;
       probe_ticks E r interval start (start + ((now - start) div interval + 1) * interval) n } }"

definition Start ::
    "('w, 'v) penv_scheme \<Rightarrow> probe_runner \<Rightarrow> nat \<Rightarrow> (('w, 'z) pstate_scheme, start_outcome) state" where
  "Start E r n = do {
     let interval = ProbeInterval (conf E);
     if interval = 0 \<or> probeImage r = [] then ret Returned
     else do {
       err \<leftarrow> runCycle E r;
       w \<leftarrow> gets api;
       if err \<noteq> None \<and> ctxErr E w \<noteq> None then ret Returned
       else if interval \<le> 0 then ret (Panics ''non-positive interval for NewTicker'')
       else do {
         start \<leftarrow> Now;
         probe_ticks E r interval start (start + interval) n } } }"

section \<open>Runs and effects\<close>

lemma run_pause [run_simps]:
  "run_state (pause E d) s = ((), s\<lparr>api := snd (passTime E d (api s)),
     clock := clock s + (if ctxErr E (snd (passTime E d (api s))) = None
                         then max d (int (fst (passTime E d (api s)))) else int (fst (passTime E d (api s)))),
     trace := trace s @ [EvSleep d]\<rparr>)"
  by (simp add: pause_def split: prod.split)

lemma run_ctx_done [run_simps]:
  "run_state (ctx_done E deadline) s =
     (case ctxErr E (api s) of
        Some e \<Rightarrow> if clock s < deadline \<or> cancelledFirst E (api s) then Some e else Some deadline_exceeded
      | None \<Rightarrow> if clock s < deadline then None else Some deadline_exceeded, s)"
  by (simp add: ctx_done_def run_simps)

lemma emits_pause [emits_intros]: "EvSleep d \<in> A \<Longrightarrow> emits A (pause E d)"
  by (simp add: pause_def emits_def split: prod.split)

lemma emits_ctx_done [emits_intros]: "emits A (ctx_done E deadline)"
  by (simp add: ctx_done_def emits_intros)

lemma emits_modify_gauge [emits_intros]: "emits A (modify (\<lambda>s. s\<lparr>statusGauge := g\<rparr>))"
  by (simp add: emits_def)

lemma emits_poll_job [emits_intros]:
  "range EvSleep \<subseteq> A \<Longrightarrow> emits A step \<Longrightarrow> emits A (poll_job E deadline step n)"
  by (induction n) (auto intro!: emits_intros)

lemma emits_delete_pods: "range (EvDelete ''Pod'') \<subseteq> A \<Longrightarrow> emits A (delete_pods E pods)"
  by (induction pods) (auto intro!: emits_intros)

lemma delete_pods_all:
  "run_state (delete_pods E pods) s = (None, s') \<Longrightarrow>
   trace s' = trace s @ map (\<lambda>p. EvDelete ''Pod'' (ObjectKeyFromObject p)) pods"
  by (induction pods arbitrary: s) (auto simp: run_simps split: option.splits if_splits)

lemma restart_all:
  assumes "run_state (restartBtpOperatorPods E) s = (None, s')"
  shows "\<exists>items w. clListPods (cli E) KymaSystemNamespaceName [(''app.kubernetes.io/instance'', ''sap-btp-operator'')] (api s)
             = (Inr items, w) \<and>
           trace s' = trace s @ EvList ''Pod'' KymaSystemNamespaceName # map (\<lambda>p. EvDelete ''Pod'' (ObjectKeyFromObject p)) items"
proof -
  obtain r w where r: "clListPods (cli E) KymaSystemNamespaceName [(''app.kubernetes.io/instance'', ''sap-btp-operator'')] (api s) = (r, w)"
    by fastforce
  with assms show ?thesis
    by (cases r) (auto simp: restartBtpOperatorPods_def run_simps dest!: delete_pods_all)
qed

lemma emits_restart: "emits (reads \<union> range (EvDelete ''Pod'')) (restartBtpOperatorPods E)"
  by (auto simp: restartBtpOperatorPods_def intro!: emits_intros emits_delete_pods)

text \<open>The only write to the CR: a patch that sets the annotation of the last hash.\<close>

definition records_hash :: "string \<Rightarrow> event set" where
  "records_hash hash = {EvPatchCr b (b\<lparr>Annotations := mset_key probeAnnotationLastHash hash (Annotations b)\<rparr>) |b. True}"

lemma emits_record_last_hash: "emits (reads \<union> records_hash hash) (record_last_hash E hash)"
  by (auto simp: record_last_hash_def records_hash_def intro!: emits_intros)

lemma keeps_gauge [keeps_intros]:
  "keeps statusGauge (delete_pods E pods)" "keeps statusGauge (restartBtpOperatorPods E)"
  "keeps statusGauge (record_last_hash E hash)"
proof -
  show pods: "keeps statusGauge (delete_pods E pods)" for pods
    by (induction pods) (auto simp: request_defs intro!: keeps_intros)
  show "keeps statusGauge (restartBtpOperatorPods E)"
    by (auto simp: restartBtpOperatorPods_def request_defs intro!: keeps_intros pods)
  show "keeps statusGauge (record_last_hash E hash)"
    by (auto simp: record_last_hash_def request_defs intro!: keeps_intros)
qed

section \<open>Termination\<close>

text \<open>A pass that does not end the loop takes two seconds, or the rest of the time until the deadline.\<close>

lemma poll_job_more_fuel:
  fixes s :: "('w, 'z) kstate_scheme"
  assumes "advances step" and "deadline \<le> clock s + int n * (2 * Second)"
  shows "run_state (poll_job E deadline step (Suc n + k)) s = run_state (poll_job E deadline step (Suc n)) s"
  using assms(2)
proof (induction n arbitrary: s)
  case 0
  then show ?case by (simp add: run_simps split: option.split)
next
  case (Suc n)
  obtain r s1 where 1: "run_state step s = (r, s1)" by fastforce
  let ?d = "min (2 * Second) (deadline - clock s1)"
  obtain s2 where 2: "run_state (pause E ?d) s1 = ((), s2)" by (cases "run_state (pause E ?d) s1") simp
  show ?case
  proof (cases "fst (run_state (ctx_done E deadline) s2) = None")
    case True
    then have "clock s1 + 2 * Second \<le> clock s2"
      using 2 by (auto simp: run_simps min_def split: option.splits if_splits)
    with Suc.prems advancesD[OF assms(1) 1] have "deadline \<le> clock s2 + int n * (2 * Second)"
      by (simp add: algebra_simps)
    from Suc.IH[OF this] show ?thesis
      unfolding add_Suc poll_job.simps(2)[of _ _ _ "Suc (n + k)"] poll_job.simps(2)[of _ _ _ "Suc n"]
      by (auto simp: run_ctx_done run_Now 1 2[simplified] simp del: poll_job.simps split: option.split)
  next
    case False
    then show ?thesis by (auto simp: run_ctx_done run_Now 1 2[simplified] split: option.splits if_splits)
  qed
qed

lemma advances_job_steps [advances_intros]: "advances (old_job_gone E)" "advances (job_finished E)"
  by (simp_all add: old_job_gone_def job_finished_def GetJob_def advances_intros)

section \<open>Properties\<close>

text \<open>The CA bundle was rotated: the hash differs from one recorded before, and TLS is healthy.\<close>

definition rotated :: "btpoperator \<Rightarrow> bool" where
  "rotated cr \<longleftrightarrow> mget (Annotations cr) probeAnnotationStatus = probeStatusOK \<and>
     mget (Annotations cr) probeAnnotationHash \<noteq> mget (Annotations cr) probeAnnotationLastHash \<and>
     mget (Annotations cr) probeAnnotationLastHash \<noteq> []"


text \<open>
  A probe cycle changes nothing but its own Job, the pods, which it deletes, and the annotation of the
  last hash on the CR, which it patches.
\<close>

lemma probe_cycle_writes:
  fixes s :: "('w, 'z) pstate_scheme"
  shows "\<exists>t. trace (snd (run_state (runCycle E r) s)) = trace s @ t \<and>
     set t \<subseteq> reads \<union> range EvSleep \<union> {EvCreateJob (probe_job r)} \<union> range (EvDelete ''Job'') \<union>
       range (EvDelete ''Pod'') \<union> \<Union> (range records_hash)"
proof -
  let ?A = "reads \<union> range EvSleep \<union> {EvCreateJob (probe_job r)} \<union> range (EvDelete ''Job'') \<union>
       range (EvDelete ''Pod'') \<union> \<Union> (range records_hash)"
  have "emits ?A (restartBtpOperatorPods E :: (('w, 'z) pstate_scheme, error option) state)"
    by (rule emits_mono[OF emits_restart]) auto
  moreover have "emits ?A (record_last_hash E hash :: (('w, 'z) pstate_scheme, error option) state)" for hash
    by (rule emits_mono[OF emits_record_last_hash]) auto
  ultimately have "emits ?A (runCycle E r :: (('w, 'z) pstate_scheme, error option) state)"
    by (auto simp: runCycle_def deleteOldJob_def getUpdatedAt_def createJob_def waitForJob_def old_job_gone_def
        job_finished_def process_probe_result_def Let_def intro!: emits_intros)
  then show ?thesis by (simp add: emits_def)
qed

text \<open>
  The probe waits for its Job only as long as its timeout: the number of polls the model allows is
  never the limit; any larger number gives the same run.
\<close>

lemma probe_wait_terminates:
  fixes s :: "('w, 'z) kstate_scheme"
  assumes "poll_job_fuel \<le> n"
  shows "run_state (waitForJob E) s = run_state (poll_job E (clock s + jobWaitTimeout) (job_finished E) n) s \<and>
     run_state (poll_job E (clock s + jobWaitTimeout) (old_job_gone E) n) s =
     run_state (poll_job E (clock s + jobWaitTimeout) (old_job_gone E) poll_job_fuel) s"
proof -
  have fuel: "Suc (poll_job_fuel - 1) = poll_job_fuel" by (simp add: poll_job_fuel_def)
  have "clock s + jobWaitTimeout \<le> clock s + int (poll_job_fuel - 1) * (2 * Second)"
    using poll_bound[of "2 * Second" jobWaitTimeout] by (simp add: poll_job_fuel_def)
  from poll_job_more_fuel[OF advances_job_steps(1) this, of E E "n - poll_job_fuel"]
    poll_job_more_fuel[OF advances_job_steps(2) this, of E E "n - poll_job_fuel"]
  show ?thesis
    unfolding fuel using assms by (simp add: waitForJob_def run_simps del: poll_job.simps)
qed

text \<open>
  A probe interval below zero, which the configuration accepts, ends the program: unless the context
  ends before, the first cycle is followed by a panic.
\<close>

lemma probe_negative_interval_panics:
  fixes s :: "('w, 'z) pstate_scheme"
  assumes "ProbeInterval (conf E) < 0" and "probeImage r \<noteq> []" and "run_state (Start E r n) s = (outcome, s')"
  shows "outcome = Panics ''non-positive interval for NewTicker'' \<or> outcome = Returned \<and> ctxErr E (api s') \<noteq> None"
  using assms by (auto simp: Start_def Let_def split: prod.splits if_splits)

section \<open>Witnesses\<close>

definition mem_penv :: "cluster penv" where
  "mem_penv = menv.extend (mem_menv [] [] (\<lambda>m. Inl not_found))
     (penv.fields (\<lambda>w. None) (\<lambda>w. False) (\<lambda>d w. (nat d, w)))"

lemma mem_penv_fields [simp]: "cli mem_penv = mem_client" "latency mem_penv w = 0" "conf mem_penv = default_config"
  "ctxErr mem_penv w = None" "passTime mem_penv d w = (nat d, w)"
  by (simp_all add: mem_penv_def mem_menv_def env.defs menv.defs penv.defs)

definition probed_cr :: btpoperator where
  "probed_cr = primary_cr example_status\<lparr>Annotations := [(probeAnnotationStatus, ''ok''), (probeAnnotationHash, ''new''),
     (probeAnnotationLastHash, ''old''), (probeAnnotationUpdatedAt, ''today'')]\<rparr>"

definition operand_pod :: pod where
  "operand_pod = \<lparr>Name = ''operand'', Namespace = ''kyma-system'', Labels = [(''app.kubernetes.io/instance'', ''sap-btp-operator'')],
     Annotations = [], Finalizers = [], DeletionTimestamp = None, ResourceVersion = [], PodConditions = []\<rparr>"

definition probe_pstate :: "cluster pstate" where
  "probe_pstate = kstate.extend (cr_kstate example_status\<lparr>api := empty_cluster\<lparr>mCrs := [probed_cr], mPods := [operand_pod]\<rparr>\<rparr>)
     (pstate.fields 1)"

lemma probed_cr_annotations [simp]:
  "mget (Annotations probed_cr) probeAnnotationStatus = probeStatusOK" "mget (Annotations probed_cr) probeAnnotationHash = ''new''"
  "mget (Annotations probed_cr) probeAnnotationLastHash = ''old''" "mget (Annotations probed_cr) probeAnnotationUpdatedAt = ''today''"
  by (simp_all add: probed_cr_def mget_def probeAnnotationStatus_def probeAnnotationHash_def probeAnnotationLastHash_def
      probeAnnotationUpdatedAt_def probeStatusOK_def)


end
