(* ===== verification/Duration.thy ===== *)
theory Duration
  imports Config
begin

text \<open>
  \<^verbatim>\<open>time.ParseDuration\<close> of the standard library, which turns the durations of the ConfigMap and of the
  command line into 64-bit integers of nanoseconds: an optional sign, then numbers with a unit, with checks
  against overflow in unsigned 64-bit arithmetic. The fraction of a number goes through floating point.
\<close>

section \<open>Doubles\<close>

text \<open>
  A positive double is a fraction of natural numbers; \<open>float64_of\<close> rounds a fraction to 53 significant
  bits, to the nearest and to even in a tie. The fractions here stay in the normal range.
\<close>

fun bit_length :: "nat \<Rightarrow> int" where
  "bit_length n = (if n = 0 then 0 else 1 + bit_length (n div 2))"

declare bit_length.simps [simp del]

definition scaled :: "nat \<times> nat \<Rightarrow> int \<Rightarrow> nat \<times> nat" where
  "scaled x k = (if 0 \<le> k then (fst x * 2 ^ nat k, snd x) else (fst x, snd x * 2 ^ nat (- k)))"

definition round_even :: "nat \<times> nat \<Rightarrow> nat" where
  "round_even x =
     (let q = fst x div snd x; r = fst x mod snd x
      in if 2 * r < snd x \<or> 2 * r = snd x \<and> even q then q else q + 1)"

definition float64_of :: "nat \<times> nat \<Rightarrow> nat \<times> nat" where
  "float64_of x =
     (let k = 53 - bit_length (fst x) + bit_length (snd x);
          k' = (if 2 ^ 53 * snd (scaled x k) \<le> fst (scaled x k) then k - 1 else k)
      in scaled (round_even (scaled x k'), 1) (- k'))"

text \<open>\<^verbatim>\<open>uint64(float64(f) * (float64(unit) / scale))\<close>\<close>

definition fraction_of_unit :: "nat \<Rightarrow> nat \<Rightarrow> nat \<Rightarrow> nat" where
  "fraction_of_unit f unit scale =
     (let a = float64_of (f, 1); b = float64_of (unit, scale); p = float64_of (fst a * fst b, snd a * snd b)
      in fst p div snd p)"

section \<open>Parsing\<close>

fun leadingInt :: "nat \<Rightarrow> string \<Rightarrow> (nat \<times> string) option" where
  "leadingInt x [] = Some (x, [])"
| "leadingInt x (c # cs) =
     (case digit_value c of
        None \<Rightarrow> Some (x, c # cs)
      | Some d \<Rightarrow>
          if x > 2 ^ 63 div 10 then None
          else if x * 10 + d > 2 ^ 63 then None
          else leadingInt (x * 10 + d) cs)"

fun leadingFraction :: "nat \<Rightarrow> nat \<Rightarrow> bool \<Rightarrow> string \<Rightarrow> nat \<times> nat \<times> string" where
  "leadingFraction x scale overflow [] = (x, scale, [])"
| "leadingFraction x scale overflow (c # cs) =
     (case digit_value c of
        None \<Rightarrow> (x, scale, c # cs)
      | Some d \<Rightarrow>
          if overflow then leadingFraction x scale overflow cs
          else if x > (2 ^ 63 - 1) div 10 then leadingFraction x scale True cs
          else if x * 10 + d > 2 ^ 63 then leadingFraction x scale True cs
          else leadingFraction (x * 10 + d) (scale * 10) False cs)"

definition unitMap :: "(string, nat) gomap" where
  "unitMap = [(''ns'', 1), (''us'', 1000), ([CHR 0xC2, CHR 0xB5, CHR ''s''], 1000), ([CHR 0xCE, CHR 0xBC, CHR ''s''], 1000),
     (''ms'', 1000000), (''s'', 1000000000), (''m'', 60000000000), (''h'', 3600000000000)]"

definition invalid_duration :: "string \<Rightarrow> error" where
  "invalid_duration orig = Errorf (''time: invalid duration '' @ quote orig)"

definition unit_char :: "char \<Rightarrow> bool" where
  "unit_char c = (c \<noteq> CHR ''.'' \<and> digit_value c = None)"

text \<open>One number with its unit: its nanoseconds, and the rest of the text.\<close>

definition parse_unit :: "string \<Rightarrow> string \<Rightarrow> error + nat \<times> string" where
  "parse_unit orig s =
     (if unit_char (hd s) then Inl (invalid_duration orig)
      else case leadingInt 0 s of
        None \<Rightarrow> Inl (invalid_duration orig)
      | Some (v, s1) \<Rightarrow>
          let pre = (length s1 \<noteq> length s);
              dot = (s1 \<noteq> [] \<and> hd s1 = CHR ''.'');
              (f, scale, s2) = (if dot then leadingFraction 0 1 False (tl s1) else (0, 1, s1));
              post = (dot \<and> length s2 \<noteq> length (tl s1));
              u = takeWhile unit_char s2
          in if \<not> pre \<and> \<not> post then Inl (invalid_duration orig)
             else if u = [] then Inl (Errorf (''time: missing unit in duration '' @ quote orig))
             else case map_of unitMap u of
               None \<Rightarrow> Inl (Errorf (''time: unknown unit '' @ quote u @ '' in duration '' @ quote orig))
             | Some unit \<Rightarrow>
                 if v > 2 ^ 63 div unit then Inl (invalid_duration orig)
                 else let v' = v * unit + (if f > 0 then fraction_of_unit f unit scale else 0)
                      in if f > 0 \<and> v' mod 2 ^ 64 > 2 ^ 63 then Inl (invalid_duration orig)
                         else Inr (v' mod 2 ^ 64, dropWhile unit_char s2))"

lemma leadingInt_length: "leadingInt x s = Some (v, s1) \<Longrightarrow> length s1 \<le> length s"
  by (induction x s rule: leadingInt.induct) (auto split: option.splits if_splits)

lemma leadingFraction_length: "leadingFraction x scale ov s = (f, scale', s1) \<Longrightarrow> length s1 \<le> length s"
  by (induction x scale ov s rule: leadingFraction.induct) (auto split: option.splits if_splits)

lemma parse_unit_shorter:
  assumes "parse_unit orig s = Inr (v, s')"
  shows "length s' < length s"
proof -
  obtain v0 s1 where 1: "leadingInt 0 s = Some (v0, s1)"
    using assms by (auto simp: parse_unit_def split: option.splits if_splits)
  define dot where "dot = (s1 \<noteq> [] \<and> hd s1 = CHR ''.'')"
  obtain f scale s2 where 2: "(if dot then leadingFraction 0 1 False (tl s1) else (0, 1, s1)) = (f, scale, s2)"
    by (metis prod_cases3)
  have "takeWhile unit_char s2 \<noteq> []" "s' = dropWhile unit_char s2"
    using assms 1 2[unfolded dot_def]
    by (auto simp: parse_unit_def Let_def split: option.splits if_splits prod.splits)
  moreover have "length s2 \<le> length s1"
    using 2 leadingFraction_length[of 0 1 False "tl s1" f scale s2] by (auto split: if_splits)
  moreover have "length s2 = length (takeWhile unit_char s2) + length (dropWhile unit_char s2)"
    by (metis length_append takeWhile_dropWhile_id)
  ultimately show ?thesis using leadingInt_length[OF 1] by (cases "takeWhile unit_char s2") auto
qed

function parse_units :: "string \<Rightarrow> nat \<Rightarrow> string \<Rightarrow> error + nat" where
  "parse_units orig d s =
     (if s = [] then Inr d
      else case parse_unit orig s of
        Inl e \<Rightarrow> Inl e
      | Inr (v, s') \<Rightarrow>
          if (d + v) mod 2 ^ 64 > 2 ^ 63 then Inl (invalid_duration orig)
          else parse_units orig ((d + v) mod 2 ^ 64) s')"
  by pat_completeness auto
termination
  by (relation "measure (\<lambda>(orig, d, s). length s)") (auto dest: parse_unit_shorter)

declare parse_units.simps [simp del]

definition ParseDuration :: "string \<Rightarrow> error + int" where
  "ParseDuration orig =
     (let neg = (orig \<noteq> [] \<and> hd orig = CHR ''-'');
          s = (if orig \<noteq> [] \<and> (hd orig = CHR ''-'' \<or> hd orig = CHR ''+'') then tl orig else orig)
      in if s = ''0'' then Inr 0
         else if s = [] then Inl (invalid_duration orig)
         else case parse_units orig 0 s of
           Inl e \<Rightarrow> Inl e
         | Inr d \<Rightarrow> if neg then Inr (- int d)
                    else if d > 2 ^ 63 - 1 then Inl (invalid_duration orig) else Inr (int d))"

section \<open>Range\<close>

lemma parse_units_bound: "parse_units orig d s = Inr r \<Longrightarrow> d \<le> 2 ^ 63 \<Longrightarrow> r \<le> 2 ^ 63"
proof (induction orig d s rule: parse_units.induct)
  case (1 orig d s)
  show ?case
  proof (cases "s = []")
    case True
    with "1.prems" show ?thesis by (simp add: parse_units.simps[of orig d "[]"])
  next
    case False
    with "1.prems"(1) obtain v s' where 2: "parse_unit orig s = Inr (v, s')" "\<not> 2 ^ 63 < (d + v) mod 2 ^ 64"
        "parse_units orig ((d + v) mod 2 ^ 64) s' = Inr r"
      by (auto simp: parse_units.simps[of orig d s] split: sum.splits if_splits)
    from "1.IH"[OF False 2(1) refl 2(2,3)] 2(2) show ?thesis by (simp only: not_less)
  qed
qed

lemma ParseDuration_cases:
  assumes "ParseDuration s = Inr d"
  obtains "d = 0" | s' r where "parse_units s 0 s' = Inr r" "d = - int r"
    | s' r where "parse_units s 0 s' = Inr r" "d = int r" "r \<le> 2 ^ 63 - 1"
  using assms by (fastforce simp: ParseDuration_def Let_def split: if_splits sum.splits)

lemma ParseDuration_range: "ParseDuration s = Inr d \<Longrightarrow> - (2 ^ 63) \<le> d \<and> d < 2 ^ 63"
  by (elim ParseDuration_cases) (auto dest: parse_units_bound)

lemma Atoi_range: "Atoi s = Some i \<Longrightarrow> - (2 ^ 63) \<le> i \<and> i < 2 ^ 63"
  by (auto simp: Atoi_def Let_def split: if_splits option.splits)

text \<open>Every number of the configuration is a 64-bit integer.\<close>

fun in_int64 :: "cfgval \<Rightarrow> bool" where
  "in_int64 (VStr s) = True"
| "in_int64 (VDur d) = (- (2 ^ 63) \<le> d \<and> d < 2 ^ 63)"
| "in_int64 (VInt i) = (- (2 ^ 63) \<le> i \<and> i < 2 ^ 63)"

definition int64_config :: "config \<Rightarrow> bool" where
  "int64_config c = list_all (\<lambda>(k, v). in_int64 v) (configSnapshot c)"

lemma int64_config_map_of: "int64_config c \<longleftrightarrow> (\<forall>k v. map_of (configSnapshot c) k = Some v \<longrightarrow> in_int64 v)"
proof -
  have "distinct (map fst (configSnapshot c))"
    by (simp add: configSnapshot_keys config_keys_distinct)
  then have "map_of (configSnapshot c) k = Some v \<longleftrightarrow> (k, v) \<in> set (configSnapshot c)" for k v
    by (rule map_of_eq_Some_iff)
  then show ?thesis by (auto simp: int64_config_def list_all_iff)
qed

lemma config_value_in_int64: "in_int64 v \<Longrightarrow> in_int64 (config_value ParseDuration x v)"
  by (cases v) (auto simp: parseDuration_def split: sum.split option.split dest: ParseDuration_range Atoi_range)

lemma int64_config_assign: "int64_config c \<Longrightarrow> int64_config (config_assign ParseDuration kv c)"
  by (cases kv) (auto simp: int64_config_map_of config_assign_snapshot split: if_splits intro: config_value_in_int64)

lemma int64_config_apply: "int64_config c \<Longrightarrow> int64_config (config_apply ParseDuration data c)"
  unfolding config_apply_def by (induction data arbitrary: c) (simp_all add: int64_config_assign)

section \<open>Properties\<close>

text \<open>The ConfigMaps that the handler is given, one after the other.\<close>

primrec reconcile_all :: "watched_object list \<Rightarrow> (('w, 'z) cfgstate_scheme, unit) state" where
  "reconcile_all [] = skip"
| "reconcile_all (ob # obs) = do { config_Reconcile ParseDuration ob; reconcile_all obs }"


end
