(* ===== verification/Go_Strings.thy ===== *)
theory Go_Strings
  imports Go_Prelude
begin

text \<open>
  More of Go's string functions, on ASCII text: splitting around a separator and around white space,
  trimming, removing characters. Strings are lists of bytes.
\<close>

section \<open>Splitting\<close>

text \<open>\<^verbatim>\<open>strings.Cut\<close>: the text before and after the first occurrence of the separator.\<close>

fun Cut :: "string \<Rightarrow> string \<Rightarrow> (string \<times> string) option" where
  "Cut [] sep = None"
| "Cut (c # cs) sep =
     (if HasPrefix (c # cs) sep then Some ([], drop (length sep) (c # cs))
      else map_option (\<lambda>(a, b). (c # a, b)) (Cut cs sep))"

lemma Cut_length: "Cut s sep = Some (a, b) \<Longrightarrow> length s = length a + length sep + length b"
proof (induction s arbitrary: a)
  case (Cons c cs)
  have "length sep \<le> length (c # cs)" if "HasPrefix (c # cs) sep"
    using that by (metis HasPrefix_def length_take min.cobounded1)
  with Cons show ?case by (auto split: if_splits)
qed simp

text \<open>\<^verbatim>\<open>strings.Split\<close> for a separator that is not empty.\<close>

function Split :: "string \<Rightarrow> string \<Rightarrow> string list" where
  "Split s sep =
     (if sep = [] then [s]
      else case Cut s sep of None \<Rightarrow> [s] | Some (a, b) \<Rightarrow> a # Split b sep)"
  by pat_completeness auto
termination
  by (relation "measure (\<lambda>(s, sep). length s)") (auto dest: Cut_length)

declare Split.simps [simp del]

lemma Cut_char: "c \<notin> set a \<Longrightarrow> Cut (a @ c # b) [c] = Some (a, b)"
  by (induction a) (auto simp: HasPrefix_def)

lemma Cut_char_none: "c \<notin> set a \<Longrightarrow> Cut a [c] = None"
  by (induction a) (auto simp: HasPrefix_def)

lemma Split_char: "c \<notin> set a \<Longrightarrow> Split (a @ c # b) [c] = a # Split b [c]"
  by (subst Split.simps) (simp add: Cut_char)

lemma Split_char_last: "c \<notin> set a \<Longrightarrow> Split a [c] = [a]"
  by (subst Split.simps) (simp add: Cut_char_none)

lemma Split_lines: "(\<And>l. l \<in> set ls \<Longrightarrow> c \<notin> set l) \<Longrightarrow> Split (concat (map (\<lambda>l. l @ [c]) ls)) [c] = ls @ [[]]"
  by (induction ls) (simp_all add: Split_char Split_char_last)

lemma Cut_set: "Cut s sep = Some (a, b) \<Longrightarrow> set a \<subseteq> set s \<and> set b \<subseteq> set s"
  by (induction s arbitrary: a) (auto split: if_splits dest: in_set_dropD)

lemma Cut_char_notin: "Cut s [c] = Some (a, b) \<Longrightarrow> c \<notin> set a"
  by (induction s arbitrary: a) (auto simp: HasPrefix_def split: if_splits)

lemma Cut_char_None_notin: "Cut s [c] = None \<Longrightarrow> c \<notin> set s"
  by (induction s) (auto simp: HasPrefix_def split: if_splits)

lemma Split_set: "x \<in> set (Split s sep) \<Longrightarrow> set x \<subseteq> set s"
proof (induction s sep rule: Split.induct)
  case (1 s sep)
  then show ?case
    using Split.simps[of s sep] Cut_set[of s sep] by (fastforce split: if_splits option.splits prod.splits)
qed

lemma Split_char_notin: "x \<in> set (Split s [c]) \<Longrightarrow> c \<notin> set x"
proof (induction s "[c]" rule: Split.induct)
  case (1 s)
  then show ?case
    using Split.simps[of s "[c]"] Cut_char_notin[of s c] Cut_char_None_notin[of s c]
    by (auto split: option.splits prod.splits)
qed

section \<open>White space\<close>

definition white :: "char \<Rightarrow> bool" where
  "white c = (c \<in> set [CHR 0x09, CHR 0x0A, CHR 0x0B, CHR 0x0C, CHR 0x0D, CHR '' ''])"

definition TrimSpace :: "string \<Rightarrow> string" where
  "TrimSpace s = rev (dropWhile white (rev (dropWhile white s)))"

function Fields :: "string \<Rightarrow> string list" where
  "Fields s =
     (let t = dropWhile white s in
      if t = [] then [] else takeWhile (\<lambda>c. \<not> white c) t # Fields (dropWhile (\<lambda>c. \<not> white c) t))"
  by pat_completeness auto
termination
proof (relation "measure length")
  fix s t assume t: "t = dropWhile white s" "t \<noteq> []"
  then have "\<not> white (hd t)" by (simp add: hd_dropWhile)
  then have "length (dropWhile (\<lambda>c. \<not> white c) t) < length t"
    using t(2) by (cases t) (auto simp: length_dropWhile_le less_Suc_eq_le)
  moreover have "length t \<le> length s" using t(1) by (simp add: length_dropWhile_le)
  ultimately show "(dropWhile (\<lambda>c. \<not> white c) t, s) \<in> measure length" by simp
qed simp

declare Fields.simps [simp del]

lemma dropWhile_white_append: "list_all white xs \<Longrightarrow> dropWhile white (xs @ ys) = dropWhile white ys"
  by (induction xs) simp_all

lemma TrimSpace_pad_left: "list_all white xs \<Longrightarrow> TrimSpace (xs @ s) = TrimSpace s"
  by (simp add: TrimSpace_def dropWhile_white_append)

lemma TrimSpace_pad_right: "list_all white ys \<Longrightarrow> TrimSpace (s @ ys) = TrimSpace s"
proof -
  assume ys: "list_all white ys"
  show ?thesis
  proof (cases "list_all white s")
    case True
    with ys have "dropWhile white (s @ ys) = []" "dropWhile white s = []"
      by (auto simp: list_all_iff)
    then show ?thesis by (simp only: TrimSpace_def)
  next
    case False
    then obtain x where "x \<in> set s" "\<not> white x" by (auto simp: list_all_iff)
    then have "dropWhile white (s @ ys) = dropWhile white s @ ys" by (rule dropWhile_append1)
    with ys show ?thesis by (simp add: TrimSpace_def dropWhile_white_append)
  qed
qed

lemma TrimSpace_set: "set (TrimSpace s) \<subseteq> set s"
  by (auto simp: TrimSpace_def dest!: set_dropWhileD)

lemma TrimSpace_idem: "TrimSpace (TrimSpace s) = TrimSpace s"
proof (cases "dropWhile white s")
  case Nil
  show ?thesis unfolding TrimSpace_def Nil by simp
next
  case (Cons x xs)
  let ?t = "rev (dropWhile white (rev (x # xs)))"
  have "\<not> white x" using Cons by (simp add: dropWhile_eq_Cons_conv)
  then have "dropWhile white (rev xs @ [x]) \<noteq> []" "last (dropWhile white (rev xs @ [x])) = x"
    by (auto simp: dropWhile_append)
  then have "hd ?t = x" "?t \<noteq> []" by (simp_all add: hd_rev)
  with \<open>\<not> white x\<close> have "dropWhile white ?t = ?t" by (cases ?t) auto
  with Cons show ?thesis by (simp add: TrimSpace_def)
qed

lemma Fields_set: "x \<in> set (Fields s) \<Longrightarrow> set x \<subseteq> set s"
proof (induction s rule: Fields.induct)
  case (1 s)
  then show ?case
    using Fields.simps[of s]
    by (auto simp: Let_def split: if_splits dest!: set_takeWhileD set_dropWhileD subsetD)
qed

section \<open>Characters\<close>

text \<open>\<^verbatim>\<open>strings.Replace(s, c, "", -1)\<close> for a single character.\<close>

definition remove_char :: "char \<Rightarrow> string \<Rightarrow> string" where
  "remove_char c = filter (\<lambda>d. d \<noteq> c)"

text \<open>\<^verbatim>\<open>strconv.ParseBool\<close>\<close>

definition ParseBool :: "string \<Rightarrow> error + bool" where
  "ParseBool s =
     (if s \<in> set [''1'', ''t'', ''T'', ''true'', ''TRUE'', ''True''] then Inr True
      else if s \<in> set [''0'', ''f'', ''F'', ''false'', ''FALSE'', ''False''] then Inr False
      else Inl (Errorf ''parse error''))"

end
