(* ===== verification/Startup.thy ===== *)
theory Startup
  imports Wiring_Examples Probe_Runner Duration Go_Strings
begin

text \<open>
  The start of the program (\<^verbatim>\<open>main.go\<close>): flags, required environment variables, the manager with its
  controller and its runnables, the configuration from the ConfigMap; and how the controller is set up
  (\<^verbatim>\<open>SetupWithManager\<close>), that is, which event enqueues which request. What controller-runtime and the
  log library do is a parameter.
\<close>

section \<open>Flags\<close>

record options =
  metricsAddr :: string
  probeAddr :: string
  enableLeaderElection :: bool
  flagConfig :: config

definition default_options :: "config \<Rightarrow> options" where
  "default_options c = \<lparr>metricsAddr = '':8080'', probeAddr = '':8081'', enableLeaderElection = False, flagConfig = c\<rparr>"

text \<open>The flags that write a string or a duration; each is given by its name and the variable it writes.\<close>

definition string_flags :: "(string, string \<Rightarrow> options \<Rightarrow> options) gomap" where
  "string_flags = [
     (''metrics-bind-address'', \<lambda>v. metricsAddr_update (\<lambda>_. v)),
     (''health-probe-bind-address'', \<lambda>v. probeAddr_update (\<lambda>_. v)),
     (''chart-namespace'', \<lambda>v. flagConfig_update (ChartNamespace_update (\<lambda>_. v))),
     (''secret-name'', \<lambda>v. flagConfig_update (SecretName_update (\<lambda>_. v))),
     (''config-name'', \<lambda>v. flagConfig_update (ConfigName_update (\<lambda>_. v))),
     (''deployment-name'', \<lambda>v. flagConfig_update (DeploymentName_update (\<lambda>_. v))),
     (''chart-path'', \<lambda>v. flagConfig_update (ChartPath_update (\<lambda>_. v))),
     (''resources-path'', \<lambda>v. flagConfig_update (ResourcesPath_update (\<lambda>_. v))),
     (''enable-limited-cache'', \<lambda>v. flagConfig_update (EnableLimitedCache_update (\<lambda>_. v))),
     (''manager-resources-path'', \<lambda>v. flagConfig_update (ManagerResourcesPath_update (\<lambda>_. v)))]"

definition duration_flags :: "(string, int \<Rightarrow> options \<Rightarrow> options) gomap" where
  "duration_flags = [
     (''processing-state-requeue-interval'', \<lambda>d. flagConfig_update (ProcessingStateRequeueInterval_update (\<lambda>_. d))),
     (''ready-state-requeue-interval'', \<lambda>d. flagConfig_update (ReadyStateRequeueInterval_update (\<lambda>_. d))),
     (''ready-timeout'', \<lambda>d. flagConfig_update (ReadyTimeout_update (\<lambda>_. d))),
     (''ready-check-interval'', \<lambda>d. flagConfig_update (ReadyCheckInterval_update (\<lambda>_. d))),
     (''hard-delete-check-interval'', \<lambda>d. flagConfig_update (HardDeleteCheckInterval_update (\<lambda>_. d))),
     (''hard-delete-timeout'', \<lambda>d. flagConfig_update (HardDeleteTimeout_update (\<lambda>_. d))),
     (''delete-request-timeout'', \<lambda>d. flagConfig_update (DeleteRequestTimeout_update (\<lambda>_. d))),
     (''probe-interval'', \<lambda>d. flagConfig_update (ProbeInterval_update (\<lambda>_. d))),
     (''status-update-timeout'', \<lambda>d. flagConfig_update (StatusUpdateTimeout_update (\<lambda>_. d))),
     (''status-update-check-interval'', \<lambda>d. flagConfig_update (StatusUpdateCheckInterval_update (\<lambda>_. d)))]"

text \<open>
  The flag package: one argument is a flag of the form \<^verbatim>\<open>-name\<close>, \<^verbatim>\<open>--name\<close> or \<^verbatim>\<open>-name=value\<close>; a flag that
  is not boolean may take the next argument as its value; the first other argument, or \<^verbatim>\<open>--\<close>, ends the
  flags. An error ends the program with code 2, \<^verbatim>\<open>-h\<close> and \<^verbatim>\<open>-help\<close> with code 0. \<open>libFlag\<close> stands for the
  flags that the log library binds: whether it knows a name (and whether it is boolean), and its error
  for a value.
\<close>

datatype flag_arg = NoFlag | EndOfFlags | BadFlag | Flag string "string option"

definition split_flag :: "string \<Rightarrow> flag_arg" where
  "split_flag s =
     (if length s < 2 \<or> hd s \<noteq> CHR ''-'' then NoFlag
      else if s = ''--'' then EndOfFlags
      else let name = (if s ! 1 = CHR ''-'' then drop 2 s else drop 1 s) in
           if name = [] \<or> hd name = CHR ''-'' \<or> hd name = CHR ''='' then BadFlag
           else let n = takeWhile (\<lambda>c. c \<noteq> CHR ''='') name; rest = drop (length n) name
                in Flag n (if rest = [] then None else Some (tl rest)))"

definition set_flag :: "(string \<Rightarrow> (bool \<times> (string \<Rightarrow> error option)) option) \<Rightarrow> string \<Rightarrow> string \<Rightarrow> options \<Rightarrow> (error + options) option" where
  "set_flag libFlag name v opts =
     (case map_of string_flags name of
        Some f \<Rightarrow> Some (Inr (f v opts))
      | None \<Rightarrow>
          (case map_of duration_flags name of
             Some f \<Rightarrow> Some (case ParseDuration v of Inl e \<Rightarrow> Inl e | Inr d \<Rightarrow> Inr (f d opts))
           | None \<Rightarrow>
               if name = ''leader-elect''
               then Some (case ParseBool v of Inl e \<Rightarrow> Inl e | Inr b \<Rightarrow> Inr (opts\<lparr>enableLeaderElection := b\<rparr>))
               else map_option (\<lambda>(isBool, setv). case setv v of Some e \<Rightarrow> Inl e | None \<Rightarrow> Inr opts) (libFlag name)))"

definition is_bool_flag :: "(string \<Rightarrow> (bool \<times> (string \<Rightarrow> error option)) option) \<Rightarrow> string \<Rightarrow> bool" where
  "is_bool_flag libFlag name =
     (name = ''leader-elect'' \<or> name \<notin> fst ` set string_flags \<and> name \<notin> fst ` set duration_flags \<and>
        (case libFlag name of Some (b, setv) \<Rightarrow> b | None \<Rightarrow> False))"

definition known_flag :: "(string \<Rightarrow> (bool \<times> (string \<Rightarrow> error option)) option) \<Rightarrow> string \<Rightarrow> bool" where
  "known_flag libFlag name =
     (name = ''leader-elect'' \<or> name \<in> fst ` set string_flags \<or> name \<in> fst ` set duration_flags \<or> libFlag name \<noteq> None)"

definition finish_flag :: "(error + options) option \<Rightarrow> (options \<Rightarrow> nat + options) \<Rightarrow> nat + options" where
  "finish_flag r k = (case r of Some (Inr opts) \<Rightarrow> k opts | _ \<Rightarrow> Inl 2)"

function parse_flags ::
    "(string \<Rightarrow> (bool \<times> (string \<Rightarrow> error option)) option) \<Rightarrow> string list \<Rightarrow> options \<Rightarrow> nat + options" where
  "parse_flags libFlag [] opts = Inr opts"
| "parse_flags libFlag (s # args) opts =
     (case split_flag s of
        NoFlag \<Rightarrow> Inr opts
      | EndOfFlags \<Rightarrow> Inr opts
      | BadFlag \<Rightarrow> Inl 2
      | Flag name value \<Rightarrow>
          if \<not> known_flag libFlag name then if name = ''help'' \<or> name = ''h'' then Inl 0 else Inl 2
          else if is_bool_flag libFlag name
          then finish_flag (set_flag libFlag name (case value of None \<Rightarrow> ''true'' | Some v \<Rightarrow> v) opts)
                 (parse_flags libFlag args)
          else (case value of
                  Some v \<Rightarrow> finish_flag (set_flag libFlag name v opts) (parse_flags libFlag args)
                | None \<Rightarrow>
                    (case args of
                       [] \<Rightarrow> Inl 2
                     | v # args' \<Rightarrow> finish_flag (set_flag libFlag name v opts) (parse_flags libFlag args'))))"
  by pat_completeness auto
termination
  by (relation "measure (\<lambda>(libFlag, args, opts). length args)") auto

section \<open>Setting up the controller\<close>

text \<open>
  The watches that \<^verbatim>\<open>SetupWithManager\<close> registers, by what they do with an event: the watch of the CR
  enqueues the CR itself, the others enqueue what their function returns for the object of the event (for
  an update, for the old and for the new object), if their predicate lets the event pass.
\<close>

datatype controller_event =
    BtpOperatorEvent "client_object watch_event"
  | SecretEvent "client_object watch_event"
  | MutatingWebhookEvent "webhook_configuration watch_event"
  | ValidatingWebhookEvent "webhook_configuration watch_event"
  | DeploymentEvent "deployment watch_event"
  | NetworkPolicyEvent "objmeta watch_event"
  | ConfigMapEvent "configmap watch_event"

fun event_objects :: "'o watch_event \<Rightarrow> 'o list" where
  "event_objects (CreateEvent ob) = [ob]"
| "event_objects (DeleteEvent ob) = [ob]"
| "event_objects (UpdateEvent old new) = [old, new]"
| "event_objects (GenericEvent ob) = [ob]"

fun event_object :: "'o watch_event \<Rightarrow> 'o" where
  "event_object (CreateEvent ob) = ob"
| "event_object (DeleteEvent ob) = ob"
| "event_object (UpdateEvent old new) = new"
| "event_object (GenericEvent ob) = ob"

definition client_object_key :: "client_object \<Rightarrow> objkey list" where
  "client_object_key ob =
     (case ob of BtpOperatorObject cr \<Rightarrow> [ObjectKeyFromObject cr] | SecretObject x \<Rightarrow> [ObjectKeyFromObject x] | OtherClientObject \<Rightarrow> [])"

definition config_predicate :: "configmap watch_event \<Rightarrow> (('w, 'z) cfgstate_scheme, bool) state" where
  "config_predicate ev =
     (case ev of
        CreateEvent o' \<Rightarrow> config_CreateFunc o'
      | DeleteEvent o' \<Rightarrow> config_DeleteFunc o'
      | UpdateEvent old new \<Rightarrow> config_UpdateFunc old new
      | GenericEvent o' \<Rightarrow> ret True)"

primrec config_requests :: "configmap list \<Rightarrow> (('w, 'z) cfgstate_scheme, objkey list) state" where
  "config_requests [] = ret []"
| "config_requests (cm # cms) = do {
     ks \<leftarrow> config_Reconcile ParseDuration (ConfigMapObject cm);
     ks' \<leftarrow> config_requests cms;
     ret (ks @ ks') }"

definition enqueued_requests ::
    "(error + unstr list) option \<Rightarrow> controller_event \<Rightarrow> (('w, 'z) cfgstate_scheme, objkey list) state" where
  "enqueued_requests policies ev = do {
     c \<leftarrow> gets cfgvars;
     let primary = (\<lambda>b obs. if b then remdups (concat (map reconcileRequestForPrimaryBtpOperator obs)) else []);
     case ev of
       BtpOperatorEvent e \<Rightarrow> ret (if watchBtpOperatorUpdatePredicate e then client_object_key (event_object e) else [])
     | SecretEvent e \<Rightarrow> ret (primary (watchSecretPredicates c e) (event_objects (map_watch_event (\<lambda>_. ()) e)))
     | MutatingWebhookEvent e \<Rightarrow> ret (primary (watchMutatingWebhooksPredicates e) (event_objects (map_watch_event (\<lambda>_. ()) e)))
     | ValidatingWebhookEvent e \<Rightarrow> ret (primary (watchValidatingWebhooksPredicates e) (event_objects (map_watch_event (\<lambda>_. ()) e)))
     | DeploymentEvent e \<Rightarrow> ret (primary (watchDeploymentPredicates c e) (event_objects (map_watch_event (\<lambda>_. ()) e)))
     | NetworkPolicyEvent e \<Rightarrow> ret (primary (watchNetworkPolicyPredicates policies e) (event_objects (map_watch_event (\<lambda>_. ()) e)))
     | ConfigMapEvent e \<Rightarrow> do {
         b \<leftarrow> config_predicate e;
         if b then do { ks \<leftarrow> config_requests (event_objects e); ret (remdups ks) } else ret [] } }"

section \<open>The main function\<close>

text \<open>
  The steps of the start: the calls into controller-runtime, with what they return (\<open>runtimeCall\<close>), and
  the reading of the ConfigMap. \<open>StartManager\<close> carries the configuration with which the manager starts.
\<close>

datatype startup_step =
    GetConfig | NewManager | NewClient | SetupController | AddConfigHandler | ApplyConfig | AddProbeRunner probe_runner
  | AddHealthz | AddReadyz | StartManager config

record 'w startup_env = "'w penv" +
  osArgs :: "string list"
  libFlag :: "string \<Rightarrow> (bool \<times> (string \<Rightarrow> error option)) option"
  runtimeCall :: "startup_step \<Rightarrow> 'w \<Rightarrow> error option \<times> 'w"

record 'w mainstate = "'w cfgstate" +
  startup_steps :: "startup_step list"

datatype exit = Exit nat | Finished

definition runtime_call :: "('w, 'v) startup_env_scheme \<Rightarrow> startup_step \<Rightarrow> (('w, 'z) mainstate_scheme, error option) state" where
  "runtime_call E st = State_Monad.State (\<lambda>s.
     let (r, w) = runtimeCall E st (api s) in (r, s\<lparr>api := w, startup_steps := startup_steps s @ [st]\<rparr>))"

definition note_step :: "startup_step \<Rightarrow> (('w, 'z) mainstate_scheme, unit) state" where
  "note_step st = modify (\<lambda>s. s\<lparr>startup_steps := startup_steps s @ [st]\<rparr>)"

text \<open>\<^verbatim>\<open>SetupWithManager\<close> refuses a reconciler without a deprovisioning handler.\<close>

definition SetupWithManager ::
    "('w, 'v) startup_env_scheme \<Rightarrow> 's reconciler \<Rightarrow> (('w, 'z) mainstate_scheme, error option) state" where
  "SetupWithManager E R =
     (case deprovisioningHandler R of
        None \<Rightarrow> ret (Some (Errorf ''deprovisioningHandler is not set; call SetDeprovisioningHandler before SetupWithManager''))
      | Some H \<Rightarrow> runtime_call E SetupController)"

fun or_exit :: "('s, error option) state \<Rightarrow> ('s, exit) state \<Rightarrow> ('s, exit) state" where
  "or_exit m k = do { err \<leftarrow> m; case err of Some e \<Rightarrow> ret (Exit 1) | None \<Rightarrow> k }"

definition requiredEnvs :: "string list" where
  "requiredEnvs = [''SAP_BTP_SERVICE_OPERATOR'']"

definition main :: "('w, 'v) startup_env_scheme \<Rightarrow> 's reconciler \<Rightarrow> (('w, 'z) mainstate_scheme, exit) state" where
  "main E R = do {
     c \<leftarrow> gets cfgvars;
     case parse_flags (libFlag E) (osArgs E) (default_options c) of
       Inl code \<Rightarrow> ret (Exit code)
     | Inr opts \<Rightarrow> do {
         modify (\<lambda>s. s\<lparr>cfgvars := flagConfig opts\<rparr>);
         case ensureRequiredEnvs E requiredEnvs of
           Some e \<Rightarrow> ret (Exit 1)
         | None \<Rightarrow>
             or_exit (runtime_call E GetConfig) (
             or_exit (runtime_call E NewManager) (
             or_exit (runtime_call E NewClient) (
             or_exit (SetupWithManager E R) (
             or_exit (runtime_call E AddConfigHandler) (do {
               note_step ApplyConfig;
               applyErr \<leftarrow> ApplyFromAPI E ParseDuration;
               or_exit (runtime_call E (AddProbeRunner (NewProbeRunner E))) (
               or_exit (runtime_call E AddHealthz) (
               or_exit (runtime_call E AddReadyz) (do {
                 c \<leftarrow> gets cfgvars;
                 or_exit (runtime_call E (StartManager c)) (ret Finished) }))) }))))) } }"

section \<open>Properties\<close>

lemma run_runtime_call [run_simps]:
  "run_state (runtime_call E st) s =
     (fst (runtimeCall E st (api s)), s\<lparr>api := snd (runtimeCall E st (api s)), startup_steps := startup_steps s @ [st]\<rparr>)"
  by (simp add: runtime_call_def split: prod.split)

lemma run_ApplyFromAPI:
  fixes s :: "('w, 'z) cfgstate_scheme"
  assumes "run_state (ApplyFromAPI E pd) s = (err, s')"
    and "clGetConfigMap (apicli E) \<lparr>KeyName = ConfigName (cfgvars s), KeyNamespace = ChartNamespace (cfgvars s)\<rparr> (api s) = (r, w)"
  shows "cfgvars s' = (case r of Inl e \<Rightarrow> cfgvars s | Inr cm \<Rightarrow> config_apply pd (CmData cm) (cfgvars s))"
  using assms by (cases r) (auto simp: ApplyFromAPI_def config_Reconcile_def run_simps Let_def)

lemma ApplyFromAPI_keeps_steps: "keeps startup_steps (ApplyFromAPI E pd)"
  by (auto simp: ApplyFromAPI_def config_Reconcile_def GetConfigMap_def Let_def intro!: keeps_intros keeps_modify)

text \<open>The configuration before the manager starts: the ConfigMap, if it can be read, over the flags.\<close>

definition started_with :: "('w, 'v) startup_env_scheme \<Rightarrow> config \<Rightarrow> config \<Rightarrow> bool" where
  "started_with E c c' \<longleftrightarrow>
     (\<exists>w. case fst (clGetConfigMap (apicli E) \<lparr>KeyName = ConfigName c, KeyNamespace = ChartNamespace c\<rparr> w) of
        Inl e \<Rightarrow> c' = c
      | Inr cm \<Rightarrow> c' = config_apply ParseDuration (CmData cm) c)"

lemma or_exit_Finished:
  "run_state (or_exit m k) s = (Finished, s') \<Longrightarrow>
     \<exists>s1. run_state m s = (None, s1) \<and> run_state k s1 = (Finished, s')"
  by (auto split: prod.splits option.splits)


section \<open>Witnesses\<close>

definition example_startup :: "cluster startup_env" where
  "example_startup = penv.extend mem_penv (startup_env.fields [''--secret-name'', ''flag-secret'', ''-leader-elect'']
     (\<lambda>name. None) (\<lambda>st w. (None, w)))"

lemma example_startup_fields [simp]:
  "osArgs example_startup = [''--secret-name'', ''flag-secret'', ''-leader-elect'']"
  "libFlag example_startup = (\<lambda>name. None)" "runtimeCall example_startup st w = (None, w)"
  "apicli example_startup = mem_client" "osGetenv example_startup v = ''image''" "latency example_startup w = 0"
  by (simp_all add: example_startup_def mem_penv_def mem_menv_def env.defs menv.defs penv.defs startup_env.defs)

definition example_configmap :: configmap where
  "example_configmap = \<lparr>Name = ''sap-btp-manager'', Namespace = ''kyma-system'', Labels = [], Annotations = [], Finalizers = [],
     DeletionTimestamp = None, ResourceVersion = [], CmData = [(''SecretName'', ''my-secret'')]\<rparr>"

definition example_mainstate :: "cluster mainstate" where
  "example_mainstate = \<lparr>api = empty_cluster\<lparr>mConfigMaps := [example_configmap]\<rparr>, clock = 0, trace = [],
     crp = primary_cr example_status, cfgvars = default_config, configMapAppliedGauge = 0, changedFieldsLog = [],
     startup_steps = []\<rparr>"

definition example_flags :: "nat + options" where
  "example_flags = parse_flags (\<lambda>name. None) [''--secret-name'', ''flag-secret'', ''-leader-elect''] (default_options default_config)"

lemma example_flags_eq:
  "example_flags = Inr ((default_options default_config)\<lparr>enableLeaderElection := True,
     flagConfig := default_config\<lparr>SecretName := ''flag-secret''\<rparr>\<rparr>)"
  unfolding example_flags_def by code_simp


end
