(* ===== verification/Hard_Delete_Channels.thy ===== *)
theory Hard_Delete_Channels
  imports Deprovisioning
begin

text \<open>
  The goroutine of the hard delete and the handler that waits for it, as two threads over two channels
  (\<^verbatim>\<open>internal/deprovisioning/handler.go\<close>, \<^verbatim>\<open>handleDeprovisioning\<close> from the channels on, and
  \<^verbatim>\<open>handleHardDelete\<close>). The threads' requests to the cluster are single steps with an open outcome; what
  matters here is the order of channel operations under every interleaving.
\<close>

section \<open>Channels\<close>

text \<open>
  A buffered channel of capacity one. A receive takes the buffered value, or the zero value once the
  channel is closed; a send on a closed channel and a second close panic.
\<close>

record chan =
  buf :: "bool list"
  closed :: bool

definition make_chan :: chan where
  "make_chan = \<lparr>buf = [], closed = False\<rparr>"

definition can_recv :: "chan \<Rightarrow> bool" where
  "can_recv c \<longleftrightarrow> buf c \<noteq> [] \<or> closed c"

definition recv_value :: "chan \<Rightarrow> bool" where
  "recv_value c = (case buf c of [] \<Rightarrow> False | v # _ \<Rightarrow> v)"

definition after_recv :: "chan \<Rightarrow> chan" where
  "after_recv c = c\<lparr>buf := tl (buf c)\<rparr>"

definition can_send :: "chan \<Rightarrow> bool" where
  "can_send c \<longleftrightarrow> buf c = [] \<or> closed c"

section \<open>The two threads\<close>

text \<open>
  The handler waits in its \<^verbatim>\<open>select\<close>, then either works on the result or announces the timeout and soft
  deletes; on every way out the deferred close runs. The goroutine first sends its delete requests, then
  looks for a timeout at the head of each pass, checks what is left, and sends at most one result; its
  deferred close runs last.
\<close>

datatype handler_pc = HSelect | HResult bool | HAnnounce | HSoftDelete | HClose | HReturned

datatype goroutine_pc = GDelete | GHead | GCheck | GSleep | GSend bool | GClose | GReturned

record hd_state =
  handler :: handler_pc
  goroutine :: goroutine_pc
  succeededCh :: chan
  timeoutCh :: chan
  sent :: "bool option"
  panicked :: bool

definition hd_init :: hd_state where
  "hd_init = \<lparr>handler = HSelect, goroutine = GDelete, succeededCh = make_chan, timeoutCh = make_chan, sent = None, panicked = False\<rparr>"

text \<open>A send or a close that panics stops the program.\<close>

inductive hd_step :: "hd_state \<Rightarrow> hd_state \<Rightarrow> bool" where
  receive_result: "\<lbrakk>\<not> panicked s; handler s = HSelect; can_recv (succeededCh s)\<rbrakk> \<Longrightarrow>
     hd_step s (s\<lparr>handler := HResult (recv_value (succeededCh s)), succeededCh := after_recv (succeededCh s)\<rparr>)"
| timer_fires: "\<lbrakk>\<not> panicked s; handler s = HSelect\<rbrakk> \<Longrightarrow> hd_step s (s\<lparr>handler := HAnnounce\<rparr>)"
| announce: "\<lbrakk>\<not> panicked s; handler s = HAnnounce; can_send (timeoutCh s)\<rbrakk> \<Longrightarrow>
     hd_step s (if closed (timeoutCh s) then s\<lparr>panicked := True\<rparr>
                else s\<lparr>handler := HSoftDelete, timeoutCh := (timeoutCh s)\<lparr>buf := buf (timeoutCh s) @ [True]\<rparr>\<rparr>)"
| soft_deleted: "\<lbrakk>\<not> panicked s; handler s = HSoftDelete\<rbrakk> \<Longrightarrow> hd_step s (s\<lparr>handler := HClose\<rparr>)"
| result_handled: "\<lbrakk>\<not> panicked s; handler s = HResult v\<rbrakk> \<Longrightarrow> hd_step s (s\<lparr>handler := HClose\<rparr>)"
| handler_returns: "\<lbrakk>\<not> panicked s; handler s = HClose\<rbrakk> \<Longrightarrow>
     hd_step s (if closed (timeoutCh s) then s\<lparr>panicked := True\<rparr>
                else s\<lparr>handler := HReturned, timeoutCh := (timeoutCh s)\<lparr>closed := True\<rparr>\<rparr>)"
| delete_failed: "\<lbrakk>\<not> panicked s; goroutine s = GDelete\<rbrakk> \<Longrightarrow> hd_step s (s\<lparr>goroutine := GSend False\<rparr>)"
| delete_requested: "\<lbrakk>\<not> panicked s; goroutine s = GDelete\<rbrakk> \<Longrightarrow> hd_step s (s\<lparr>goroutine := GHead\<rparr>)"
| timeout_seen: "\<lbrakk>\<not> panicked s; goroutine s = GHead; can_recv (timeoutCh s)\<rbrakk> \<Longrightarrow>
     hd_step s (s\<lparr>goroutine := GClose, timeoutCh := after_recv (timeoutCh s)\<rparr>)"
| no_timeout: "\<lbrakk>\<not> panicked s; goroutine s = GHead; \<not> can_recv (timeoutCh s)\<rbrakk> \<Longrightarrow> hd_step s (s\<lparr>goroutine := GCheck\<rparr>)"
| check_failed: "\<lbrakk>\<not> panicked s; goroutine s = GCheck\<rbrakk> \<Longrightarrow> hd_step s (s\<lparr>goroutine := GSend False\<rparr>)"
| nothing_left: "\<lbrakk>\<not> panicked s; goroutine s = GCheck\<rbrakk> \<Longrightarrow> hd_step s (s\<lparr>goroutine := GSend True\<rparr>)"
| something_left: "\<lbrakk>\<not> panicked s; goroutine s = GCheck\<rbrakk> \<Longrightarrow> hd_step s (s\<lparr>goroutine := GSleep\<rparr>)"
| slept: "\<lbrakk>\<not> panicked s; goroutine s = GSleep\<rbrakk> \<Longrightarrow> hd_step s (s\<lparr>goroutine := GHead\<rparr>)"
| send_result: "\<lbrakk>\<not> panicked s; goroutine s = GSend v; can_send (succeededCh s)\<rbrakk> \<Longrightarrow>
     hd_step s (if closed (succeededCh s) then s\<lparr>panicked := True\<rparr>
                else s\<lparr>goroutine := GClose, sent := Some v,
                       succeededCh := (succeededCh s)\<lparr>buf := buf (succeededCh s) @ [v]\<rparr>\<rparr>)"
| goroutine_returns: "\<lbrakk>\<not> panicked s; goroutine s = GClose\<rbrakk> \<Longrightarrow>
     hd_step s (if closed (succeededCh s) then s\<lparr>panicked := True\<rparr>
                else s\<lparr>goroutine := GReturned, succeededCh := (succeededCh s)\<lparr>closed := True\<rparr>\<rparr>)"

inductive hd_reachable :: "hd_state \<Rightarrow> bool" where
  init: "hd_reachable hd_init"
| step: "hd_reachable s \<Longrightarrow> hd_step s s' \<Longrightarrow> hd_reachable s'"

section \<open>The invariant\<close>

text \<open>
  The state of each channel follows from the positions of the threads; while the handler still waits, the
  goroutine has ended only after sending a result.
\<close>

fun announced :: "handler_pc \<Rightarrow> bool" where
  "announced HSelect = False"
| "announced (HResult v) = False"
| "announced HAnnounce = False"
| "announced _ = True"

fun pending :: "goroutine_pc \<Rightarrow> bool" where
  "pending GClose = False"
| "pending GReturned = False"
| "pending _ = True"

definition hd_inv :: "hd_state \<Rightarrow> bool" where
  "hd_inv s \<longleftrightarrow> \<not> panicked s \<and>
     (closed (succeededCh s) \<longleftrightarrow> goroutine s = GReturned) \<and>
     (closed (timeoutCh s) \<longleftrightarrow> handler s = HReturned) \<and>
     (pending (goroutine s) \<longrightarrow> sent s = None) \<and>
     (case sent s of None \<Rightarrow> buf (succeededCh s) = [] | Some v \<Rightarrow> buf (succeededCh s) = [] \<or> buf (succeededCh s) = [v]) \<and>
     (\<not> announced (handler s) \<longrightarrow> buf (timeoutCh s) = []) \<and>
     (handler s = HSelect \<longrightarrow> (case sent s of None \<Rightarrow> pending (goroutine s) | Some v \<Rightarrow> buf (succeededCh s) = [v])) \<and>
     (\<forall>v. handler s = HResult v \<longrightarrow> sent s = Some v) \<and>
     (handler s = HAnnounce \<and> sent s = None \<longrightarrow> pending (goroutine s))"

lemmas hd_defs = hd_inv_def can_recv_def can_send_def recv_value_def after_recv_def

lemma hd_inv_init: "hd_inv hd_init"
  by (simp add: hd_defs hd_init_def make_chan_def)

lemma hd_inv_step: "hd_step s s' \<Longrightarrow> hd_inv s \<Longrightarrow> hd_inv s'"
  by (induction rule: hd_step.induct) (auto simp: hd_defs split: option.splits if_splits)

lemma hd_reachable_inv: "hd_reachable s \<Longrightarrow> hd_inv s"
  by (induction rule: hd_reachable.induct) (auto intro: hd_inv_init hd_inv_step)

section \<open>Progress\<close>

text \<open>How many steps the goroutine may still take once the handler has returned.\<close>

fun steps_left :: "goroutine_pc \<Rightarrow> nat" where
  "steps_left GReturned = 0"
| "steps_left GClose = 1"
| "steps_left (GSend v) = 2"
| "steps_left GHead = 2"
| "steps_left GSleep = 3"
| "steps_left GDelete = 3"
| "steps_left GCheck = 4"

lemma steps_left_step:
  "hd_step s s' \<Longrightarrow> hd_inv s \<Longrightarrow> handler s = HReturned \<Longrightarrow>
   handler s' = HReturned \<and> steps_left (goroutine s') < steps_left (goroutine s)"
  by (induction rule: hd_step.induct) (auto simp: hd_defs)

lemma steps_left_run:
  "(hd_step ^^ n) s s' \<Longrightarrow> hd_inv s \<Longrightarrow> handler s = HReturned \<Longrightarrow> n + steps_left (goroutine s') \<le> steps_left (goroutine s)"
proof (induction n arbitrary: s)
  case (Suc n)
  from Suc.prems(1) obtain s1 where 1: "hd_step s s1" "(hd_step ^^ n) s1 s'" by (metis relpowp_Suc_E2)
  with steps_left_step[OF 1(1) Suc.prems(2,3)] hd_inv_step[OF 1(1) Suc.prems(2)] Suc.IH[OF 1(2)] show ?case by force
qed simp

lemma goroutine_can_step:
  assumes "hd_inv s" and "goroutine s \<noteq> GReturned"
  shows "\<exists>s'. hd_step s s'"
proof -
  have p: "\<not> panicked s" using assms(1) by (simp add: hd_inv_def)
  have send: "can_send (succeededCh s)" if "goroutine s = GSend v" for v
    using assms(1) that by (auto simp: hd_defs split: option.splits)
  show ?thesis
    using p assms(2) send by (cases "goroutine s"; cases "can_recv (timeoutCh s)") (auto intro: hd_step.intros)
qed

lemma handler_can_step:
  assumes "hd_inv s" and "handler s \<noteq> HReturned"
  shows "\<exists>s'. hd_step s s'"
proof -
  have p: "\<not> panicked s" using assms(1) by (simp add: hd_inv_def)
  have send: "can_send (timeoutCh s)" if "handler s = HAnnounce"
    using assms(1) that by (auto simp: hd_defs)
  show ?thesis
    using p assms(2) send by (cases "handler s") (auto intro: hd_step.intros)
qed

section \<open>Properties\<close>

text \<open>
  C4: under every interleaving of the deprovisioning handler and the goroutine of the hard delete nothing
  panics, no send ever blocks, and a result that the handler takes from the channel is one the goroutine has
  sent, after which the goroutine sends no request any more.
\<close>

theorem hard_delete_channels_safe:
  assumes "hd_reachable s"
  shows "\<not> panicked s \<and> (\<forall>v. goroutine s = GSend v \<longrightarrow> can_send (succeededCh s)) \<and>
     (handler s = HAnnounce \<longrightarrow> can_send (timeoutCh s)) \<and>
     (\<forall>v. handler s = HResult v \<longrightarrow> sent s = Some v \<and> (goroutine s = GClose \<or> goroutine s = GReturned))"
proof -
  note inv = hd_reachable_inv[OF assms]
  have "goroutine s = GClose \<or> goroutine s = GReturned" if "sent s = Some v" for v
    using inv that by (cases "goroutine s") (simp_all add: hd_inv_def)
  with inv show ?thesis by (auto simp: hd_defs split: option.splits)
qed

text \<open>
  C27: there is no deadlock, and no goroutine is left behind: a state without a successor is one in which
  both threads have returned, and once the handler has returned, at most four steps are left.
\<close>

theorem hard_delete_goroutine_ends:
  assumes "hd_reachable s"
  shows "((\<nexists>s'. hd_step s s') \<longleftrightarrow> handler s = HReturned \<and> goroutine s = GReturned) \<and>
     (\<forall>n s'. handler s = HReturned \<and> (hd_step ^^ n) s s' \<longrightarrow> n \<le> 4)"
proof -
  note inv = hd_reachable_inv[OF assms]
  have "steps_left (goroutine s) \<le> 4" by (cases "goroutine s") simp_all
  moreover have "\<not> hd_step s s'" if "handler s = HReturned" "goroutine s = GReturned" for s'
    using steps_left_step[OF _ inv that(1), of s'] that(2) by auto
  ultimately show ?thesis
    using goroutine_can_step[OF inv] handler_can_step[OF inv] steps_left_run[OF _ inv] by fastforce
qed

section \<open>Witnesses\<close>

text \<open>
  A run: the timer fires while the goroutine checks what is left, so the soft delete overlaps with the
  check; the goroutine still sends a result, which nobody takes.
\<close>

definition hd_at :: "handler_pc \<Rightarrow> goroutine_pc \<Rightarrow> bool list \<Rightarrow> bool list \<Rightarrow> bool \<Rightarrow> bool option \<Rightarrow> hd_state" where
  "hd_at h g sb tb tc v = \<lparr>handler = h, goroutine = g, succeededCh = \<lparr>buf = sb, closed = False\<rparr>,
     timeoutCh = \<lparr>buf = tb, closed = tc\<rparr>, sent = v, panicked = False\<rparr>"

lemma late_result_reachable: "hd_reachable (hd_at HReturned GClose [True] [True] True (Some True))"
proof -
  have "hd_reachable (hd_at HSelect GDelete [] [] False None)"
    using hd_reachable.init by (simp add: hd_init_def make_chan_def hd_at_def)
  from hd_reachable.step[OF this hd_step.delete_requested]
  have "hd_reachable (hd_at HSelect GHead [] [] False None)" by (simp add: hd_at_def)
  from hd_reachable.step[OF this hd_step.no_timeout]
  have "hd_reachable (hd_at HSelect GCheck [] [] False None)" by (simp add: hd_at_def can_recv_def)
  from hd_reachable.step[OF this hd_step.timer_fires]
  have "hd_reachable (hd_at HAnnounce GCheck [] [] False None)" by (simp add: hd_at_def)
  from hd_reachable.step[OF this hd_step.announce]
  have "hd_reachable (hd_at HSoftDelete GCheck [] [True] False None)" by (simp add: hd_at_def can_send_def)
  from hd_reachable.step[OF this hd_step.soft_deleted]
  have "hd_reachable (hd_at HClose GCheck [] [True] False None)" by (simp add: hd_at_def)
  from hd_reachable.step[OF this hd_step.handler_returns]
  have "hd_reachable (hd_at HReturned GCheck [] [True] True None)" by (simp add: hd_at_def)
  from hd_reachable.step[OF this hd_step.nothing_left]
  have "hd_reachable (hd_at HReturned (GSend True) [] [True] True None)" by (simp add: hd_at_def)
  from hd_reachable.step[OF this hd_step.send_result]
  show ?thesis by (simp add: hd_at_def can_send_def)
qed

theorem hard_delete_channels_safe_witness: "\<not> panicked (hd_at HReturned GClose [True] [True] True (Some True))"
  using hard_delete_channels_safe[OF late_result_reachable] by blast

theorem hard_delete_goroutine_ends_witness:
  "\<exists>s'. hd_step (hd_at HReturned GClose [True] [True] True (Some True)) s'"
  using hard_delete_goroutine_ends[OF late_result_reachable] by (simp add: hd_at_def)

end
