(* ===== verification/Autodoc.thy ===== *)
theory Autodoc
  imports Env Go_Strings
begin

text \<open>
  The documentation check (\<^verbatim>\<open>cmd/autodoc\<close>): it reads the reasons declared in the Go source, their metadata
  with the comments, and the table of the documentation, and compares them; if they differ, it prints a new
  table. The script that cuts out the three texts and the order in which \<^verbatim>\<open>sort.Slice\<close> leaves equal rows
  are parameters.
\<close>

section \<open>Rows\<close>

record reason_metadata =
  groupOrder :: int
  crState :: string
  conditionType :: string
  conditionStatus :: bool
  conditionReason :: string
  remark :: string

definition newline_char :: char where
  "newline_char = CHR 0x0A"

definition cleanString :: "string \<Rightarrow> string" where
  "cleanString s = remove_char (CHR '','') (remove_char (CHR ''/'') (remove_char (CHR '':'') (remove_char (CHR '' '') s)))"

definition detectGroupOrder :: "string \<Rightarrow> int" where
  "detectGroupOrder state =
     (if state = ''Ready'' then 1 else if state = ''Processing'' then 2 else if state = ''Deleting'' then 3
      else if state = ''Error'' then 4 else if state = ''Warning'' then 5 else if state = ''NA'' then 6 else 7)"

definition getConditionStatus :: "string \<Rightarrow> string \<Rightarrow> bool" where
  "getConditionStatus state ty = (state = ''Ready'' \<and> ty = ''Ready'')"

section \<open>The Go source\<close>

definition getConstReasons :: "string \<Rightarrow> string list" where
  "getConstReasons input = concat (map (\<lambda>line. case Fields line of [] \<Rightarrow> [] | f # _ \<Rightarrow> [f]) (Split input [newline_char]))"

definition tryConvertGoLineToStruct :: "string \<Rightarrow> error + reason_metadata" where
  "tryConvertGoLineToStruct line =
     (if line = [] then Inl (Errorf ''empty goLine given'')
      else let goLine = TrimSpace line; parts = Split goLine ''//'' in
      if length parts \<noteq> 2
      then Inl (Errorf (''in goLine ('' @ goLine @ '') there is no comment section (//) included, comment section should have following format (//CRState;Remark)''))
      else let words = Fields (parts ! 0) in
      if length words \<noteq> 5
      then Inl (Errorf (''goLine ('' @ goLine @ '') is badly structured, it should have following format (Reason: Metadata, //CRState;Remark''))
      else let comments = Split (parts ! 1) '';'' in
      if length comments \<noteq> 2
      then Inl (Errorf (''comment in goLine ('' @ goLine @ '') is badly structured, it should have following format (//CRState;Remark)''))
      else let state = cleanString (comments ! 0) in
        Inr \<lparr>groupOrder = detectGroupOrder state, crState = state, conditionType = ''Ready'',
             conditionStatus = getConditionStatus state ''Ready'', conditionReason = cleanString (words ! 0),
             remark = TrimSpace (comments ! 1)\<rparr>)"

fun metadata_lines :: "string list \<Rightarrow> string list \<times> reason_metadata list" where
  "metadata_lines [] = ([], [])"
| "metadata_lines (line # lines) =
     (case metadata_lines lines of (errors, rows) \<Rightarrow>
        if line = [] then (errors, rows)
        else case tryConvertGoLineToStruct line of
               Inl e \<Rightarrow> (Error e # errors, rows)
             | Inr row \<Rightarrow> (errors, row # rows))"

definition getAndValidateReasonsMetadata :: "string \<Rightarrow> string list \<times> reason_metadata list" where
  "getAndValidateReasonsMetadata input = metadata_lines (Split input [newline_char])"

definition checkIfConstsAndMetadataAreInSync :: "string list \<Rightarrow> reason_metadata list \<Rightarrow> string list" where
  "checkIfConstsAndMetadataAreInSync constReasons rows =
     map (\<lambda>c. ''there is a Reason = ('' @ c @ '') declared in const scope, but there is no matching metadata for it'')
       (filter (\<lambda>c. \<not> list_ex (\<lambda>row. conditionReason row = c) rows) constReasons)"

section \<open>The table\<close>

text \<open>\<^verbatim>\<open>%s\<close> of a slice of strings.\<close>

definition show_strings :: "string list \<Rightarrow> string" where
  "show_strings xs = ''['' @ Join xs '' '' @ '']''"

definition md_row :: "string \<Rightarrow> string + reason_metadata" where
  "md_row mdRow =
     (let cleanLine = Split mdRow ''|'' in
      if length cleanLine \<noteq> 8
      then Inl (show_strings cleanLine @ '' have incorrect number of elements, it has '' @ show_nat (length cleanLine) @
                '' but it should have 8'')
      else let cells = butlast (tl cleanLine); state = cleanString (cells ! 1) in
        case ParseBool (cleanString (cells ! 3)) of
          Inl e \<Rightarrow> Inl (show_strings cells @ '' -> cannot parse condition status'')
        | Inr status \<Rightarrow>
            Inr \<lparr>groupOrder = detectGroupOrder state, crState = state, conditionType = cleanString (cells ! 2),
                 conditionStatus = status, conditionReason = cleanString (cells ! 4), remark = TrimSpace (cells ! 5)\<rparr>)"

fun md_rows :: "string list \<Rightarrow> string list \<times> reason_metadata list" where
  "md_rows [] = ([], [])"
| "md_rows (r # rs) =
     (case md_rows rs of (errors, rows) \<Rightarrow>
        (case md_row r of Inl e \<Rightarrow> (e # errors, rows) | Inr row \<Rightarrow> (errors, row # rows)))"

text \<open>\<^verbatim>\<open>mdRows[2 : len(mdRows)-1]\<close> panics for fewer than three lines.\<close>

definition mdTableToStruct :: "string \<Rightarrow> error + string list \<times> reason_metadata list" where
  "mdTableToStruct tableMd =
     (let rows = Split tableMd [newline_char] in
      if length rows < 3 then Inl (Panicked ''slice bounds out of range'')
      else Inr (md_rows (butlast (drop 2 rows))))"

section \<open>The comparison\<close>

definition checkIfValuesAreSynced :: "string \<Rightarrow> string \<Rightarrow> string \<Rightarrow> string list" where
  "checkIfValuesAreSynced new old reason =
     (if new \<noteq> old
      then [''Docs are not synced with Go code, difference detected in reason ('' @ reason @ ''), current value in docs is ('' @ new @
            '') but newer in Go code is ('' @ old @ '')'']
      else [])"

definition compare_row :: "reason_metadata list \<Rightarrow> reason_metadata \<Rightarrow> string list" where
  "compare_row current newRow =
     (case List.find (\<lambda>r. conditionReason r = conditionReason newRow) current of
        None \<Rightarrow> [''Reason ('' @ conditionReason newRow @ '') not found in docs.'']
      | Some currentRow \<Rightarrow>
          checkIfValuesAreSynced (remark currentRow) (remark newRow) (conditionReason newRow) @
          checkIfValuesAreSynced (show_bool (conditionStatus currentRow)) (show_bool (conditionStatus newRow)) (conditionReason newRow) @
          checkIfValuesAreSynced (crState currentRow) (crState newRow) (conditionReason newRow) @
          checkIfValuesAreSynced (conditionType currentRow) (conditionType newRow) (conditionReason newRow))"

definition compareContent :: "reason_metadata list \<Rightarrow> reason_metadata list \<Rightarrow> string list" where
  "compareContent currentTable newTable = concat (map (compare_row currentTable) newTable)"

section \<open>The new table\<close>

definition renderMdElement :: "nat \<Rightarrow> string \<Rightarrow> char \<Rightarrow> string" where
  "renderMdElement len content spaceFiller = content @ replicate (nat (int len - int (length content) + 10)) spaceFiller"

definition row_less :: "reason_metadata \<Rightarrow> reason_metadata \<Rightarrow> bool" where
  "row_less a b = (if groupOrder a \<noteq> groupOrder b then groupOrder a < groupOrder b else conditionReason a < conditionReason b)"

definition md_line :: "string list \<Rightarrow> string" where
  "md_line cells = ''| '' @ Join cells '' | '' @ '' |''"

definition longest :: "string list \<Rightarrow> nat" where
  "longest xs = fold (\<lambda>x m. if length x > m then length x else m) xs 0"

definition md_cells :: "nat \<Rightarrow> nat \<Rightarrow> nat \<Rightarrow> reason_metadata \<Rightarrow> string list" where
  "md_cells lr lm n row =
     [renderMdElement 10 (show_nat n) (CHR '' ''), renderMdElement 10 (crState row) (CHR '' ''),
      renderMdElement 10 (conditionType row) (CHR '' ''), renderMdElement 10 (show_bool (conditionStatus row)) (CHR '' ''),
      renderMdElement lr (conditionReason row) (CHR '' ''), renderMdElement lm (remark row) (CHR '' '')]"

definition md_lines :: "reason_metadata list \<Rightarrow> string list" where
  "md_lines rows =
     (let lr = longest (map conditionReason rows); lm = longest (map remark rows) in
      md_line [renderMdElement 10 ''No.'' (CHR '' ''), renderMdElement 10 ''CR state'' (CHR '' ''),
               renderMdElement 10 ''Condition type'' (CHR '' ''), renderMdElement 10 ''Condition status'' (CHR '' ''),
               renderMdElement lr ''Condition reason'' (CHR '' ''), renderMdElement lm ''Remark'' (CHR '' '')] #
      md_line [renderMdElement 10 [] (CHR ''-''), renderMdElement 10 [] (CHR ''-''), renderMdElement 10 [] (CHR ''-''),
               renderMdElement 10 [] (CHR ''-''), renderMdElement lr [] (CHR ''-''), renderMdElement lm [] (CHR ''-'')] #
      map (\<lambda>(n, row). md_line (md_cells lr lm n row)) (List.enumerate 1 rows))"

definition buildMdTable ::
    "((reason_metadata \<Rightarrow> reason_metadata \<Rightarrow> bool) \<Rightarrow> reason_metadata list \<Rightarrow> reason_metadata list)
      \<Rightarrow> reason_metadata list \<Rightarrow> string" where
  "buildMdTable sortRows rows = concat (map (\<lambda>l. l @ [newline_char]) (md_lines (sortRows row_less rows)))"

section \<open>The tool\<close>

datatype autodoc_result = ExitCode nat "string list" | ToolPanics

definition printErrors :: "string list \<Rightarrow> string list" where
  "printErrors errors = map (\<lambda>e. ''validation failed! -> '' @ e) errors"

text \<open>The script's output, or what it wrote to its error stream.\<close>

definition autodoc_main ::
    "((reason_metadata \<Rightarrow> reason_metadata \<Rightarrow> bool) \<Rightarrow> reason_metadata list \<Rightarrow> reason_metadata list)
      \<Rightarrow> string + string \<Rightarrow> autodoc_result" where
  "autodoc_main sortRows script =
     (case script of
        Inl err \<Rightarrow> ExitCode 1 [err]
      | Inr out \<Rightarrow>
          let chunks = Split out ''===='' in
          if length chunks \<noteq> 3
          then ExitCode 1 [CHR 39 # ''extract_conditions_data.sh'' @ CHR 39 # '' data output failed, it should contain 3 elements'']
          else case getAndValidateReasonsMetadata (chunks ! 1) of (errors, rows) \<Rightarrow>
            if errors \<noteq> [] then ExitCode 1 (printErrors errors)
            else case checkIfConstsAndMetadataAreInSync (getConstReasons (chunks ! 0)) rows of
              e # es \<Rightarrow> ExitCode 1 (''The declared reasons in const Go section are out out sync with Reasons metadata'' # printErrors (e # es))
            | [] \<Rightarrow>
                (case mdTableToStruct (chunks ! 2) of
                   Inl p \<Rightarrow> ToolPanics
                 | Inr (errors, content) \<Rightarrow>
                     if errors \<noteq> [] then ExitCode 1 (''current table in docs is incorrect:'' # printErrors errors)
                     else case compareContent content rows of
                       e # es \<Rightarrow> ExitCode 1 (printErrors (e # es) @
                         [''Below can be found auto-generated table which contain new changes:'', buildMdTable sortRows rows])
                     | [] \<Rightarrow> ExitCode 0 [''docs validation OK. go file is in sync with docs.'']))"

section \<open>Cells and lines\<close>

text \<open>A text that survives as the content of a cell.\<close>

definition cell_text :: "string \<Rightarrow> bool" where
  "cell_text s \<longleftrightarrow> CHR ''|'' \<notin> set s \<and> newline_char \<notin> set s"

lemma cleanString_filter: "cleanString s = filter (\<lambda>c. c \<notin> set '' :/,'') s"
  by (induction s) (auto simp: cleanString_def remove_char_def)

lemma cleanString_idem: "cleanString (cleanString s) = cleanString s"
  by (simp add: cleanString_filter)

lemma cleanString_set: "set (cleanString s) \<subseteq> set s"
  by (auto simp: cleanString_filter)

lemma clean_cell: "cleanString s = s \<Longrightarrow> cleanString ('' '' @ renderMdElement len s (CHR '' '') @ '' '') = s"
  by (simp add: cleanString_filter renderMdElement_def)

lemma trim_cell: "TrimSpace s = s \<Longrightarrow> TrimSpace ('' '' @ renderMdElement len s (CHR '' '') @ '' '') = s"
  using TrimSpace_pad_left[of "'' ''"] TrimSpace_pad_right[of "replicate (nat (int len - int (length s) + 10)) (CHR '' '') @ '' ''" s]
  by (simp add: renderMdElement_def white_def list_all_iff)

lemma show_nat_digits: "c \<in> set (show_nat n) \<Longrightarrow> 48 \<le> (of_char c :: nat) \<and> (of_char c :: nat) < 58"
proof (induction n rule: show_nat.induct)
  case (1 n)
  then show ?case by (subst (asm) (2) show_nat.simps) (auto split: if_splits simp: of_char_mod_256)
qed

lemma cell_text_show [simp]: "cell_text (show_nat n)" "cell_text (show_bool b)"
proof -
  have "(of_char (CHR ''|'') :: nat) = 124" "(of_char newline_char :: nat) = 10" by (simp_all add: newline_char_def)
  then show "cell_text (show_nat n)" unfolding cell_text_def using show_nat_digits[of _ n] by fastforce
  show "cell_text (show_bool b)" by (cases b) (simp_all add: cell_text_def show_bool_def newline_char_def)
qed

lemma cell_text_render: "cell_text s \<Longrightarrow> f \<noteq> CHR ''|'' \<Longrightarrow> f \<noteq> newline_char \<Longrightarrow> cell_text (renderMdElement len s f)"
  by (auto simp: cell_text_def renderMdElement_def)

lemma Split_cells:
  "list_all cell_text (x # xs) \<Longrightarrow>
   Split ('' '' @ Join (x # xs) '' | '' @ '' |'') ''|'' = map (\<lambda>c. '' '' @ c @ '' '') (x # xs) @ [[]]"
proof (induction xs arbitrary: x)
  case Nil
  then show ?case using Split_char[of "CHR ''|''" "'' '' @ x @ '' ''" "[]"] by (simp add: cell_text_def Split_char_last)
next
  case (Cons y ys)
  have "CHR ''|'' \<notin> set ('' '' @ x @ '' '')" using Cons.prems by (simp add: cell_text_def)
  from Split_char[OF this, of "'' '' @ Join (y # ys) '' | '' @ '' |''"] Cons.IH[of y] Cons.prems show ?case by simp
qed

lemma Split_md_line:
  "list_all cell_text cells \<Longrightarrow> cells \<noteq> [] \<Longrightarrow> Split (md_line cells) ''|'' = [] # map (\<lambda>c. '' '' @ c @ '' '') cells @ [[]]"
  using Split_char[of "CHR ''|''" "[]" "'' '' @ Join cells '' | '' @ '' |''"] Split_cells[of "hd cells" "tl cells"]
  by (simp add: md_line_def)

lemma Join_set: "set (Join xs sep) \<subseteq> \<Union> (set ` set xs) \<union> set sep"
  by (induction xs sep rule: Join.induct) auto

lemma md_line_no_newline: "list_all cell_text cells \<Longrightarrow> newline_char \<notin> set (md_line cells)"
  using Join_set[of cells "'' | ''"] by (fastforce simp: md_line_def cell_text_def list_all_iff newline_char_def)

section \<open>Rows survive\<close>

definition row_ok :: "reason_metadata \<Rightarrow> bool" where
  "row_ok row \<longleftrightarrow> groupOrder row = detectGroupOrder (crState row) \<and>
     cleanString (crState row) = crState row \<and> cell_text (crState row) \<and>
     cleanString (conditionType row) = conditionType row \<and> cell_text (conditionType row) \<and>
     cleanString (conditionReason row) = conditionReason row \<and> cell_text (conditionReason row) \<and>
     TrimSpace (remark row) = remark row \<and> cell_text (remark row)"

lemma md_cells_text: "row_ok row \<Longrightarrow> list_all cell_text (md_cells lr lm n row)"
  by (simp add: md_cells_def row_ok_def cell_text_render newline_char_def)

lemma ParseBool_show: "ParseBool (show_bool b) = Inr b"
  by (simp add: ParseBool_def show_bool_def)

lemma clean_show_bool: "cleanString (show_bool b) = show_bool b"
  by (simp add: cleanString_filter show_bool_def)

lemma md_row_line:
  assumes "row_ok row"
  shows "md_row (md_line (md_cells lr lm n row)) = Inr row"
proof -
  have "md_cells lr lm n row \<noteq> []" by (simp add: md_cells_def)
  from Split_md_line[OF md_cells_text[OF assms] this] assms show ?thesis
    by (simp add: md_row_def Let_def md_cells_def nth_Cons' row_ok_def clean_cell trim_cell ParseBool_show clean_show_bool
        del: append.simps)
qed

lemma md_rows_lines: "list_all row_ok rows \<Longrightarrow> md_rows (map (\<lambda>(n, row). md_line (md_cells lr lm n row)) (List.enumerate k rows)) = ([], rows)"
  by (induction rows arbitrary: k) (simp_all add: md_row_line)

lemma header_text:
  "cell_text ''No.''" "cell_text ''CR state''" "cell_text ''Condition type''" "cell_text ''Condition status''"
  "cell_text ''Condition reason''" "cell_text ''Remark''" "cell_text []" "CHR '' '' \<noteq> newline_char" "CHR ''-'' \<noteq> newline_char"
  by (simp_all add: cell_text_def newline_char_def)

lemma mdTable_roundtrip:
  assumes "list_all row_ok rows"
  shows "mdTableToStruct (concat (map (\<lambda>l. l @ [newline_char]) (md_lines rows))) = Inr ([], rows)"
proof -
  let ?lr = "longest (map conditionReason rows)" and ?lm = "longest (map remark rows)"
  let ?body = "map (\<lambda>(n, row). md_line (md_cells ?lr ?lm n row)) (List.enumerate 1 rows)"
  obtain h d where lines: "md_lines rows = h # d # ?body" "newline_char \<notin> set h" "newline_char \<notin> set d"
    by (simp add: md_lines_def Let_def md_line_no_newline cell_text_render header_text)
  have "newline_char \<notin> set l" if "l \<in> set ?body" for l
    using that assms by (auto simp: in_set_enumerate_eq list_all_length intro!: md_line_no_newline md_cells_text)
  with lines have "Split (concat (map (\<lambda>l. l @ [newline_char]) (md_lines rows))) [newline_char] = h # d # ?body @ [[]]"
    using Split_lines[of "md_lines rows" newline_char] by auto
  with md_rows_lines[OF assms, of ?lr ?lm 1] show ?thesis by (simp add: mdTableToStruct_def Let_def)
qed

lemma tryConvert_row_ok:
  assumes "tryConvertGoLineToStruct line = Inr row" and "cell_text line"
  shows "row_ok row"
proof -
  let ?parts = "Split (TrimSpace line) ''//''"
  let ?words = "Fields (?parts ! 0)" and ?comments = "Split (?parts ! 1) '';''"
  have len: "length ?parts = 2" "length ?words = 5" "length ?comments = 2"
    and row: "row = \<lparr>groupOrder = detectGroupOrder (cleanString (?comments ! 0)), crState = cleanString (?comments ! 0),
       conditionType = ''Ready'', conditionStatus = getConditionStatus (cleanString (?comments ! 0)) ''Ready'',
       conditionReason = cleanString (?words ! 0), remark = TrimSpace (?comments ! 1)\<rparr>"
    using assms(1) by (auto simp: tryConvertGoLineToStruct_def Let_def split: if_splits)
  have part: "set (?parts ! i) \<subseteq> set line" if "i < 2" for i
    using Split_set[OF nth_mem, of i "TrimSpace line" "''//''"] that len(1) TrimSpace_set[of line] by auto
  have word: "set (?words ! 0) \<subseteq> set line"
    using Fields_set[OF nth_mem, of 0 "?parts ! 0"] len(2) part[of 0] by auto
  have comment: "set (?comments ! i) \<subseteq> set line" if "i < 2" for i
    using Split_set[OF nth_mem, of i "?parts ! 1" "'';''"] that len(3) part[of 1] by auto
  have "set (cleanString (?words ! 0)) \<subseteq> set line" "set (cleanString (?comments ! 0)) \<subseteq> set line"
    "set (TrimSpace (?comments ! 1)) \<subseteq> set line"
    using cleanString_set[of "?words ! 0"] word cleanString_set[of "?comments ! 0"] comment[of 0]
      TrimSpace_set[of "?comments ! 1"] comment[of 1] by auto
  with assms(2) show ?thesis
    unfolding row row_ok_def cell_text_def
    by (auto simp: cleanString_idem TrimSpace_idem) (simp_all add: cleanString_filter newline_char_def)
qed

lemma metadata_lines_ok:
  "metadata_lines lines = (errors, rows) \<Longrightarrow> list_all cell_text lines \<Longrightarrow> list_all row_ok rows"
  by (induction lines arbitrary: errors rows)
     (auto split: prod.splits if_splits sum.splits dest: tryConvert_row_ok)

lemma metadata_ok:
  assumes "getAndValidateReasonsMetadata input = (errors, rows)" and "CHR ''|'' \<notin> set input"
  shows "list_all row_ok rows"
proof -
  have "list_all cell_text (Split input [newline_char])"
    unfolding list_all_iff
  proof
    fix l assume l: "l \<in> set (Split input [newline_char])"
    show "cell_text l" using Split_set[OF l] Split_char_notin[OF l] assms(2) by (auto simp: cell_text_def)
  qed
  then show ?thesis using assms(1) metadata_lines_ok by (simp add: getAndValidateReasonsMetadata_def)
qed

lemma find_distinct:
  assumes "distinct (map f xs)" and "x \<in> set xs"
  shows "List.find (\<lambda>y. f y = f x) xs = Some x"
  using assms by (induction xs) auto

lemma compareContent_same:
  assumes "distinct (map conditionReason rows)" and "mset current = mset rows"
  shows "compareContent current rows = []"
proof -
  have "distinct (map conditionReason current)"
    using assms by (metis distinct_map mset_eq_imp_distinct_iff mset_map)
  moreover have "set current = set rows" using assms(2) by (metis set_mset_mset)
  ultimately have "compare_row current row = []" if "row \<in> set rows" for row
    using find_distinct[of conditionReason current row] that by (simp add: compare_row_def checkIfValuesAreSynced_def)
  then show ?thesis by (simp add: compareContent_def)
qed

section \<open>Properties\<close>

text \<open>
  C28: the table that the tool prints when the documentation differs passes its own check: for metadata it
  has accepted, with distinct reasons and without the character that separates cells, the printed table is
  read back without an error, as the same rows, and the comparison finds no difference.
\<close>

theorem printed_table_passes_check:
  assumes "getAndValidateReasonsMetadata input = ([], rows)" and "CHR ''|'' \<notin> set input"
    and "distinct (map conditionReason rows)" and "mset (sortRows row_less rows) = mset rows"
  shows "\<exists>content. mdTableToStruct (buildMdTable sortRows rows) = Inr ([], content) \<and>
           mset content = mset rows \<and> compareContent content rows = []"
proof -
  have "set (sortRows row_less rows) = set rows" using assms(4) by (metis set_mset_mset)
  with metadata_ok[OF assms(1,2)] have "list_all row_ok (sortRows row_less rows)" by (simp add: list_all_iff)
  from mdTable_roundtrip[OF this] compareContent_same[OF assms(3,4)] assms(4) show ?thesis
    by (simp add: buildMdTable_def)
qed

section \<open>Witnesses\<close>

definition example_metadata :: string where
  "example_metadata = ''Updated: {Status: metav1.ConditionFalse, State: Processing}, //Processing;CR updated '' @
     newline_char # ''Succeeded: {Status: metav1.ConditionTrue, State: Ready}, //Ready;Done''"

definition example_rows :: "reason_metadata list" where
  "example_rows =
     [\<lparr>groupOrder = 2, crState = ''Processing'', conditionType = ''Ready'', conditionStatus = False,
       conditionReason = ''Updated'', remark = ''CR updated''\<rparr>,
      \<lparr>groupOrder = 1, crState = ''Ready'', conditionType = ''Ready'', conditionStatus = True,
       conditionReason = ''Succeeded'', remark = ''Done''\<rparr>]"

lemma example_metadata_read: "getAndValidateReasonsMetadata example_metadata = ([], example_rows)"
  by code_simp

theorem printed_table_passes_check_witness:
  "\<exists>content. mdTableToStruct (buildMdTable sort_less example_rows) = Inr ([], content) \<and>
     compareContent content example_rows = []"
proof -
  have "CHR ''|'' \<notin> set example_metadata" "distinct (map conditionReason example_rows)"
    by (simp_all add: example_metadata_def example_rows_def newline_char_def)
  from printed_table_passes_check[OF example_metadata_read this, of sort_less, OF srt.srt_mset] show ?thesis by blast
qed

end
