(* ===== verification/Ymlutils.thy ===== *)
theory Ymlutils
  imports Kube Go_Strings
begin

text \<open>
  The YAML helpers (\<^verbatim>\<open>internal/ymlutils\<close>) beside the extraction of one value, which is with the module
  resource manager: collecting the types of a chart's templates, copying manifests into one file, renaming
  objects with a suffix; and the text form of types (\<^verbatim>\<open>internal/gvksutils\<close>). The file system and the YAML library are parameters.
\<close>

section \<open>Files\<close>

text \<open>
  \<^verbatim>\<open>fs.WalkDir\<close> calls a function for the entries below a root, in a fixed order; an entry may carry an
  error instead. The first error that the function returns ends the walk.
\<close>

record walk_entry =
  EntryPath :: string
  EntryName :: string
  EntryIsDir :: bool
  EntryErr :: "error option"

record 'f files =
  walkDir :: "string \<Rightarrow> string \<Rightarrow> walk_entry list"
  fsReadAll :: "string \<Rightarrow> string \<Rightarrow> 'f \<Rightarrow> error + string"
  fsWrite :: "string \<Rightarrow> string \<Rightarrow> 'f \<Rightarrow> error option \<times> 'f"
  fsOpenAppend :: "string \<Rightarrow> 'f \<Rightarrow> error option"
  fsAppend :: "string \<Rightarrow> string \<Rightarrow> 'f \<Rightarrow> error option \<times> 'f"
  fsClose :: "string \<Rightarrow> 'f \<Rightarrow> error option \<times> 'f"
  filepathJoin :: "string \<Rightarrow> string \<Rightarrow> string"
  parseGroupVersion :: "string \<Rightarrow> error + string \<times> string"

definition is_yaml_name :: "string \<Rightarrow> bool" where
  "is_yaml_name name = (HasSuffix name ''.yml'' \<or> HasSuffix name ''.yaml'')"

section \<open>Types of a chart\<close>

definition containsGvk :: "gvk list \<Rightarrow> gvk \<Rightarrow> bool" where
  "containsGvk gvks g = list_ex (\<lambda>v. v = g) gvks"

definition field_value :: "string \<Rightarrow> string \<Rightarrow> string" where
  "field_value prefix line = TrimSpace (drop (length prefix) line)"

text \<open>The last lines of a document that start with \<^verbatim>\<open>apiVersion:\<close> and \<^verbatim>\<open>kind:\<close>.\<close>

fun scan_lines :: "string list \<Rightarrow> string \<times> string \<Rightarrow> string \<times> string" where
  "scan_lines [] acc = acc"
| "scan_lines (line # lines) (apiVersion, kind) =
     scan_lines lines
       (if HasPrefix line ''apiVersion:'' then field_value ''apiVersion:'' line else apiVersion,
        if HasPrefix line ''kind:'' then field_value ''kind:'' line else kind)"

fun extract_parts :: "('f, 'v) files_scheme \<Rightarrow> string list \<Rightarrow> error + gvk list" where
  "extract_parts F [] = Inr []"
| "extract_parts F (part # parts) =
     (if TrimSpace part = [] then extract_parts F parts
      else case scan_lines (Split part [CHR 0x0A]) ([], []) of (apiVersion, kind) \<Rightarrow>
        if apiVersion = [] \<or> kind = [] then extract_parts F parts
        else case parseGroupVersion F apiVersion of
          Inl e \<Rightarrow> Inl e
        | Inr (grp, version) \<Rightarrow>
            (case extract_parts F parts of
               Inl e \<Rightarrow> Inl e
             | Inr gvks \<Rightarrow> Inr (\<lparr>Group = grp, Version = version, Kind = kind\<rparr> # gvks)))"

definition ExtractGvkFromYml :: "('f, 'v) files_scheme \<Rightarrow> string \<Rightarrow> error + gvk list" where
  "ExtractGvkFromYml F wholeFile = extract_parts F (Split wholeFile (''---'' @ [CHR 0x0A]))"

definition add_new_gvks :: "gvk list \<Rightarrow> gvk list \<Rightarrow> gvk list" where
  "add_new_gvks all file = fold (\<lambda>g acc. if containsGvk acc g then acc else acc @ [g]) file all"

fun gather_entries :: "('f, 'v) files_scheme \<Rightarrow> string \<Rightarrow> 'f \<Rightarrow> walk_entry list \<Rightarrow> gvk list \<Rightarrow> error + gvk list" where
  "gather_entries F fsys w [] all = Inr all"
| "gather_entries F fsys w (d # ds) all =
     (case EntryErr d of
        Some e \<Rightarrow> Inl e
      | None \<Rightarrow>
          if EntryIsDir d \<or> \<not> is_yaml_name (EntryName d) then gather_entries F fsys w ds all
          else case fsReadAll F fsys (EntryPath d) w of
            Inl e \<Rightarrow> Inl e
          | Inr data \<Rightarrow>
              (case ExtractGvkFromYml F data of
                 Inl e \<Rightarrow> Inl e
               | Inr fileGvks \<Rightarrow> gather_entries F fsys w ds (add_new_gvks all fileGvks)))"

definition GatherChartGvks :: "('f, 'v) files_scheme \<Rightarrow> string \<Rightarrow> 'f \<Rightarrow> error + gvk list" where
  "GatherChartGvks F fsys w = gather_entries F fsys w (walkDir F fsys ''templates'') []"

section \<open>One file of manifests\<close>

fun copy_entries ::
    "('f, 'v) files_scheme \<Rightarrow> string \<Rightarrow> string \<Rightarrow> walk_entry list \<Rightarrow> 'f \<Rightarrow> error option \<times> 'f" where
  "copy_entries F fsys target [] w = (None, w)"
| "copy_entries F fsys target (d # ds) w =
     (case EntryErr d of
        Some e \<Rightarrow> (Some e, w)
      | None \<Rightarrow>
          if EntryIsDir d \<or> \<not> is_yaml_name (EntryName d) then copy_entries F fsys target ds w
          else case fsReadAll F fsys (EntryPath d) w of
            Inl e \<Rightarrow> (Some e, w)
          | Inr data \<Rightarrow>
              (case fsAppend F target data w of
                 (Some e, w') \<Rightarrow> (Some e, w')
               | (None, w') \<Rightarrow> copy_entries F fsys target ds w'))"

definition CopyManifestsFromYamlsIntoOneYaml ::
    "('f, 'v) files_scheme \<Rightarrow> string \<Rightarrow> string \<Rightarrow> 'f \<Rightarrow> error option \<times> 'f" where
  "CopyManifestsFromYamlsIntoOneYaml F fsys targetYaml w =
     (case fsOpenAppend F targetYaml w of
        Some e \<Rightarrow> (Some e, w)
      | None \<Rightarrow>
          (case copy_entries F fsys targetYaml (walkDir F fsys ''.'') w of (walkErr, w1) \<Rightarrow>
             (case fsClose F targetYaml w1 of (closeErr, w2) \<Rightarrow>
                (case walkErr of Some e \<Rightarrow> (Some e, w2) | None \<Rightarrow> (closeErr, w2)))))"

section \<open>Names with a suffix\<close>

text \<open>A node of the YAML library: a mapping has its keys and values in turn as its content.\<close>

datatype ykind = DocumentNode | SequenceNode | MappingNode | ScalarNode | AliasNode

datatype ynode = YNode (YKind: ykind) (YValue: string) (YContent: "ynode list")

definition append_value :: "string \<Rightarrow> ynode \<Rightarrow> ynode" where
  "append_value suffix n = YNode (YKind n) (YValue n @ suffix) (YContent n)"

fun append_to_field :: "string \<Rightarrow> string \<Rightarrow> ynode list \<Rightarrow> ynode list" where
  "append_to_field key suffix (k # v # rest) =
     (if YValue k = key \<and> YKind v = ScalarNode then k # append_value suffix v # rest
      else k # v # append_to_field key suffix rest)"
| "append_to_field key suffix xs = xs"

definition appendToMappingStringField :: "string \<Rightarrow> string \<Rightarrow> ynode \<Rightarrow> ynode" where
  "appendToMappingStringField key suffix n =
     (if YKind n \<noteq> MappingNode then n else YNode (YKind n) (YValue n) (append_to_field key suffix (YContent n)))"

fun string_field :: "string \<Rightarrow> ynode list \<Rightarrow> string" where
  "string_field key (k # v # rest) =
     (if YValue k = key \<and> YKind v = ScalarNode then YValue v else string_field key rest)"
| "string_field key xs = []"

definition getStringField :: "ynode \<Rightarrow> string \<Rightarrow> string" where
  "getStringField n key = (if YKind n \<noteq> MappingNode then [] else string_field key (YContent n))"

text \<open>The last value of a key, and a change of it in place.\<close>

fun last_value :: "string \<Rightarrow> ynode list \<Rightarrow> ynode option" where
  "last_value key (k # v # rest) =
     (case last_value key rest of Some n \<Rightarrow> Some n | None \<Rightarrow> if YValue k = key then Some v else None)"
| "last_value key xs = None"

fun update_last :: "string \<Rightarrow> (ynode \<Rightarrow> ynode) \<Rightarrow> ynode list \<Rightarrow> ynode list" where
  "update_last key f (k # v # rest) =
     (case last_value key rest of
        Some n \<Rightarrow> k # v # update_last key f rest
      | None \<Rightarrow> if YValue k = key then k # f v # rest else k # v # rest)"
| "update_last key f xs = xs"

definition applyNameSuffix :: "string \<Rightarrow> string list \<Rightarrow> ynode \<Rightarrow> ynode" where
  "applyNameSuffix suffix excluded n =
     (if YKind n \<noteq> MappingNode then n
      else
        let set_spec = update_last ''spec'' (appendToMappingStringField ''group'' suffix) in
        case last_value ''metadata'' (YContent n) of
          Some m \<Rightarrow>
            if getStringField m ''name'' \<in> set excluded then n
            else YNode (YKind n) (YValue n)
                   (set_spec (update_last ''metadata'' (appendToMappingStringField ''name'' suffix) (YContent n)))
        | None \<Rightarrow> YNode (YKind n) (YValue n) (set_spec (YContent n)))"

text \<open>The decoder's documents up to the end of the text, or to an error; the encoder over its buffer.\<close>

record yaml_lib =
  yamlDecode :: "string \<Rightarrow> (error + ynode) list"
  yamlEncodeDoc :: "string \<Rightarrow> ynode \<Rightarrow> error + string"
  yamlEncodeClose :: "string \<Rightarrow> error + string"
  yamlUnmarshalMap :: "string \<Rightarrow> error + (string, json) gomap option"
  yamlMarshalMap :: "(string, json) gomap \<Rightarrow> error + string"

definition suffix_document :: "string \<Rightarrow> string list \<Rightarrow> ynode \<Rightarrow> ynode" where
  "suffix_document suffix excluded n =
     (case YContent n of
        root # rest \<Rightarrow> if YKind n = DocumentNode then YNode (YKind n) (YValue n) (applyNameSuffix suffix excluded root # rest) else n
      | [] \<Rightarrow> n)"

fun suffix_documents :: "yaml_lib \<Rightarrow> string \<Rightarrow> string list \<Rightarrow> (error + ynode) list \<Rightarrow> string \<Rightarrow> error + string" where
  "suffix_documents Y suffix excluded [] buf = yamlEncodeClose Y buf"
| "suffix_documents Y suffix excluded (Inl e # docs) buf = Inl e"
| "suffix_documents Y suffix excluded (Inr n # docs) buf =
     (case yamlEncodeDoc Y buf (suffix_document suffix excluded n) of
        Inl e \<Rightarrow> Inl e
      | Inr buf' \<Rightarrow> suffix_documents Y suffix excluded docs buf')"

definition addSuffixToNameInContent :: "yaml_lib \<Rightarrow> string \<Rightarrow> string \<Rightarrow> string list \<Rightarrow> error + string" where
  "addSuffixToNameInContent Y data suffix excluded = suffix_documents Y suffix excluded (yamlDecode Y data) []"

fun suffix_entries ::
    "('f, 'v) files_scheme \<Rightarrow> yaml_lib \<Rightarrow> string \<Rightarrow> string \<Rightarrow> string list \<Rightarrow> walk_entry list \<Rightarrow> 'f \<Rightarrow> error option \<times> 'f" where
  "suffix_entries F Y dir suffix excluded [] w = (None, w)"
| "suffix_entries F Y dir suffix excluded (d # ds) w =
     (case EntryErr d of
        Some e \<Rightarrow> (Some e, w)
      | None \<Rightarrow>
          if EntryIsDir d \<or> \<not> HasSuffix (EntryName d) ''.yml'' then suffix_entries F Y dir suffix excluded ds w
          else case fsReadAll F [] (filepathJoin F dir (EntryPath d)) w of
            Inl e \<Rightarrow> (Some e, w)
          | Inr data \<Rightarrow>
              (case addSuffixToNameInContent Y data suffix excluded of
                 Inl e \<Rightarrow> (Some e, w)
               | Inr updated \<Rightarrow>
                   (case fsWrite F (filepathJoin F dir (EntryPath d)) updated w of
                      (Some e, w') \<Rightarrow> (Some e, w')
                    | (None, w') \<Rightarrow> suffix_entries F Y dir suffix excluded ds w')))"

definition AddSuffixToNameInManifests ::
    "('f, 'v) files_scheme \<Rightarrow> yaml_lib \<Rightarrow> string \<Rightarrow> string \<Rightarrow> string list \<Rightarrow> 'f \<Rightarrow> error option \<times> 'f" where
  "AddSuffixToNameInManifests F Y manifestsDir suffix excludeNames w =
     suffix_entries F Y manifestsDir suffix excludeNames (walkDir F manifestsDir ''.'') w"

section \<open>The chart version\<close>

text \<open>An empty document leaves the map nil, and the assignment to it panics.\<close>

definition updateChartVersionInContent :: "yaml_lib \<Rightarrow> string \<Rightarrow> string \<Rightarrow> error + string" where
  "updateChartVersionInContent Y data newVersion =
     (case yamlUnmarshalMap Y data of
        Inl e \<Rightarrow> Inl e
      | Inr None \<Rightarrow> Inl (Panicked ''assignment to entry in nil map'')
      | Inr (Some obj) \<Rightarrow> yamlMarshalMap Y (mset_key ''version'' (JStr newVersion) obj))"

definition UpdateChartVersion ::
    "('f, 'v) files_scheme \<Rightarrow> yaml_lib \<Rightarrow> string \<Rightarrow> string \<Rightarrow> 'f \<Rightarrow> error option \<times> 'f" where
  "UpdateChartVersion F Y chartPath newVersion w =
     (let filename = filepathJoin F chartPath ''Chart.yaml'' in
      case fsReadAll F [] filename w of
        Inl e \<Rightarrow> (Some e, w)
      | Inr data \<Rightarrow>
          (case updateChartVersionInContent Y data newVersion of
             Inl e \<Rightarrow> (Some e, w)
           | Inr updated \<Rightarrow> fsWrite F filename updated w))"

section \<open>Types as text\<close>

text \<open>\<^verbatim>\<open>internal/gvksutils\<close>: the types of a chart as a YAML text and back. \<^verbatim>\<open>yaml.Marshal\<close> and \<^verbatim>\<open>yaml.Unmarshal\<close> at this
  type are parameters; the latter fills the variable \<open>out\<close>, which is dropped on an error.\<close>

definition GvksToStr :: "(gvk list \<Rightarrow> error + string) \<Rightarrow> gvk list \<Rightarrow> error + string" where
  "GvksToStr marshal gvks = (case marshal gvks of Inl e \<Rightarrow> Inl e | Inr bytes \<Rightarrow> Inr bytes)"

definition StrToGvks :: "(string \<Rightarrow> gvk list \<Rightarrow> error option \<times> gvk list) \<Rightarrow> string \<Rightarrow> error + gvk list" where
  "StrToGvks unmarshal str =
     (case unmarshal str [] of
        (Some e, out) \<Rightarrow> Inl e
      | (None, out) \<Rightarrow> Inr out)"

section \<open>Facts\<close>

text \<open>Text made from the types of a chart reads back as these types, if the library's two functions are inverse.\<close>

lemma gvks_roundtrip:
  assumes "\<And>gvks bytes. marshal gvks = Inr bytes \<Longrightarrow> unmarshal bytes [] = (None, gvks)" and "GvksToStr marshal gvks = Inr str"
  shows "StrToGvks unmarshal str = Inr gvks"
  using assms by (auto simp: GvksToStr_def StrToGvks_def split: sum.splits)

lemma add_new_gvks_distinct: "distinct gs \<Longrightarrow> distinct (add_new_gvks gs hs)"
  unfolding add_new_gvks_def
  by (induction hs arbitrary: gs) (auto simp: containsGvk_def list_ex_iff)

lemma gather_entries_distinct: "gather_entries F fsys w ds gs = Inr gvks \<Longrightarrow> distinct gs \<Longrightarrow> distinct gvks"
  by (induction ds arbitrary: gs) (auto split: option.splits if_splits sum.splits simp: add_new_gvks_distinct)

text \<open>The types of a chart come without duplicates.\<close>

lemma gathered_types_distinct: "GatherChartGvks F fsys w = Inr gvks \<Longrightarrow> distinct gvks"
  by (auto simp: GatherChartGvks_def dest: gather_entries_distinct)

fun has_field :: "string \<Rightarrow> ynode list \<Rightarrow> bool" where
  "has_field key (k # v # rest) = (YValue k = key \<and> YKind v = ScalarNode \<or> has_field key rest)"
| "has_field key xs = False"

lemma string_field_append:
  "string_field key (append_to_field key suffix xs) = string_field key xs @ (if has_field key xs then suffix else [])"
  by (induction key suffix xs rule: append_to_field.induct) (auto simp: append_value_def)

lemma getStringField_append:
  "YKind n = MappingNode \<Longrightarrow> has_field key (YContent n) \<Longrightarrow>
   getStringField (appendToMappingStringField key suffix n) key = getStringField n key @ suffix"
  by (simp add: getStringField_def appendToMappingStringField_def string_field_append)

lemma last_value_update: "last_value key (update_last key f xs) = map_option f (last_value key xs)"
  by (induction key f xs rule: update_last.induct) (auto split: option.splits)

lemma last_value_update_other: "key \<noteq> key' \<Longrightarrow> last_value key (update_last key' f xs) = last_value key xs"
  by (induction key' f xs rule: update_last.induct) (auto split: option.splits)

text \<open>
  Renaming a document: an excluded object stays as it is; any other gets the suffix at its name (if it has
  one), and the group of its specification changes likewise.
\<close>

lemma applyNameSuffix_excluded:
  "last_value ''metadata'' (YContent n) = Some m \<Longrightarrow> getStringField m ''name'' \<in> set excluded \<Longrightarrow> applyNameSuffix suffix excluded n = n"
  by (simp add: applyNameSuffix_def Let_def)

lemma applyNameSuffix_fields:
  assumes "YKind n = MappingNode" and "last_value ''metadata'' (YContent n) = Some m" and "getStringField m ''name'' \<notin> set excluded"
  shows "last_value ''metadata'' (YContent (applyNameSuffix suffix excluded n)) = Some (appendToMappingStringField ''name'' suffix m)"
    and "last_value ''spec'' (YContent (applyNameSuffix suffix excluded n)) =
           map_option (appendToMappingStringField ''group'' suffix) (last_value ''spec'' (YContent n))"
  using assms by (simp_all add: applyNameSuffix_def Let_def last_value_update last_value_update_other)

end
