(* ===== verification/Progress.thy ===== *)
theory Progress
  imports Wiring_Examples
begin

text \<open>
  The reconciler and its watch together: a reconcile ends with an error, which controller-runtime retries,
  with a time after which it is called again, with the removal of the finalizer, or with a change of the
  CR's state that the watch predicate lets through. So the CR is never left waiting for nothing.
\<close>

section \<open>How a deprovisioning that reports no error ends\<close>

context deprovisioning
begin

lemma prepare_waits:
  assumes "run_state (deprov_prepare E H) s = (Some None, s')" and "Finalizers (crp s) \<noteq> []"
  shows "IsReasonStringEqual (crp s') (reason_string ServiceInstancesAndBindingsNotCleaned)"
proof -
  obtain r s1 where 1: "run_state (deprov_getSecretByNameAndNamespace E (SecretName (conf E)) (ChartNamespace (conf E))) s = (r, s1)"
    by fastforce
  then obtain x where x: "r = Inr x" using assms(1) by (auto simp: deprov_prepare_def split: sum.splits)
  obtain u s2 where 2: "run_state (InitializeFromSecret_m (hDriftDetector H) x) s1 = (u, s2)" by (metis surj_pair)
  obtain err s3 where 3: "run_state (handleDeprovisioning E H) s2 = (err, s3)" by fastforce
  obtain v s4 where 4: "run_state (hReconcileResourcesWithoutStatusChange H) s3 = (v, s4)" by (metis surj_pair)
  obtain rb s5 where 5: "run_state (numberOfResources E bindingGvk) s4 = (rb, s5)" by fastforce
  obtain ri s6 where 6: "run_state (numberOfResources E instanceGvk) s5 = (ri, s6)" by fastforce
  have "keeps crp (deprov_getSecretByNameAndNamespace E (SecretName (conf E)) (ChartNamespace (conf E)))"
    by (auto simp: deprov_getSecretByNameAndNamespace_def intro!: leaves_cr_keeps leaves_cr_intros)
  with 1 2 have "crp s2 = crp s"
    by (auto dest!: keepsD keepsD[OF leaves_cr_keeps[OF det_init]])
  moreover have "crp s4 = crp s3" "crp s5 = crp s3" "crp s6 = crp s3"
    using keepsD[OF leaves_cr_keeps[OF restore] 4] keepsD[OF leaves_cr_keeps[OF leaves_cr_numberOfResources] 5]
      keepsD[OF leaves_cr_keeps[OF leaves_cr_numberOfResources] 6] by simp_all
  ultimately show ?thesis
    using assms 1 2 3 4 5 6 x
    by (auto simp: deprov_prepare_def run_get_cr split: if_splits option.splits sum.splits)
qed

lemma deprovision_waits_or_releases:
  assumes "finalizer_library addF (libRemoveFinalizer E)"
    and "run_state (Deprovision E H) s = (None, s')" and "Finalizers (crp s) \<noteq> []"
  shows "IsReasonStringEqual (crp s') (reason_string ServiceInstancesAndBindingsNotCleaned) \<or>
     (\<exists>t c. trace s' = t @ [EvUpdateCr c] \<and> extends s (s\<lparr>trace := t\<rparr>) \<and> deletionFinalizer \<notin> set (Finalizers c))"
proof -
  obtain r s1 where 1: "run_state (deprov_prepare E H) s = (r, s1)" by fastforce
  show ?thesis
  proof (cases r)
    case (Some err)
    with assms(2) 1 have "r = Some None" "s' = s1" by (auto simp: Deprovision_eq)
    with prepare_waits 1 assms(3) show ?thesis by blast
  next
    case None
    obtain u s2 where 2: "run_state (case hDisableSISBController H of None \<Rightarrow> skip | Some d \<Rightarrow> d) s1 = (u, s2)"
      by (metis surj_pair)
    let ?c = "(crp s2)\<lparr>Finalizers := snd (libRemoveFinalizer E (Finalizers (crp s2)) deletionFinalizer)\<rparr>"
    have "trace s' = trace s2 @ [EvUpdateCr ?c]"
      using assms(2) 1 2 None by (auto simp: Deprovision_eq remove_cr_finalizer_def run_simps Let_def split: sum.splits)
    moreover have "extends s s2"
      using emits_extends[OF prepare_emits 1] emits_extends[OF leaves_cr_emits[OF disable_step] 2] by (rule extends_trans)
    moreover have "deletionFinalizer \<notin> set (Finalizers ?c)"
      using finalizer_library.removed_gone[OF assms(1)] by simp
    ultimately show ?thesis by (auto simp: extends_def)
  qed
qed

end

section \<open>How a reconcile ends\<close>

text \<open>The CR has changed its state, and the watch passes the update on.\<close>

definition moved_on :: "btpoperator \<Rightarrow> btpoperator \<Rightarrow> bool" where
  "moved_on old new \<longleftrightarrow> CrState (Status new) \<noteq> CrState (Status old) \<and>
     watchBtpOperatorUpdatePredicate (UpdateEvent (BtpOperatorObject old) (BtpOperatorObject new))"

lemma moved_on_shows:
  "shows_status st r new \<Longrightarrow> st = StateProcessing \<or> st = StateDeleting \<Longrightarrow> CrState (Status old) \<noteq> st \<Longrightarrow> moved_on old new"
  by (auto simp: moved_on_def shows_status_def GetStatus_def)

text \<open>The finalizer has been removed between the two states.\<close>

definition released :: "('w, 'z) kstate_scheme \<Rightarrow> ('w, 'z) kstate_scheme \<Rightarrow> bool" where
  "released s s' \<longleftrightarrow> (\<exists>t c. trace s' = trace s @ t \<and> EvUpdateCr c \<in> set t \<and> deletionFinalizer \<notin> set (Finalizers c))"

context steady_cluster
begin

lemma deprovision_progress:
  assumes "run_state (Deprovision E (wired_deprovisioning E)) s = (None, s')" and "Finalizers (crp s) \<noteq> []"
  shows "IsReasonStringEqual (crp s') (reason_string ServiceInstancesAndBindingsNotCleaned) \<or> released s s'"
  using wdep.deprovision_waits_or_releases[OF finalizers_documented assms]
  by (auto simp: released_def extends_def)

lemma handle_state_progress:
  assumes "run_state (handle_state E (wired_reconciler E)) s = ((result, None), s')" and "Finalizers (crp s) \<noteq> []"
    and "0 < ProcessingStateRequeueInterval (conf E)" and "0 < ReadyStateRequeueInterval (conf E)"
  shows "0 < RequeueAfter result \<or> released s s' \<or> moved_on (crp s) (crp s')"
proof (cases "CrState (Status (crp s))")
  case StateNone
  with assms(1) show ?thesis
    by (auto simp: handle_state_def run_get_cr HandleInitialState_def split: prod.splits
        dest!: status_update_visible intro: moved_on_shows)
next
  case StateError
  with assms(1) show ?thesis
    by (auto simp: handle_state_def run_get_cr HandleErrorState_def split: prod.splits
        dest!: status_update_visible intro: moved_on_shows)
next
  case StateDeleting
  with assms show ?thesis
    by (auto simp: handle_state_def run_get_cr HandleDeletingState_def wired_reconciler_def
        split: prod.splits if_splits dest!: deprovision_progress)
next
  case StateWarning
  with assms show ?thesis
    by (auto simp: handle_state_def run_get_cr HandleWarningState_def wired_reconciler_def
        split: prod.splits if_splits dest!: deprovision_progress status_update_visible intro: moved_on_shows)
next
  case StateProcessing
  with assms(1,3) show ?thesis by (auto simp: handle_state_def run_get_cr split: prod.splits)
next
  case StateReady
  with assms(1,4) show ?thesis by (auto simp: handle_state_def run_get_cr split: prod.splits)
qed

lemma reconcile_cr_progress:
  assumes "clGetBtpOperator (cli E) PrimaryCrKey (api s) = (Inr cr, w)" and "deletionFinalizer \<in> set (Finalizers cr)"
    and "0 < ProcessingStateRequeueInterval (conf E)" and "0 < ReadyStateRequeueInterval (conf E)"
    and "run_state (reconcile_cr E (wired_reconciler E) PrimaryCrKey) s = ((result, None), s')"
  shows "0 < RequeueAfter result \<or> released s s' \<or> moved_on cr (crp s')"
proof -
  let ?s = "after_read E PrimaryCrKey cr w s"
  have "\<not> fst (libAddFinalizer E (Finalizers cr) deletionFinalizer)"
    using finalizer_library.add_present[OF finalizers_documented assms(2)] by simp
  then consider (announce) "CrState (Status cr) \<noteq> StateDeleting"
      "run_state (UpdateBtpOperatorStatus E StateDeleting HardDeleting ''BtpOperator is to be deleted'') ?s = (None, s')"
    | (handle) "run_state (handle_state E (wired_reconciler E)) ?s = ((result, None), s')"
    using assms(5) run_reconcile_cr[OF assms(1)] by (auto split: if_splits prod.splits)
  then show ?thesis
  proof cases
    case announce
    then show ?thesis by (auto dest!: status_update_visible intro: moved_on_shows)
  next
    case handle
    moreover have "Finalizers (crp ?s) \<noteq> []" using assms(2) by auto
    ultimately show ?thesis using handle_state_progress[OF handle _ assms(3,4)] by (auto simp: released_def)
  qed
qed

end

section \<open>Properties\<close>

text \<open>
  C11: no reconcile leaves the CR waiting for nothing: a reconcile of the primary CR, once it carries the
  finalizer, ends with an error, with a time after which it is to be reconciled again, with the removal of the
  finalizer, or in another state, by an update that the watch of the CR lets through.
\<close>

theorem reconcile_never_stalls:
  fixes s :: "('w, 'z) rstate_scheme" and E :: "('w, 'v) senv_scheme"
  assumes "condition_setter (libSetStatusCondition E)"
    and "finalizer_library (libAddFinalizer E) (libRemoveFinalizer E)"
    and "\<And>k w e. fst (clGetBtpOperator (cli E) k w) = Inl e \<Longrightarrow> \<not> IsNotFound e"
    and "\<And>o' w updated. fst (clStatusUpdate (cli E) o' w) = Inr updated \<Longrightarrow> Status updated = Status o'"
    and "0 < StatusUpdateTimeout (conf E)" and "0 < ProcessingStateRequeueInterval (conf E)"
    and "0 < ReadyStateRequeueInterval (conf E)"
    and "clGetBtpOperator (cli E) PrimaryCrKey (api s) = (Inr cr, w)" and "deletionFinalizer \<in> set (Finalizers cr)"
    and "run_state (Reconcile E (wired_reconciler E) PrimaryCrKey) s = ((result, err), s')"
  shows "err \<noteq> None \<or> 0 < RequeueAfter result \<or>
     (\<exists>t c. trace s' = trace s @ t \<and> EvUpdateCr c \<in> set t \<and> deletionFinalizer \<notin> set (Finalizers c)) \<or>
     (CrState (Status (crp s')) \<noteq> CrState (Status cr) \<and>
      watchBtpOperatorUpdatePredicate (UpdateEvent (BtpOperatorObject cr) (BtpOperatorObject (crp s'))))"
proof -
  let ?s = "s\<lparr>workqueueSize := workqueueSize s + 1\<rparr>"
  have steady: "steady_cluster E"
    by (intro steady_cluster.intro controller_libraries.intro steady_cluster_axioms.intro assms(1-5)) simp_all
  obtain s1 where run: "run_state (reconcile_cr E (wired_reconciler E) PrimaryCrKey) ?s = ((result, err), s1)"
    and s': "s' = s1\<lparr>workqueueSize := workqueueSize s1 - 1\<rparr>"
    using assms(10) by (auto simp: run_Reconcile split: prod.splits)
  have read: "clGetBtpOperator (cli E) PrimaryCrKey (api ?s) = (Inr cr, w)" using assms(8) by simp
  show ?thesis
    using steady_cluster.reconcile_cr_progress[OF steady read assms(9,6,7)] run s'
    by (cases err) (auto simp: moved_on_def released_def)
qed

text \<open>
  The finalizer is a condition for it. When it has to be added to a CR in the state Error or Warning, the
  reconcile asks for no other one, and the watch does not let its update through.
\<close>

lemma finalizer_update_unseen:
  fixes s :: "('w, 'z) rstate_scheme"
  assumes "finalizer_library (libAddFinalizer E) removeF" and "deletionFinalizer \<notin> set (Finalizers cr)"
    and "CrState (Status cr) = StateError \<or> CrState (Status cr) = StateWarning" and "DeletionTimestamp cr = None"
    and "clGetBtpOperator (cli E) PrimaryCrKey (api s) = (Inr cr, w)"
    and "run_state (Reconcile E R PrimaryCrKey) s = ((result, None), s')"
  shows "RequeueAfter result = 0 \<and>
     \<not> watchBtpOperatorUpdatePredicate (UpdateEvent (BtpOperatorObject cr)
         (BtpOperatorObject (cr\<lparr>Finalizers := Finalizers cr @ [deletionFinalizer]\<rparr>)))"
proof -
  let ?s = "s\<lparr>workqueueSize := workqueueSize s + 1\<rparr>"
  have "libAddFinalizer E (Finalizers cr) deletionFinalizer = (True, Finalizers cr @ [deletionFinalizer])"
    by (rule finalizer_library.add_absent[OF assms(1,2)])
  moreover have "clGetBtpOperator (cli E) PrimaryCrKey (api ?s) = (Inr cr, w)" using assms(5) by simp
  ultimately show ?thesis
    using assms(3,4,6) run_reconcile_cr[of E PrimaryCrKey ?s cr w R]
    by (auto simp: run_Reconcile run_simps Let_def Result_def GetStatus_def split: sum.splits prod.splits)
qed

section \<open>Witness\<close>

theorem reconcile_never_stalls_witness:
  "case run_state (Reconcile vanishing_env (wired_reconciler vanishing_env) PrimaryCrKey) (cr_rstate (primary_cr example_status))
   of ((result, err), s') \<Rightarrow> err \<noteq> None \<or> 0 < RequeueAfter result \<or>
     (\<exists>t c. trace s' = [] @ t \<and> EvUpdateCr c \<in> set t \<and> deletionFinalizer \<notin> set (Finalizers c)) \<or>
     (CrState (Status (crp s')) \<noteq> CrState (Status (primary_cr example_status)) \<and>
      watchBtpOperatorUpdatePredicate (UpdateEvent (BtpOperatorObject (primary_cr example_status)) (BtpOperatorObject (crp s'))))"
proof -
  let ?cr = "primary_cr example_status"
  have read: "clGetBtpOperator (cli vanishing_env) PrimaryCrKey (api (cr_rstate ?cr)) = (Inr ?cr, empty_cluster\<lparr>mCrs := [?cr]\<rparr>)"
    by (simp add: vanishing_client_def find_key_def)
  have fin: "deletionFinalizer \<in> set (Finalizers ?cr)" by (simp add: primary_cr_def)
  have requeue: "0 < ProcessingStateRequeueInterval (conf vanishing_env)" "0 < ReadyStateRequeueInterval (conf vanishing_env)"
    by (simp_all add: default_config_def)
  obtain result err s' where run:
    "run_state (Reconcile vanishing_env (wired_reconciler vanishing_env) PrimaryCrKey) (cr_rstate ?cr) = ((result, err), s')"
    by (metis surj_pair)
  from reconcile_never_stalls[OF vanishing.conditions_documented vanishing.finalizers_documented vanishing.cr_stays
      vanishing.written vanishing.time requeue read fin run]
  show ?thesis by (simp add: run)
qed

end
