(* ===== verification/Effects.thy ===== *)
theory Effects
  imports Wiring_Examples
begin

text \<open>
  The requests of a whole reconcile, bounded by an arbitrary set of requests. The locale \<open>effect_bound\<close> says
  what such a set must allow, \<open>module_manifests\<close> what the manifests of the image and the libraries give, and
  \<open>bounded_program\<close> walks once through the wired program. \<open>Permissions\<close> and \<open>Cache\<close> are two instances.
\<close>

section \<open>What the program handles\<close>

text \<open>The types of the objects under \<^verbatim>\<open>module-resources/apply\<close> and \<^verbatim>\<open>manager-resources/network-policies\<close>.\<close>

definition module_gvks :: "gvk list" where
  "module_gvks =
     [\<lparr>Group = ''apiextensions.k8s.io'', Version = ''v1'', Kind = ''CustomResourceDefinition''\<rparr>,
      \<lparr>Group = '''', Version = ''v1'', Kind = ''Secret''\<rparr>,
      \<lparr>Group = '''', Version = ''v1'', Kind = ''Service''\<rparr>,
      \<lparr>Group = ''rbac.authorization.k8s.io'', Version = ''v1'', Kind = ''ClusterRole''\<rparr>,
      \<lparr>Group = ''rbac.authorization.k8s.io'', Version = ''v1'', Kind = ''ClusterRoleBinding''\<rparr>,
      \<lparr>Group = ''rbac.authorization.k8s.io'', Version = ''v1'', Kind = ''Role''\<rparr>,
      \<lparr>Group = ''rbac.authorization.k8s.io'', Version = ''v1'', Kind = ''RoleBinding''\<rparr>,
      \<lparr>Group = ''apps'', Version = ''v1'', Kind = ''Deployment''\<rparr>,
      \<lparr>Group = '''', Version = ''v1'', Kind = ''ServiceAccount''\<rparr>,
      \<lparr>Group = '''', Version = ''v1'', Kind = ''ConfigMap''\<rparr>,
      \<lparr>Group = ''admissionregistration.k8s.io'', Version = ''v1'', Kind = ''MutatingWebhookConfiguration''\<rparr>,
      \<lparr>Group = ''admissionregistration.k8s.io'', Version = ''v1'', Kind = ''ValidatingWebhookConfiguration''\<rparr>,
      \<lparr>Group = ''networking.k8s.io'', Version = ''v1'', Kind = ''NetworkPolicy''\<rparr>]"

text \<open>The types of which the program deletes single objects.\<close>

definition removable_gvks :: "gvk list" where
  "removable_gvks = filter (\<lambda>g. Kind g \<in> {''Secret'', ''ConfigMap'', ''Deployment'', ''NetworkPolicy'', ''ClusterRole'', ''Role'',
     ''MutatingWebhookConfiguration'', ''ValidatingWebhookConfiguration''}) module_gvks"

definition deleted_kinds :: "string list" where
  "deleted_kinds = ''Pod'' # Kind bindingGvk # Kind instanceGvk # map Kind removable_gvks"

definition read_kinds :: "string list" where
  "read_kinds = [''BtpOperator'', ''CustomResourceDefinition'', ''Secret'', ''ConfigMap'']"

definition listed_kinds :: "string list" where
  "listed_kinds = [''Secret'', ''Pod'', ''Namespace'', Kind bindingGvk, Kind instanceGvk,
     Kind (GvkToList bindingGvk), Kind (GvkToList instanceGvk)]"

text \<open>An object of the module as it is sent to the API server: one of the types above, with the label that marks
  what the manager owns.\<close>

definition managed_object :: "unstr \<Rightarrow> bool" where
  "managed_object u \<longleftrightarrow> Gvk u \<in> set module_gvks \<and> map_of (Labels u) managedByLabelKey = Some operatorName"

lemma managed_object_cong: "Gvk v = Gvk u \<Longrightarrow> Labels v = Labels u \<Longrightarrow> managed_object v = managed_object u"
  by (simp add: managed_object_def)

definition managed_result :: "error + unstr list \<Rightarrow> bool" where
  "managed_result r \<longleftrightarrow> (\<forall>vs. r = Inr vs \<longrightarrow> list_all managed_object vs)"

text \<open>The manifests of the image and what is documented of two libraries: \<^verbatim>\<open>ToUnstructured\<close> keeps type and labels of a
  secret, and a list of the API server has items of the type asked for.\<close>

locale module_manifests =
  fixes E :: "('w, 'v) senv_scheme"
  assumes to_apply: "CreateUnstructuredObjectsFromManifestsDir E (GetResourcesToApplyPath (conf E)) = Inr us
      \<Longrightarrow> u \<in> set us \<Longrightarrow> Gvk u \<in> set module_gvks"
    and to_delete: "CreateUnstructuredObjectsFromManifestsDir E (GetResourcesToDeletePath (conf E)) = Inr us
      \<Longrightarrow> u \<in> set us \<Longrightarrow> Gvk u \<in> set removable_gvks"
    and policies: "LoadNetworkPolicies E = Inr us \<Longrightarrow> u \<in> set us \<Longrightarrow> Gvk u \<in> set module_gvks"
    and secrets: "secretToUnstructured E ''Secret'' ''v1'' x = Inr u
      \<Longrightarrow> Gvk u = \<lparr>Group = '''', Version = ''v1'', Kind = ''Secret''\<rparr> \<and> Labels u = Labels x"
    and items: "g = bindingGvk \<or> g = instanceGvk \<Longrightarrow> fst (clListUnstructured (cli E) (GvkToList g) ns w) = Inr xs
      \<Longrightarrow> u \<in> set xs \<Longrightarrow> Gvk u = g"
begin

lemma prepared_objects_managed:
  assumes "prepare_objects E ns cid us x = Inr vs" and "\<forall>u \<in> set us. Gvk u \<in> set module_gvks" and "v \<in> set vs"
  shows "managed_object v"
proof -
  obtain ver where spec: "length vs = length us"
    "\<And>i. i < length us \<Longrightarrow> same_identity (us ! i) (vs ! i) \<and> labelled ver (vs ! i)"
    using prepare_objects_spec[OF assms(1)] by blast
  from assms(3) obtain i where "i < length us" "vs ! i = v" using spec(1) by (auto simp: in_set_conv_nth)
  with spec(2)[of i] assms(2) show ?thesis
    by (auto simp: managed_object_def same_identity_def labelled_def all_set_conv_all_nth managedByLabelKey_def operatorName_def)
qed

lemma bundled_managed:
  assumes "list_all2 (bundled E ca) us vs" and "\<And>u. u \<in> set us \<Longrightarrow> managed_object u" and "v \<in> set vs"
  shows "managed_object v"
  using assms by (auto simp: list_all2_conv_all_nth in_set_conv_nth bundled_def) (metis managed_object_cong nth_mem)

lemma certificate_secret_managed:
  "buildCertificateSecret E name cert key = Inr u \<Longrightarrow> managed_object u"
  by (auto simp: buildCertificateSecret_def managed_object_def module_gvks_def certificate_secret_def
      managedByLabelKey_def operatorName_def split: sum.splits dest!: secrets)

lemma webhooks_managed:
  assumes "list_all managed_object us"
  shows "returns managed_result (PrepareAdmissionWebhooks E us)"
proof -
  have bundles: "list_all managed_object vs" if "prepareWebhooksManifests E ca us = Inr vs" for ca vs
    using prepareWebhooksManifests_bundled[OF that] assms by (auto simp: list_all_iff dest: bundled_managed)
  then have kept: "managed_result (prepareWebhooksManifests E ca us)" for ca by (simp add: managed_result_def)
  have "returns managed_result (regenerateCertificates E us)"
    "returns managed_result (regenerateWebhookCertificate E us data)" for data
    by (auto simp: regenerateCertificates_def regenerateWebhookCertificate_def managed_result_def
        dest: bundles certificate_secret_managed intro!: returns_intros)
  note new = this
  show ?thesis
    by (auto simp: PrepareAdmissionWebhooks_def Let_def intro!: returns_intros kept new split: webhook_cert_error.split)
       (simp_all add: managed_result_def)
qed

end

section \<open>A bound on the requests\<close>

lemma emits_draw [emits_intros]: "emits A (draw f)"
  by (simp add: emits_def run_draw split: prod.split)

lemma emits_bind_returns:
  "emits A m \<Longrightarrow> returns Q m \<Longrightarrow> (\<And>a. Q a \<Longrightarrow> emits A (f a)) \<Longrightarrow> emits A (State_Monad.bind m f)"
  by (rule emits_bind_strong) (auto dest: returnsD)

locale effect_bound =
  fixes A :: "event set"
  assumes bound_sleep: "EvSleep d \<in> A"
    and bound_get: "kind \<in> set read_kinds \<Longrightarrow> EvGet kind k \<in> A"
    and bound_list: "kind \<in> set listed_kinds \<Longrightarrow> EvList kind ns \<in> A"
    and bound_cr: "EvUpdateCr c \<in> A" "EvStatusUpdate c \<in> A"
    and bound_secret: "EvUpdateSecret x \<in> A"
    and bound_delete: "kind \<in> set deleted_kinds \<Longrightarrow> EvDelete kind k \<in> A"
    and bound_apply: "managed_object u \<Longrightarrow> EvGet (GetKind u) k \<in> A \<and> EvCreate u \<in> A \<and> EvUpdate u \<in> A"
    and bound_strip: "Gvk u = bindingGvk \<or> Gvk u = instanceGvk \<Longrightarrow> EvUpdate u \<in> A"
    and bound_collection: "g \<in> set (bindingGvk # instanceGvk # module_gvks) \<Longrightarrow> EvDeleteAllOf g ns ls \<in> A"
begin

lemma bound_reads [simp]:
  "EvGet ''BtpOperator'' k \<in> A" "EvGet ''CustomResourceDefinition'' k \<in> A" "EvGet ''Secret'' k \<in> A"
  "EvGet ''ConfigMap'' k \<in> A" "EvList ''Secret'' ns \<in> A" "EvList ''Pod'' ns \<in> A" "EvList ''Namespace'' ns \<in> A"
  "EvList (Kind bindingGvk) ns \<in> A" "EvList (Kind instanceGvk) ns \<in> A"
  "EvList (Kind (GvkToList bindingGvk)) ns \<in> A" "EvList (Kind (GvkToList instanceGvk)) ns \<in> A"
  by (auto intro!: bound_get bound_list simp: read_kinds_def listed_kinds_def)

lemma bound_deletes [simp]:
  "EvDelete ''Secret'' k \<in> A" "EvDelete ''Pod'' k \<in> A" "EvDelete ''NetworkPolicy'' k \<in> A" "EvDelete ''Deployment'' k \<in> A"
  "EvDelete ''MutatingWebhookConfiguration'' k \<in> A" "EvDelete ''ValidatingWebhookConfiguration'' k \<in> A"
  by (auto intro!: bound_delete simp: deleted_kinds_def removable_gvks_def module_gvks_def)

declare bound_sleep [simp] bound_cr [simp] bound_secret [simp]

lemma bounded_status_loop: "emits A (status_loop E timeout st r msg n err)"
  by (induction n arbitrary: err) (auto simp: Let_def intro!: emits_intros)

lemma bounded_status [emits_intros]: "emits A (UpdateBtpOperatorStatus E st r msg)"
  by (auto simp: UpdateBtpOperatorStatus_def intro!: emits_intros bounded_status_loop)

lemma bounded_drift [emits_intros]:
  "emits A (drift_getSecretByNameAndNamespace E name ns)" "emits A (getSapBtpServiceOperatorPod E)"
  "emits A (GetDefaultCredentialsSecret E)" "emits A (GetSapBtpServiceOperatorConfigMap E)"
  "emits A (annotateSecret E x key v)" "emits A (restartSapBtpServiceOperatorPodIfNotReady E)"
  by (auto simp: drift_op_defs intro!: emits_intros)

lemma bounded_checks [emits_intros]:
  "emits A (CheckCredentialsNamespaceDrift E x)" "emits A (CheckClusterIdConfigMapDrift E x)"
  "emits A (ResolveClusterIdSecretDrift E x)" "emits A (DeleteChangedResources E)" "emits A (DeleteClusterIdSecret E)"
  by (auto simp: CheckCredentialsNamespaceDrift_def CheckClusterIdConfigMapDrift_def ResolveClusterIdSecretDrift_def
      DeleteChangedResources_def DeleteClusterIdSecret_def Let_def intro!: emits_intros)

lemma bounded_policies [emits_intros]:
  "emits A (CleanupNetworkPolicies E)" "emits A (DeleteOldWebhookNetworkPolicy E)"
  by (auto simp: CleanupNetworkPolicies_def DeleteOldWebhookNetworkPolicy_def networkPolicyGvk_def module_gvks_def
      intro!: emits_intros bound_collection)

lemma bounded_required_secret [emits_intros]: "emits A (GetAndVerifyRequiredSecret E)"
  by (auto simp: GetAndVerifyRequiredSecret_def getRequiredSecret_def intro!: emits_intros)

lemma bounded_apply: "list_all managed_object us \<Longrightarrow> emits A (ApplyOrUpdateResources E us)"
proof (induction us)
  case (Cons u us)
  have "managed_object (u\<lparr>ResourceVersion := rv\<rparr>)" for rv using Cons.prems by (simp add: managed_object_def)
  then show ?case using Cons
    by (auto simp: applyOrUpdateResource_def applyResource_def updateResource_def bound_apply intro!: emits_intros)
qed (simp add: emits_intros)

lemma bounded_set_clock [emits_intros]: "emits A (modify (\<lambda>s. s\<lparr>clock := f s\<rparr>))"
  by (simp add: emits_def)

lemma bounded_wait:
  assumes "list_all managed_object us"
  shows "emits A (WaitForResourcesReadiness E us)"
proof -
  have loop: "emits A (wait_loop E u start n)" if "managed_object u" for u start n
    using that by (induction n) (auto simp: bound_apply Let_def intro!: emits_intros split: option.split)
  have "emits A (wait_each E start us)" for start
    using assms by (induction us) (auto simp: waitForResource_def intro!: emits_intros loop)
  then show ?thesis by (auto simp: WaitForResourcesReadiness_def intro!: emits_intros)
qed

lemma bounded_delete_each: "\<forall>u \<in> set us. Gvk u \<in> set removable_gvks \<Longrightarrow> emits A (delete_each E us errs)"
  by (induction us arbitrary: errs) (auto simp: Let_def deleted_kinds_def intro!: emits_intros bound_delete)

lemma bounded_delete_types: "\<forall>u \<in> set us. Gvk u \<in> set module_gvks \<Longrightarrow> emits A (delete_types E seen us)"
  by (induction us arbitrary: seen) (auto intro!: emits_intros bound_collection)

lemma bounded_counts [emits_intros]:
  assumes "g = bindingGvk \<or> g = instanceGvk"
  shows "emits A (crdExists E g)" "emits A (numberOfResources E g)" "emits A (resourcesExist E namespaces g)"
    "emits A (left_check E crd namespaces g)"
proof -
  show crd: "emits A (crdExists E g)" by (auto simp: crdExists_def intro!: emits_intros)
  then show "emits A (numberOfResources E g)"
    using assms by (auto simp: numberOfResources_def intro!: emits_intros split: bool.split)
  show ex: "emits A (resourcesExist E namespaces g)"
    using assms by (induction namespaces) (auto simp: Let_def intro!: emits_intros)
  then show "emits A (left_check E crd namespaces g)" by (auto simp: left_check_def intro!: emits_intros)
qed

lemma bounded_hard_delete [emits_intros]: "emits A (await_hard_delete E namespaces)"
proof -
  have all: "emits A (hardDelete E g namespaces)" if "g = bindingGvk \<or> g = instanceGvk" for g
    using that by (induction namespaces) (auto intro!: emits_intros bound_collection)
  have check: "emits A (crd_check E g namespaces)" if "g = bindingGvk \<or> g = instanceGvk" for g
    using that by (auto simp: crd_check_def intro!: emits_intros all split: bool.split)
  have loop: "emits A (hard_delete_loop E namespaces b i deadline n)" for b i deadline n
    by (induction n) (auto intro!: emits_intros)
  show ?thesis
    by (auto simp: await_hard_delete_def handleHardDelete_def Let_def intro!: emits_intros check loop)
qed

lemma bounded_soft_items:
  assumes "g = bindingGvk \<or> g = instanceGvk" and "\<forall>u \<in> set us. Gvk u = g"
  shows "emits A (soft_delete_items E b us)"
  using assms(2)
proof (induction us)
  case (Cons u us)
  then have "Gvk (u\<lparr>Finalizers := []\<rparr>) = g" "EvDelete (GetKind u) k \<in> A" for k
    using assms(1) by (auto intro!: bound_delete simp: deleted_kinds_def)
  with Cons assms(1) show ?case by (auto intro!: emits_intros bound_strip split: option.split)
qed (simp add: emits_intros)

lemma bounded_ensure [emits_intros]:
  "g = bindingGvk \<or> g = instanceGvk \<Longrightarrow> emits A (ensureResourcesDontExist E g)"
  by (auto simp: ensureResourcesDontExist_def intro!: emits_intros)

lemma bounded_sisb [emits_intros]: "emits A (EnableSISBController E)" "emits A DisableSISBController"
proof -
  have ib: "emits A (modify_ib f)" for f by (simp add: modify_ib_def emits_def)
  show "emits A (EnableSISBController E)" "emits A DisableSISBController"
    by (auto simp: EnableSISBController_def DisableSISBController_def Let_def intro!: emits_intros ib)
qed

end

section \<open>The wired program within a bound\<close>

lemma wired_provisioning_fields [simp]:
  "pDriftDetector (wired_provisioning E) = drift_Detector E"
  "pModuleResourceManager (wired_provisioning E) = moduleResource_Manager E"
  "pNetworkPolicyManager (wired_provisioning E) = Some (networkPolicy_Manager E)"
  "pCertManager (wired_provisioning E) = certificate_Manager E"
  "pEnableSISBController (wired_provisioning E) = EnableSISBController E"
  by (simp_all add: wired_provisioning_def)

lemma wired_deprovisioning_fields [simp]:
  "hUpdateBtpOperatorStatus (wired_deprovisioning E) = UpdateBtpOperatorStatus E"
  "hReconcileResourcesWithoutStatusChange (wired_deprovisioning E) = ReconcileResourcesWithoutStatusChange E (wired_provisioning E)"
  "hDisableSISBController (wired_deprovisioning E) = Some DisableSISBController"
  "hDriftDetector (wired_deprovisioning E) = drift_Detector E"
  "hModuleResourceManager (wired_deprovisioning E) = moduleResource_Manager E"
  "hNetworkPolicyManager (wired_deprovisioning E) = Some (networkPolicy_Manager E)"
  by (simp_all add: wired_deprovisioning_def)

lemma partition_webhooks_set:
  "set (fst (partition_webhooks us (a, b))) \<union> set (snd (partition_webhooks us (a, b))) = set us \<union> set a \<union> set b"
  by (induction us arbitrary: a b) auto

lemma PartitionWebhooks_set: "PartitionWebhooks us = (a, b) \<Longrightarrow> set us = set a \<union> set b"
  using partition_webhooks_set[of us "[]" "[]"] by (simp add: PartitionWebhooks_def)

locale bounded_program = effect_bound A + module_manifests E
  for A :: "event set" and E :: "('w, 'v) senv_scheme"
begin

lemma bounded_webhooks: "emits A (PrepareAdmissionWebhooks E us)"
proof -
  have counter: "emits A IncrementCertsRegenerationCounter" by (simp add: IncrementCertsRegenerationCounter_def emits_def)
  have certs: "emits A (generateSelfSignedCert E)" "emits A (generateSignedCert E c k)" for c k
    by (auto simp: generateSelfSignedCert_def generateSignedCert_def GenerateSelfSignedCertificate_def
        GenerateSignedCertificate_def Let_def intro!: emits_intros)
  have "emits A (regenerateCertificates E us)" "emits A (regenerateWebhookCertificate E us data)" for data
    by (auto simp: regenerateCertificates_def regenerateWebhookCertificate_def intro!: emits_intros certs counter)
  note new = this
  show ?thesis
    by (auto simp: PrepareAdmissionWebhooks_def GetCaServerCertSecret_def GetWebhookServerCertSecret_def om_Get_def
        getOptionalSecretByNameAndNamespace_def Let_def intro!: emits_intros new split: webhook_cert_error.split)
qed

lemma applied_managed:
  assumes "list_all managed_object us" and "PartitionWebhooks us = (ws, rest)" and "managed_result (Inr vs)"
  shows "list_all managed_object (DeleteCreationTimestamp (rest @ vs))"
  using assms PartitionWebhooks_set[OF assms(2)]
  by (auto simp: managed_result_def DeleteCreationTimestamp_def list_all_iff managed_object_def)

lemma bounded_delete_outdated [emits_intros]: "emits A (DeleteOutdatedResources E)"
  using to_delete
  by (auto simp: DeleteOutdatedResources_def DeleteResources_def intro!: emits_intros bounded_delete_each)

lemma bounded_policy_step: "emits A (networkPolicyStep (wired_provisioning E) us)"
  by (auto simp: networkPolicyStep_def prov_cleanupNetworkPolicies_def addNetworkPoliciesToResources_def
      networkPolicy_Manager_def intro!: emits_intros)

lemma policy_step_types:
  assumes "\<forall>u \<in> set us. Gvk u \<in> set module_gvks"
  shows "returns (\<lambda>r. \<forall>vs. r = Inr vs \<longrightarrow> (\<forall>u \<in> set vs. Gvk u \<in> set module_gvks)) (networkPolicyStep (wired_provisioning E) us)"
  using assms policies
  by (auto simp: networkPolicyStep_def addNetworkPoliciesToResources_def networkPolicy_Manager_def intro!: returns_intros)

lemma prepare_managed:
  assumes "\<forall>u \<in> set us. Gvk u \<in> set module_gvks"
  shows "returns (\<lambda>p. fst p = None \<longrightarrow> list_all managed_object (snd p)) (PrepareModuleResources E us x)"
  using assms
  by (auto simp: PrepareModuleResources_def list_all_iff intro!: returns_intros split: sum.splits
      intro: prepared_objects_managed)

lemma bounded_apply_all:
  assumes "list_all managed_object us"
  shows "emits A (do {
     let (webhookResources, nonWebhookResources) = PartitionWebhooks us;
     r \<leftarrow> PrepareAdmissionWebhooks E webhookResources;
     case r of
       Inl e \<Rightarrow> ret (Some (wrap e1 e))
     | Inr preparedWebhooks \<Rightarrow> do {
         let resourcesToApply = DeleteCreationTimestamp (nonWebhookResources @ preparedWebhooks);
         err \<leftarrow> ApplyOrUpdateResources E resourcesToApply;
         case err of
           Some e \<Rightarrow> ret (Some (wrap e2 e))
         | None \<Rightarrow> do {
             err \<leftarrow> WaitForResourcesReadiness E resourcesToApply;
             case err of Some e \<Rightarrow> ret (Some (wrap e3 e)) | None \<Rightarrow> ret None } } })"
proof -
  obtain ws rest where part: "PartitionWebhooks us = (ws, rest)" by fastforce
  with assms have "list_all managed_object ws" using PartitionWebhooks_set[OF part] by (auto simp: list_all_iff)
  note hooks = webhooks_managed[OF this] and ready = applied_managed[OF assms part]
  show ?thesis unfolding part Let_def prod.case
    by (rule emits_bind_returns[OF bounded_webhooks hooks])
       (auto intro!: emits_intros bounded_apply bounded_wait ready)
qed

lemma bounded_reconcile [emits_intros]: "emits A (reconcileResources (wired_provisioning E) x)"
proof -
  have rest: "emits A (do {
      (err, us) \<leftarrow> PrepareModuleResources E us x;
      case err of Some e \<Rightarrow> ret (Some (wrap e1 e)) | None \<Rightarrow> f us })"
    if "\<forall>u \<in> set us. Gvk u \<in> set module_gvks" and "\<And>us. list_all managed_object us \<Longrightarrow> emits A (f us)" for us e1 f
    by (rule emits_bind_returns[OF _ prepare_managed[OF that(1)]])
       (auto simp: PrepareModuleResources_def CredentialsNamespaceFromManager_def ClusterIdFromManager_def
          intro!: emits_intros that(2))
  have old: "emits A (deleteOldWebhookNetworkPolicy (wired_provisioning E))"
    by (simp add: deleteOldWebhookNetworkPolicy_def networkPolicy_Manager_def emits_intros)
  have policies: "emits A (do {
      r \<leftarrow> networkPolicyStep (wired_provisioning E) us;
      case r of Inl e \<Rightarrow> ret (Some e) | Inr us \<Rightarrow> f us })"
    if "\<forall>u \<in> set us. Gvk u \<in> set module_gvks" and "\<And>us. \<forall>u \<in> set us. Gvk u \<in> set module_gvks \<Longrightarrow> emits A (f us)" for us f
    by (rule emits_bind_returns[OF bounded_policy_step policy_step_types[OF that(1)]]) (auto intro!: emits_intros that(2))
  show ?thesis
    unfolding reconcileResources_def wired_provisioning_fields moduleResource_Manager_def certificate_Manager_def
      resource_manager.simps certificate_manager.simps Let_def
    by (auto intro!: emits_intros policies rest old bounded_apply_all[unfolded Let_def] dest: to_apply)
qed

lemma bounded_provision [emits_intros]: "emits A (Provision E (wired_provisioning E))"
  by (auto simp: Provision_def Let_def drift_Detector_def moduleResource_Manager_def intro!: emits_intros)

lemma bounded_ready [emits_intros]: "emits A (ReconcileReady (wired_provisioning E) x)"
  by (auto simp: ReconcileReady_def moduleResource_Manager_def intro!: emits_intros)

lemma bounded_restore [emits_intros]: "emits A (ReconcileResourcesWithoutStatusChange E (wired_provisioning E))"
  by (auto simp: ReconcileResourcesWithoutStatusChange_def moduleResource_Manager_def intro!: emits_intros)

lemma bounded_delete_module [emits_intros]: "emits A (deleteBtpOperatorResources E (wired_deprovisioning E))"
proof -
  have "emits A (deleteAllOfResourcesTypes E (us @ vs))"
    if "CreateUnstructuredObjectsFromManifestsDir E (GetResourcesToApplyPath (conf E)) = Inr us"
      "CreateUnstructuredObjectsFromManifestsDir E (GetResourcesToDeletePath (conf E)) = Inr vs" for us vs
    using to_apply[OF that(1)] to_delete[OF that(2)]
    by (auto simp: deleteAllOfResourcesTypes_def removable_gvks_def intro!: bounded_delete_types)
  note types = this
  show ?thesis
    by (auto simp: deleteBtpOperatorResources_def Let_def moduleResource_Manager_def deprov_cleanupNetworkPolicies_def
        networkPolicy_Manager_def drift_Detector_def intro!: emits_intros types)
qed

lemma bounded_soft_delete_type [emits_intros]:
  assumes "g = bindingGvk \<or> g = instanceGvk"
  shows "emits A (soft_delete_type E crd g)"
proof -
  have "emits A (softDelete E g)" unfolding softDelete_def
  proof (rule emits_bind_strong)
    show "emits A (ListUnstructured E cli (GvkToList g) [])" using assms by (auto intro!: emits_intros)
    fix s r s'
    assume "run_state (ListUnstructured E cli (GvkToList g) []) s = (r, s')"
    then have "fst (clListUnstructured (cli E) (GvkToList g) [] (api s)) = r"
      by (simp add: ListUnstructured_def run_api_call split: prod.splits)
    with items[OF assms] show "emits A (case r of Inl e \<Rightarrow> ret (Some (Wrapf [] e ''; could not list in soft delete''))
        | Inr items \<Rightarrow> soft_delete_items E (Kind g = ''ServiceBinding'') items)"
      by (auto intro!: emits_intros bounded_soft_items[OF assms])
  qed
  with assms show ?thesis by (auto simp: soft_delete_type_def intro!: emits_intros)
qed

lemma bounded_delete_everything [emits_intros]:
  "emits A (delete_everything E (wired_deprovisioning E) namespaces)"
proof -
  have "emits A (delete_ignoring_not_found E (soft_delete_targets (conf E)))"
    by (auto simp: soft_delete_targets_def intro!: emits_intros)
  then have "emits A (handleSoftDelete E (wired_deprovisioning E))"
    by (auto simp: handleSoftDelete_def preSoftDeleteCleanup_def deprov_cleanupNetworkPolicies_def networkPolicy_Manager_def
        intro!: emits_intros)
  then show ?thesis
    by (auto simp: delete_everything_def soft_delete_branch_def intro!: emits_intros)
qed

lemma bounded_deprovision [emits_intros]: "emits A (Deprovision E (wired_deprovisioning E))"
proof -
  have "emits A (handleDeprovisioning E (wired_deprovisioning E))"
    by (auto simp: handleDeprovisioning_def intro!: emits_intros)
  then show ?thesis
    by (auto simp: Deprovision_def deprov_getSecretByNameAndNamespace_def remove_cr_finalizer_def drift_Detector_def Let_def
        intro!: emits_intros)
qed

theorem bounded_Reconcile: "emits A (Reconcile E (wired_reconciler E) req)"
proof -
  have "emits A (configurator_Check (drift_Detector E) x)" for x
    by (auto simp: configurator_Check_def drift_Detector_def CredentialsNamespaceFromManager_def ClusterIdFromManager_def Let_def
        intro!: emits_intros)
  then have "emits A (handle_state E (wired_reconciler E))"
    by (auto simp: handle_state_def HandleInitialState_def HandleProcessingState_def HandleWarningState_def
        HandleErrorState_def HandleDeletingState_def HandleReadyState_def wired_reconciler_def
        intro!: emits_intros split: cr_state.split)
  then have "emits A (reconcile_cr E (wired_reconciler E) req)"
    by (auto simp: reconcile_cr_def HandleWrongNamespaceOrName_def Let_def intro!: emits_intros)
  moreover have "emits A (modify (\<lambda>s. s\<lparr>workqueueSize := f (workqueueSize s)\<rparr>))" for f by (simp add: emits_def)
  ultimately show ?thesis by (auto simp: Reconcile_def intro!: emits_intros)
qed

lemma bounded_si_Reconcile: "emits A (si_Reconcile E)"
  by (auto simp: si_Reconcile_def getPrimaryBtpOperator_def si_UpdateBtpOperatorStatus_def Let_def intro!: emits_intros)

end

section \<open>An instance\<close>

text \<open>The wired program on the in-memory cluster with a directory of manifests.\<close>

lemma manifests_keep_types:
  assumes "CreateUnstructuredObjectsFromManifestsDir E dir = Inr us \<or> LoadNetworkPolicies E = Inr us" and "u \<in> set us"
    and decode: "\<And>m x. decodeManifest E m = Inr x \<Longrightarrow> P (Gvk x)" and convert: "\<And>x y. toUnstructured E x = Inr y \<Longrightarrow> Gvk y = Gvk x"
  shows "P (Gvk u)"
proof -
  have made: "\<forall>x \<in> set xs. P (Gvk x)" if "CreateObjectsFromManifests E ms = Inr xs" for ms xs
    using that by (induction ms arbitrary: xs) (auto split: sum.splits dest: decode)
  have kept: "map Gvk ys = map Gvk xs" if "ObjectsToUnstructured E xs = Inr ys" for xs ys
    using that by (induction xs arbitrary: ys) (auto split: sum.splits dest!: convert)
  have "\<exists>d xs. CollectObjectsFromDir E d = Inr xs \<and> ObjectsToUnstructured E xs = Inr us"
    using assms(1) by (auto simp: CreateUnstructuredObjectsFromManifestsDir_def LoadNetworkPolicies_def split: sum.splits)
  then obtain d xs where "CollectObjectsFromDir E d = Inr xs" and "map Gvk us = map Gvk xs" using kept by blast
  moreover from this(1) obtain ms where "CreateObjectsFromManifests E ms = Inr xs"
    by (auto simp: CollectObjectsFromDir_def split: sum.splits)
  ultimately show ?thesis using made assms(2) by (metis (no_types, lifting) imageE image_eqI image_set)
qed

definition manifest_object :: "gvk \<Rightarrow> (string, string) gomap \<Rightarrow> string \<Rightarrow> unstr" where
  "manifest_object g ls name = \<lparr>Name = name, Namespace = [], Labels = ls, Annotations = [], Finalizers = [],
     DeletionTimestamp = None, ResourceVersion = [], Gvk = g, CreationTimestamp = None, ManagedFields = False, Object = JObj []\<rparr>"

definition decode_kind :: "string \<Rightarrow> error + unstr" where
  "decode_kind m = (case List.find (\<lambda>g. Kind g @ [newline] = m) module_gvks of
     None \<Rightarrow> Inl (Errorf ''unknown kind'') | Some g \<Rightarrow> Inr (manifest_object g [] ''object''))"

definition manifest_text :: string where
  "manifest_text = ''Deployment'' @ newline # ''---'' @ newline # ''NetworkPolicy'' @ [newline]"

lemma GvkToList_inject: "GvkToList g = GvkToList h \<longleftrightarrow> g = h"
  by (cases g; cases h) (simp add: GvkToList_def)

lemma list_suffix: "HasSuffix (Kind (GvkToList bindingGvk)) ''List''" "HasSuffix (Kind (GvkToList instanceGvk)) ''List''"
  by code_simp+

definition listing_client :: "cluster client" where
  "listing_client = mem_client\<lparr>clListUnstructured := \<lambda>g ns w.
     (Inr (filter (\<lambda>u. GvkToList (Gvk u) = (if HasSuffix (Kind g) ''List'' then g else GvkToList g) \<and>
        (ns = [] \<or> Namespace u = ns)) (mObjs w)), w)\<rparr>"

definition manifest_env :: "cluster senv" where
  "manifest_env = sym_env\<lparr>cli := listing_client,
     osReadDir := \<lambda>d. Inr (if d = GetResourcesToDeletePath default_config then [] else [''manifests.yml'']),
     osReadFile := \<lambda>f. Inr manifest_text, decodeManifest := decode_kind,
     secretToUnstructured := \<lambda>kind ver x. Inr (manifest_object \<lparr>Group = [], Version = ver, Kind = kind\<rparr> (Labels x) (Name x))\<rparr>"

lemma manifest_env_fields [simp]:
  "cli manifest_env = listing_client" "conf manifest_env = default_config" "toUnstructured manifest_env = Inr"
  "osReadDir manifest_env d = Inr (if d = GetResourcesToDeletePath default_config then [] else [''manifests.yml''])"
  "osReadFile manifest_env f = Inr manifest_text" "decodeManifest manifest_env = decode_kind"
  "secretToUnstructured manifest_env kind ver x = Inr (manifest_object \<lparr>Group = [], Version = ver, Kind = kind\<rparr> (Labels x) (Name x))"
  by (simp_all add: manifest_env_def sym_env_def mem_senv_def sym_cenv_def mem_renv_def mem_menv_def
      env.defs menv.defs renv.defs cenv.defs senv.defs)

lemma manifest_env_objects:
  "CreateUnstructuredObjectsFromManifestsDir manifest_env (GetResourcesToApplyPath default_config) =
     Inr [manifest_object (module_gvks ! 7) [] ''object'', manifest_object (module_gvks ! 12) [] ''object'']"
proof -
  have "yaml_documents manifest_text = [''Deployment'' @ [newline], ''NetworkPolicy'' @ [newline]]"
    "decode_kind (''Deployment'' @ [newline]) = Inr (manifest_object (module_gvks ! 7) [] ''object'')"
    "decode_kind (''NetworkPolicy'' @ [newline]) = Inr (manifest_object (module_gvks ! 12) [] ''object'')"
    "GetResourcesToApplyPath default_config \<noteq> GetResourcesToDeletePath default_config" "isYamlFile ''manifests.yml''"
    by code_simp+
  then show ?thesis
    by (simp add: CreateUnstructuredObjectsFromManifestsDir_def CollectObjectsFromDir_def GetManifestsFromDir_def
        GetManifestsFromYaml_def)
qed

interpretation example_manifests: module_manifests manifest_env
proof
  fix us u
  have decode: "Gvk x \<in> set module_gvks" if "decodeManifest manifest_env m = Inr x" for m x
    using that by (auto simp: decode_kind_def manifest_object_def find_Some_iff in_set_conv_nth split: option.splits)
  show "Gvk u \<in> set module_gvks"
    if "CreateUnstructuredObjectsFromManifestsDir manifest_env (GetResourcesToApplyPath (conf manifest_env)) = Inr us" "u \<in> set us"
    by (rule manifests_keep_types[OF disjI1[OF that(1)] that(2)]) (erule decode, simp)
  show "Gvk u \<in> set module_gvks" if "LoadNetworkPolicies manifest_env = Inr us" "u \<in> set us"
    by (rule manifests_keep_types[OF disjI2[OF that(1)] that(2)]) (erule decode, simp)
  show "Gvk u \<in> set removable_gvks"
    if "CreateUnstructuredObjectsFromManifestsDir manifest_env (GetResourcesToDeletePath (conf manifest_env)) = Inr us" "u \<in> set us"
    using that by (auto simp: CreateUnstructuredObjectsFromManifestsDir_def CollectObjectsFromDir_def GetManifestsFromDir_def)
  show "Gvk u = \<lparr>Group = '''', Version = ''v1'', Kind = ''Secret''\<rparr> \<and> Labels u = Labels x"
    if "secretToUnstructured manifest_env ''Secret'' ''v1'' x = Inr u" for x
    using that by (auto simp: manifest_object_def)
  show "Gvk u = g" if "g = bindingGvk \<or> g = instanceGvk"
    "fst (clListUnstructured (cli manifest_env) (GvkToList g) ns w) = Inr us" "u \<in> set us" for g ns w
    using that by (auto simp: listing_client_def list_suffix GvkToList_inject)
qed

end
