(* ===== verification/Permissions.thy ===== *)
theory Permissions
  imports Effects Probe_Runner
begin

text \<open>
  The role of the manager and the requests of the program. The RBAC markers of the controllers, from which the
  manager's ClusterRole is generated, are data here; the property says that no request of a reconcile, of the
  service instance controller or of a probe cycle goes beyond them.
\<close>

section \<open>The markers\<close>

record rbac_marker =
  RbacGroups :: "string list"
  RbacResources :: "string list"
  RbacVerbs :: "string list"

definition rbac :: "string \<Rightarrow> string list \<Rightarrow> string list \<Rightarrow> rbac_marker" where
  "rbac g rs vs = \<lparr>RbacGroups = [g], RbacResources = rs, RbacVerbs = vs\<rparr>"

definition operator_markers :: "rbac_marker list" where
  "operator_markers =
     [rbac ''operator.kyma-project.io'' [''btpoperators''] [''get'', ''list'', ''watch'', ''update'', ''patch''],
      rbac ''operator.kyma-project.io'' [''btpoperators/status''] [''get'', ''update'', ''patch''],
      rbac ''services.cloud.sap.com'' [''serviceinstances'', ''servicebindings'']
        [''create'', ''get'', ''list'', ''watch'', ''update'', ''patch'', ''delete''],
      rbac ''services.cloud.sap.com'' [''serviceinstances/status'', ''servicebindings/status''] [''get'', ''update'', ''patch''],
      rbac ''coordination.k8s.io'' [''leases''] [''create'', ''get'', ''list'', ''update''],
      rbac '''' [''namespaces''] [''get'', ''list'', ''watch''],
      rbac '''' [''pods''] [''get'', ''list'', ''delete''],
      rbac '''' [''events''] [''create'', ''delete'', ''get'', ''list'', ''patch'', ''update'', ''watch''],
      rbac ''authentication.k8s.io'' [''tokenreviews''] [''create''],
      rbac ''authorization.k8s.io'' [''subjectaccessreviews''] [''create''],
      rbac ''networking.k8s.io'' [''networkpolicies'']
        [''get'', ''list'', ''watch'', ''create'', ''update'', ''patch'', ''delete'', ''deletecollection''],
      rbac '''' [''serviceaccounts''] [''get'', ''create'', ''update'', ''patch'', ''deletecollection''],
      rbac '''' [''services''] [''get'', ''create'', ''update'', ''patch'', ''deletecollection''],
      rbac ''admissionregistration.k8s.io'' [''mutatingwebhookconfigurations'']
        [''get'', ''list'', ''watch'', ''create'', ''update'', ''patch'', ''delete'', ''deletecollection''],
      rbac ''admissionregistration.k8s.io'' [''validatingwebhookconfigurations'']
        [''get'', ''list'', ''watch'', ''create'', ''update'', ''patch'', ''delete'', ''deletecollection''],
      rbac ''apiextensions.k8s.io'' [''customresourcedefinitions'']
        [''get'', ''list'', ''watch'', ''create'', ''update'', ''patch'', ''deletecollection''],
      rbac ''apps'' [''deployments'']
        [''get'', ''list'', ''watch'', ''create'', ''update'', ''patch'', ''delete'', ''deletecollection''],
      rbac ''rbac.authorization.k8s.io'' [''clusterrolebindings'']
        [''get'', ''create'', ''update'', ''patch'', ''deletecollection''],
      rbac ''rbac.authorization.k8s.io'' [''clusterroles'']
        [''get'', ''list'', ''watch'', ''create'', ''update'', ''patch'', ''delete'', ''deletecollection'', ''bind''],
      rbac ''rbac.authorization.k8s.io'' [''rolebindings'']
        [''get'', ''create'', ''update'', ''patch'', ''deletecollection''],
      rbac ''rbac.authorization.k8s.io'' [''roles'']
        [''get'', ''list'', ''watch'', ''create'', ''update'', ''patch'', ''delete'', ''deletecollection'', ''bind''],
      rbac '''' [''configmaps''] [''deletecollection''],
      rbac '''' [''secrets''] [''deletecollection''],
      rbac ''services.cloud.sap.com'' [''servicebindings''] [''deletecollection''],
      rbac ''services.cloud.sap.com'' [''serviceinstances''] [''deletecollection'']]"

definition chart_markers :: "rbac_marker list" where
  "chart_markers =
     [rbac '''' [''configmaps''] [''create'', ''delete'', ''get'', ''list'', ''patch'', ''update'', ''watch''],
      rbac '''' [''configmaps/status''] [''get'', ''patch'', ''update''],
      rbac '''' [''events''] [''create''],
      rbac '''' [''secrets''] [''create'', ''delete'', ''get'', ''list'', ''patch'', ''update'', ''watch''],
      rbac ''coordination.k8s.io'' [''leases''] [''create'', ''get'', ''list'', ''update''],
      rbac ''services.cloud.sap.com'' [''servicebindings'']
        [''create'', ''delete'', ''get'', ''list'', ''patch'', ''update'', ''watch''],
      rbac ''services.cloud.sap.com'' [''servicebindings/status''] [''get'', ''patch'', ''update''],
      rbac ''services.cloud.sap.com'' [''serviceinstances'']
        [''create'', ''delete'', ''get'', ''list'', ''patch'', ''update'', ''watch''],
      rbac ''services.cloud.sap.com'' [''serviceinstances/status''] [''get'', ''patch'', ''update'']]"

definition probe_markers :: "rbac_marker list" where
  "probe_markers = [rbac ''batch'' [''jobs''] [''get'', ''list'', ''watch'', ''create'', ''delete'']]"

definition granted :: "string \<Rightarrow> string \<Rightarrow> string \<Rightarrow> bool" where
  "granted g r v \<longleftrightarrow> list_ex (\<lambda>m. g \<in> set (RbacGroups m) \<and> r \<in> set (RbacResources m) \<and> v \<in> set (RbacVerbs m))
     (operator_markers @ chart_markers @ probe_markers)"

section \<open>Requests and permissions\<close>

text \<open>The group and the resource under which the API server serves a kind. The client lists the kind that a list kind
  names without its suffix.\<close>

definition api_resources :: "(string \<times> string \<times> string) list" where
  "api_resources =
     [(''BtpOperator'', ''operator.kyma-project.io'', ''btpoperators''),
      (''ServiceInstance'', ''services.cloud.sap.com'', ''serviceinstances''),
      (''ServiceBinding'', ''services.cloud.sap.com'', ''servicebindings''),
      (''ServiceInstanceList'', ''services.cloud.sap.com'', ''serviceinstances''),
      (''ServiceBindingList'', ''services.cloud.sap.com'', ''servicebindings''),
      (''Secret'', '''', ''secrets''), (''ConfigMap'', '''', ''configmaps''), (''Pod'', '''', ''pods''),
      (''Namespace'', '''', ''namespaces''), (''Service'', '''', ''services''), (''ServiceAccount'', '''', ''serviceaccounts''),
      (''CustomResourceDefinition'', ''apiextensions.k8s.io'', ''customresourcedefinitions''),
      (''Deployment'', ''apps'', ''deployments''), (''Job'', ''batch'', ''jobs''),
      (''ClusterRole'', ''rbac.authorization.k8s.io'', ''clusterroles''),
      (''ClusterRoleBinding'', ''rbac.authorization.k8s.io'', ''clusterrolebindings''),
      (''Role'', ''rbac.authorization.k8s.io'', ''roles''),
      (''RoleBinding'', ''rbac.authorization.k8s.io'', ''rolebindings''),
      (''MutatingWebhookConfiguration'', ''admissionregistration.k8s.io'', ''mutatingwebhookconfigurations''),
      (''ValidatingWebhookConfiguration'', ''admissionregistration.k8s.io'', ''validatingwebhookconfigurations''),
      (''NetworkPolicy'', ''networking.k8s.io'', ''networkpolicies'')]"

definition may :: "string \<Rightarrow> string \<Rightarrow> bool" where
  "may verb kind = (case map_of api_resources kind of None \<Rightarrow> False | Some (g, r) \<Rightarrow> granted g r verb)"

definition may_gvk :: "string \<Rightarrow> gvk \<Rightarrow> bool" where
  "may_gvk verb g \<longleftrightarrow> map_option fst (map_of api_resources (Kind g)) = Some (Group g) \<and> may verb (Kind g)"

fun permitted :: "event \<Rightarrow> bool" where
  "permitted (EvGet kind k) \<longleftrightarrow> may ''get'' kind"
| "permitted (EvList kind ns) \<longleftrightarrow> may ''list'' kind"
| "permitted (EvCreate u) \<longleftrightarrow> may_gvk ''create'' (Gvk u)"
| "permitted (EvCreateJob j) \<longleftrightarrow> may ''create'' ''Job''"
| "permitted (EvUpdate u) \<longleftrightarrow> may_gvk ''update'' (Gvk u)"
| "permitted (EvUpdateSecret x) \<longleftrightarrow> may ''update'' ''Secret''"
| "permitted (EvUpdateCr c) \<longleftrightarrow> may ''update'' ''BtpOperator''"
| "permitted (EvStatusUpdate c) \<longleftrightarrow> granted ''operator.kyma-project.io'' ''btpoperators/status'' ''update''"
| "permitted (EvPatchCr b c) \<longleftrightarrow> may ''patch'' ''BtpOperator''"
| "permitted (EvDelete kind k) \<longleftrightarrow> may ''delete'' kind"
| "permitted (EvDeleteAllOf g ns ls) \<longleftrightarrow> may_gvk ''deletecollection'' g"
| "permitted (EvSleep d) \<longleftrightarrow> True"

lemma kinds_permitted:
  "list_all (may ''get'') (''Job'' # read_kinds)" "list_all (may ''list'') listed_kinds"
  "list_all (may ''delete'') (''Job'' # deleted_kinds)"
  "list_all (may_gvk ''deletecollection'') (bindingGvk # instanceGvk # module_gvks)"
  "list_all (\<lambda>g. may ''get'' (Kind g) \<and> may_gvk ''create'' g \<and> may_gvk ''update'' g) module_gvks"
  "list_all (may_gvk ''update'') [bindingGvk, instanceGvk]" "may ''create'' ''Job''"
  "may ''update'' ''Secret''" "may ''update'' ''BtpOperator''" "may ''patch'' ''BtpOperator''"
  "granted ''operator.kyma-project.io'' ''btpoperators/status'' ''update''"
  by code_simp+

interpretation rbac: effect_bound "Collect permitted"
  using kinds_permitted
  by unfold_locales (auto simp: list_all_iff managed_object_def)

lemma probe_kinds_permitted:
  "may ''get'' ''Job''" "may ''create'' ''Job''" "may ''delete'' ''Job''" "may ''get'' ''BtpOperator''"
  "may ''patch'' ''BtpOperator''" "may ''list'' ''Pod''" "may ''delete'' ''Pod''"
  by code_simp+

lemma probe_permitted: "emits (Collect permitted) (runCycle E r)"
  by (auto simp: runCycle_def deleteOldJob_def getUpdatedAt_def createJob_def waitForJob_def old_job_gone_def job_finished_def
      process_probe_result_def record_last_hash_def restartBtpOperatorPods_def Let_def probe_kinds_permitted
      intro!: emits_intros emits_delete_pods)

text \<open>Gaps of the role: it has no watch on pods, and of the module's own types these cannot be deleted one by one.\<close>

lemma role_gaps:
  "\<not> may ''watch'' ''Pod''"
  "filter (\<lambda>g. \<not> may_gvk ''delete'' g) module_gvks = filter (\<lambda>g. Kind g \<in> {''CustomResourceDefinition'', ''Service'',
     ''ClusterRoleBinding'', ''RoleBinding'', ''ServiceAccount''}) module_gvks"
  by code_simp+

text \<open>
  C12: the RBAC markers of the controllers grant every request that the program sends in a reconcile of the CR
  (provisioning, drift handling, hard and soft delete included), in a reconcile of the service instance
  controller and in a cycle of the probe, whatever the API server answers: the verb, on the resource of the kind,
  in its group. The manifests to apply have the types of the repository, and those to delete types of
  which single objects may be deleted.
\<close>

theorem requests_permitted:
  fixes E :: "('w, 'v) senv_scheme"
  assumes "module_manifests E"
  shows "emits (Collect permitted) (Reconcile E (wired_reconciler E) req :: (('w, 'z) rstate_scheme, _) state) \<and>
    emits (Collect permitted) (si_Reconcile E :: (('w, 'z) kstate_scheme, _) state) \<and>
    emits (Collect permitted) (runCycle Ep r :: (('w, 'z) pstate_scheme, _) state)"
proof -
  have "bounded_program (Collect permitted) E"
    using assms rbac.effect_bound_axioms by (simp add: bounded_program_def)
  then show ?thesis
    by (simp add: bounded_program.bounded_Reconcile bounded_program.bounded_si_Reconcile probe_permitted)
qed

theorem requests_permitted_witness:
  "emits (Collect permitted) (Reconcile manifest_env (wired_reconciler manifest_env) PrimaryCrKey :: (cluster rstate, _) state) \<and>
   emits (Collect permitted) (si_Reconcile manifest_env :: (cluster kstate, _) state) \<and>
   emits (Collect permitted)
     (runCycle mem_penv \<lparr>probeImage = ''probe'', tokenURLOverride = [], forceHash = []\<rparr> :: (cluster pstate, _) state)"
  by (rule requests_permitted[OF example_manifests.module_manifests_axioms])

end
