(* ===== verification/Cache.thy ===== *)
theory Cache
  imports Effects Go_Strings
begin

text \<open>
  The cache of the manager's client (\<^verbatim>\<open>controllers/cache.go\<close>) shows only labelled objects of four types. The property says
  that the program's own objects are always among them, so that what it has written it finds again.
\<close>

section \<open>The options of the cache\<close>

text \<open>\<^verbatim>\<open>cache.Options\<close>, of which the code sets \<^verbatim>\<open>ByObject\<close>: the selector of a type. The Go map has an empty object of each type
  as its keys; here the key is the kind.\<close>

record 'sel cache_options =
  ByObject :: "(string, 'sel) gomap"

definition cacheLabelSelector :: string where
  "cacheLabelSelector = ''app.kubernetes.io/managed-by in (btp-manager,kcp-kyma-environment-broker)''"

text \<open>\<^verbatim>\<open>labels.Parse\<close> and \<^verbatim>\<open>cache.New\<close> are parameters.\<close>

definition CacheCreator ::
    "(string \<Rightarrow> error + 'sel) \<Rightarrow> ('cfg \<Rightarrow> ('sel, 'o) cache_options_scheme \<Rightarrow> error + 'c) \<Rightarrow> 'cfg
      \<Rightarrow> ('sel, 'o) cache_options_scheme \<Rightarrow> error + 'c" where
  "CacheCreator parse new cfg opts =
     (case parse cacheLabelSelector of
        Inl e \<Rightarrow> Inl (Panicked (''unable to parse label selector: '' @ Error e))
      | Inr objSelector \<Rightarrow>
          new cfg (opts\<lparr>ByObject :=
            [(''Secret'', objSelector), (''ConfigMap'', objSelector),
             (''ValidatingWebhookConfiguration'', objSelector), (''MutatingWebhookConfiguration'', objSelector)]\<rparr>))"

text \<open>What a cache with such options shows: every object of a type without a selector, and of the others those
  whose labels the selector matches.\<close>

definition cache_shows :: "('sel \<Rightarrow> (string, string) gomap \<Rightarrow> bool) \<Rightarrow> ('sel, 'o) cache_options_scheme \<Rightarrow> unstr \<Rightarrow> bool" where
  "cache_shows matches opts u = (case map_of (ByObject opts) (GetKind u) of None \<Rightarrow> True | Some sel \<Rightarrow> matches sel (Labels u))"

text \<open>The documented meaning of the selector: the label has one of the values.\<close>

definition selector_documented :: "(string \<Rightarrow> error + 'sel) \<Rightarrow> ('sel \<Rightarrow> (string, string) gomap \<Rightarrow> bool) \<Rightarrow> bool" where
  "selector_documented parse matches \<longleftrightarrow> (\<exists>sel. parse cacheLabelSelector = Inr sel \<and>
     (\<forall>ls. matches sel ls \<longleftrightarrow>
        map_of ls ''app.kubernetes.io/managed-by'' \<in> {Some ''btp-manager'', Some ''kcp-kyma-environment-broker''}))"

section \<open>The program's own objects\<close>

text \<open>Requests that write no object of the module, or one that the cache shows and that the removal of the module
  resources selects by its label.\<close>

definition seen_writes :: "('sel \<Rightarrow> (string, string) gomap \<Rightarrow> bool) \<Rightarrow> ('sel, 'o) cache_options_scheme \<Rightarrow> event set" where
  "seen_writes matches opts = {ev. \<forall>u. ev = EvCreate u \<or> ev = EvUpdate u \<longrightarrow>
     cache_shows matches opts u \<and>
     (Gvk u \<noteq> bindingGvk \<and> Gvk u \<noteq> instanceGvk \<longrightarrow> (\<forall>(k, v) \<in> set managedByLabelFilter. map_of (Labels u) k = Some v))}"

lemma seen_writes_bound:
  assumes "\<And>ls. map_of ls managedByLabelKey = Some operatorName \<Longrightarrow> matches sel ls"
    and "ByObject opts = [(''Secret'', sel), (''ConfigMap'', sel), (''ValidatingWebhookConfiguration'', sel),
      (''MutatingWebhookConfiguration'', sel)]"
  shows "effect_bound (seen_writes matches opts)"
  using assms
  by unfold_locales
    (auto simp: seen_writes_def cache_shows_def managed_object_def managedByLabelFilter_def bindingGvk_def instanceGvk_def)


text \<open>A parser of selectors of this form, and the program on the in-memory cluster.\<close>

definition parse_in :: "string \<Rightarrow> error + string \<times> string list" where
  "parse_in s =
     (let key = takeWhile (\<lambda>c. c \<noteq> CHR '' '') s; rest = drop (length key) s in
      if HasPrefix rest '' in ('' \<and> HasSuffix rest '')''
      then Inr (key, Split (butlast (drop 5 rest)) '','')
      else Inl (Errorf ''unable to parse requirement''))"

definition matches_in :: "string \<times> string list \<Rightarrow> (string, string) gomap \<Rightarrow> bool" where
  "matches_in sel ls = (case map_of ls (fst sel) of None \<Rightarrow> False | Some v \<Rightarrow> v \<in> set (snd sel))"

lemma parse_in_documented: "selector_documented parse_in matches_in"
proof -
  have "parse_in cacheLabelSelector = Inr (''app.kubernetes.io/managed-by'', [''btp-manager'', ''kcp-kyma-environment-broker''])"
    by code_simp
  then show ?thesis by (auto simp: selector_documented_def matches_in_def split: option.splits)
qed


end
