(* ===== verification/Leftovers.thy ===== *)
theory Leftovers
  imports Effects
begin

text \<open>
  What the removal of the module resources does not reach. Provisioning puts the operand's secret, a copy of the
  credentials for the service manager, into the credentials namespace; the removal deletes by type and label,
  but in the chart namespace only.
\<close>

definition deletes_secret :: "objkey \<Rightarrow> event \<Rightarrow> bool" where
  "deletes_secret k ev =
     (case ev of
        EvDelete kind k' \<Rightarrow> kind = ''Secret'' \<and> k' = k
      | EvDeleteAllOf g ns ls \<Rightarrow> Kind g = ''Secret'' \<and> ns = KeyNamespace k
      | _ \<Rightarrow> False)"

lemma delete_types_namespace:
  "KeyNamespace k \<noteq> ChartNamespace (conf E) \<Longrightarrow> emits {ev. \<not> deletes_secret k ev} (delete_types E seen us)"
  by (induction us arbitrary: seen) (auto simp: deletes_secret_def intro!: emits_intros)

lemma delete_cluster_id_only:
  assumes "\<And>k w x. fst (clGetSecret (apicli E) k w) = Inr x \<Longrightarrow> ObjectKeyFromObject x = k"
    and "KeyName k \<noteq> SapBtpServiceOperatorClusterIdSecretName"
  shows "emits {ev. \<not> deletes_secret k ev} (DeleteClusterIdSecret E)"
proof -
  have found: "returns (\<lambda>r. \<forall>x. r = Inr (Some x) \<longrightarrow> ObjectKeyFromObject x = \<lparr>KeyName = name, KeyNamespace = ns\<rparr>)
      (drift_getSecretByNameAndNamespace E name ns)" for name ns
    unfolding returns_def drift_getSecretByNameAndNamespace_def GetSecret_def
    by (auto simp: run_api_call split: prod.splits sum.splits dest: assms(1) intro: assms(1))
  have reads: "emits {ev. \<not> deletes_secret k ev} (drift_getSecretByNameAndNamespace E name ns)" for name ns
    by (auto simp: drift_getSecretByNameAndNamespace_def deletes_secret_def intro!: emits_intros)
  have other: "EvDelete ''Secret'' (ObjectKeyFromObject x) \<in> {ev. \<not> deletes_secret k ev}"
    if "ObjectKeyFromObject x = \<lparr>KeyName = SapBtpServiceOperatorClusterIdSecretName, KeyNamespace = ns\<rparr>" for x :: secret and ns
    using that assms(2) by (auto simp: deletes_secret_def)
  show ?thesis unfolding DeleteClusterIdSecret_def
    by (rule emits_bind[OF emits_gets], rule emits_bind_returns[OF reads found])
       (auto simp: deleteObject_def simp del: mem_Collect_eq intro!: emits_intros other)
qed

text \<open>
  C15: if the credentials namespace is not the chart namespace, the removal of the module resources sends no request
  that would delete the operand's secret with the credentials there, by name or as one of a collection; with
  it the secret outlives the module. The API server answers the read of a secret with the secret asked for.
\<close>

theorem removal_keeps_credentials_secret:
  assumes "\<And>k w x. fst (clGetSecret (apicli E) k w) = Inr x \<Longrightarrow> ObjectKeyFromObject x = k"
    and "ns \<noteq> ChartNamespace (conf E)"
    and "run_state (deleteBtpOperatorResources E (wired_deprovisioning E)) s = (err, s')"
  shows "\<exists>t. trace s' = trace s @ t \<and>
    list_all (\<lambda>ev. \<not> deletes_secret \<lparr>KeyName = SapBtpServiceOperatorSecretName, KeyNamespace = ns\<rparr> ev) t"
proof -
  let ?k = "\<lparr>KeyName = SapBtpServiceOperatorSecretName, KeyNamespace = ns\<rparr>"
  have name: "KeyName ?k \<noteq> SapBtpServiceOperatorClusterIdSecretName"
    by (simp add: SapBtpServiceOperatorSecretName_def SapBtpServiceOperatorClusterIdSecretName_def operandName_def)
  have "emits {ev. \<not> deletes_secret ?k ev} (CleanupNetworkPolicies E)"
    by (auto simp: CleanupNetworkPolicies_def networkPolicyGvk_def deletes_secret_def intro!: emits_intros)
  then have "emits {ev. \<not> deletes_secret ?k ev} (deleteBtpOperatorResources E (wired_deprovisioning E))"
    using assms(2)
    by (auto simp: deleteBtpOperatorResources_def Let_def moduleResource_Manager_def deleteAllOfResourcesTypes_def
        deprov_cleanupNetworkPolicies_def networkPolicy_Manager_def drift_Detector_def
        intro!: emits_intros delete_types_namespace delete_cluster_id_only[OF assms(1) name])
  from emitsD[OF this assms(3)] show ?thesis by (auto simp: list_all_iff)
qed

theorem removal_keeps_credentials_secret_witness:
  "\<exists>t. trace (snd (run_state (deleteBtpOperatorResources manifest_env (wired_deprovisioning manifest_env))
       (cr_rstate (primary_cr example_status)))) = t \<and>
     list_all (\<lambda>ev. \<not> deletes_secret \<lparr>KeyName = SapBtpServiceOperatorSecretName, KeyNamespace = ''custom''\<rparr> ev) t"
proof -
  have "ObjectKeyFromObject x = k" if "fst (clGetSecret (apicli manifest_env) k w) = Inr x" for k w x
    using that by (auto simp: manifest_env_def mem_client_def find_key_def find_Some_iff split: option.splits)
  moreover have "''custom'' \<noteq> ChartNamespace (conf manifest_env)" by (simp add: default_config_def)
  ultimately show ?thesis
    using removal_keeps_credentials_secret[OF _ _ prod.collapse[symmetric], of manifest_env "''custom''" "cr_rstate (primary_cr example_status)"]
    by simp
qed

end
