(* ===== verification/Deep_Copy.thy ===== *)
theory Deep_Copy
  imports Kube
begin

text \<open>
  The BtpOperator object on a heap, with the pointers that the other theories leave out: a status holds a slice
  of pointers to conditions, and the annotations are a map behind a reference. Here are the deep copies of
  \<^verbatim>\<open>api/v1alpha1/zz_generated.deepcopy.go\<close> and the two updates that the program makes through such pointers:
  \<^verbatim>\<open>SetStatusCondition\<close>, which writes into the slice's backing array, and the annotation which the probe sets on a CR
  after it has taken a copy as the base of its patch. They refine the updates of values, and a deep copy
  is not touched by them. Labels, finalizers and the other reference fields of the metadata stay values.
\<close>

section \<open>The heap\<close>

type_synonym addr = nat

text \<open>
  A slice is nil or a backing array with a length; the capacity is the length of the array. No slice of the
  program starts within an array.
\<close>

type_synonym slice = "(addr \<times> nat) option"

record hstatus =
  HState :: cr_state
  HConditions :: slice

record hbtpoperator =
  HMeta :: objmeta
  HAnnotations :: "addr option"
  HStatus :: hstatus

datatype cell =
    CondCell condition
  | ArrayCell "addr option list"
  | MapCell "(string, string) gomap"
  | CrCell hbtpoperator

record heap =
  cells :: "addr \<Rightarrow> cell option"
  next_addr :: addr

definition wf_heap :: "heap \<Rightarrow> bool" where
  "wf_heap h \<longleftrightarrow> (\<forall>a. cells h a \<noteq> None \<longrightarrow> a < next_addr h)"

definition alloc :: "cell \<Rightarrow> heap \<Rightarrow> addr \<times> heap" where
  "alloc v h = (next_addr h, \<lparr>cells = (cells h)(next_addr h := Some v), next_addr = next_addr h + 1\<rparr>)"

definition store :: "addr \<Rightarrow> cell \<Rightarrow> heap \<Rightarrow> heap" where
  "store a v h = h\<lparr>cells := (cells h)(a := Some v)\<rparr>"

text \<open>Reads through a pointer; \<open>None\<close> is the panic of a nil pointer.\<close>

definition cond_at :: "heap \<Rightarrow> addr \<Rightarrow> condition option" where
  "cond_at h a = (case cells h a of Some (CondCell c) \<Rightarrow> Some c | _ \<Rightarrow> None)"

definition array_at :: "heap \<Rightarrow> addr \<Rightarrow> addr option list" where
  "array_at h a = (case cells h a of Some (ArrayCell ps) \<Rightarrow> ps | _ \<Rightarrow> [])"

definition map_at :: "heap \<Rightarrow> addr option \<Rightarrow> (string, string) gomap" where
  "map_at h p = (case p of Some a \<Rightarrow> (case cells h a of Some (MapCell m) \<Rightarrow> m | _ \<Rightarrow> []) | None \<Rightarrow> [])"

definition cr_at :: "heap \<Rightarrow> addr \<Rightarrow> hbtpoperator option" where
  "cr_at h a = (case cells h a of Some (CrCell o') \<Rightarrow> Some o' | _ \<Rightarrow> None)"

text \<open>The pointers of a slice.\<close>

definition pointers :: "heap \<Rightarrow> slice \<Rightarrow> addr option list" where
  "pointers h sl = (case sl of None \<Rightarrow> [] | Some (a, n) \<Rightarrow> take n (array_at h a))"

section \<open>Deep copies\<close>

text \<open>The loop of \<^verbatim>\<open>Status.DeepCopyInto\<close>, over the indices of the slice.\<close>

fun copy_conditions :: "addr \<Rightarrow> addr \<Rightarrow> nat list \<Rightarrow> heap \<Rightarrow> heap option" where
  "copy_conditions src dst [] h = Some h"
| "copy_conditions src dst (i # is) h =
     (case array_at h src ! i of
        None \<Rightarrow> copy_conditions src dst is h
      | Some a \<Rightarrow>
          (case cond_at h a of
             None \<Rightarrow> None
           | Some c \<Rightarrow>
               let (b, h1) = alloc (CondCell c) h
               in copy_conditions src dst is (store dst (ArrayCell ((array_at h1 dst)[i := Some b])) h1)))"

definition Status_DeepCopyInto :: "hstatus \<Rightarrow> heap \<Rightarrow> (hstatus \<times> heap) option" where
  "Status_DeepCopyInto st h =
     (case HConditions st of
        None \<Rightarrow> Some (st, h)
      | Some (src, n) \<Rightarrow>
          let (dst, h1) = alloc (ArrayCell (replicate n None)) h
          in (case copy_conditions src dst [0..<n] h1 of
                None \<Rightarrow> None
              | Some h2 \<Rightarrow> Some (st\<lparr>HConditions := Some (dst, n)\<rparr>, h2)))"

text \<open>
  \<^verbatim>\<open>ObjectMeta.DeepCopyInto\<close> is library code: a function that copies the map of annotations, of which the
  locale states that the copy is new and has the same entries.
\<close>

definition BtpOperator_DeepCopyInto ::
    "(addr option \<Rightarrow> heap \<Rightarrow> addr option \<times> heap) \<Rightarrow> hbtpoperator \<Rightarrow> heap \<Rightarrow> (hbtpoperator \<times> heap) option" where
  "BtpOperator_DeepCopyInto copyMeta o' h =
     (let (annotations, h1) = copyMeta (HAnnotations o') h in
      case Status_DeepCopyInto (HStatus o') h1 of
        None \<Rightarrow> None
      | Some (st, h2) \<Rightarrow> Some (o'\<lparr>HAnnotations := annotations, HStatus := st\<rparr>, h2))"

definition BtpOperator_DeepCopy ::
    "(addr option \<Rightarrow> heap \<Rightarrow> addr option \<times> heap) \<Rightarrow> addr option \<Rightarrow> heap \<Rightarrow> (addr option \<times> heap) option" where
  "BtpOperator_DeepCopy copyMeta p h =
     (case p of
        None \<Rightarrow> Some (None, h)
      | Some a \<Rightarrow>
          (case cr_at h a of
             None \<Rightarrow> None
           | Some o' \<Rightarrow>
               (case BtpOperator_DeepCopyInto copyMeta o' h of
                  None \<Rightarrow> None
                | Some (o'', h1) \<Rightarrow> let (b, h2) = alloc (CrCell o'') h1 in Some (Some b, h2))))"

definition BtpOperator_DeepCopyObject ::
    "(addr option \<Rightarrow> heap \<Rightarrow> addr option \<times> heap) \<Rightarrow> addr option \<Rightarrow> heap \<Rightarrow> (addr option \<times> heap) option" where
  "BtpOperator_DeepCopyObject copyMeta p h =
     (case BtpOperator_DeepCopy copyMeta p h of
        None \<Rightarrow> None
      | Some (Some b, h1) \<Rightarrow> Some (Some b, h1)
      | Some (None, h1) \<Rightarrow> Some (None, h1))"

text \<open>The items of a list of CRs are values in a slice, which the copy allocates anew.\<close>

fun copy_items ::
    "(addr option \<Rightarrow> heap \<Rightarrow> addr option \<times> heap) \<Rightarrow> hbtpoperator list \<Rightarrow> heap \<Rightarrow> (hbtpoperator list \<times> heap) option" where
  "copy_items copyMeta [] h = Some ([], h)"
| "copy_items copyMeta (o' # os) h =
     (case BtpOperator_DeepCopyInto copyMeta o' h of
        None \<Rightarrow> None
      | Some (o'', h1) \<Rightarrow>
          (case copy_items copyMeta os h1 of None \<Rightarrow> None | Some (os', h2) \<Rightarrow> Some (o'' # os', h2)))"

definition BtpOperatorList_DeepCopyInto ::
    "(addr option \<Rightarrow> heap \<Rightarrow> addr option \<times> heap) \<Rightarrow> hbtpoperator list option \<Rightarrow> heap
      \<Rightarrow> (hbtpoperator list option \<times> heap) option" where
  "BtpOperatorList_DeepCopyInto copyMeta items h =
     (case items of
        None \<Rightarrow> Some (None, h)
      | Some os \<Rightarrow> (case copy_items copyMeta os h of None \<Rightarrow> None | Some (os', h1) \<Rightarrow> Some (Some os', h1)))"

definition BtpOperatorList_DeepCopy ::
    "(addr option \<Rightarrow> heap \<Rightarrow> addr option \<times> heap) \<Rightarrow> hbtpoperator list option option \<Rightarrow> heap
      \<Rightarrow> (hbtpoperator list option option \<times> heap) option" where
  "BtpOperatorList_DeepCopy copyMeta l h =
     (case l of
        None \<Rightarrow> Some (None, h)
      | Some items \<Rightarrow>
          (case BtpOperatorList_DeepCopyInto copyMeta items h of
             None \<Rightarrow> None
           | Some (items', h1) \<Rightarrow> Some (Some items', h1)))"

definition BtpOperatorList_DeepCopyObject ::
    "(addr option \<Rightarrow> heap \<Rightarrow> addr option \<times> heap) \<Rightarrow> hbtpoperator list option option \<Rightarrow> heap
      \<Rightarrow> (hbtpoperator list option option \<times> heap) option" where
  "BtpOperatorList_DeepCopyObject copyMeta l h =
     (case BtpOperatorList_DeepCopy copyMeta l h of
        None \<Rightarrow> None
      | Some (Some c, h1) \<Rightarrow> Some (Some c, h1)
      | Some (None, h1) \<Rightarrow> Some (None, h1))"

text \<open>The spec is an empty struct, so its copies are those of a value of the type with one element.\<close>

type_synonym hspec = unit

definition BtpOperatorSpec_DeepCopyInto :: "hspec \<Rightarrow> hspec" where
  "BtpOperatorSpec_DeepCopyInto sp = sp"

definition BtpOperatorSpec_DeepCopy :: "hspec option \<Rightarrow> hspec option" where
  "BtpOperatorSpec_DeepCopy sp = (case sp of None \<Rightarrow> None | Some x \<Rightarrow> Some (BtpOperatorSpec_DeepCopyInto x))"

definition Status_DeepCopy :: "hstatus option \<Rightarrow> heap \<Rightarrow> (hstatus option \<times> heap) option" where
  "Status_DeepCopy st h =
     (case st of
        None \<Rightarrow> Some (None, h)
      | Some x \<Rightarrow> (case Status_DeepCopyInto x h of None \<Rightarrow> None | Some (y, h1) \<Rightarrow> Some (Some y, h1)))"

text \<open>Two types of the API without pointers; nothing in the program uses them.\<close>

record last_operation =
  Operation :: string
  LastUpdateTime :: int

record resource =
  ResourceName :: string
  ResourceNamespace :: string
  ResourceGvk :: gvk

definition LastOperation_DeepCopyInto :: "last_operation \<Rightarrow> last_operation" where
  "LastOperation_DeepCopyInto o' = o'\<lparr>LastUpdateTime := LastUpdateTime o'\<rparr>"

definition LastOperation_DeepCopy :: "last_operation option \<Rightarrow> last_operation option" where
  "LastOperation_DeepCopy = map_option LastOperation_DeepCopyInto"

definition Resource_DeepCopyInto :: "resource \<Rightarrow> resource" where
  "Resource_DeepCopyInto o' = o'\<lparr>ResourceGvk := ResourceGvk o'\<rparr>"

definition Resource_DeepCopy :: "resource option \<Rightarrow> resource option" where
  "Resource_DeepCopy = map_option Resource_DeepCopyInto"

section \<open>Updates through pointers\<close>

fun deref_pointers :: "heap \<Rightarrow> addr option list \<Rightarrow> condition list option" where
  "deref_pointers h [] = Some []"
| "deref_pointers h (None # ps) = None"
| "deref_pointers h (Some a # ps) =
     (case cond_at h a of None \<Rightarrow> None | Some c \<Rightarrow> map_option (Cons c) (deref_pointers h ps))"

text \<open>The elements of the local array of conditions, each with its address.\<close>

fun alloc_conditions :: "condition list \<Rightarrow> heap \<Rightarrow> addr list \<times> heap" where
  "alloc_conditions [] h = ([], h)"
| "alloc_conditions (c # cs) h =
     (let (a, h1) = alloc (CondCell c) h; (as, h2) = alloc_conditions cs h1 in (a # as, h2))"

text \<open>
  Writing the slots below the length of a slice; and \<^verbatim>\<open>append\<close> of one pointer, which reuses the backing array
  while there is capacity and otherwise moves to a larger one, of a capacity that Go leaves open.
\<close>

definition write_slots :: "slice \<Rightarrow> addr list \<Rightarrow> heap \<Rightarrow> heap" where
  "write_slots sl as h =
     (case sl of
        None \<Rightarrow> h
      | Some (a, n) \<Rightarrow> store a (ArrayCell (map Some (take n as) @ drop n (array_at h a))) h)"

definition append_pointer :: "(nat \<Rightarrow> nat) \<Rightarrow> slice \<Rightarrow> addr \<Rightarrow> heap \<Rightarrow> slice \<times> heap" where
  "append_pointer growth sl p h =
     (case sl of
        Some (a, n) \<Rightarrow>
          if n < length (array_at h a)
          then (Some (a, n + 1), store a (ArrayCell ((array_at h a)[n := Some p])) h)
          else let (b, h1) = alloc (ArrayCell (array_at h a @ Some p # replicate (growth n) None)) h
               in (Some (b, n + 1), h1)
      | None \<Rightarrow> let (b, h1) = alloc (ArrayCell (Some p # replicate (growth 0) None)) h in (Some (b, 1), h1))"

definition heap_SetStatusCondition ::
    "(condition list \<Rightarrow> condition \<Rightarrow> condition list) \<Rightarrow> (nat \<Rightarrow> nat) \<Rightarrow> slice \<Rightarrow> condition \<Rightarrow> heap
      \<Rightarrow> (slice \<times> heap) option" where
  "heap_SetStatusCondition setSC growth conditions newCondition h =
     (case deref_pointers h (pointers h conditions) of
        None \<Rightarrow> None
      | Some conditionsArray \<Rightarrow>
          let conditionsCnt = length (pointers h conditions);
              conditionsArray' = setSC conditionsArray newCondition
          in if length conditionsArray' < conditionsCnt then None
             else let (as, h1) = alloc_conditions conditionsArray' h;
                      h2 = write_slots conditions as h1
                  in Some (if length conditionsArray' > conditionsCnt
                           then append_pointer growth conditions (as ! conditionsCnt) h2
                           else (conditions, h2)))"

text \<open>\<^verbatim>\<open>SetStatusCondition(&cr.Status.Conditions, c)\<close> for the CR at an address.\<close>

definition set_condition_of ::
    "(condition list \<Rightarrow> condition \<Rightarrow> condition list) \<Rightarrow> (nat \<Rightarrow> nat) \<Rightarrow> addr \<Rightarrow> condition \<Rightarrow> heap \<Rightarrow> heap option" where
  "set_condition_of setSC growth p c h =
     (case cr_at h p of
        None \<Rightarrow> None
      | Some o' \<Rightarrow>
          (case heap_SetStatusCondition setSC growth (HConditions (HStatus o')) c h of
             None \<Rightarrow> None
           | Some (sl, h1) \<Rightarrow> Some (store p (CrCell (o'\<lparr>HStatus := (HStatus o')\<lparr>HConditions := sl\<rparr>\<rparr>)) h1)))"

text \<open>Setting an annotation, with a new map when there is none.\<close>

definition set_annotation_of :: "addr \<Rightarrow> string \<Rightarrow> string \<Rightarrow> heap \<Rightarrow> heap option" where
  "set_annotation_of p k v h =
     (case cr_at h p of
        None \<Rightarrow> None
      | Some o' \<Rightarrow>
          (case HAnnotations o' of
             Some a \<Rightarrow> Some (store a (MapCell (mset_key k v (map_at h (Some a)))) h)
           | None \<Rightarrow>
               let (a, h1) = alloc (MapCell []) h;
                   h2 = store p (CrCell (o'\<lparr>HAnnotations := Some a\<rparr>)) h1
               in Some (store a (MapCell (mset_key k v (map_at h2 (Some a)))) h2)))"

section \<open>The object that a pointer stands for\<close>

definition view_pointer :: "heap \<Rightarrow> addr option \<Rightarrow> condition option" where
  "view_pointer h p = (case p of None \<Rightarrow> None | Some a \<Rightarrow> cond_at h a)"

definition view_status :: "heap \<Rightarrow> hstatus \<Rightarrow> status" where
  "view_status h st = \<lparr>CrState = HState st, Conditions = map (view_pointer h) (pointers h (HConditions st))\<rparr>"

definition view_cr :: "heap \<Rightarrow> hbtpoperator \<Rightarrow> btpoperator" where
  "view_cr h o' = objmeta.extend ((HMeta o')\<lparr>Annotations := map_at h (HAnnotations o')\<rparr>)
     (btpoperator.fields (view_status h (HStatus o')))"

definition view :: "heap \<Rightarrow> addr \<Rightarrow> btpoperator option" where
  "view h p = map_option (view_cr h) (cr_at h p)"

text \<open>The object's pointers lead to cells of their types; and the cells that the view reads.\<close>

definition valid_slice :: "heap \<Rightarrow> slice \<Rightarrow> bool" where
  "valid_slice h sl =
     (case sl of
        None \<Rightarrow> True
      | Some (a, n) \<Rightarrow>
          (case cells h a of
             Some (ArrayCell ps) \<Rightarrow> n \<le> length ps \<and> list_all (\<lambda>p. p = None \<or> cond_at h (the p) \<noteq> None) (take n ps)
           | _ \<Rightarrow> False))"

definition valid_cr :: "heap \<Rightarrow> hbtpoperator \<Rightarrow> bool" where
  "valid_cr h o' \<longleftrightarrow> valid_slice h (HConditions (HStatus o')) \<and>
     (case HAnnotations o' of
        None \<Rightarrow> True
      | Some a \<Rightarrow> (case cells h a of Some (MapCell m) \<Rightarrow> True | _ \<Rightarrow> False))"

definition slice_cells :: "heap \<Rightarrow> slice \<Rightarrow> addr set" where
  "slice_cells h sl = (case sl of None \<Rightarrow> {} | Some (a, n) \<Rightarrow> {a}) \<union> {a. Some a \<in> set (pointers h sl)}"

definition cr_cells :: "heap \<Rightarrow> hbtpoperator \<Rightarrow> addr set" where
  "cr_cells h o' = slice_cells h (HConditions (HStatus o')) \<union> set_option (HAnnotations o')"

text \<open>The heap grows: cells below the old limit stay, except for some.\<close>

definition grows :: "addr set \<Rightarrow> heap \<Rightarrow> heap \<Rightarrow> bool" where
  "grows A h h' \<longleftrightarrow> wf_heap h' \<and> next_addr h \<le> next_addr h' \<and> (\<forall>a. a < next_addr h \<longrightarrow> a \<notin> A \<longrightarrow> cells h' a = cells h a)"

lemma wf_heapD: "wf_heap h \<Longrightarrow> cells h a = Some v \<Longrightarrow> a < next_addr h"
  by (auto simp: wf_heap_def)

lemma grows_refl: "wf_heap h \<Longrightarrow> grows A h h"
  by (simp add: grows_def)

lemma grows_trans: "grows A h h1 \<Longrightarrow> grows A h1 h2 \<Longrightarrow> grows A h h2"
  by (auto simp: grows_def)

lemma grows_mono: "grows A h h' \<Longrightarrow> A \<subseteq> B \<Longrightarrow> grows B h h'"
  by (auto simp: grows_def)

lemma grows_fresh:
  "grows {} h h1 \<Longrightarrow> grows A h1 h2 \<Longrightarrow> (\<And>a. a \<in> A \<Longrightarrow> next_addr h \<le> a) \<Longrightarrow> grows {} h h2"
  by (auto simp: grows_def) (metis leD order_less_le_trans)

lemma grows_wf: "grows A h h' \<Longrightarrow> wf_heap h'"
  by (simp add: grows_def)

lemma grows_cell: "grows A h h' \<Longrightarrow> wf_heap h \<Longrightarrow> cells h a = Some v \<Longrightarrow> a \<notin> A \<Longrightarrow> cells h' a = Some v"
  by (auto simp: grows_def dest: wf_heapD)

lemma alloc_grows:
  assumes "alloc v h = (a, h')" and "wf_heap h"
  shows "grows {} h h'" "cells h' a = Some v" "a = next_addr h" "a < next_addr h'"
  using assms by (auto simp: alloc_def grows_def wf_heap_def less_Suc_eq split: if_splits)

lemma store_grows:
  assumes "wf_heap h" and "a < next_addr h"
  shows "grows {a} h (store a v h)" "cells (store a v h) a = Some v" "next_addr (store a v h) = next_addr h"
  using assms by (auto simp: store_def grows_def wf_heap_def)

text \<open>A view depends only on its cells.\<close>

lemma pointers_cong:
  assumes "\<And>a. a \<in> slice_cells h sl \<Longrightarrow> cells h' a = cells h a"
  shows "pointers h' sl = pointers h sl" "map (view_pointer h') (pointers h' sl) = map (view_pointer h) (pointers h sl)"
proof -
  show eq: "pointers h' sl = pointers h sl"
    using assms by (auto simp: pointers_def slice_cells_def array_at_def split: option.split prod.split)
  have "view_pointer h' p = view_pointer h p" if "p \<in> set (pointers h sl)" for p
    using assms that by (cases p) (auto simp: view_pointer_def cond_at_def slice_cells_def)
  with eq show "map (view_pointer h') (pointers h' sl) = map (view_pointer h) (pointers h sl)" by simp
qed

lemma view_cr_cong:
  assumes "\<And>a. a \<in> cr_cells h o' \<Longrightarrow> cells h' a = cells h a"
  shows "view_cr h' o' = view_cr h o'"
proof -
  have "map_at h' (HAnnotations o') = map_at h (HAnnotations o')"
    using assms by (auto simp: cr_cells_def map_at_def split: option.split)
  moreover have "view_status h' (HStatus o') = view_status h (HStatus o')"
    using pointers_cong(2)[of h "HConditions (HStatus o')" h'] assms by (simp add: view_status_def cr_cells_def)
  ultimately show ?thesis by (simp add: view_cr_def)
qed

lemma cond_at_Some [simp]: "cond_at h a = Some c \<longleftrightarrow> cells h a = Some (CondCell c)"
  by (auto simp: cond_at_def split: option.split cell.split)

lemma cr_at_Some [simp]: "cr_at h a = Some o' \<longleftrightarrow> cells h a = Some (CrCell o')"
  by (auto simp: cr_at_def split: option.split cell.split)

lemma cr_at_cell [simp]: "cells h a = Some (CrCell o') \<Longrightarrow> cr_at h a = Some o'"
  by simp

lemma array_at_cell [simp]: "cells h a = Some (ArrayCell ps) \<Longrightarrow> array_at h a = ps"
  by (simp add: array_at_def)

lemma map_at_cell [simp]: "cells h a = Some (MapCell m) \<Longrightarrow> map_at h (Some a) = m" "map_at h None = []"
  by (simp_all add: map_at_def)

lemma valid_slice_simps [simp]:
  "valid_slice h None"
  "valid_slice h (Some (a, n)) \<longleftrightarrow> (\<exists>ps. cells h a = Some (ArrayCell ps) \<and> n \<le> length ps \<and>
     (\<forall>b. Some b \<in> set (take n ps) \<longrightarrow> (\<exists>c. cells h b = Some (CondCell c))))"
proof -
  have "list_all (\<lambda>p. p = None \<or> cond_at h (the p) \<noteq> None) xs \<longleftrightarrow>
      (\<forall>b. Some b \<in> set xs \<longrightarrow> (\<exists>c. cells h b = Some (CondCell c)))" for xs
  proof (induction xs)
    case (Cons p xs)
    then show ?case by (cases p) (auto simp flip: cond_at_Some)
  qed simp
  then show "valid_slice h (Some (a, n)) \<longleftrightarrow> (\<exists>ps. cells h a = Some (ArrayCell ps) \<and> n \<le> length ps \<and>
     (\<forall>b. Some b \<in> set (take n ps) \<longrightarrow> (\<exists>c. cells h b = Some (CondCell c))))"
    by (simp add: valid_slice_def split: option.split cell.split)
qed (simp add: valid_slice_def)

lemma cond_at_cell [simp]: "cells h a = Some (CondCell c) \<Longrightarrow> cond_at h a = Some c"
  by simp

lemma valid_cr_iff:
  "valid_cr h o' \<longleftrightarrow> valid_slice h (HConditions (HStatus o')) \<and>
     (\<forall>a. HAnnotations o' = Some a \<longrightarrow> (\<exists>m. cells h a = Some (MapCell m)))"
  by (auto simp: valid_cr_def split: option.splits cell.splits)

lemma slice_cells_simps [simp]:
  "slice_cells h None = {}" "pointers h None = []"
  "cells h a = Some (ArrayCell ps) \<Longrightarrow> pointers h (Some (a, n)) = take n ps"
  "cells h a = Some (ArrayCell ps) \<Longrightarrow> slice_cells h (Some (a, n)) = insert a {b. Some b \<in> set (take n ps)}"
  by (auto simp: slice_cells_def pointers_def)

lemma valid_cells:
  assumes "valid_cr h o'" and "a \<in> cr_cells h o'"
  shows "\<exists>v. cells h a = Some v"
  using assms by (cases "HConditions (HStatus o')"; cases "HAnnotations o'") (fastforce simp: valid_cr_iff cr_cells_def)+

lemma grows_cr:
  assumes "grows {} h h'" and "wf_heap h" and "valid_cr h o'"
  shows "valid_cr h' o'" "cr_cells h' o' = cr_cells h o'" "view_cr h' o' = view_cr h o'"
proof -
  have same: "cells h' a = cells h a" if "a \<in> cr_cells h o'" for a
    using valid_cells[OF assms(3) that] grows_cell[OF assms(1,2)] by auto
  show "valid_cr h' o'"
    using assms(3) grows_cell[OF assms(1,2)] by (cases "HConditions (HStatus o')") (fastforce simp: valid_cr_iff)+
  show "cr_cells h' o' = cr_cells h o'"
    using pointers_cong(1)[of h "HConditions (HStatus o')" h'] same by (simp add: cr_cells_def slice_cells_def)
  show "view_cr h' o' = view_cr h o'" using same by (rule view_cr_cong)
qed

section \<open>What a deep copy is\<close>

text \<open>The slots of some indices hold new pointers to copies, the others are as before.\<close>

definition copied :: "addr option list \<Rightarrow> nat set \<Rightarrow> addr option list \<Rightarrow> heap \<Rightarrow> addr option list \<Rightarrow> heap \<Rightarrow> bool" where
  "copied ps I qs h qs' h' \<longleftrightarrow> length qs' = length qs \<and> (\<forall>i. i \<notin> I \<or> ps ! i = None \<longrightarrow> qs' ! i = qs ! i) \<and>
     (\<forall>i a. i \<in> I \<longrightarrow> ps ! i = Some a \<longrightarrow>
        (\<exists>b c. qs' ! i = Some b \<and> next_addr h \<le> b \<and> cells h a = Some (CondCell c) \<and> cells h' b = Some (CondCell c)))"

lemma copied_insert:
  assumes "copied ps I (qs[i := Some b]) h2 qs' h'" and "ps ! i = Some a" and "i \<notin> I" and "i < length qs"
    and "cells h a = Some (CondCell c)" and "cells h' b = Some (CondCell c)" and "next_addr h \<le> b" and "next_addr h \<le> next_addr h2"
    and "\<And>j x y. j \<in> I \<Longrightarrow> ps ! j = Some x \<Longrightarrow> cells h2 x = Some (CondCell y) \<Longrightarrow> cells h x = Some (CondCell y)"
  shows "copied ps (insert i I) qs h qs' h'"
proof -
  have "qs' ! i = Some b" using assms(1,3,4) by (simp add: copied_def)
  moreover have "\<exists>b c. qs' ! j = Some b \<and> next_addr h \<le> b \<and> cells h x = Some (CondCell c) \<and> cells h' b = Some (CondCell c)"
    if "j \<in> I" "ps ! j = Some x" for j x
    using assms(1,8) assms(9)[OF that] that unfolding copied_def by (meson order_trans)
  moreover have "qs' ! j = qs ! j" if "j \<notin> insert i I \<or> ps ! j = None" for j
    using assms(1,2) that unfolding copied_def by (metis insertI1 insert_iff nth_list_update_neq option.distinct(1))
  ultimately show ?thesis
    using assms(1,2,5-7) by (auto simp: copied_def)
qed

lemma copy_conditions_spec:
  assumes "wf_heap h" and "cells h src = Some (ArrayCell ps)" and "cells h dst = Some (ArrayCell qs)" and "src \<noteq> dst"
    and "\<And>i. i \<in> set is \<Longrightarrow> i < length qs"
    and "\<And>i a. i \<in> set is \<Longrightarrow> ps ! i = Some a \<Longrightarrow> \<exists>c. cells h a = Some (CondCell c)" and "distinct is"
  shows "\<exists>h' qs'. copy_conditions src dst is h = Some h' \<and> grows {dst} h h' \<and>
     cells h' dst = Some (ArrayCell qs') \<and> copied ps (set is) qs h qs' h'"
  using assms
proof (induction "is" arbitrary: h qs)
  case Nil
  then show ?case by (simp add: grows_refl copied_def)
next
  case (Cons i "is")
  note pre = Cons.prems
  show ?case
  proof (cases "ps ! i")
    case None
    have "\<exists>h' qs'. copy_conditions src dst is h = Some h' \<and> grows {dst} h h' \<and>
       cells h' dst = Some (ArrayCell qs') \<and> copied ps (set is) qs h qs' h'"
      by (rule Cons.IH[OF pre(1-4)]) (use pre(5-7) in auto)
    moreover have "copied ps (insert i (set is)) qs h qs' h'" if "copied ps (set is) qs h qs' h'" for qs' h'
      using that None by (auto simp: copied_def)
    moreover have "copy_conditions src dst (i # is) h = copy_conditions src dst is h" using None pre(2) by simp
    ultimately show ?thesis unfolding list.set by metis
  next
    case (Some a)
    then obtain c where c: "cells h a = Some (CondCell c)" using pre(6)[of i a] by auto
    obtain b h1 where h1: "alloc (CondCell c) h = (b, h1)" by fastforce
    note al = alloc_grows[OF h1 pre(1)]
    have cells1: "cells h1 dst = Some (ArrayCell qs)" "cells h1 src = Some (ArrayCell ps)" and wf1: "wf_heap h1"
      using grows_cell[OF al(1) pre(1)] pre(2,3) grows_wf[OF al(1)] by simp_all
    define h2 where "h2 = store dst (ArrayCell (qs[i := Some b])) h1"
    note st = store_grows[OF wf1 wf_heapD[OF wf1 cells1(1)], of "ArrayCell (qs[i := Some b])", folded h2_def]
    have g: "grows {dst} h h2" using grows_mono[OF al(1)] st(1) by (blast intro: grows_trans)
    have conds: "cells h2 x = Some (CondCell y)" if "cells h x = Some (CondCell y)" for x y
      using grows_cell[OF g pre(1) that] that pre(3) by (cases "x = dst") auto
    have b2: "cells h2 b = Some (CondCell c)" "b \<noteq> dst"
      using al(2,3) wf_heapD[OF pre(1,3)] by (auto simp: h2_def store_def)
    have "\<exists>h' qs'. copy_conditions src dst is h2 = Some h' \<and> grows {dst} h2 h' \<and>
       cells h' dst = Some (ArrayCell qs') \<and> copied ps (set is) (qs[i := Some b]) h2 qs' h'"
    proof (rule Cons.IH[OF grows_wf[OF g] _ st(2) pre(4)])
      show "cells h2 src = Some (ArrayCell ps)" using cells1(2) pre(4) by (simp add: h2_def store_def)
      show "\<exists>c. cells h2 x = Some (CondCell c)" if "j \<in> set is" "ps ! j = Some x" for j x
        using pre(6)[of j x] that conds by auto
    qed (use pre(5,7) in auto)
    then obtain h' qs' where IH: "copy_conditions src dst is h2 = Some h'" "grows {dst} h2 h'"
      "cells h' dst = Some (ArrayCell qs')" "copied ps (set is) (qs[i := Some b]) h2 qs' h'" by blast
    have "cells h' b = Some (CondCell c)" using grows_cell[OF IH(2) grows_wf[OF g] b2(1)] b2(2) by simp
    moreover have "cells h x = Some (CondCell y)" if "j \<in> set is" "ps ! j = Some x" "cells h2 x = Some (CondCell y)" for j x y
      using pre(6)[of j x] that conds[of x] by auto
    ultimately have "copied ps (set (i # is)) qs h qs' h'"
      using copied_insert[OF IH(4) Some _ _ c] pre(5,7) al(3) g by (simp add: grows_def)
    moreover have "copy_conditions src dst (i # is) h = Some h'"
      using Some c h1 cells1(1) IH(1) pre(2) by (simp add: h2_def)
    ultimately show ?thesis using IH(3) grows_trans[OF g IH(2)] by blast
  qed
qed

lemma Status_DeepCopyInto_spec:
  assumes "wf_heap h" and "valid_slice h (HConditions st)"
  shows "\<exists>st' h'. Status_DeepCopyInto st h = Some (st', h') \<and> grows {} h h' \<and> valid_slice h' (HConditions st') \<and>
     view_status h' st' = view_status h st \<and> (\<forall>a \<in> slice_cells h' (HConditions st'). next_addr h \<le> a)"
proof (cases "HConditions st")
  case None
  with assms show ?thesis by (simp add: Status_DeepCopyInto_def grows_refl view_status_def)
next
  case (Some sl)
  obtain src n where sl: "sl = (src, n)" by fastforce
  with Some assms(2) obtain ps where ps: "cells h src = Some (ArrayCell ps)" "n \<le> length ps"
    "\<And>b. Some b \<in> set (take n ps) \<Longrightarrow> \<exists>c. cells h b = Some (CondCell c)" by auto
  obtain dst h1 where h1: "alloc (ArrayCell (replicate n None)) h = (dst, h1)" by fastforce
  note al = alloc_grows[OF h1 assms(1)]
  have ptr: "\<exists>c. cells h a = Some (CondCell c)" if "i < n" "ps ! i = Some a" for i a
    by (rule ps(3)) (use that ps(2) in \<open>auto simp: in_set_conv_nth\<close>)
  have "\<exists>h' qs'. copy_conditions src dst [0..<n] h1 = Some h' \<and> grows {dst} h1 h' \<and>
     cells h' dst = Some (ArrayCell qs') \<and> copied ps (set [0..<n]) (replicate n None) h1 qs' h'"
  proof (rule copy_conditions_spec[OF grows_wf[OF al(1)] _ al(2)])
    show "cells h1 src = Some (ArrayCell ps)" using grows_cell[OF al(1) assms(1) ps(1)] by simp
    show "src \<noteq> dst" using wf_heapD[OF assms(1) ps(1)] al(3) by simp
    show "\<exists>c. cells h1 a = Some (CondCell c)" if "i \<in> set [0..<n]" "ps ! i = Some a" for i a
      using ptr[of i a] that grows_cell[OF al(1) assms(1)] by auto
  qed simp_all
  then obtain h' qs' where copy: "copy_conditions src dst [0..<n] h1 = Some h'" "grows {dst} h1 h'"
    "cells h' dst = Some (ArrayCell qs')" "copied ps {0..<n} (replicate n None) h1 qs' h'" by auto
  have len: "length qs' = n" using copy(4) by (simp add: copied_def)
  have slot: "case ps ! i of None \<Rightarrow> qs' ! i = None
      | Some a \<Rightarrow> (\<exists>b c. qs' ! i = Some b \<and> next_addr h \<le> b \<and> cells h a = Some (CondCell c) \<and> cells h' b = Some (CondCell c))"
    if "i < n" for i
  proof (cases "ps ! i")
    case None
    with copy(4) that show ?thesis by (simp add: copied_def)
  next
    case (Some a)
    with copy(4) that obtain b c where b: "qs' ! i = Some b" "next_addr h1 \<le> b" "cells h1 a = Some (CondCell c)"
      "cells h' b = Some (CondCell c)" by (fastforce simp: copied_def)
    moreover have "cells h a = Some (CondCell c)" using ptr[OF that Some] grows_cell[OF al(1) assms(1)] b(3) by fastforce
    ultimately show ?thesis using Some al(3,4) by auto
  qed
  have fresh: "next_addr h \<le> b \<and> (\<exists>c. cells h' b = Some (CondCell c))" if "Some b \<in> set qs'" for b
  proof -
    from that obtain i where "i < n" "qs' ! i = Some b" using len by (auto simp: in_set_conv_nth)
    with slot[of i] show ?thesis by (auto split: option.splits)
  qed
  have "map (view_pointer h') qs' = map (view_pointer h) (take n ps)"
  proof (rule nth_equalityI)
    show "map (view_pointer h') qs' ! i = map (view_pointer h) (take n ps) ! i" if "i < length (map (view_pointer h') qs')" for i
      using slot[of i] that len ps(2) by (auto simp: view_pointer_def split: option.splits)
  qed (simp add: len ps(2))
  moreover have "grows {} h h'" using al(1) copy(2) by (rule grows_fresh) (simp add: al(3))
  ultimately show ?thesis
    using Some sl h1 copy(1,3) ps len fresh al(3) by (auto simp: Status_DeepCopyInto_def view_status_def)
qed

text \<open>What the library promises of the copy of a map.\<close>

locale meta_copier =
  fixes copyMeta :: "addr option \<Rightarrow> heap \<Rightarrow> addr option \<times> heap"
  assumes copy_nil: "copyMeta None h = (None, h)"
    and copy_map: "wf_heap h \<Longrightarrow> cells h a = Some (MapCell m) \<Longrightarrow>
      \<exists>b h'. copyMeta (Some a) h = (Some b, h') \<and> grows {} h h' \<and> next_addr h \<le> b \<and> cells h' b = Some (MapCell m)"
begin

lemma DeepCopyInto_spec:
  assumes "wf_heap h" and "valid_cr h o'"
  shows "\<exists>o'' h'. BtpOperator_DeepCopyInto copyMeta o' h = Some (o'', h') \<and> grows {} h h' \<and> valid_cr h' o'' \<and>
     view_cr h' o'' = view_cr h o' \<and> (\<forall>a \<in> cr_cells h' o''. next_addr h \<le> a)"
proof -
  obtain p h1 where h1: "copyMeta (HAnnotations o') h = (p, h1)" by fastforce
  have meta: "grows {} h h1" "map_at h1 p = map_at h (HAnnotations o')"
    "\<And>b. p = Some b \<Longrightarrow> next_addr h \<le> b \<and> (\<exists>m. cells h1 b = Some (MapCell m))"
    using assms h1 copy_nil[of h] copy_map[OF assms(1)]
    by (cases "HAnnotations o'"; fastforce simp: valid_cr_iff grows_refl)+
  note same = grows_cr[OF meta(1) assms]
  have "valid_slice h1 (HConditions (HStatus o'))" using same(1) by (simp add: valid_cr_iff)
  from Status_DeepCopyInto_spec[OF grows_wf[OF meta(1)] this]
  obtain st h2 where st: "Status_DeepCopyInto (HStatus o') h1 = Some (st, h2)" "grows {} h1 h2"
    "valid_slice h2 (HConditions st)" "view_status h2 st = view_status h1 (HStatus o')"
    "\<forall>a \<in> slice_cells h2 (HConditions st). next_addr h1 \<le> a" by blast
  have "view_status h1 (HStatus o') = view_status h (HStatus o')"
    using same(3) by (simp add: view_cr_def btpoperator.defs objmeta.defs)
  moreover have map2: "\<exists>m. cells h2 b = Some (MapCell m) \<and> cells h1 b = Some (MapCell m)" if "p = Some b" for b
    using meta(3)[OF that] grows_cell[OF st(2) grows_wf[OF meta(1)]] by auto
  moreover have "map_at h2 p = map_at h1 p" using map2 by (cases p) auto
  moreover have "next_addr h \<le> next_addr h1" using meta(1) by (simp add: grows_def)
  ultimately show ?thesis
    using h1 st meta(2) meta(3) grows_trans[OF meta(1) st(2)]
    by (intro exI[of _ "o'\<lparr>HAnnotations := p, HStatus := st\<rparr>"] exI[of _ h2])
      (auto simp: BtpOperator_DeepCopyInto_def view_cr_def valid_cr_iff cr_cells_def)
qed

end

section \<open>Updates through pointers are updates of the view\<close>

definition backing :: "slice \<Rightarrow> addr set" where
  "backing sl = (case sl of None \<Rightarrow> {} | Some (a, n) \<Rightarrow> {a})"

lemma alloc_conditions_spec:
  "wf_heap h \<Longrightarrow> alloc_conditions cs h = (as, h') \<Longrightarrow> grows {} h h' \<and> length as = length cs \<and>
     (\<forall>i < length cs. cells h' (as ! i) = Some (CondCell (cs ! i)) \<and> next_addr h \<le> as ! i)"
proof (induction cs arbitrary: h as)
  case (Cons c cs)
  obtain a h1 where 1: "alloc (CondCell c) h = (a, h1)" by fastforce
  obtain as' where 2: "alloc_conditions cs h1 = (as', h')" "as = a # as'" using Cons.prems(2) 1 by (auto split: prod.splits)
  note al = alloc_grows[OF 1 Cons.prems(1)]
  note IH = Cons.IH[OF grows_wf[OF al(1)] 2(1)]
  have "cells h' a = Some (CondCell c)" using grows_cell[OF _ grows_wf[OF al(1)] al(2)] IH by blast
  then show ?case using IH al(1,3,4) 2(2) by (auto simp: nth_Cons split: nat.split intro: grows_trans)
qed (auto simp: grows_refl)

lemma deref_pointers_eq: "deref_pointers h ps = derefs (map (view_pointer h) ps)"
proof (induction h ps rule: deref_pointers.induct)
  case (3 h a ps)
  then show ?case by (cases "cond_at h a") (simp_all add: view_pointer_def)
qed (simp_all add: view_pointer_def)

lemma write_slots_spec:
  assumes "wf_heap h1" and "valid_slice h sl" and "grows {} h h1" and "wf_heap h" and "length (pointers h sl) \<le> length as"
  shows "grows (backing sl) h1 (write_slots sl as h1)" "pointers (write_slots sl as h1) sl = map Some (take (length (pointers h sl)) as)"
proof -
  have "grows (backing sl) h1 (write_slots sl as h1) \<and>
     pointers (write_slots sl as h1) sl = map Some (take (length (pointers h sl)) as)"
  proof (cases sl)
    case None
    then show ?thesis using assms(1) by (simp add: write_slots_def grows_refl)
  next
    case (Some p)
    obtain a n where sl: "sl = Some (a, n)" using Some by (cases p) simp
    with assms(2) obtain ps where ps: "cells h a = Some (ArrayCell ps)" "n \<le> length ps" by auto
    have a1: "cells h1 a = Some (ArrayCell ps)" using grows_cell[OF assms(3,4) ps(1)] by simp
    note st = store_grows[OF assms(1) wf_heapD[OF assms(1) a1], of "ArrayCell (map Some (take n as) @ drop n ps)"]
    show ?thesis
      using st(1) assms(5) ps by (simp add: sl write_slots_def backing_def a1 pointers_def array_at_def store_def)
  qed
  then show "grows (backing sl) h1 (write_slots sl as h1)"
    "pointers (write_slots sl as h1) sl = map Some (take (length (pointers h sl)) as)" by simp_all
qed

lemma append_pointer_spec:
  assumes "wf_heap h" and "\<And>a n. sl = Some (a, n) \<Longrightarrow> \<exists>ps. cells h a = Some (ArrayCell ps) \<and> n \<le> length ps"
    and "append_pointer growth sl q h = (sl', h')"
  shows "grows (backing sl) h h' \<and> pointers h' sl' = pointers h sl @ [Some q]"
proof (cases sl)
  case None
  then obtain b where b: "alloc (ArrayCell (Some q # replicate (growth 0) None)) h = (b, h')" "sl' = Some (b, 1)"
    using assms(3) by (auto simp: append_pointer_def split: prod.splits)
  from alloc_grows[OF b(1) assms(1)] b(2) None show ?thesis by (simp add: backing_def)
next
  case (Some p)
  obtain a n where sl: "sl = Some (a, n)" using Some by (cases p) simp
  obtain ps where ps: "cells h a = Some (ArrayCell ps)" "n \<le> length ps" using assms(2)[OF sl] by blast
  show ?thesis
  proof (cases "n < length ps")
    case True
    with assms(3) sl ps have "sl' = Some (a, n + 1)" "h' = store a (ArrayCell (ps[n := Some q])) h"
      by (auto simp: append_pointer_def)
    with store_grows[OF assms(1) wf_heapD[OF assms(1) ps(1)]] True sl ps(1) show ?thesis
      by (simp add: backing_def take_Suc_conv_app_nth)
  next
    case False
    then obtain b where b: "alloc (ArrayCell (ps @ Some q # replicate (growth n) None)) h = (b, h')" "sl' = Some (b, n + 1)"
      using assms(3) sl ps by (auto simp: append_pointer_def split: prod.splits)
    from alloc_grows[OF b(1) assms(1)] b(2) False sl ps show ?thesis by (auto simp: backing_def intro: grows_mono)
  qed
qed

lemma heap_SetStatusCondition_refines:
  assumes "wf_heap h" and "valid_slice h sl"
  shows "case SetStatusCondition setSC (map (view_pointer h) (pointers h sl)) c of
     None \<Rightarrow> heap_SetStatusCondition setSC growth sl c h = None
   | Some cs \<Rightarrow> \<exists>sl' h'. heap_SetStatusCondition setSC growth sl c h = Some (sl', h') \<and> grows (backing sl) h h' \<and>
       map (view_pointer h') (pointers h' sl') = cs"
proof (cases "derefs (map (view_pointer h) (pointers h sl))")
  case None
  then show ?thesis by (simp add: SetStatusCondition_def heap_SetStatusCondition_def deref_pointers_eq)
next
  case (Some cs)
  let ?n = "length (pointers h sl)"
  define cs' where "cs' = setSC cs c"
  show ?thesis
  proof (cases "length cs' < ?n")
    case True
    with Some show ?thesis
      by (simp add: SetStatusCondition_def heap_SetStatusCondition_def deref_pointers_eq cs'_def)
  next
    case False
    obtain as h1 where h1: "alloc_conditions cs' h = (as, h1)" by fastforce
    note al = alloc_conditions_spec[OF assms(1) h1]
    have wf1: "wf_heap h1" and len: "?n \<le> length as" using al False by (auto simp: grows_def)
    define h2 where "h2 = write_slots sl as h1"
    note ws = write_slots_spec[OF wf1 assms(2) _ assms(1) len, folded h2_def]
    have g2: "grows (backing sl) h h2" "grows (backing sl) h1 h2"
      using al ws(1) by (auto intro: grows_trans grows_mono)
    obtain sl' h3 where h3: "(if length cs' > ?n then append_pointer growth sl (as ! ?n) h2 else (sl, h2)) = (sl', h3)"
      by fastforce
    have array: "\<exists>ps. cells h2 a = Some (ArrayCell ps) \<and> n \<le> length ps" if sl: "sl = Some (a, n)" for a n
    proof -
      obtain ps where ps: "cells h a = Some (ArrayCell ps)" "n \<le> length ps" using assms(2) by (auto simp: sl)
      then have "cells h1 a = Some (ArrayCell ps)" using grows_cell[OF _ assms(1) ps(1)] al by blast
      with len ps sl show ?thesis by (simp add: h2_def write_slots_def store_def)
    qed
    have g3: "grows (backing sl) h2 h3" and ptrs: "pointers h3 sl' = map Some (take (if length cs' > ?n then ?n + 1 else ?n) as)"
      using append_pointer_spec[OF grows_wf[OF g2(1)] array, where growth = growth and q = "as ! ?n" and sl' = sl' and h' = h3] h3 ws(2) al
        grows_refl[OF grows_wf[OF g2(1)]]
      by (auto simp: take_Suc_conv_app_nth split: if_splits)
    have "cond_at h3 (as ! i) = Some (cs' ! i)" if "i < length as" for i
    proof -
      have "as ! i \<notin> backing sl"
        using al that assms by (cases sl) (fastforce simp: backing_def dest!: wf_heapD[OF assms(1)])+
      then show ?thesis using grows_cell[OF grows_trans[OF g2(2) g3] wf1] al that by simp
    qed
    then have "map (view_pointer h3) (map Some (take m as)) = map Some (take m cs')" for m
      using al by (auto simp: view_pointer_def intro!: nth_equalityI)
    moreover have "heap_SetStatusCondition setSC growth sl c h = Some (sl', h3)"
      using Some False h1 h3[unfolded h2_def]
      by (auto simp: heap_SetStatusCondition_def deref_pointers_eq cs'_def Let_def split: if_splits)
    moreover have "SetStatusCondition setSC (map (view_pointer h) (pointers h sl)) c =
        Some (map Some (take (if length cs' > ?n then ?n + 1 else ?n) cs'))"
      using Some False by (simp add: SetStatusCondition_def cs'_def Let_def take_Suc_conv_app_nth)
    ultimately show ?thesis using grows_trans[OF g2(1) g3] ptrs by auto
  qed
qed

text \<open>A cell of a CR is no other cell.\<close>

lemma view_cr_store_cr:
  assumes "cells h p = Some (CrCell x)"
  shows "view_cr (store p (CrCell y) h) o' = view_cr h o'"
proof -
  have "cond_at (store p (CrCell y) h) = cond_at h" "array_at (store p (CrCell y) h) = array_at h"
    "map_at (store p (CrCell y) h) = map_at h"
    using assms by (auto simp: fun_eq_iff cond_at_def array_at_def map_at_def store_def split: option.split)
  then have "pointers (store p (CrCell y) h) = pointers h" "view_pointer (store p (CrCell y) h) = view_pointer h"
    by (auto simp: fun_eq_iff pointers_def view_pointer_def split: option.split)
  with \<open>map_at (store p (CrCell y) h) = map_at h\<close> show ?thesis by (simp add: view_cr_def view_status_def)
qed

lemma set_condition_of_refines:
  assumes "wf_heap h" and "cells h p = Some (CrCell o')" and "valid_cr h o'"
  shows "case SetStatusCondition setSC (Conditions (Status (view_cr h o'))) c of
     None \<Rightarrow> set_condition_of setSC growth p c h = None
   | Some cs \<Rightarrow> \<exists>h'. set_condition_of setSC growth p c h = Some h' \<and> grows (insert p (cr_cells h o')) h h' \<and>
       view h' p = Some ((view_cr h o')\<lparr>Status := (Status (view_cr h o'))\<lparr>Conditions := cs\<rparr>\<rparr>)"
proof -
  let ?sl = "HConditions (HStatus o')"
  have conds: "Conditions (Status (view_cr h o')) = map (view_pointer h) (pointers h ?sl)"
    by (simp add: view_cr_def view_status_def btpoperator.defs objmeta.defs)
  have valid: "valid_slice h ?sl" using assms(3) by (simp add: valid_cr_iff)
  show ?thesis
  proof (cases "SetStatusCondition setSC (Conditions (Status (view_cr h o'))) c")
    case None
    with heap_SetStatusCondition_refines[OF assms(1) valid, where setSC = setSC and c = c and growth = growth] assms(2) show ?thesis
      by (simp add: conds set_condition_of_def)
  next
    case (Some cs)
    with heap_SetStatusCondition_refines[OF assms(1) valid, where setSC = setSC and c = c and growth = growth] obtain sl' h1 where
      h1: "heap_SetStatusCondition setSC growth ?sl c h = Some (sl', h1)" "grows (backing ?sl) h h1"
        "map (view_pointer h1) (pointers h1 sl') = cs"
      by (auto simp: conds)
    define new where "new = o'\<lparr>HStatus := (HStatus o')\<lparr>HConditions := sl'\<rparr>\<rparr>"
    have other: "cells h1 a = Some v" if "cells h a = Some v" "\<And>ps. v \<noteq> ArrayCell ps" for a v
    proof -
      have "a \<notin> backing ?sl" using that valid by (cases ?sl) (auto simp: backing_def)
      with grows_cell[OF h1(2) assms(1) that(1)] show ?thesis by simp
    qed
    have p1: "cells h1 p = Some (CrCell o')" by (rule other[OF assms(2)]) simp
    note st = store_grows[OF grows_wf[OF h1(2)] wf_heapD[OF grows_wf[OF h1(2)] p1], of "CrCell new"]
    have "map_at h1 (HAnnotations o') = map_at h (HAnnotations o')"
      using assms(3) other by (cases "HAnnotations o'") (auto simp: valid_cr_iff)
    then have "view_cr h1 new = (view_cr h o')\<lparr>Status := (Status (view_cr h o'))\<lparr>Conditions := cs\<rparr>\<rparr>"
      using h1(3) by (simp add: view_cr_def view_status_def new_def btpoperator.defs objmeta.defs)
    then have "view (store p (CrCell new) h1) p =
        Some ((view_cr h o')\<lparr>Status := (Status (view_cr h o'))\<lparr>Conditions := cs\<rparr>\<rparr>)"
      using st(2) view_cr_store_cr[OF p1] by (simp add: view_def)
    moreover have "backing ?sl \<subseteq> cr_cells h o'" by (auto simp: backing_def cr_cells_def slice_cells_def split: option.splits)
    then have "grows (insert p (cr_cells h o')) h (store p (CrCell new) h1)"
      using grows_mono[OF h1(2), of "insert p (cr_cells h o')"] grows_mono[OF st(1), of "insert p (cr_cells h o')"]
      by (blast intro: grows_trans)
    ultimately show ?thesis using Some h1(1) assms(2) by (simp add: set_condition_of_def new_def)
  qed
qed

lemma set_annotation_of_refines:
  assumes "wf_heap h" and "cells h p = Some (CrCell o')" and "valid_cr h o'"
  shows "\<exists>h'. set_annotation_of p k v h = Some h' \<and> grows (insert p (cr_cells h o')) h h' \<and>
     view h' p = Some ((view_cr h o')\<lparr>Annotations := mset_key k v (Annotations (view_cr h o'))\<rparr>)"
proof -
  define upd where "upd x = x\<lparr>Annotations := mset_key k v (Annotations x)\<rparr>" for x :: btpoperator
  have set_map: "grows {a} h1 (store a (MapCell (mset_key k v m)) h1) \<and>
      view (store a (MapCell (mset_key k v m)) h1) p = Some (upd (view_cr h1 o''))"
    if "wf_heap h1" "cells h1 a = Some (MapCell m)" "cells h1 p = Some (CrCell o'')" "HAnnotations o'' = Some a" for h1 a m o''
  proof -
    let ?h = "store a (MapCell (mset_key k v m)) h1"
    have "cond_at ?h = cond_at h1" "array_at ?h = array_at h1"
      using that(2) by (auto simp: fun_eq_iff cond_at_def array_at_def store_def split: option.split)
    then have "pointers ?h = pointers h1" "view_pointer ?h = view_pointer h1"
      by (auto simp: fun_eq_iff pointers_def view_pointer_def split: option.split)
    moreover have "cells ?h p = Some (CrCell o'')" "cells ?h a = Some (MapCell (mset_key k v m))"
      using that(2,3) by (auto simp: store_def)
    ultimately have "view ?h p = Some (upd (view_cr h1 o''))"
      using that(2,4) by (simp add: view_def view_cr_def view_status_def upd_def btpoperator.defs objmeta.defs)
    with store_grows(1)[OF that(1) wf_heapD[OF that(1,2)]] show ?thesis by blast
  qed
  show ?thesis
  proof (cases "HAnnotations o'")
    case (Some a)
    then obtain m where m: "cells h a = Some (MapCell m)" using assms(3) by (auto simp: valid_cr_iff)
    from set_map[OF assms(1) m assms(2) Some] Some m assms(2) show ?thesis
      by (auto simp: set_annotation_of_def cr_cells_def upd_def intro: grows_mono)
  next
    case None
    obtain a h1 where h1: "alloc (MapCell []) h = (a, h1)" by fastforce
    note al = alloc_grows[OF h1 assms(1)]
    define new where "new = o'\<lparr>HAnnotations := Some a\<rparr>"
    define h2 where "h2 = store p (CrCell new) h1"
    have p1: "cells h1 p = Some (CrCell o')" "a \<noteq> p"
      using grows_cell[OF al(1) assms(1,2)] wf_heapD[OF assms(1,2)] al(3) by auto
    note st = store_grows[OF grows_wf[OF al(1)] wf_heapD[OF grows_wf[OF al(1)] p1(1)], of "CrCell new", folded h2_def]
    have a2: "cells h2 a = Some (MapCell [])" "HAnnotations new = Some a"
      using al(2) p1(2) by (simp_all add: h2_def store_def new_def)
    have "view_cr h1 o' = view_cr h o'" by (rule grows_cr(3)[OF al(1) assms(1,3)])
    moreover have "view_cr h2 new = view_cr h1 o'"
      using view_cr_store_cr[OF p1(1), of new new] None al(2)
      by (simp add: h2_def view_cr_def view_status_def new_def)
    moreover have "grows {p} h h2" using grows_mono[OF al(1)] st(1) by (blast intro: grows_trans)
    then have "grows {} h2 h' \<Longrightarrow> grows (insert p A) h h'" for A h'
      by (meson grows_mono grows_trans empty_subsetI insert_mono)
    moreover have "grows {p} h (store a (MapCell (mset_key k v [])) h2)"
      using \<open>grows {p} h h2\<close> set_map[OF grows_wf[OF st(1)] a2(1) st(2) a2(2)] al(3) by (auto simp: grows_def)
    ultimately show ?thesis
      using set_map[OF grows_wf[OF st(1)] a2(1) st(2) a2(2)] None assms(2) h1 a2(1)
      by (auto simp: set_annotation_of_def Let_def upd_def new_def h2_def map_at_def intro: grows_mono)
  qed
qed

lemma view_untouched:
  assumes "grows A h h'" and "cells h q = Some (CrCell o')" and "q \<notin> A" and "wf_heap h" and "valid_cr h o'"
    and "cr_cells h o' \<inter> A = {}"
  shows "view h' q = view h q"
proof -
  have "cells h' a = cells h a" if "a \<in> cr_cells h o'" for a
    using valid_cells[OF assms(5) that] grows_cell[OF assms(1,4)] assms(6) that by fastforce
  then have "view_cr h' o' = view_cr h o'" by (rule view_cr_cong)
  moreover have "cells h' q = Some (CrCell o')" using grows_cell[OF assms(1,4,2,3)] .
  ultimately show ?thesis using assms(2) by (simp add: view_def)
qed

context meta_copier
begin

lemma DeepCopy_spec:
  assumes "wf_heap h" and "cells h p = Some (CrCell o')" and "valid_cr h o'"
  shows "\<exists>q o'' h'. BtpOperator_DeepCopy copyMeta (Some p) h = Some (Some q, h') \<and> grows {} h h' \<and> next_addr h \<le> q \<and>
     cells h' q = Some (CrCell o'') \<and> valid_cr h' o'' \<and> view_cr h' o'' = view_cr h o' \<and> (\<forall>a \<in> cr_cells h' o''. next_addr h \<le> a)"
proof -
  obtain o'' h1 where o'': "BtpOperator_DeepCopyInto copyMeta o' h = Some (o'', h1)" "grows {} h h1" "valid_cr h1 o''"
    "view_cr h1 o'' = view_cr h o'" "\<forall>a \<in> cr_cells h1 o''. next_addr h \<le> a"
    using DeepCopyInto_spec[OF assms(1,3)] by blast
  obtain q h2 where h2: "alloc (CrCell o'') h1 = (q, h2)" by fastforce
  note wf1 = grows_wf[OF o''(2)]
  note al = alloc_grows[OF h2 wf1]
  note same = grows_cr[OF al(1) wf1 o''(3)]
  show ?thesis
    using o'' h2 al same grows_trans[OF o''(2) al(1)] assms(2) by (auto simp: BtpOperator_DeepCopy_def grows_def)
qed

end

context meta_copier
begin

lemma copy_items_spec:
  "wf_heap h \<Longrightarrow> (\<And>o'. o' \<in> set os \<Longrightarrow> valid_cr h o') \<Longrightarrow>
     \<exists>os' h'. copy_items copyMeta os h = Some (os', h') \<and> grows {} h h' \<and> map (view_cr h') os' = map (view_cr h) os \<and>
       (\<forall>o' \<in> set os'. \<forall>a \<in> cr_cells h' o'. next_addr h \<le> a)"
proof (induction os arbitrary: h)
  case Nil
  then show ?case by (simp add: grows_refl)
next
  case (Cons x os)
  obtain y h1 where y: "BtpOperator_DeepCopyInto copyMeta x h = Some (y, h1)" "grows {} h h1" "valid_cr h1 y"
    "view_cr h1 y = view_cr h x" "\<forall>a \<in> cr_cells h1 y. next_addr h \<le> a"
    using DeepCopyInto_spec[OF Cons.prems(1) Cons.prems(2)[of x]] by auto
  have old: "valid_cr h1 o'" "view_cr h1 o' = view_cr h o'" if "o' \<in> set os" for o'
    using grows_cr[OF y(2) Cons.prems(1), of o'] Cons.prems(2) that by simp_all
  obtain os' h2 where IH: "copy_items copyMeta os h1 = Some (os', h2)" "grows {} h1 h2"
    "map (view_cr h2) os' = map (view_cr h1) os" "\<forall>o' \<in> set os'. \<forall>a \<in> cr_cells h2 o'. next_addr h1 \<le> a"
    using Cons.IH[OF grows_wf[OF y(2)] old(1)] by auto
  note same = grows_cr[OF IH(2) grows_wf[OF y(2)] y(3)]
  have "next_addr h \<le> next_addr h1" using y(2) by (simp add: grows_def)
  then show ?case
    using y IH old(2) same grows_trans[OF y(2) IH(2)] by (auto intro: order_trans)
qed

end

text \<open>The library's copy of a map, on this heap.\<close>

definition copy_map_cell :: "addr option \<Rightarrow> heap \<Rightarrow> addr option \<times> heap" where
  "copy_map_cell p h =
     (case p of
        None \<Rightarrow> (None, h)
      | Some a \<Rightarrow> let (b, h1) = alloc (MapCell (map_at h (Some a))) h in (Some b, h1))"

interpretation copier: meta_copier copy_map_cell
proof
  show "\<exists>b h'. copy_map_cell (Some a) h = (Some b, h') \<and> grows {} h h' \<and> next_addr h \<le> b \<and> cells h' b = Some (MapCell m)"
    if "wf_heap h" "cells h a = Some (MapCell m)" for h a m
  proof -
    obtain b h1 where h1: "alloc (MapCell m) h = (b, h1)" by fastforce
    with alloc_grows[OF h1 that(1)] that(2) show ?thesis by (simp add: copy_map_cell_def)
  qed
qed (simp add: copy_map_cell_def)

section \<open>Properties\<close>

text \<open>
  C13: a deep copy of a CR succeeds, is a new object with the same content, and stays so: setting a status condition
  or an annotation of the original through its pointers changes the original as the update of the value does
  and leaves the copy alone. This is what the probe's patch needs, which is made from a copy of the CR
  and the CR with the new annotation.
\<close>

theorem deep_copy_isolates:
  assumes "meta_copier copyMeta" and "wf_heap h" and "cr_at h p = Some o'" and "valid_cr h o'" and "view h p = Some cr"
  shows "\<exists>q h1. BtpOperator_DeepCopy copyMeta (Some p) h = Some (Some q, h1) \<and> q \<noteq> p \<and>
     view h1 p = Some cr \<and> view h1 q = Some cr \<and>
     map_option (\<lambda>h2. (view h2 p, view h2 q)) (set_condition_of setSC growth p c h1) =
       map_option (\<lambda>cs. (Some (cr\<lparr>Status := (Status cr)\<lparr>Conditions := cs\<rparr>\<rparr>), Some cr))
         (SetStatusCondition setSC (Conditions (Status cr)) c) \<and>
     map_option (\<lambda>h2. (view h2 p, view h2 q)) (set_annotation_of p k v h1) =
       Some (Some (cr\<lparr>Annotations := mset_key k v (Annotations cr)\<rparr>), Some cr)"
proof -
  have p: "cells h p = Some (CrCell o')" and cr: "view_cr h o' = cr" using assms(3,5) by (auto simp: view_def)
  obtain q o'' h1 where copy: "BtpOperator_DeepCopy copyMeta (Some p) h = Some (Some q, h1)" "grows {} h h1" "next_addr h \<le> q"
    "cells h1 q = Some (CrCell o'')" "valid_cr h1 o''" "view_cr h1 o'' = cr" "\<forall>a \<in> cr_cells h1 o''. next_addr h \<le> a"
    using meta_copier.DeepCopy_spec[OF assms(1,2) p assms(4)] cr by blast
  note wf1 = grows_wf[OF copy(2)]
  have old: "a < next_addr h" if "a \<in> insert p (cr_cells h o')" for a
    using that valid_cells[OF assms(4)] p by (auto dest: wf_heapD[OF assms(2)])
  note same = grows_cr[OF copy(2) assms(2,4)]
  have p1: "cells h1 p = Some (CrCell o')" using grows_cell[OF copy(2) assms(2) p] by simp
  have cr1: "view_cr h1 o' = cr" using same(3) cr by simp
  have keep: "view h2 q = Some cr" if "grows (insert p (cr_cells h1 o')) h1 h2" for h2
    using view_untouched[OF that copy(4) _ wf1 copy(5)] old copy(3,6,7) same(2) copy(4)
    by (fastforce simp: view_def)
  have "map_option (\<lambda>h2. (view h2 p, view h2 q)) (set_condition_of setSC growth p c h1) =
      map_option (\<lambda>cs. (Some (cr\<lparr>Status := (Status cr)\<lparr>Conditions := cs\<rparr>\<rparr>), Some cr))
        (SetStatusCondition setSC (Conditions (Status cr)) c)"
    using set_condition_of_refines[OF wf1 p1 same(1), where setSC = setSC and c = c and growth = growth] keep
    by (auto simp: cr1 split: option.splits)
  moreover have "map_option (\<lambda>h2. (view h2 p, view h2 q)) (set_annotation_of p k v h1) =
      Some (Some (cr\<lparr>Annotations := mset_key k v (Annotations cr)\<rparr>), Some cr)"
    using set_annotation_of_refines[OF wf1 p1 same(1), of k v] keep by (auto simp: cr1)
  ultimately show ?thesis
    using copy(1,3,4,6) p1 cr1 old[of p] by (intro exI[of _ q] exI[of _ h1]) (auto simp: view_def)
qed

section \<open>Witness\<close>

text \<open>A CR with one condition, in a backing array with room for another one, and one annotation.\<close>

definition example_hcr :: hbtpoperator where
  "example_hcr = \<lparr>HMeta = \<lparr>Name = ''btpoperator'', Namespace = ''kyma-system'', Labels = [], Annotations = [], Finalizers = [],
       DeletionTimestamp = None, ResourceVersion = ''1''\<rparr>,
     HAnnotations = Some 2, HStatus = \<lparr>HState = StateProcessing, HConditions = Some (1, 1)\<rparr>\<rparr>"

definition example_heap :: heap where
  "example_heap = \<lparr>cells = [0 \<mapsto> CondCell (example_condition ReadyType ''Initialized''), 1 \<mapsto> ArrayCell [Some 0, None],
     2 \<mapsto> MapCell [(''a'', ''b'')], 3 \<mapsto> CrCell example_hcr], next_addr = 4\<rparr>"

theorem deep_copy_isolates_witness:
  "\<exists>q h1 h2. BtpOperator_DeepCopy copy_map_cell (Some 3) example_heap = Some (Some q, h1) \<and> q \<noteq> 3 \<and>
     set_annotation_of 3 ''k'' ''v'' h1 = Some h2 \<and> view h2 q = view example_heap 3 \<and>
     map_option Annotations (view h2 3) = Some [(''a'', ''b''), (''k'', ''v'')]"
proof -
  have wf: "wf_heap example_heap" and cr: "cr_at example_heap 3 = Some example_hcr"
    and valid: "valid_cr example_heap example_hcr"
    by (auto simp: wf_heap_def example_heap_def valid_cr_iff example_hcr_def split: if_splits)
  obtain x where x: "view example_heap 3 = Some x" "Annotations x = [(''a'', ''b'')]"
    using cr by (simp add: view_def view_cr_def example_hcr_def example_heap_def btpoperator.defs objmeta.defs map_at_def)
  obtain q h1 where copy: "BtpOperator_DeepCopy copy_map_cell (Some 3) example_heap = Some (Some q, h1)" "q \<noteq> 3"
    "map_option (\<lambda>h2. (view h2 3, view h2 q)) (set_annotation_of 3 ''k'' ''v'' h1) =
       Some (Some (x\<lparr>Annotations := mset_key ''k'' ''v'' (Annotations x)\<rparr>), Some x)"
    using deep_copy_isolates[OF copier.meta_copier_axioms wf cr valid x(1), of set_condition id undefined "''k''" "''v''"] by blast
  then obtain h2 where "set_annotation_of 3 ''k'' ''v'' h1 = Some h2"
    "view h2 3 = Some (x\<lparr>Annotations := mset_key ''k'' ''v'' (Annotations x)\<rparr>)" "view h2 q = Some x" by auto
  with copy(1,2) x show ?thesis by (intro exI[of _ q] exI[of _ h1] exI[of _ h2]) simp
qed

end
